(* ===== verification/Prelude.thy ===== *)
theory Prelude
  imports Main
begin

text \<open>
  Shared vocabulary of the development: how Go values are written in HOL.

  \<^item> A Go \<open>string\<close> or \<open>[]byte\<close> is an Isabelle \<open>string\<close>: a list of 8-bit characters, so
    \<open>length\<close> is Go's \<open>len\<close>. Isabelle literals cannot hold a backslash, a carriage return or a
    non-ASCII byte: \<open>raw\<close> and \<open>lit\<close> translate literals in which \<open>~\<close> stands for the backslash
    (no literal of the source uses a tilde), and \<open>utf8\<close> encodes code points.
  \<^item> An instant (\<open>time.Time\<close>) and a \<open>time.Duration\<close> are integers counting nanoseconds, instants
    from the zero \<open>time.Time\<close>, so that \<open>IsZero\<close> is equality with 0.
  \<^item> A call that can fail returns a value of a sum type, \<open>Inl\<close> the error. A call that can panic
    returns an \<open>outcome\<close>.
\<close>

named_theorems store_simps \<open>what the lookups of the keyed stores return after an update\<close>
named_theorems store_intros \<open>what the operations of the keyed stores keep of their invariant\<close>

subsection \<open>Literals\<close>

definition raw :: "string \<Rightarrow> string" where
  \<comment> \<open>a raw literal: every character stands for itself, a tilde for the backslash\<close>
  "raw s = map (\<lambda>c. if c = CHR ''~'' then CHR 0x5C else c) s"

fun lit :: "string \<Rightarrow> string" where
  \<comment> \<open>an interpreted literal: a tilde starts an escape sequence\<close>
  "lit [] = []"
| "lit [c] = [c]"
| "lit (c # d # s) =
     (if c = CHR ''~'' then
        (if d = CHR ''n'' then CHR 0x0A
         else if d = CHR ''r'' then CHR 0x0D
         else if d = CHR ''t'' then CHR 0x09
         else if d = CHR ''~'' then CHR 0x5C
         else d) # lit s
      else c # lit (d # s))"

definition crlf :: string where
  "crlf = [CHR 0x0D, CHR 0x0A]"

definition char_byte :: "int \<Rightarrow> char" where
  "char_byte n =
     Char (odd n) (odd (n div 2)) (odd (n div 4)) (odd (n div 8)) (odd (n div 16)) (odd (n div 32))
       (odd (n div 64)) (odd (n div 128))"

definition utf8_enc :: "int \<Rightarrow> string" where
  "utf8_enc n =
     (if n < 128 then [char_byte n]
      else if n < 2048 then [char_byte (192 + n div 64), char_byte (128 + n mod 64)]
      else if n < 65536 then
        [char_byte (224 + n div 4096), char_byte (128 + n div 64 mod 64), char_byte (128 + n mod 64)]
      else
        [char_byte (240 + n div 262144), char_byte (128 + n div 4096 mod 64),
         char_byte (128 + n div 64 mod 64), char_byte (128 + n mod 64)])"

definition utf8 :: "int list \<Rightarrow> string" where
  "utf8 ns = concat (map utf8_enc ns)"

abbreviation byte :: "char \<Rightarrow> nat" where
  "byte c \<equiv> of_char c"

abbreviation ibyte :: "char \<Rightarrow> int" where
  "ibyte c \<equiv> of_char c"

subsection \<open>Instants and durations\<close>

type_synonym time = int

definition second :: int where "second = 1000000000"
definition minute :: int where "minute = 60 * second"
definition hour :: int where "hour = 60 * minute"

definition zero_time :: time where "zero_time = 0"

lemma second_pos [simp]: "0 < second" by (simp add: second_def)
lemma minute_pos [simp]: "0 < minute" by (simp add: minute_def)
lemma hour_pos [simp]: "0 < hour" by (simp add: hour_def)

subsection \<open>Panics\<close>

datatype 'a outcome = Ret 'a | Panic

definition out_bind :: "'a outcome \<Rightarrow> ('a \<Rightarrow> 'b outcome) \<Rightarrow> 'b outcome" where
  "out_bind m f = (case m of Ret x \<Rightarrow> f x | Panic \<Rightarrow> Panic)"

lemma out_bind_simps [simp]: "out_bind (Ret x) f = f x" "out_bind Panic f = Panic"
  by (simp_all add: out_bind_def)

definition slice :: "'a list \<Rightarrow> int \<Rightarrow> int \<Rightarrow> 'a list outcome" where
  \<comment> \<open>\<open>s[i:j]\<close>, which panics outside \<open>0 \<le> i \<le> j \<le> len(s)\<close>\<close>
  "slice s i j =
     (if 0 \<le> i \<and> i \<le> j \<and> j \<le> int (length s)
      then Ret (take (nat j - nat i) (drop (nat i) s)) else Panic)"

lemma slice_Ret:
  "0 \<le> i \<Longrightarrow> i \<le> j \<Longrightarrow> j \<le> int (length s) \<Longrightarrow>
     slice s i j = Ret (take (nat j - nat i) (drop (nat i) s))"
  by (simp add: slice_def)

subsection \<open>Lists as keyed stores\<close>

text \<open>
  The file-backed stores keep their records in a slice and look them up by a field: the loop
  \<open>for _, t := range s.xs { if t.key == k { .. } }\<close>. Three shapes recur: return the first record
  with the key, change it in place, and cut it out.
\<close>

fun find_by :: "('a \<Rightarrow> 'k) \<Rightarrow> 'k \<Rightarrow> 'a list \<Rightarrow> 'a option" where
  "find_by key k [] = None"
| "find_by key k (x # xs) = (if key x = k then Some x else find_by key k xs)"

fun update_first :: "('a \<Rightarrow> 'k) \<Rightarrow> 'k \<Rightarrow> ('a \<Rightarrow> 'a) \<Rightarrow> 'a list \<Rightarrow> 'a list" where
  "update_first key k f [] = []"
| "update_first key k f (x # xs) =
     (if key x = k then f x # xs else x # update_first key k f xs)"

fun remove_first :: "('a \<Rightarrow> 'k) \<Rightarrow> 'k \<Rightarrow> 'a list \<Rightarrow> 'a list" where
  "remove_first key k [] = []"
| "remove_first key k (x # xs) = (if key x = k then xs else x # remove_first key k xs)"

lemma find_by_None_iff: "find_by key k xs = None \<longleftrightarrow> k \<notin> key ` set xs"
  by (induction xs) auto

lemma find_by_SomeD: "find_by key k xs = Some x \<Longrightarrow> x \<in> set xs \<and> key x = k"
  by (induction xs) (auto split: if_splits)

lemma find_by_append [store_simps]:
  "find_by key k (xs @ ys) =
     (case find_by key k xs of Some x \<Rightarrow> Some x | None \<Rightarrow> find_by key k ys)"
  by (induction xs) auto

lemma find_by_update_first [store_simps]:
  assumes "\<And>x. key (f x) = key x"
  shows "find_by key j (update_first key k f xs) =
           (if j = k then map_option f (find_by key k xs) else find_by key j xs)"
  by (induction xs) (auto simp: assms)

lemma keys_update_first [store_simps]:
  assumes "\<And>x. key (f x) = key x"
  shows "map key (update_first key k f xs) = map key xs"
  by (induction xs) (auto simp: assms)

lemma length_update_first [simp]: "length (update_first key k f xs) = length xs"
  by (induction xs) auto

lemma set_remove_first: "set (remove_first key k xs) \<subseteq> set xs"
  by (induction xs) auto

lemma distinct_remove_first [store_intros]:
  "distinct (map key xs) \<Longrightarrow> distinct (map key (remove_first key k xs))"
  by (induction xs) (auto dest!: subsetD [OF set_remove_first])

lemma find_by_remove_first [store_simps]:
  "distinct (map key xs) \<Longrightarrow>
     find_by key j (remove_first key k xs) = (if j = k then None else find_by key j xs)"
  by (induction xs) (auto simp: find_by_None_iff)

lemma update_first_absent: "find_by key k xs = None \<Longrightarrow> update_first key k f xs = xs"
  by (induction xs) (auto split: if_splits)

lemma update_first_triv: "(\<And>x. f x = x) \<Longrightarrow> update_first key k f xs = xs"
  by (induction xs) auto

subsection \<open>Lists as maps\<close>

definition set_key :: "'k \<Rightarrow> 'a \<Rightarrow> ('k \<times> 'a) list \<Rightarrow> ('k \<times> 'a) list" where
  \<comment> \<open>\<open>m[k] = v\<close>\<close>
  "set_key k v m =
     (if find_by fst k m = None then m @ [(k, v)] else update_first fst k (\<lambda>_. (k, v)) m)"

lemma distinct_set_key: "distinct (map fst m) \<Longrightarrow> distinct (map fst (set_key k v m))"
proof (cases "find_by fst k m = None")
  case False
  have "map fst (update_first fst k (\<lambda>_. (k, v)) m) = map fst m"
    by (induction m) auto
  then show "distinct (map fst m) \<Longrightarrow> distinct (map fst (set_key k v m))"
    using False by (simp add: set_key_def del: not_None_eq)
qed (auto simp: set_key_def find_by_None_iff)

lemma find_by_set_key [store_simps]:
  "find_by fst j (set_key k v m) = (if j = k then Some (k, v) else find_by fst j m)"
proof (cases "find_by fst k m")
  case None
  then show ?thesis by (simp add: set_key_def find_by_append split: option.splits)
next
  case (Some p)
  have "find_by fst j (update_first fst k (\<lambda>_. (k, v)) m) =
          (if j = k then map_option (\<lambda>_. (k, v)) (find_by fst k m) else find_by fst j m)"
    by (induction m) auto
  then show ?thesis using Some by (simp add: set_key_def)
qed

end
