(* ===== verification/Gostrings.thy ===== *)
theory Gostrings
  imports Prelude
begin

text \<open>
  What the program uses of Go's \<open>strings\<close> and \<open>strconv\<close> packages, on byte strings.

  \<^item> A search that returns -1 in Go returns \<open>None\<close>.
  \<^item> \<open>trim_space\<close> removes the white space of \<open>unicode.IsSpace\<close> in its UTF-8 form, ASCII or not.
  \<^item> \<open>to_lower\<close> is \<open>strings.ToLower\<close>: bytewise on ASCII, otherwise rune by rune, so that a byte which
    is not UTF-8 becomes the three bytes of U+FFFD. Of the case pairs of Unicode it has those of the
    Latin, Greek, Cyrillic and full-width letters.
\<close>

subsection \<open>UTF-8\<close>

definition cont_byte :: "char \<Rightarrow> bool" where
  "cont_byte c \<longleftrightarrow> 128 \<le> byte c \<and> byte c \<le> (191 :: nat)"

type_synonym rune = int

definition replacement_rune :: rune where "replacement_rune = 0xFFFD"

definition replacement_bytes :: string where
  \<comment> \<open>U+FFFD encoded\<close>
  "replacement_bytes = [CHR 0xEF, CHR 0xBF, CHR 0xBD]"

definition decode_rune :: "string \<Rightarrow> rune \<times> nat" where
  \<comment> \<open>\<open>utf8.DecodeRune\<close>: the first rune and its width; an invalid ibyte is U+FFFD of width 1\<close>
  "decode_rune s =
     (case s of
        [] \<Rightarrow> (replacement_rune, 0)
      | c # r \<Rightarrow>
          (let b = ibyte c; bad = (replacement_rune, 1) in
           if b < 128 then (b, 1)
           else if b < 194 then bad
           else if b < 224 then
             (case r of d # _ \<Rightarrow>
                if cont_byte d then ((b - 192) * 64 + (ibyte d - 128), 2) else bad
              | _ \<Rightarrow> bad)
           else if b < 240 then
             (case r of d # e # _ \<Rightarrow>
                (let lo = (if b = 224 then 160 else 128); hi = (if b = 237 then 159 else 191) in
                 if lo \<le> ibyte d \<and> ibyte d \<le> hi \<and> cont_byte e
                 then ((b - 224) * 4096 + (ibyte d - 128) * 64 + (ibyte e - 128), 3) else bad)
              | _ \<Rightarrow> bad)
           else if b < 245 then
             (case r of d # e # f # _ \<Rightarrow>
                (let lo = (if b = 240 then 144 else 128); hi = (if b = 244 then 143 else 191) in
                 if lo \<le> ibyte d \<and> ibyte d \<le> hi \<and> cont_byte e \<and> cont_byte f
                 then ((b - 240) * 262144 + (ibyte d - 128) * 4096 + (ibyte e - 128) * 64
                         + (ibyte f - 128), 4) else bad)
              | _ \<Rightarrow> bad)
           else bad))"

lemma decode_rune_width:
  "snd (decode_rune s) \<le> length s" "s \<noteq> [] \<Longrightarrow> 0 < snd (decode_rune s)"
  by (auto simp: decode_rune_def Let_def split: list.splits)

function runes :: "string \<Rightarrow> (rune \<times> nat) list" where
  \<comment> \<open>the runes of a string, each with its width in bytes\<close>
  "runes s = (if s = [] then [] else decode_rune s # runes (drop (snd (decode_rune s)) s))"
  by pat_completeness auto
termination
  using decode_rune_width by (relation "measure length") auto

declare runes.simps [simp del]

lemma runes_Nil [simp]: "runes [] = []" by (simp add: runes.simps)

lemma runes_Cons [simp]:
  "runes (c # s) = decode_rune (c # s) # runes (drop (snd (decode_rune (c # s))) (c # s))"
  by (subst runes.simps) simp

lemma sum_widths_runes: "sum_list (map snd (runes s)) = length s"
proof (induction s rule: runes.induct)
  case (1 s)
  then show ?case using decode_rune_width(1) [of s] by (cases s) (auto simp: runes.simps [of s])
qed

subsection \<open>Prefixes, suffixes and searches\<close>

definition has_prefix :: "string \<Rightarrow> string \<Rightarrow> bool" where
  "has_prefix s p \<longleftrightarrow> take (length p) s = p"

definition has_suffix :: "string \<Rightarrow> string \<Rightarrow> bool" where
  "has_suffix s p \<longleftrightarrow> has_prefix (rev s) (rev p)"

fun index :: "string \<Rightarrow> string \<Rightarrow> nat option" where
  "index [] sub = (if sub = [] then Some 0 else None)"
| "index (c # s) sub =
     (if has_prefix (c # s) sub then Some 0 else map_option Suc (index s sub))"

fun last_index :: "string \<Rightarrow> string \<Rightarrow> nat option" where
  "last_index [] sub = (if sub = [] then Some 0 else None)"
| "last_index (c # s) sub =
     (case last_index s sub of
        Some i \<Rightarrow> Some (Suc i)
      | None \<Rightarrow> (if has_prefix (c # s) sub then Some 0 else None))"

definition contains :: "string \<Rightarrow> string \<Rightarrow> bool" where
  "contains s sub \<longleftrightarrow> index s sub \<noteq> None"

definition trim_prefix :: "string \<Rightarrow> string \<Rightarrow> string" where
  "trim_prefix s p = (if has_prefix s p then drop (length p) s else s)"

definition trim_suffix :: "string \<Rightarrow> string \<Rightarrow> string" where
  "trim_suffix s p = (if has_suffix s p then take (length s - length p) s else s)"

definition cut_prefix :: "string \<Rightarrow> string \<Rightarrow> string option" where
  "cut_prefix s p = (if has_prefix s p then Some (drop (length p) s) else None)"

subsection \<open>Splitting, joining, replacing\<close>

fun split_n :: "nat \<Rightarrow> string \<Rightarrow> string \<Rightarrow> string list" where
  \<comment> \<open>\<open>strings.SplitN(s, sep, n)\<close> for a non-empty separator and a positive \<open>n\<close>\<close>
  "split_n 0 s sep = []"
| "split_n (Suc 0) s sep = [s]"
| "split_n (Suc (Suc n)) s sep =
     (case index s sep of
        None \<Rightarrow> [s]
      | Some i \<Rightarrow> take i s # split_n (Suc n) (drop (i + length sep) s) sep)"

definition split :: "string \<Rightarrow> string \<Rightarrow> string list" where
  \<comment> \<open>a string has at most \<open>length s\<close> occurrences of a non-empty separator\<close>
  "split s sep = split_n (Suc (length s)) s sep"

fun join :: "string list \<Rightarrow> string \<Rightarrow> string" where
  "join [] sep = []"
| "join [x] sep = x"
| "join (x # y # xs) sep = x @ sep @ join (y # xs) sep"

definition replace_all :: "string \<Rightarrow> string \<Rightarrow> string \<Rightarrow> string" where
  "replace_all s old new = join (split s old) new"

subsection \<open>Facts about searches\<close>

lemma has_prefix_iff: "has_prefix s p \<longleftrightarrow> (\<exists>t. s = p @ t)"
  by (auto simp: has_prefix_def) (metis append_take_drop_id)

lemma has_prefix_append [simp]: "has_prefix (p @ t) p"
  by (simp add: has_prefix_def)

lemma has_prefix_Cons [simp]: "has_prefix (c # s) (d # t) \<longleftrightarrow> c = d \<and> has_prefix s t"
  by (auto simp: has_prefix_iff)

lemma has_prefix_Nil [simp]: "has_prefix s []"
  by (simp add: has_prefix_def)

lemma has_prefix_length: "has_prefix s p \<Longrightarrow> length p \<le> length s"
  by (auto simp: has_prefix_iff)

lemma has_suffix_iff: "has_suffix s p \<longleftrightarrow> (\<exists>t. s = t @ p)"
  by (auto simp: has_suffix_def has_prefix_iff) (metis rev_append rev_rev_ident)+

lemma index_SomeD:
  assumes "index s sub = Some i"
  shows "i + length sub \<le> length s" "has_prefix (drop i s) sub"
  using assms by (induction s arbitrary: i) (auto dest: has_prefix_length split: if_splits)

lemma index_Some_split:
  "index s sub = Some i \<Longrightarrow> s = take i s @ sub @ drop (i + length sub) s"
  using index_SomeD [of s sub i]
  by (metis append_take_drop_id has_prefix_def add.commute drop_drop)

lemma index_Some_least:
  "index s sub = Some i \<Longrightarrow> j < i \<Longrightarrow> \<not> has_prefix (drop j s) sub"
proof (induction s arbitrary: i j)
  case (Cons c s)
  then show ?case by (cases j) (auto split: if_splits)
qed (auto split: if_splits)

lemma index_None_iff: "index s sub = None \<longleftrightarrow> (\<nexists>a b. s = a @ sub @ b)"
proof (induction s)
  case Nil
  then show ?case by auto
next
  case (Cons c s)
  have "(\<exists>a b. c # s = a @ sub @ b) \<longleftrightarrow> has_prefix (c # s) sub \<or> (\<exists>a b. s = a @ sub @ b)"
    by (auto simp: has_prefix_iff Cons_eq_append_conv)
  with Cons show ?case by auto
qed

lemma contains_iff: "contains s sub \<longleftrightarrow> (\<exists>a b. s = a @ sub @ b)"
  using index_None_iff [of s sub] by (simp add: contains_def)

lemma contains_infix: "contains t sub \<Longrightarrow> contains (a @ t @ b) sub"
  unfolding contains_iff by (metis append.assoc)

lemma last_index_SomeD:
  assumes "last_index s sub = Some i"
  shows "i + length sub \<le> length s" "has_prefix (drop i s) sub"
  using assms
  by (induction s arbitrary: i) (auto dest: has_prefix_length split: if_splits option.splits)

subsection \<open>White space and case\<close>

definition ascii_space :: "char \<Rightarrow> bool" where
  "ascii_space c \<longleftrightarrow> c \<in> set [CHR 0x09, CHR 0x0A, CHR 0x0B, CHR 0x0C, CHR 0x0D, CHR 0x20]"

definition wide_spaces :: "string list" where
  \<comment> \<open>the UTF-8 forms of the white space of \<open>unicode.IsSpace\<close> beyond ASCII: U+0085, U+00A0, U+1680,
     U+2000 to U+200A, U+2028, U+2029, U+202F, U+205F, U+3000\<close>
  "wide_spaces =
    [[CHR 0xC2, CHR 0x85], [CHR 0xC2, CHR 0xA0], [CHR 0xE1, CHR 0x9A, CHR 0x80],
     [CHR 0xE2, CHR 0x80, CHR 0x80], [CHR 0xE2, CHR 0x80, CHR 0x81], [CHR 0xE2, CHR 0x80, CHR 0x82],
     [CHR 0xE2, CHR 0x80, CHR 0x83], [CHR 0xE2, CHR 0x80, CHR 0x84], [CHR 0xE2, CHR 0x80, CHR 0x85],
     [CHR 0xE2, CHR 0x80, CHR 0x86], [CHR 0xE2, CHR 0x80, CHR 0x87], [CHR 0xE2, CHR 0x80, CHR 0x88],
     [CHR 0xE2, CHR 0x80, CHR 0x89], [CHR 0xE2, CHR 0x80, CHR 0x8A], [CHR 0xE2, CHR 0x80, CHR 0xA8],
     [CHR 0xE2, CHR 0x80, CHR 0xA9], [CHR 0xE2, CHR 0x80, CHR 0xAF], [CHR 0xE2, CHR 0x81, CHR 0x9F],
     [CHR 0xE3, CHR 0x80, CHR 0x80]]"

definition space_len :: "string list \<Rightarrow> string \<Rightarrow> nat" where
  \<comment> \<open>the length of the white-space rune the string starts with, 0 when there is none\<close>
  "space_len wide s =
     (case s of [] \<Rightarrow> 0
      | c # _ \<Rightarrow> if ascii_space c then 1
               else if byte c < 128 then 0
               else (case filter (has_prefix s) wide of [] \<Rightarrow> 0 | w # _ \<Rightarrow> length w))"

function trim_left_with :: "string list \<Rightarrow> string \<Rightarrow> string" where
  "trim_left_with wide s =
     (let n = space_len wide s in if n = 0 \<or> s = [] then s else trim_left_with wide (drop n s))"
  by pat_completeness auto
termination
  by (relation "measure (\<lambda>(wide, s). length s)") auto

declare trim_left_with.simps [simp del]

definition trim_left_space :: "string \<Rightarrow> string" where
  "trim_left_space s = trim_left_with wide_spaces s"

definition trim_right_space :: "string \<Rightarrow> string" where
  "trim_right_space s =
     rev (trim_left_with (map rev wide_spaces) (rev s))"

definition trim_space :: "string \<Rightarrow> string" where
  "trim_space s = trim_right_space (trim_left_space s)"

definition lower_char :: "char \<Rightarrow> char" where
  \<comment> \<open>bit 5 tells the two cases of an ASCII letter apart\<close>
  "lower_char c =
     (if 65 \<le> byte c \<and> byte c \<le> (90 :: nat)
      then (case c of Char b0 b1 b2 b3 b4 b5 b6 b7 \<Rightarrow> Char b0 b1 b2 b3 b4 True b6 b7) else c)"

definition upper_char :: "char \<Rightarrow> char" where
  "upper_char c =
     (if 97 \<le> byte c \<and> byte c \<le> (122 :: nat)
      then (case c of Char b0 b1 b2 b3 b4 b5 b6 b7 \<Rightarrow> Char b0 b1 b2 b3 b4 False b6 b7) else c)"

definition lower_rune :: "rune \<Rightarrow> rune" where
  "lower_rune c =
     (if (65 \<le> c \<and> c \<le> 90) \<or> (0xC0 \<le> c \<and> c \<le> 0xDE \<and> c \<noteq> 0xD7) \<or> (0x391 \<le> c \<and> c \<le> 0x3A9 \<and> c \<noteq> 0x3A2)
         \<or> (0x410 \<le> c \<and> c \<le> 0x42F) \<or> (0xFF21 \<le> c \<and> c \<le> 0xFF3A) then c + 32
      else if 0x400 \<le> c \<and> c \<le> 0x40F then c + 80
      else if c = 0x130 then 0x69
      else if c = 0x178 then 0xFF
      else if c = 0x1E9E then 0xDF
      else if c = 0x2126 then 0x3C9
      else if c = 0x212A then 0x6B
      else if c = 0x212B then 0xE5
      else if even c \<and> ((0x100 \<le> c \<and> c \<le> 0x136) \<or> (0x14A \<le> c \<and> c \<le> 0x176) \<or> (0x1E00 \<le> c \<and> c \<le> 0x1E94)
                       \<or> (0x1EA0 \<le> c \<and> c \<le> 0x1EFE)) then c + 1
      else if odd c \<and> ((0x139 \<le> c \<and> c \<le> 0x147) \<or> (0x179 \<le> c \<and> c \<le> 0x17D)) then c + 1
      else c)"

definition is_ascii :: "string \<Rightarrow> bool" where
  "is_ascii s \<longleftrightarrow> list_all (\<lambda>c. byte c < (128 :: nat)) s"

definition to_lower :: "string \<Rightarrow> string" where
  "to_lower s =
     (if is_ascii s then map lower_char s
      else concat (map (\<lambda>r. utf8_enc (lower_rune (fst r))) (runes s)))"

definition trim_left_set :: "string \<Rightarrow> string \<Rightarrow> string" where
  "trim_left_set s cutset = dropWhile (\<lambda>c. c \<in> set cutset) s"

definition trim_right_set :: "string \<Rightarrow> string \<Rightarrow> string" where
  "trim_right_set s cutset = rev (trim_left_set (rev s) cutset)"

lemma trim_left_with_drop: "\<exists>n. trim_left_with wide s = drop n s"
proof (induction wide s rule: trim_left_with.induct)
  case (1 wide s)
  then show ?case
    by (subst trim_left_with.simps) (auto simp: Let_def intro: exI [where x = 0])
qed

lemma trim_space_infix: "\<exists>a b. s = a @ trim_space s @ b"
proof -
  obtain n where l: "trim_left_space s = drop n s"
    using trim_left_with_drop by (auto simp: trim_left_space_def)
  define u where "u = drop n s"
  obtain m where "trim_left_with (map rev wide_spaces) (rev u) = drop m (rev u)"
    using trim_left_with_drop by blast
  then have "trim_space s = take (length u - m) u"
    by (simp add: trim_space_def trim_right_space_def l u_def [symmetric] rev_drop)
  then have "u = trim_space s @ drop (length u - m) u" by simp
  then have "s = take n s @ trim_space s @ drop (length u - m) u"
    by (metis append_take_drop_id u_def)
  then show ?thesis by blast
qed

lemma contains_trim_space: "contains (trim_space s) sub \<Longrightarrow> contains s sub"
  using trim_space_infix [of s] contains_infix by metis

lemma index_absent_char: "c \<in> set sub \<Longrightarrow> c \<notin> set s \<Longrightarrow> index s sub = None"
  by (auto simp: index_None_iff)

lemma index_single:
  assumes "c \<notin> set a" and "c \<notin> set b"
  shows "index (a @ c # b) (c # t) = (if has_prefix b t then Some (length a) else None)"
proof -
  have "index b (c # t) = None" using assms(2) by (auto simp: index_None_iff)
  with assms(1) show ?thesis
    by (induction a) (auto simp: has_prefix_iff)
qed

subsection \<open>Numbers\<close>

definition digit_char :: "nat \<Rightarrow> char" where
  "digit_char d = (if d < 36 then ''0123456789abcdefghijklmnopqrstuvwxyz'' ! d else CHR ''?'')"

definition digit_val :: "char \<Rightarrow> nat option" where
  \<comment> \<open>the value of a digit in the bases up to 36, either case\<close>
  "digit_val c =
     (let b = byte c in
      if 48 \<le> b \<and> b \<le> 57 then Some (b - 48)
      else if 97 \<le> b \<and> b \<le> 122 then Some (b - 87)
      else if 65 \<le> b \<and> b \<le> 90 then Some (b - 55)
      else None)"

function base_str :: "nat \<Rightarrow> nat \<Rightarrow> string" where
  "base_str b n =
     (if b < 2 \<or> n < b then [digit_char n] else base_str b (n div b) @ [digit_char (n mod b)])"
  by pat_completeness auto
termination
  by (relation "measure (\<lambda>(b, n). n)") auto

declare base_str.simps [simp del]

fun base_val :: "nat \<Rightarrow> nat \<Rightarrow> string \<Rightarrow> nat option" where
  "base_val b acc [] = Some acc"
| "base_val b acc (c # s) =
     (case digit_val c of
        None \<Rightarrow> None
      | Some d \<Rightarrow> if d < b then base_val b (acc * b + d) s else None)"

definition parse_nat :: "nat \<Rightarrow> string \<Rightarrow> nat option" where
  "parse_nat b s = (if s = [] then None else base_val b 0 s)"

definition max_int64 :: int where "max_int64 = 2 ^ 63 - 1"
definition min_int64 :: int where "min_int64 = - (2 ^ 63)"

datatype num_error = SyntaxErr | RangeErr

fun uint_loop :: "int \<Rightarrow> int \<Rightarrow> string \<Rightarrow> num_error + int" where
  \<comment> \<open>the digits of \<open>strconv.ParseUint\<close>, left to right: the first fault decides the error\<close>
  "uint_loop b acc [] = Inr acc"
| "uint_loop b acc (c # s) =
     (case digit_val c of
        None \<Rightarrow> Inl SyntaxErr
      | Some d \<Rightarrow>
          if int d \<ge> b then Inl SyntaxErr
          else if acc * b + int d > 2 * max_int64 + 1 then Inl RangeErr
          else uint_loop b (acc * b + int d) s)"

definition parse_int :: "nat \<Rightarrow> string \<Rightarrow> num_error option \<times> int" where
  \<comment> \<open>\<open>strconv.ParseInt(s, b, 64)\<close>: the error and the value, clamped when out of range\<close>
  "parse_int b s =
     (let neg = has_prefix s ''-'';
          body = (if neg \<or> has_prefix s ''+'' then drop 1 s else s);
          clamp = (Some RangeErr, if neg then min_int64 else max_int64)
      in if body = [] then (Some SyntaxErr, 0)
         else
           (case uint_loop (int b) 0 body of
              Inl SyntaxErr \<Rightarrow> (Some SyntaxErr, 0)
            | Inl RangeErr \<Rightarrow> clamp
            | Inr n \<Rightarrow>
                (let v = (if neg then - n else n) in
                 if v > max_int64 \<or> v < min_int64 then clamp else (None, v))))"

definition atoi :: "string \<Rightarrow> num_error option \<times> int" where
  "atoi s = parse_int 10 s"

definition itoa :: "int \<Rightarrow> string" where
  "itoa i = (if i < 0 then ''-'' @ base_str 10 (nat (- i)) else base_str 10 (nat i))"

subsection \<open>Facts about numbers\<close>

lemma digit_val_digit_char:
  assumes "d < 36" shows "digit_val (digit_char d) = Some d"
proof -
  define ds where "ds = ''0123456789abcdefghijklmnopqrstuvwxyz''"
  have "map digit_val ds = map Some [0..<36]" by (simp add: ds_def digit_val_def upt_rec)
  moreover have "length ds = 36" by (simp add: ds_def)
  ultimately have "digit_val (ds ! d) = Some d"
    using assms by (metis add_0 length_map nth_map nth_upt)
  then show ?thesis using assms by (simp add: digit_char_def ds_def)
qed

lemma base_str_digits:
  "2 \<le> b \<Longrightarrow> c \<in> set (base_str b n) \<Longrightarrow> \<exists>d < b. c = digit_char d"
proof (induction b n rule: base_str.induct)
  case (1 b n)
  then show ?case
    by (subst (asm) (2) base_str.simps) (auto split: if_splits intro: exI [of _ "n mod b"])
qed

lemma base_str_not_Nil [simp]: "base_str b n \<noteq> []"
  by (subst base_str.simps) simp

lemma base_val_append:
  "base_val b acc (s @ t) = (case base_val b acc s of None \<Rightarrow> None | Some a \<Rightarrow> base_val b a t)"
  by (induction b acc s rule: base_val.induct) (auto split: option.splits)

lemma base_val_base_str:
  assumes "2 \<le> b" and "b \<le> 36"
  shows "base_val b 0 (base_str b n) = Some n"
  using assms
proof (induction b n rule: base_str.induct)
  case (1 b n)
  show ?case
  proof (cases "n < b")
    case True
    then show ?thesis using "1.prems"
      by (subst base_str.simps) (simp add: digit_val_digit_char)
  next
    case False
    have m: "n mod b < b" using "1.prems" by simp
    then have "digit_val (digit_char (n mod b)) = Some (n mod b)"
      using "1.prems" by (intro digit_val_digit_char) linarith
    with False m show ?thesis using "1.IH" "1.prems"
      by (subst base_str.simps) (simp add: base_val_append)
  qed
qed

lemma base_val_mono: "base_val b acc s = Some n \<Longrightarrow> 1 \<le> b \<Longrightarrow> acc \<le> n"
proof (induction b acc s rule: base_val.induct)
  case (2 b acc c s)
  then obtain d where "acc * b + d \<le> n" by (auto split: option.splits if_splits)
  moreover have "acc \<le> acc * b" using 2 by simp
  ultimately show ?case by linarith
qed simp

lemma uint_loop_base_val:
  "base_val b acc s = Some n \<Longrightarrow> 1 \<le> b \<Longrightarrow> int n \<le> 2 * max_int64 + 1 \<Longrightarrow>
     uint_loop (int b) (int acc) s = Inr (int n)"
proof (induction b acc s rule: base_val.induct)
  case (2 b acc c s)
  then obtain d where d: "digit_val c = Some d" "d < b" "base_val b (acc * b + d) s = Some n"
    by (auto split: option.splits if_splits)
  have "int (acc * b + d) \<le> 2 * max_int64 + 1"
    using base_val_mono [OF d(3)] 2 by linarith
  then show ?case using 2 d by simp
qed simp

lemma no_sign_base_str:
  assumes "2 \<le> b" and "b \<le> 36" and "digit_val c = None"
  shows "c \<notin> set (base_str b n)"
  using base_str_digits [OF assms(1)] digit_val_digit_char assms(2,3) by fastforce

lemma has_prefix_single: "has_prefix s [c] \<Longrightarrow> c \<in> set s"
  by (auto simp: has_prefix_iff)

lemma parse_int_base_str:
  assumes "2 \<le> b" and "b \<le> 36" and "int n \<le> max_int64"
  shows "parse_int b (base_str b n) = (None, int n)"
proof -
  have "digit_val CHR ''-'' = None" "digit_val CHR ''+'' = None" by code_simp+
  then have "\<not> has_prefix (base_str b n) ''-''" "\<not> has_prefix (base_str b n) ''+''"
    using no_sign_base_str [OF assms(1,2)] has_prefix_single by blast+
  moreover have "uint_loop (int b) (int 0) (base_str b n) = Inr (int n)"
    using assms by (intro uint_loop_base_val base_val_base_str) (auto simp: max_int64_def)
  ultimately show ?thesis
    using assms(3) by (simp add: parse_int_def Let_def min_int64_def)
qed

lemma parse_int_minus_base_str:
  assumes "2 \<le> b" and "b \<le> 36" and "0 < n" and "- int n \<ge> min_int64"
  shows "parse_int b (''-'' @ base_str b n) = (None, - int n)"
proof -
  have "uint_loop (int b) (int 0) (base_str b n) = Inr (int n)"
    using assms by (intro uint_loop_base_val base_val_base_str) (auto simp: max_int64_def min_int64_def)
  then show ?thesis
    using assms by (simp add: parse_int_def Let_def max_int64_def)
qed

lemma parse_int_itoa: "min_int64 \<le> i \<Longrightarrow> i \<le> max_int64 \<Longrightarrow> parse_int 10 (itoa i) = (None, i)"
  using parse_int_minus_base_str [of 10 "nat (- i)"] parse_int_base_str [of 10 "nat i"]
  by (simp add: itoa_def)

lemma atoi_itoa: "0 \<le> i \<Longrightarrow> i \<le> max_int64 \<Longrightarrow> atoi (itoa i) = (None, i)"
  using parse_int_base_str [of 10 "nat i"] by (simp add: atoi_def itoa_def)

subsection \<open>Facts about white space\<close>

definition plain_char :: "char \<Rightarrow> bool" where
  "plain_char c \<longleftrightarrow> \<not> ascii_space c \<and> byte c < (128 :: nat)"

lemma space_len_plain: "plain_char c \<Longrightarrow> space_len wide (c # s) = 0"
  by (simp add: space_len_def plain_char_def)

lemma trim_left_plain: "s = [] \<or> plain_char (hd s) \<Longrightarrow> trim_left_with wide s = s"
  by (cases s; subst trim_left_with.simps) (auto simp: space_len_plain)

lemma trim_left_space_char: "ascii_space c \<Longrightarrow> trim_left_with wide (c # s) = trim_left_with wide s"
  by (subst trim_left_with.simps) (simp add: space_len_def)

lemma trim_space_pad:
  assumes "s = [] \<or> plain_char (hd s) \<and> plain_char (last s)"
    and "list_all ascii_space pre" and "list_all ascii_space post"
  shows "trim_space (pre @ s @ post) = s"
proof -
  have strip: "trim_left_with wide (p @ t) = trim_left_with wide t" if "list_all ascii_space p"
    for wide p and t :: string
    using that by (induction p) (simp_all add: trim_left_space_char)
  have empty: "trim_left_with wide p = []" if "list_all ascii_space p" for wide p
    using strip [OF that, of wide "[]"] by (simp add: trim_left_plain)
  show ?thesis
  proof (cases "s = []")
    case True
    then show ?thesis using assms(2,3) empty [of "pre @ post"]
      by (simp add: trim_space_def trim_left_space_def trim_right_space_def trim_left_plain)
  next
    case False
    then have "trim_left_space (pre @ s @ post) = s @ post"
      using assms strip [OF assms(2)] by (simp add: trim_left_space_def trim_left_plain)
    moreover have "trim_left_with (map rev wide_spaces) (rev post @ rev s) = rev s"
      using assms False strip [of "rev post"] by (simp add: list_all_rev trim_left_plain hd_rev)
    ultimately show ?thesis by (simp add: trim_space_def trim_right_space_def)
  qed
qed

lemma trim_space_plain: "plain_char (hd s) \<Longrightarrow> plain_char (last s) \<Longrightarrow> trim_space s = s"
  using trim_space_pad [of s "[]" "[]"] by simp

lemma ascii_space_simps [simp]:
  "ascii_space CHR 0x0A" "ascii_space CHR 0x0D" "ascii_space CHR '' ''" "ascii_space CHR 0x09"
  by (simp_all add: ascii_space_def)

lemma plain_digit_char:
  assumes "d < 36" shows "plain_char (digit_char d)"
proof -
  define ds where "ds = ''0123456789abcdefghijklmnopqrstuvwxyz''"
  have "list_all plain_char ds" by (simp add: ds_def plain_char_def ascii_space_def)
  moreover have "length ds = 36" by (simp add: ds_def)
  ultimately have "plain_char (ds ! d)" using assms by (simp add: list_all_length)
  then show ?thesis using assms by (simp add: digit_char_def ds_def)
qed

lemma plain_base_str:
  assumes "2 \<le> b" and "b \<le> 36"
  shows "plain_char (hd (base_str b n))" "plain_char (last (base_str b n))"
proof -
  have "plain_char c" if "c \<in> set (base_str b n)" for c
    using base_str_digits [OF assms(1) that] plain_digit_char assms(2) by auto
  then show "plain_char (hd (base_str b n))" "plain_char (last (base_str b n))" by simp_all
qed

end
