(* ===== verification/Regex.thy ===== *)
theory Regex
  imports Gostrings
begin

text \<open>
  Go's \<open>regexp\<close> package, as far as the detection rules need it: the RE2 syntax parser, the
  leftmost-first matcher on runes, and \<open>ReplaceAll\<close> with its template expansion.

  \<^item> The matcher returns every way to match at a position in the order of preference of a
    backtracking search; the first one is the match \<open>regexp\<close> reports.
  \<^item> A loop \<open>x*\<close> goes on only while \<open>x\<close> consumes input, so \<open>length\<close> of the rest is enough fuel.
  \<^item> The parser covers literals, classes, groups, alternation, repetition, the flags \<open>imsU\<close> but
    \<open>U\<close>, and the Perl escapes. Named groups, \<open>~p\<close> classes and octal or hexadecimal escapes are
    not covered: a pattern with one is treated like one that does not compile. Case folding covers
    the ASCII letters and the two runes that fold to them.
\<close>

subsection \<open>Programs and the matcher\<close>

datatype re =
    REmpty
  | RClass bool "(rune \<times> rune) list"  \<comment> \<open>negated?, ranges of code points\<close>
  | RBeginText | REndText | RBeginLine | REndLine | RWordB | RNoWordB
  | RCap nat re
  | RSeq re re
  | RAlt re re
  | RStar bool re                      \<comment> \<open>greedy?\<close>
  | ROpt bool re

record regexp =
  re_src :: string
  re_prog :: re

record mst =
  ms_prev :: "rune option"
  ms_rest :: "(rune \<times> nat) list"
  ms_pos :: nat
  ms_caps :: "(nat \<times> nat \<times> nat) list"

definition in_ranges :: "rune \<Rightarrow> (rune \<times> rune) list \<Rightarrow> bool" where
  "in_ranges c rs \<longleftrightarrow> list_ex (\<lambda>(lo, hi). lo \<le> c \<and> c \<le> hi) rs"

definition word_ranges :: "(rune \<times> rune) list" where
  "word_ranges = [(48, 57), (65, 90), (95, 95), (97, 122)]"

definition is_word :: "rune option \<Rightarrow> bool" where
  "is_word c = (case c of None \<Rightarrow> False | Some n \<Rightarrow> in_ranges n word_ranges)"

definition next_rune :: "mst \<Rightarrow> rune option" where
  "next_rune s = (case ms_rest s of [] \<Rightarrow> None | (c, _) # _ \<Rightarrow> Some c)"

definition at_word_boundary :: "mst \<Rightarrow> bool" where
  "at_word_boundary s \<longleftrightarrow> is_word (ms_prev s) \<noteq> is_word (next_rune s)"

definition advance :: "mst \<Rightarrow> mst" where
  "advance s =
     (case ms_rest s of
        [] \<Rightarrow> s
      | (c, w) # r \<Rightarrow> s\<lparr>ms_prev := Some c, ms_rest := r, ms_pos := ms_pos s + w\<rparr>)"

primrec star_iter :: "nat \<Rightarrow> bool \<Rightarrow> (mst \<Rightarrow> mst list) \<Rightarrow> mst \<Rightarrow> mst list" where
  "star_iter 0 greedy f s = [s]"
| "star_iter (Suc n) greedy f s =
     (let more = concat (map (star_iter n greedy f)
                   (filter (\<lambda>t. length (ms_rest t) < length (ms_rest s)) (f s)))
      in if greedy then more @ [s] else s # more)"

primrec re_run :: "re \<Rightarrow> mst \<Rightarrow> mst list" where
  "re_run REmpty s = [s]"
| "re_run (RClass neg rs) s =
     (case next_rune s of
        None \<Rightarrow> []
      | Some c \<Rightarrow> (if in_ranges c rs \<noteq> neg then [advance s] else []))"
| "re_run RBeginText s = (if ms_prev s = None then [s] else [])"
| "re_run REndText s = (if ms_rest s = [] then [s] else [])"
| "re_run RBeginLine s = (if ms_prev s = None \<or> ms_prev s = Some 10 then [s] else [])"
| "re_run REndLine s = (if ms_rest s = [] \<or> next_rune s = Some 10 then [s] else [])"
| "re_run RWordB s = (if at_word_boundary s then [s] else [])"
| "re_run RNoWordB s = (if at_word_boundary s then [] else [s])"
| "re_run (RCap k r) s =
     map (\<lambda>t. t\<lparr>ms_caps := (k, ms_pos s, ms_pos t) # ms_caps t\<rparr>) (re_run r s)"
| "re_run (RSeq r1 r2) s = concat (map (re_run r2) (re_run r1 s))"
| "re_run (RAlt r1 r2) s = re_run r1 s @ re_run r2 s"
| "re_run (RStar greedy r) s = star_iter (length (ms_rest s)) greedy (re_run r) s"
| "re_run (ROpt greedy r) s = (if greedy then re_run r s @ [s] else s # re_run r s)"

fun find_from :: "re \<Rightarrow> rune option \<Rightarrow> (rune \<times> nat) list \<Rightarrow> nat \<Rightarrow> (nat \<times> mst) option" where
  \<comment> \<open>the leftmost match at or after a position: its start and the state at its end\<close>
  "find_from r prev rest pos =
     (case re_run r \<lparr>ms_prev = prev, ms_rest = rest, ms_pos = pos, ms_caps = []\<rparr> of
        t # _ \<Rightarrow> Some (pos, t)
      | [] \<Rightarrow> (case rest of
                 [] \<Rightarrow> None
               | (c, w) # rest' \<Rightarrow> find_from r (Some c) rest' (pos + w)))"

declare find_from.simps [simp del]

definition find_string_index :: "regexp \<Rightarrow> string \<Rightarrow> (nat \<times> nat) option" where
  "find_string_index re text =
     map_option (\<lambda>(i, t). (i, ms_pos t)) (find_from (re_prog re) None (runes text) 0)"

definition match_string :: "regexp \<Rightarrow> string \<Rightarrow> bool" where
  "match_string re text \<longleftrightarrow> find_string_index re text \<noteq> None"

subsection \<open>Replacement\<close>

definition word_char :: "char \<Rightarrow> bool" where
  "word_char c \<longleftrightarrow> in_ranges (ibyte c) word_ranges"

definition extract_name :: "string \<Rightarrow> (string \<times> string) option" where
  \<comment> \<open>the name after a dollar sign, with or without braces, and the rest of the template\<close>
  "extract_name s =
     (let brace = has_prefix s ''{'';
          t = (if brace then drop 1 s else s);
          name = takeWhile word_char t;
          rest = dropWhile word_char t
      in if name = [] then None
         else if brace then
           (case rest of c # rest' \<Rightarrow> (if c = CHR ''}'' then Some (name, rest') else None) | [] \<Rightarrow> None)
         else Some (name, rest))"

definition group_number :: "string \<Rightarrow> nat option" where
  "group_number name =
     (if has_prefix name ''0'' \<and> 1 < length name then None else parse_nat 10 name)"

definition group_text :: "string \<Rightarrow> (nat \<times> nat \<times> nat) list \<Rightarrow> string \<Rightarrow> string" where
  "group_text text caps name =
     (case group_number name of
        None \<Rightarrow> []
      | Some k \<Rightarrow> (case find_by fst k caps of
                      None \<Rightarrow> []
                    | Some (_, i, j) \<Rightarrow> take (j - i) (drop i text)))"

lemma length_extract_name: "extract_name s = Some (name, rest) \<Longrightarrow> length rest \<le> length s"
  using length_dropWhile_le [of word_char s] length_dropWhile_le [of word_char "drop 1 s"]
  by (auto simp: extract_name_def Let_def split: if_splits list.splits)

function expand :: "string \<Rightarrow> (nat \<times> nat \<times> nat) list \<Rightarrow> string \<Rightarrow> string" where
  "expand text caps tmpl =
     (case tmpl of
        [] \<Rightarrow> []
      | c # s \<Rightarrow>
          if c \<noteq> CHR ''$'' then c # expand text caps s
          else if has_prefix s ''$'' then c # expand text caps (drop 1 s)
          else (case extract_name s of
                  None \<Rightarrow> c # expand text caps s
                | Some (name, rest) \<Rightarrow> group_text text caps name @ expand text caps rest))"
  by pat_completeness auto
termination
  by (relation "measure (\<lambda>(text, caps, tmpl). length tmpl)")
     (auto dest: length_extract_name simp: less_Suc_eq_le)

declare expand.simps [simp del]

primrec replace_loop ::
  "nat \<Rightarrow> re \<Rightarrow> string \<Rightarrow> string \<Rightarrow> rune option \<Rightarrow> (rune \<times> nat) list \<Rightarrow> nat \<Rightarrow> nat \<Rightarrow> string" where
  \<comment> \<open>the last two arguments are the search position and the end of the most recent match\<close>
  "replace_loop 0 r tmpl text prev rest pos lst = drop lst text"
| "replace_loop (Suc n) r tmpl text prev rest pos lst =
     (case find_from r prev rest pos of
        None \<Rightarrow> drop lst text
      | Some (i, t) \<Rightarrow>
          take (i - lst) (drop lst text)
          @ (if lst < ms_pos t \<or> i = 0
             then expand text ((0, i, ms_pos t) # ms_caps t) tmpl else [])
          @ (if ms_pos t = pos then
               (case rest of
                  [] \<Rightarrow> drop (ms_pos t) text
                | (c, w) # rest' \<Rightarrow>
                    replace_loop n r tmpl text (Some c) rest' (pos + w) (ms_pos t))
             else replace_loop n r tmpl text (ms_prev t) (ms_rest t) (ms_pos t) (ms_pos t)))"

definition replace_all_string :: "regexp \<Rightarrow> string \<Rightarrow> string \<Rightarrow> string" where
  "replace_all_string re text tmpl =
     replace_loop (Suc (length (runes text))) (re_prog re) tmpl text None (runes text) 0 0"

subsection \<open>Facts about matches\<close>

definition rest_width :: "mst \<Rightarrow> nat" where
  "rest_width s = sum_list (map snd (ms_rest s))"

definition ms_suffix :: "mst \<Rightarrow> mst \<Rightarrow> bool" where
  \<comment> \<open>the second state is reached from the first by consuming runes\<close>
  "ms_suffix s t \<longleftrightarrow>
     (\<exists>us. ms_rest s = us @ ms_rest t \<and> ms_pos t = ms_pos s + sum_list (map snd us))"

lemma ms_suffix_refl [simp, intro]: "ms_suffix s s"
  by (auto simp: ms_suffix_def intro: exI [of _ "[]"])

lemma ms_suffix_trans: "ms_suffix s t \<Longrightarrow> ms_suffix t u \<Longrightarrow> ms_suffix s u"
  by (auto simp: ms_suffix_def)

lemma ms_suffix_advance [intro]: "ms_suffix s (advance s)"
  by (auto simp: ms_suffix_def advance_def split: list.splits)

lemma ms_suffix_caps: "ms_suffix s t \<Longrightarrow> ms_suffix s (t\<lparr>ms_caps := cs\<rparr>)"
  by (simp add: ms_suffix_def)

lemma star_iter_suffix:
  assumes "\<And>s t. t \<in> set (f s) \<Longrightarrow> ms_suffix s t" and "t \<in> set (star_iter n g f s)"
  shows "ms_suffix s t"
  using assms(2)
proof (induction n arbitrary: s)
  case (Suc n)
  then show ?case
    by (auto simp: Let_def split: if_splits) (metis assms(1) ms_suffix_trans)+
qed simp

lemma re_run_suffix: "t \<in> set (re_run r s) \<Longrightarrow> ms_suffix s t"
proof (induction r arbitrary: s t)
  case (RSeq r1 r2)
  then show ?case by (auto intro: ms_suffix_trans [OF RSeq.IH(1)])
next
  case (RStar g r)
  then show ?case by (auto intro: star_iter_suffix [of "re_run r"])
qed (auto split: option.splits if_splits simp: ms_suffix_caps)

lemma find_from_suffix:
  assumes "find_from r prev rest pos = Some (i, t)"
  shows "\<exists>us vs. rest = us @ vs @ ms_rest t \<and> i = pos + sum_list (map snd us)
           \<and> ms_pos t = i + sum_list (map snd vs)"
  using assms
proof (induction rest arbitrary: prev pos)
  case Nil
  let ?s = "\<lparr>ms_prev = prev, ms_rest = [], ms_pos = pos, ms_caps = []\<rparr>"
  from Nil have "i = pos" "t \<in> set (re_run r ?s)"
    by (auto simp: find_from.simps split: list.splits)
  then show ?case by (auto dest!: re_run_suffix simp: ms_suffix_def)
next
  case (Cons x rest)
  obtain c w where x: "x = (c, w)" by (cases x)
  let ?s = "\<lparr>ms_prev = prev, ms_rest = x # rest, ms_pos = pos, ms_caps = []\<rparr>"
  show ?case
  proof (cases "re_run r ?s = []")
    case True
    with Cons.prems have "find_from r (Some c) rest (pos + w) = Some (i, t)"
      by (subst (asm) find_from.simps) (simp add: x)
    from Cons.IH [OF this] obtain us vs where
      "rest = us @ vs @ ms_rest t" "i = pos + w + sum_list (map snd us)"
      "ms_pos t = i + sum_list (map snd vs)" by blast
    then show ?thesis
      by (intro exI [where x = "x # us"] exI [where x = vs]) (simp add: x)
  next
    case False
    with Cons.prems have i: "i = pos" and "t \<in> set (re_run r ?s)"
      by (auto simp: find_from.simps x split: list.splits)
    then have "ms_suffix ?s t" by (auto intro: re_run_suffix)
    then show ?thesis using i by (auto simp: ms_suffix_def intro: exI [where x = "[]"])
  qed
qed

lemma find_string_index_bounds:
  assumes "find_string_index re text = Some (i, j)"
  shows "i \<le> j \<and> j \<le> length text"
proof -
  obtain t where "find_from (re_prog re) None (runes text) 0 = Some (i, t)" and j: "j = ms_pos t"
    using assms by (auto simp: find_string_index_def)
  from find_from_suffix [OF this(1)] obtain us vs where
    "runes text = us @ vs @ ms_rest t" "i = sum_list (map snd us)"
    "ms_pos t = i + sum_list (map snd vs)" by auto
  with sum_widths_runes [of "text"] j show ?thesis by simp
qed

end
