(* ===== verification/Regex_Parse.thy ===== *)
theory Regex_Parse
  imports Regex
begin

text \<open>
  \<open>regexp.Compile\<close>: from the text of a pattern to a program. The parser is the stack machine of
  RE2: literals and postfix operators act on the sequence being built, a bar closes an alternative,
  parentheses push and pop a frame. Every step consumes a rune, so \<open>Suc (length cs)\<close> is enough
  fuel. \<open>MustCompile\<close> is \<open>compile\<close> on a constant pattern; that each constant pattern compiles is
  proved where the pattern is defined.
\<close>

record pflags =
  fl_fold :: bool
  fl_multi :: bool
  fl_dot :: bool

record frame =
  fr_cap :: "nat option"
  fr_flags :: pflags
  fr_alts :: "re list"
  fr_seq :: "re list"

record pstate =
  ps_flags :: pflags
  ps_alts :: "re list"     \<comment> \<open>closed alternatives, the latest first\<close>
  ps_seq :: "re list"      \<comment> \<open>the current sequence, the latest first\<close>
  ps_rep :: bool           \<comment> \<open>the last item is a repetition\<close>
  ps_stack :: "frame list"
  ps_ncap :: nat

definition starts :: "rune \<Rightarrow> rune list \<Rightarrow> bool" where
  "starts c cs = (case cs of [] \<Rightarrow> False | d # _ \<Rightarrow> d = c)"

subsection \<open>Classes\<close>

definition digit_ranges :: "(rune \<times> rune) list" where "digit_ranges = [(48, 57)]"
definition space_ranges :: "(rune \<times> rune) list" where "space_ranges = [(9, 10), (12, 13), (32, 32)]"

definition max_rune :: rune where "max_rune = 0x10FFFF"

fun complement_from :: "rune \<Rightarrow> (rune \<times> rune) list \<Rightarrow> (rune \<times> rune) list" where
  \<comment> \<open>of sorted, separate ranges\<close>
  "complement_from lo [] = (if lo \<le> max_rune then [(lo, max_rune)] else [])"
| "complement_from lo ((a, b) # rs) =
     (if lo < a then [(lo, a - 1)] else []) @ complement_from (b + 1) rs"

definition perl_class :: "rune \<Rightarrow> (bool \<times> (rune \<times> rune) list) option" where
  \<comment> \<open>after a backslash: \<open>d s w\<close> and their negations\<close>
  "perl_class c =
     (if c = 100 then Some (False, digit_ranges)
      else if c = 68 then Some (True, digit_ranges)
      else if c = 115 then Some (False, space_ranges)
      else if c = 83 then Some (True, space_ranges)
      else if c = 119 then Some (False, word_ranges)
      else if c = 87 then Some (True, word_ranges)
      else None)"

definition fold_range :: "rune \<times> rune \<Rightarrow> (rune \<times> rune) list" where
  "fold_range r =
     (let (lo, hi) = r; a = max lo 65; b = min hi 90; c = max lo 97; d = min hi 122 in
      (if a \<le> b then [(a + 32, b + 32)] else [])
      @ (if c \<le> d then [(c - 32, d - 32)] else [])
      @ (if in_ranges 75 [r] \<or> in_ranges 107 [r] then [(0x212A, 0x212A)] else [])
      @ (if in_ranges 83 [r] \<or> in_ranges 115 [r] then [(0x17F, 0x17F)] else [])
      @ (if in_ranges 0x212A [r] then [(75, 75), (107, 107)] else [])
      @ (if in_ranges 0x17F [r] then [(83, 83), (115, 115)] else []))"

definition mk_class :: "pflags \<Rightarrow> bool \<Rightarrow> (rune \<times> rune) list \<Rightarrow> re" where
  "mk_class fl neg rs =
     RClass neg (if fl_fold fl then rs @ concat (map fold_range rs) else rs)"

definition escape_rune :: "rune \<Rightarrow> rune option" where
  \<comment> \<open>after a backslash: punctuation stands for itself, a few letters for control characters\<close>
  "escape_rune c =
     (if c < 128 \<and> \<not> in_ranges c word_ranges then Some c
      else if c = 110 then Some 10
      else if c = 116 then Some 9
      else if c = 114 then Some 13
      else if c = 102 then Some 12
      else if c = 118 then Some 11
      else if c = 97 then Some 7
      else if c = 95 then Some 95
      else None)"

definition class_char :: "rune list \<Rightarrow> (rune \<times> rune list) option" where
  "class_char cs =
     (case cs of
        [] \<Rightarrow> None
      | c # r \<Rightarrow>
          if c = 92 then
            (case r of [] \<Rightarrow> None | e # r' \<Rightarrow> map_option (\<lambda>x. (x, r')) (escape_rune e))
          else Some (c, r))"

primrec parse_class :: "nat \<Rightarrow> bool \<Rightarrow> rune list \<Rightarrow> ((rune \<times> rune) list \<times> rune list) option" where
  \<comment> \<open>the items of a class up to its closing bracket; a bracket in first place is an item\<close>
  "parse_class 0 first cs = None"
| "parse_class (Suc n) first cs =
     (case cs of
        [] \<Rightarrow> None
      | c # r \<Rightarrow>
          if c = 93 \<and> \<not> first then Some ([], r)
          else
            (case (if c = 92 then (case r of [] \<Rightarrow> None | e # _ \<Rightarrow> perl_class e) else None) of
               Some (neg, rs) \<Rightarrow>
                 map_option (apfst ((@) (if neg then complement_from 0 rs else rs)))
                   (parse_class n False (drop 1 r))
             | None \<Rightarrow>
                 (case class_char cs of
                    None \<Rightarrow> None
                  | Some (lo, r1) \<Rightarrow>
                      if starts 45 r1 \<and> drop 1 r1 \<noteq> [] \<and> \<not> starts 93 (drop 1 r1) then
                        (case class_char (drop 1 r1) of
                           None \<Rightarrow> None
                         | Some (hi, r2) \<Rightarrow>
                             if hi < lo then None
                             else map_option (apfst ((#) (lo, hi))) (parse_class n False r2))
                      else map_option (apfst ((#) (lo, lo))) (parse_class n False r1))))"

subsection \<open>Repetition\<close>

primrec repeat_seq :: "nat \<Rightarrow> re \<Rightarrow> re \<Rightarrow> re" where
  "repeat_seq 0 x r = r"
| "repeat_seq (Suc n) x r = RSeq x (repeat_seq n x r)"

primrec repeat_opt :: "nat \<Rightarrow> bool \<Rightarrow> re \<Rightarrow> re" where
  "repeat_opt 0 g x = REmpty"
| "repeat_opt (Suc n) g x = ROpt g (RSeq x (repeat_opt n g x))"

definition repeat_re :: "nat \<Rightarrow> nat option \<Rightarrow> bool \<Rightarrow> re \<Rightarrow> re" where
  "repeat_re lo hi g x =
     (case hi of
        None \<Rightarrow> repeat_seq lo x (RStar g x)
      | Some h \<Rightarrow> repeat_seq lo x (repeat_opt (h - lo) g x))"

definition span_digits :: "rune list \<Rightarrow> nat option \<times> rune list" where
  "span_digits cs =
     (let ds = takeWhile (\<lambda>c. 48 \<le> c \<and> c \<le> 57) cs in
      ((if ds = [] then None else Some (nat (foldl (\<lambda>a d. a * 10 + (d - 48)) 0 ds))),
       drop (length ds) cs))"

definition parse_repeat :: "rune list \<Rightarrow> (nat \<times> nat option \<times> rune list) option" where
  \<comment> \<open>after an opening brace; \<open>None\<close> when it is a literal brace\<close>
  "parse_repeat cs =
     (case span_digits cs of
        (None, _) \<Rightarrow> None
      | (Some lo, r) \<Rightarrow>
          (case r of
             [] \<Rightarrow> None
           | c # r1 \<Rightarrow>
               if c = 125 then Some (lo, Some lo, r1)
               else if c = 44 then
                 (case span_digits r1 of
                    (hi, r2) \<Rightarrow>
                      (case r2 of
                         d # r3 \<Rightarrow> if d = 125 then Some (lo, hi, r3) else None
                       | [] \<Rightarrow> None))
               else None))"

definition apply_repeat :: "nat \<Rightarrow> nat option \<Rightarrow> bool \<Rightarrow> pstate \<Rightarrow> pstate option" where
  "apply_repeat lo hi g ps =
     (case ps_seq ps of
        [] \<Rightarrow> None
      | x # xs \<Rightarrow>
          if ps_rep ps \<or> 1000 < lo \<or> (case hi of None \<Rightarrow> False | Some h \<Rightarrow> h < lo \<or> 1000 < h)
          then None
          else Some (ps\<lparr>ps_seq := repeat_re lo hi g x # xs, ps_rep := True\<rparr>))"

subsection \<open>Groups and flags\<close>

fun seq_of :: "re list \<Rightarrow> re" where
  "seq_of [] = REmpty"
| "seq_of [r] = r"
| "seq_of (r # s # rs) = RSeq r (seq_of (s # rs))"

fun alt_of :: "re list \<Rightarrow> re" where
  "alt_of [] = REmpty"
| "alt_of [r] = r"
| "alt_of (r # s # rs) = RAlt r (alt_of (s # rs))"

definition close_alts :: "pstate \<Rightarrow> re" where
  "close_alts ps = alt_of (rev (seq_of (rev (ps_seq ps)) # ps_alts ps))"

definition push_frame :: "nat option \<Rightarrow> pflags \<Rightarrow> pstate \<Rightarrow> pstate" where
  \<comment> \<open>open a group, inside which the flags are the given ones\<close>
  "push_frame cap fl ps =
     ps\<lparr>ps_stack := \<lparr>fr_cap = cap, fr_flags = ps_flags ps, fr_alts = ps_alts ps,
                     fr_seq = ps_seq ps\<rparr> # ps_stack ps,
        ps_flags := fl, ps_alts := [], ps_seq := [], ps_rep := False,
        ps_ncap := (case cap of None \<Rightarrow> ps_ncap ps | Some _ \<Rightarrow> Suc (ps_ncap ps))\<rparr>"

definition pop_frame :: "pstate \<Rightarrow> pstate option" where
  "pop_frame ps =
     (case ps_stack ps of
        [] \<Rightarrow> None
      | f # fs \<Rightarrow>
          (let body = close_alts ps;
               r = (case fr_cap f of None \<Rightarrow> body | Some k \<Rightarrow> RCap k body) in
           Some (ps\<lparr>ps_flags := fr_flags f, ps_alts := fr_alts f, ps_seq := r # fr_seq f,
                    ps_rep := False, ps_stack := fs\<rparr>)))"

primrec parse_flags :: "nat \<Rightarrow> bool \<Rightarrow> pflags \<Rightarrow> rune list \<Rightarrow> (pflags \<times> bool \<times> rune list) option" where
  \<comment> \<open>after \<open>(?\<close>: the flags, whether a group follows, and the rest\<close>
  "parse_flags 0 on fl cs = None"
| "parse_flags (Suc n) on fl cs =
     (case cs of
        [] \<Rightarrow> None
      | c # r \<Rightarrow>
          if c = 41 then Some (fl, False, r)
          else if c = 58 then Some (fl, True, r)
          else if c = 45 then (if on then parse_flags n False fl r else None)
          else if c = 105 then parse_flags n on (fl\<lparr>fl_fold := on\<rparr>) r
          else if c = 109 then parse_flags n on (fl\<lparr>fl_multi := on\<rparr>) r
          else if c = 115 then parse_flags n on (fl\<lparr>fl_dot := on\<rparr>) r
          else None)"

subsection \<open>The parser\<close>

definition push_item :: "re \<Rightarrow> pstate \<Rightarrow> pstate" where
  "push_item r ps = ps\<lparr>ps_seq := r # ps_seq ps, ps_rep := False\<rparr>"

definition lazy_mark :: "rune list \<Rightarrow> bool \<times> rune list" where
  \<comment> \<open>a question mark after a repetition makes it lazy\<close>
  "lazy_mark cs = (if starts 63 cs then (False, drop 1 cs) else (True, cs))"

definition parse_escape :: "pflags \<Rightarrow> rune \<Rightarrow> re option" where
  "parse_escape fl e =
     (case perl_class e of
        Some (neg, rs) \<Rightarrow> Some (mk_class fl neg rs)
      | None \<Rightarrow>
          if e = 98 then Some RWordB
          else if e = 66 then Some RNoWordB
          else if e = 65 then Some RBeginText
          else if e = 122 then Some REndText
          else map_option (\<lambda>x. mk_class fl False [(x, x)]) (escape_rune e))"

definition parse_step :: "rune \<Rightarrow> rune list \<Rightarrow> pstate \<Rightarrow> (rune list \<times> pstate) option" where
  \<comment> \<open>one item of the pattern, starting with the rune \<open>c\<close>\<close>
  "parse_step c r ps =
     (let fl = ps_flags ps;
          rep = (\<lambda>lo hi rest. (case lazy_mark rest of (g, r') \<Rightarrow>
                   map_option (\<lambda>ps'. (r', ps')) (apply_repeat lo hi g ps))) in
      if c = 40 then
        (if starts 63 r then
           (case parse_flags (length r) True fl (drop 1 r) of
              None \<Rightarrow> None
            | Some (fl', grp, r2) \<Rightarrow>
                Some (r2, if grp then push_frame None fl' ps else ps\<lparr>ps_flags := fl'\<rparr>))
         else Some (r, push_frame (Some (ps_ncap ps)) fl ps))
      else if c = 41 then map_option (\<lambda>ps'. (r, ps')) (pop_frame ps)
      else if c = 124 then
        Some (r, ps\<lparr>ps_alts := seq_of (rev (ps_seq ps)) # ps_alts ps, ps_seq := [],
                    ps_rep := False\<rparr>)
      else if c = 42 then rep 0 None r
      else if c = 43 then rep 1 None r
      else if c = 63 then rep 0 (Some 1) r
      else if c = 123 then
        (case parse_repeat r of
           None \<Rightarrow> Some (r, push_item (mk_class fl False [(c, c)]) ps)
         | Some (lo, hi, r1) \<Rightarrow> rep lo hi r1)
      else if c = 91 then
        (let neg = starts 94 r;
             r1 = (if neg then drop 1 r else r) in
         case parse_class (Suc (length r1)) True r1 of
           None \<Rightarrow> None
         | Some (rs, r2) \<Rightarrow> Some (r2, push_item (mk_class fl neg rs) ps))
      else if c = 94 then
        Some (r, push_item (if fl_multi fl then RBeginLine else RBeginText) ps)
      else if c = 36 then
        Some (r, push_item (if fl_multi fl then REndLine else REndText) ps)
      else if c = 46 then
        Some (r, push_item (RClass True (if fl_dot fl then [] else [(10, 10)])) ps)
      else if c = 92 then
        (case r of
           [] \<Rightarrow> None
         | e # r1 \<Rightarrow> map_option (\<lambda>x. (r1, push_item x ps)) (parse_escape fl e))
      else Some (r, push_item (mk_class fl False [(c, c)]) ps))"

primrec parse_loop :: "nat \<Rightarrow> rune list \<Rightarrow> pstate \<Rightarrow> re option" where
  "parse_loop 0 cs ps = None"
| "parse_loop (Suc n) cs ps =
     (case cs of
        [] \<Rightarrow> (if ps_stack ps = [] then Some (close_alts ps) else None)
      | c # r \<Rightarrow>
          (case parse_step c r ps of None \<Rightarrow> None | Some (r', ps') \<Rightarrow> parse_loop n r' ps'))"

definition init_pstate :: pstate where
  "init_pstate =
     \<lparr>ps_flags = \<lparr>fl_fold = False, fl_multi = False, fl_dot = False\<rparr>, ps_alts = [], ps_seq = [],
      ps_rep = False, ps_stack = [], ps_ncap = 1\<rparr>"

definition compile :: "string \<Rightarrow> regexp option" where
  "compile s =
     (let cs = map fst (runes s) in
      map_option (\<lambda>r. \<lparr>re_src = s, re_prog = r\<rparr>) (parse_loop (Suc (length cs)) cs init_pstate))"

definition must_compile :: "string \<Rightarrow> regexp" where
  \<comment> \<open>on a pattern that does not compile, \<open>MustCompile\<close> panics\<close>
  "must_compile s = (case compile s of Some r \<Rightarrow> r | None \<Rightarrow> \<lparr>re_src = s, re_prog = RClass False []\<rparr>)"

lemma re_src_must_compile [simp]: "re_src (must_compile s) = s"
  by (auto simp: must_compile_def compile_def Let_def split: option.splits)

lemma compile_must_compile: "compile s \<noteq> None \<Longrightarrow> compile s = Some (must_compile s)"
  by (auto simp: must_compile_def)

end
