(* ===== verification/Json.thy ===== *)
theory Json
  imports Gostrings
begin

text \<open>
  What the program uses of Go's \<open>encoding/json\<close>: documents as trees, the scanner from bytes, the
  encoder of generic values, and decoding into structs.

  \<^item> \<open>unmarshal_any\<close> is \<open>json.Unmarshal\<close> up to the tree, \<open>decode_first\<close> is a \<open>json.Decoder\<close> that
    reads one value and leaves the rest. Fuel bounds the recursion: \<open>Suc (2 * length s)\<close> is
    enough, because at most two calls of the scanner follow each consumed byte. The scanner's limit of
    10000 open brackets is not modelled.
  \<^item> A struct decoder takes the value decoded so far and returns the value after the document, so
    that \<open>null\<close> leaves a field alone and a repeated key acts on what the earlier one left. Go goes
    on after a type mismatch and reports it at the end; every caller here drops the value then, so
    a mismatch is \<open>None\<close>.
  \<^item> In the files the stores share, a timestamp is kept as the instant it denotes (\<open>JTime\<close>), not as
    the RFC 3339 text; the scanner never produces this leaf.
\<close>

datatype json =
    JNull
  | JBool bool
  | JNum string
  | JStr string
  | JTime time
  | JArr "json list"
  | JObj "(string \<times> json) list"

subsection \<open>The scanner\<close>

definition json_space :: "char \<Rightarrow> bool" where
  "json_space c \<longleftrightarrow> c \<in> set [CHR 0x20, CHR 0x09, CHR 0x0A, CHR 0x0D]"

definition skip_ws :: "string \<Rightarrow> string" where
  "skip_ws s = dropWhile json_space s"

definition hex4 :: "string \<Rightarrow> int option" where
  "hex4 s = (if length s < 4 then None else map_option int (base_val 16 0 (take 4 s)))"

definition surrogate :: "int \<Rightarrow> bool" where
  "surrogate n \<longleftrightarrow> 0xD800 \<le> n \<and> n < 0xE000"

definition unicode_escape :: "string \<Rightarrow> (string \<times> nat) option" where
  \<comment> \<open>after a backslash and \<open>u\<close>: the bytes denoted and how many more bytes the escape takes\<close>
  "unicode_escape r =
     (case hex4 r of
        None \<Rightarrow> None
      | Some hi \<Rightarrow>
          if \<not> surrogate hi then Some (utf8_enc hi, 4)
          else if hi < 0xDC00 \<and> has_prefix (drop 4 r) [CHR 0x5C, CHR ''u''] then
            (case hex4 (drop 6 r) of
               Some lo \<Rightarrow>
                 if 0xDC00 \<le> lo \<and> lo < 0xE000
                 then Some (utf8_enc (0x10000 + (hi - 0xD800) * 1024 + (lo - 0xDC00)), 10)
                 else Some (replacement_bytes, 4)
             | None \<Rightarrow> Some (replacement_bytes, 4))
          else Some (replacement_bytes, 4))"

definition simple_escape :: "char \<Rightarrow> char option" where
  "simple_escape c =
     (if c = CHR 0x22 \<or> c = CHR 0x5C \<or> c = CHR ''/'' then Some c
      else if c = CHR ''b'' then Some (CHR 0x08)
      else if c = CHR ''f'' then Some (CHR 0x0C)
      else if c = CHR ''n'' then Some (CHR 0x0A)
      else if c = CHR ''r'' then Some (CHR 0x0D)
      else if c = CHR ''t'' then Some (CHR 0x09)
      else None)"

function scan_string :: "string \<Rightarrow> (string \<times> string) option" where
  \<comment> \<open>the rest of a string literal after its opening quote\<close>
  "scan_string s =
     (case s of
        [] \<Rightarrow> None
      | c # r \<Rightarrow>
          if c = CHR 0x22 then Some ([], r)
          else if c = CHR 0x5C then
            (case r of
               [] \<Rightarrow> None
             | e # r' \<Rightarrow>
                 if e = CHR ''u'' then
                   (case unicode_escape r' of
                      None \<Rightarrow> None
                    | Some (out, n) \<Rightarrow> map_option (apfst ((@) out)) (scan_string (drop n r')))
                 else
                   (case simple_escape e of
                      None \<Rightarrow> None
                    | Some d \<Rightarrow> map_option (apfst ((#) d)) (scan_string r')))
          else if byte c < (32 :: nat) then None
          else if byte c < (128 :: nat) then map_option (apfst ((#) c)) (scan_string r)
          else
            (let (cp, w) = decode_rune (c # r) in
             map_option (apfst ((@) (if cp = replacement_rune then replacement_bytes
                                     else take w (c # r))))
               (scan_string (drop (w - 1) r))))"
  by pat_completeness auto
termination
  by (relation "measure length") auto

declare scan_string.simps [simp del]

definition is_digit :: "char \<Rightarrow> bool" where
  "is_digit c \<longleftrightarrow> 48 \<le> byte c \<and> byte c \<le> (57 :: nat)"

definition scan_number :: "string \<Rightarrow> (string \<times> string) option" where
  "scan_number s =
     (let sign = (if has_prefix s ''-'' then ''-'' else []);
          s1 = drop (length sign) s;
          ip = (if has_prefix s1 ''0'' then ''0'' else takeWhile is_digit s1);
          s2 = drop (length ip) s1;
          fd = (if has_prefix s2 ''.'' then takeWhile is_digit (drop 1 s2) else []);
          fp = (if has_prefix s2 ''.'' then ''.'' @ fd else []);
          s3 = drop (length fp) s2;
          has_e = (has_prefix s3 ''e'' \<or> has_prefix s3 ''E'');
          es = (if has_e then
                  take 1 s3 @ (if has_prefix (drop 1 s3) ''+'' \<or> has_prefix (drop 1 s3) ''-''
                               then take 1 (drop 1 s3) else [])
                else []);
          ed = (if has_e then takeWhile is_digit (drop (length es) s3) else [])
      in if ip = [] \<or> (fp \<noteq> [] \<and> fd = []) \<or> (has_e \<and> ed = []) then None
         else Some (sign @ ip @ fp @ es @ ed, drop (length es + length ed) s3))"

fun scan_value :: "nat \<Rightarrow> string \<Rightarrow> (json \<times> string) option"
  and scan_elems :: "nat \<Rightarrow> string \<Rightarrow> (json list \<times> string) option"
  and scan_members :: "nat \<Rightarrow> string \<Rightarrow> ((string \<times> json) list \<times> string) option" where
  "scan_value 0 s = None"
| "scan_value (Suc n) s =
     (case skip_ws s of
        [] \<Rightarrow> None
      | c # r \<Rightarrow>
          if c = CHR 0x22 then map_option (apfst JStr) (scan_string r)
          else if c = CHR ''['' then
            (case skip_ws r of
               d # r' \<Rightarrow> if d = CHR '']'' then Some (JArr [], r')
                         else map_option (apfst JArr) (scan_elems n r)
             | [] \<Rightarrow> None)
          else if c = CHR ''{'' then
            (case skip_ws r of
               d # r' \<Rightarrow> if d = CHR ''}'' then Some (JObj [], r')
                         else map_option (apfst JObj) (scan_members n r)
             | [] \<Rightarrow> None)
          else if has_prefix (c # r) ''true'' then Some (JBool True, drop 3 r)
          else if has_prefix (c # r) ''false'' then Some (JBool False, drop 4 r)
          else if has_prefix (c # r) ''null'' then Some (JNull, drop 3 r)
          else map_option (apfst JNum) (scan_number (c # r)))"
| "scan_elems 0 s = None"
| "scan_elems (Suc n) s =
     (case scan_value n s of
        None \<Rightarrow> None
      | Some (v, s') \<Rightarrow>
          (case skip_ws s' of
             [] \<Rightarrow> None
           | c # r \<Rightarrow>
               if c = CHR '']'' then Some ([v], r)
               else if c = CHR '','' then map_option (apfst ((#) v)) (scan_elems n r)
               else None))"
| "scan_members 0 s = None"
| "scan_members (Suc n) s =
     (case skip_ws s of
        [] \<Rightarrow> None
      | q # r \<Rightarrow>
          if q \<noteq> CHR 0x22 then None
          else
            (case scan_string r of
               None \<Rightarrow> None
             | Some (k, s1) \<Rightarrow>
                 (case skip_ws s1 of
                    [] \<Rightarrow> None
                  | c # s2 \<Rightarrow>
                      if c \<noteq> CHR '':'' then None
                      else
                        (case scan_value n s2 of
                           None \<Rightarrow> None
                         | Some (v, s3) \<Rightarrow>
                             (case skip_ws s3 of
                                [] \<Rightarrow> None
                              | d # s4 \<Rightarrow>
                                  if d = CHR ''}'' then Some ([(k, v)], s4)
                                  else if d = CHR '','' then
                                    map_option (apfst ((#) (k, v))) (scan_members n s4)
                                  else None)))))"

definition decode_first :: "string \<Rightarrow> (json \<times> string) option" where
  "decode_first s = scan_value (Suc (2 * length s)) s"

definition unmarshal_any :: "string \<Rightarrow> json option" where
  "unmarshal_any s =
     (case decode_first s of
        Some (v, rest) \<Rightarrow> (if skip_ws rest = [] then Some v else None)
      | None \<Rightarrow> None)"

subsection \<open>Decoding into Go values\<close>

type_synonym 'a decoder = "'a \<Rightarrow> json \<Rightarrow> 'a option"

definition dec_string :: "string decoder" where
  "dec_string old j = (case j of JStr s \<Rightarrow> Some s | JNull \<Rightarrow> Some old | _ \<Rightarrow> None)"

definition dec_bool :: "bool decoder" where
  "dec_bool old j = (case j of JBool b \<Rightarrow> Some b | JNull \<Rightarrow> Some old | _ \<Rightarrow> None)"

definition dec_int :: "int decoder" where
  "dec_int old j =
     (case j of
        JNum s \<Rightarrow> (case parse_int 10 s of (None, v) \<Rightarrow> Some v | _ \<Rightarrow> None)
      | JNull \<Rightarrow> Some old
      | _ \<Rightarrow> None)"

definition dec_time :: "time decoder" where
  "dec_time old j = (case j of JTime t \<Rightarrow> Some t | JNull \<Rightarrow> Some old | _ \<Rightarrow> None)"

definition dec_time_ptr :: "time option decoder" where
  "dec_time_ptr old j = (case j of JTime t \<Rightarrow> Some (Some t) | JNull \<Rightarrow> Some None | _ \<Rightarrow> None)"

definition dec_raw :: "json option decoder" where
  \<comment> \<open>\<open>json.RawMessage\<close>: the value itself, \<open>None\<close> the nil message of an absent field\<close>
  "dec_raw old j = Some (Some j)"

fun dec_elems :: "'a decoder \<Rightarrow> 'a \<Rightarrow> 'a list \<Rightarrow> json list \<Rightarrow> 'a list option" where
  "dec_elems d zero olds [] = Some []"
| "dec_elems d zero olds (j # js) =
     (case d (case olds of [] \<Rightarrow> zero | x # _ \<Rightarrow> x) j of
        None \<Rightarrow> None
      | Some x \<Rightarrow> map_option ((#) x) (dec_elems d zero (drop 1 olds) js))"

definition dec_list :: "'a decoder \<Rightarrow> 'a \<Rightarrow> 'a list decoder" where
  "dec_list d zero old j =
     (case j of JArr js \<Rightarrow> dec_elems d zero old js | JNull \<Rightarrow> Some [] | _ \<Rightarrow> None)"

fun fold_key :: "string \<Rightarrow> string" where
  \<comment> \<open>the case folding under which a member name matches a field name; U+017F and U+212A are the
     two non-ASCII runes that fold to ASCII letters\<close>
  "fold_key [] = []"
| "fold_key (c # s) =
     (if has_prefix (c # s) [CHR 0xC5, CHR 0xBF] then ''s'' @ fold_key (drop 1 s)
      else if has_prefix (c # s) [CHR 0xE2, CHR 0x84, CHR 0xAA] then ''k'' @ fold_key (drop 2 s)
      else lower_char c # fold_key s)"

type_synonym 'r fields = "(string \<times> ('r \<Rightarrow> json \<Rightarrow> 'r option)) list"

definition field_for :: "'r fields \<Rightarrow> string \<Rightarrow> ('r \<Rightarrow> json \<Rightarrow> 'r option) option" where
  "field_for fs k =
     (case find_by fst k fs of
        Some (_, d) \<Rightarrow> Some d
      | None \<Rightarrow> map_option snd (find_by (\<lambda>f. fold_key (fst f)) (fold_key k) fs))"

fun dec_members :: "bool \<Rightarrow> 'r fields \<Rightarrow> 'r \<Rightarrow> (string \<times> json) list \<Rightarrow> 'r option" where
  \<comment> \<open>the flag is \<open>DisallowUnknownFields\<close>\<close>
  "dec_members strict fs r [] = Some r"
| "dec_members strict fs r ((k, j) # ms) =
     (case field_for fs k of
        None \<Rightarrow> (if strict then None else dec_members strict fs r ms)
      | Some d \<Rightarrow> (case d r j of None \<Rightarrow> None | Some r' \<Rightarrow> dec_members strict fs r' ms))"

definition dec_struct :: "'r fields \<Rightarrow> 'r decoder" where
  "dec_struct fs old j =
     (case j of JObj ms \<Rightarrow> dec_members False fs old ms | JNull \<Rightarrow> Some old | _ \<Rightarrow> None)"

definition fld :: "string \<Rightarrow> 'a decoder \<Rightarrow> ('r \<Rightarrow> 'a) \<Rightarrow> (('a \<Rightarrow> 'a) \<Rightarrow> 'r \<Rightarrow> 'r) \<Rightarrow>
    string \<times> ('r \<Rightarrow> json \<Rightarrow> 'r option)" where
  \<comment> \<open>a field: its JSON name, the decoder of its type, its selector and its update\<close>
  "fld name d get upd = (name, \<lambda>r j. map_option (\<lambda>x. upd (\<lambda>_. x) r) (d (get r) j))"

definition unmarshal :: "'a decoder \<Rightarrow> 'a \<Rightarrow> string \<Rightarrow> 'a option" where
  \<comment> \<open>\<open>json.Unmarshal(body, &v)\<close> for a zero \<open>v\<close>\<close>
  "unmarshal d zero s = (case unmarshal_any s of None \<Rightarrow> None | Some j \<Rightarrow> d zero j)"

definition unmarshal_raw :: "'a decoder \<Rightarrow> 'a \<Rightarrow> json option \<Rightarrow> 'a option" where
  \<comment> \<open>unmarshalling a \<open>RawMessage\<close>; the nil message is empty input, a syntax error\<close>
  "unmarshal_raw d zero m = (case m of None \<Rightarrow> None | Some j \<Rightarrow> d zero j)"

subsection \<open>Codecs\<close>

lemma dec_leaf [simp]:
  "dec_string old_str (JStr s) = Some s" "dec_bool old_bool (JBool b) = Some b"
  "dec_time old (JTime t) = Some t" "dec_time_ptr old_ptr (JTime t) = Some (Some t)"
  "dec_time_ptr old_ptr JNull = Some None"
  by (simp_all add: dec_string_def dec_bool_def dec_time_def dec_time_ptr_def)

text \<open>
  A type whose encoder the decoder inverts: what the stores rely on when they read back a document
  they, or another process, wrote.
\<close>

locale json_codec =
  fixes enc :: "'a \<Rightarrow> json" and dec :: "'a decoder" and zero :: 'a and ok :: "'a \<Rightarrow> bool"
  assumes dec_enc: "ok x \<Longrightarrow> dec zero (enc x) = Some x"
begin

lemma dec_elems_enc: "list_all ok xs \<Longrightarrow> dec_elems dec zero [] (map enc xs) = Some xs"
  by (induction xs) (simp_all add: dec_enc)

lemma dec_list_enc: "list_all ok xs \<Longrightarrow> dec_list dec zero [] (JArr (map enc xs)) = Some xs"
  by (simp add: dec_list_def dec_elems_enc)

end

text \<open>
  A type one program writes and another reads as a type of its own: what the reader sees of a value.
\<close>

locale json_view =
  fixes enc :: "'a \<Rightarrow> json" and dec :: "'b decoder" and zero :: 'b and view :: "'a \<Rightarrow> 'b"
  assumes view_enc: "dec zero (enc x) = Some (view x)"
begin

lemma dec_elems_view: "dec_elems dec zero [] (map enc xs) = Some (map view xs)"
  by (induction xs) (simp_all add: view_enc)

lemma dec_list_view: "dec_list dec zero [] (JArr (map enc xs)) = Some (map view xs)"
  by (simp add: dec_list_def dec_elems_view)

end

lemma list_all_True [simp]: "list_all (\<lambda>_. True) xs"
  by (simp add: list_all_iff)

interpretation string_codec: json_codec JStr dec_string "[]" "\<lambda>_. True"
  by unfold_locales simp

definition int64 :: "int \<Rightarrow> bool" where
  "int64 i \<longleftrightarrow> min_int64 \<le> i \<and> i \<le> max_int64"

definition enc_int :: "int \<Rightarrow> json" where
  "enc_int i = JNum (itoa i)"

interpretation int_codec: json_codec enc_int dec_int 0 int64
  by unfold_locales (simp add: enc_int_def dec_int_def int64_def parse_int_itoa)

lemma dec_int_enc [simp]: "int64 i \<Longrightarrow> dec_int old (enc_int i) = Some i"
  by (simp add: enc_int_def dec_int_def int64_def parse_int_itoa)

lemma dec_int_int64: "int64 old \<Longrightarrow> dec_int old j = Some x \<Longrightarrow> int64 x"
  by (auto simp: dec_int_def parse_int_def int64_def Let_def
      split: json.splits option.splits prod.splits sum.splits num_error.splits if_splits)

text \<open>What every field decoder keeps, a decoded struct has, and every element of a decoded list.\<close>

definition keeps :: "('r \<Rightarrow> bool) \<Rightarrow> 'r decoder \<Rightarrow> bool" where
  "keeps P d \<longleftrightarrow> (\<forall>r j r'. P r \<longrightarrow> d r j = Some r' \<longrightarrow> P r')"

lemma keepsD: "keeps P d \<Longrightarrow> P r \<Longrightarrow> d r j = Some r' \<Longrightarrow> P r'"
  by (simp add: keeps_def)

lemma dec_members_keeps:
  "\<forall>f \<in> set fs. keeps P (snd f) \<Longrightarrow> P r \<Longrightarrow> dec_members strict fs r ms = Some r' \<Longrightarrow> P r'"
proof (induction strict fs r ms rule: dec_members.induct)
  case (2 strict fs r k j ms)
  show ?case
  proof (cases "field_for fs k")
    case None
    then show ?thesis using 2 by (simp split: if_splits)
  next
    case (Some d)
    then have "\<exists>k'. (k', d) \<in> set fs"
      using find_by_SomeD by (fastforce simp: field_for_def split: option.splits prod.splits)
    then have "keeps P d" using 2(3) by auto
    moreover obtain r1 where r1: "d r j = Some r1" "dec_members strict fs r1 ms = Some r'"
      using 2(5) Some by (auto split: option.splits)
    ultimately have "P r1" using 2(4) keepsD by metis
    then show ?thesis using 2(2) [OF Some r1(1) 2(3)] r1(2) by simp
  qed
qed simp

lemma dec_struct_keeps: "\<forall>f \<in> set fs. keeps P (snd f) \<Longrightarrow> keeps P (dec_struct fs)"
  unfolding keeps_def [of P "dec_struct fs"]
  using dec_members_keeps [of fs P] by (auto simp: dec_struct_def split: json.splits)

lemma dec_elems_keeps:
  assumes "keeps P d" and "P zero"
  shows "list_all P olds \<Longrightarrow> dec_elems d zero olds js = Some xs \<Longrightarrow> list_all P xs"
proof (induction js arbitrary: olds xs)
  case (Cons j js)
  have "list_all P (drop 1 olds)" "P (case olds of [] \<Rightarrow> zero | x # _ \<Rightarrow> x)"
    using Cons.prems assms(2) by (cases olds; simp)+
  then show ?case using Cons keepsD [OF assms(1)] by (auto split: option.splits)
qed simp

lemma dec_list_keeps: "keeps P d \<Longrightarrow> P zero \<Longrightarrow> keeps (list_all P) (dec_list d zero)"
  using dec_elems_keeps [of P d zero] by (auto simp: keeps_def dec_list_def split: json.splits)

lemma keeps_fld:
  "(\<And>r x. P r \<Longrightarrow> Q (get r) \<longrightarrow> Q x \<Longrightarrow> P (upd (\<lambda>_. x) r)) \<Longrightarrow> keeps Q d \<Longrightarrow> keeps P (snd (fld n d get upd))"
  by (auto simp: keeps_def fld_def)

lemmas codec_simps = dec_struct_def field_for_def fld_def string_codec.dec_list_enc

end
