(* ===== verification/Encode.thy ===== *)
theory Encode
  imports Json "HOL-Library.List_Lexorder" "HOL-Library.Char_ord"
begin

text \<open>
  The encoding side of \<open>encoding/json\<close>, and the two layouts the program formats instants with, both in
  UTC. The argument \<open>html\<close> is whether \<open>SetEscapeHTML\<close> is on, as it is by default. The layouts are
  those of the years 1 to 9999; \<open>Marshal\<close> refuses later ones.
\<close>

subsection \<open>Instants\<close>

definition civil :: "int \<Rightarrow> int \<times> int \<times> int" where
  \<comment> \<open>the Gregorian year, month and day of a day counted from 1 January of the year 1; years
     start in March here, so that the leap day is the last\<close>
  "civil days =
     (let z = days + 306;
          era = z div 146097; doe = z mod 146097;
          yoe = (doe - doe div 1460 + doe div 36524 - doe div 146096) div 365;
          doy = doe - (365 * yoe + yoe div 4 - yoe div 100);
          mp = (5 * doy + 2) div 153;
          d = doy - (153 * mp + 2) div 5 + 1;
          m = (if mp < 10 then mp + 3 else mp - 9)
      in (yoe + era * 400 + (if m \<le> 2 then 1 else 0), m, d))"

definition dec_digit :: "int \<Rightarrow> char" where
  "dec_digit n = char_byte (48 + n mod 10)"

primrec padded :: "nat \<Rightarrow> int \<Rightarrow> string" where
  \<comment> \<open>that many decimal digits\<close>
  "padded 0 n = []"
| "padded (Suc k) n = padded k (n div 10) @ [dec_digit n]"

definition clock :: "time \<Rightarrow> int \<times> int \<times> int" where
  "clock t = (let s = t div second mod 86400 in (s div 3600, s div 60 mod 60, s mod 60))"

definition rfc3339 :: "time \<Rightarrow> string" where
  \<comment> \<open>\<open>time.RFC3339Nano\<close>\<close>
  "rfc3339 t =
     (let (y, mo, d) = civil (t div (86400 * second)); (h, mi, s) = clock t;
          frac = rev (dropWhile (\<lambda>c. c = CHR ''0'') (rev (padded 9 (t mod second))))
      in padded 4 y @ ''-'' @ padded 2 mo @ ''-'' @ padded 2 d @ ''T''
         @ padded 2 h @ '':'' @ padded 2 mi @ '':'' @ padded 2 s
         @ (if frac = [] then [] else ''.'' @ frac) @ ''Z'')"

definition file_stamp :: "time \<Rightarrow> string" where
  \<comment> \<open>the layout \<open>20060102_150405\<close>\<close>
  "file_stamp t =
     (let (y, mo, d) = civil (t div (86400 * second)); (h, mi, s) = clock t in
      padded 4 y @ padded 2 mo @ padded 2 d @ ''_'' @ padded 2 h @ padded 2 mi @ padded 2 s)"

definition unix_seconds :: "time \<Rightarrow> int" where
  "unix_seconds t = t div second - 62135596800"

subsection \<open>Values\<close>

definition hex_digit :: "int \<Rightarrow> char" where
  "hex_digit n = (if n < 10 then char_byte (48 + n) else char_byte (87 + n))"

definition u_escape :: "int \<Rightarrow> string" where
  "u_escape n = [CHR 0x5C, CHR ''u'', hex_digit (n div 4096 mod 16), hex_digit (n div 256 mod 16),
     hex_digit (n div 16 mod 16), hex_digit (n mod 16)]"

definition html_char :: "char \<Rightarrow> bool" where
  "html_char c \<longleftrightarrow> c = CHR ''<'' \<or> c = CHR ''>'' \<or> c = CHR ''&''"

definition escape_ascii :: "bool \<Rightarrow> char \<Rightarrow> string" where
  "escape_ascii html c =
     (if c = CHR 0x22 \<or> c = CHR 0x5C then [CHR 0x5C, c]
      else if c = CHR 0x0A then [CHR 0x5C, CHR ''n'']
      else if c = CHR 0x0D then [CHR 0x5C, CHR ''r'']
      else if c = CHR 0x09 then [CHR 0x5C, CHR ''t'']
      else if byte c < (32 :: nat) \<or> (html \<and> html_char c) then u_escape (ibyte c)
      else [c])"

function encode_chars :: "bool \<Rightarrow> string \<Rightarrow> string" where
  "encode_chars html s =
     (case s of
        [] \<Rightarrow> []
      | c # r \<Rightarrow>
          if byte c < (128 :: nat) then escape_ascii html c @ encode_chars html r
          else
            (let (cp, w) = decode_rune (c # r) in
             (if cp = replacement_rune \<and> w = 1 then u_escape replacement_rune
              else if cp = 0x2028 \<or> cp = 0x2029 then u_escape cp
              else take w (c # r)) @ encode_chars html (drop (w - 1) r)))"
  by pat_completeness auto
termination
  by (relation "measure (\<lambda>(html, s). length s)") auto

declare encode_chars.simps [simp del]

definition encode_string :: "bool \<Rightarrow> string \<Rightarrow> string" where
  "encode_string html s = [CHR 0x22] @ encode_chars html s @ [CHR 0x22]"

fun encode_json :: "bool \<Rightarrow> json \<Rightarrow> string" where
  "encode_json html JNull = ''null''"
| "encode_json html (JBool b) = (if b then ''true'' else ''false'')"
| "encode_json html (JNum n) = n"
| "encode_json html (JStr s) = encode_string html s"
| "encode_json html (JTime t) = encode_string html (rfc3339 t)"
| "encode_json html (JArr vs) = ''['' @ join (map (encode_json html) vs) '','' @ '']''"
| "encode_json html (JObj ms) =
     ''{'' @ join (map (\<lambda>m. encode_string html (fst m) @ '':'' @ encode_json html (snd m)) ms) '','' @ ''}''"

fun last_members :: "(string \<times> 'a) list \<Rightarrow> (string \<times> 'a) list" where
  \<comment> \<open>the members of an object as a map: the last one of a name counts\<close>
  "last_members [] = []"
| "last_members ((k, v) # ms) =
     (if k \<in> fst ` set ms then last_members ms else (k, v) # last_members ms)"

definition sort_members :: "(string \<times> 'a) list \<Rightarrow> (string \<times> 'a) list" where
  \<comment> \<open>the order in which a map is encoded\<close>
  "sort_members ms = sort_key fst ms"

lemma set_last_members: "set (last_members ms) \<subseteq> set ms"
  by (induction ms rule: last_members.induct) auto

lemma keys_last_members: "fst ` set (last_members ms) = fst ` set ms"
  by (induction ms rule: last_members.induct) auto

lemma distinct_last_members: "distinct (map fst (last_members ms))"
  by (induction ms rule: last_members.induct) (auto simp: keys_last_members)

end
