(* ===== verification/Storage.thy ===== *)
theory Storage
  imports Encode
begin

text \<open>
  \<open>icap-server/storage/logger.go\<close>: the captured prompts as JSON lines in a rotating log file. The files
  of the log directory are a list of names and contents. What the file system answers is an
  argument: whether opening succeeds, and \<open>None\<close> for a complete write or \<open>Some k\<close> for one that stops
  with an error after \<open>k\<close> bytes.
\<close>

record LogEntry =
  le_Timestamp :: time
  le_Service :: string
  le_Host :: string
  le_Path :: string
  le_Prompt :: string
  le_Triggered :: bool
  le_Severity :: string
  le_RuleIDs :: "string list"
  le_ClientIP :: string
  le_UserID :: string
  le_IdentitySource :: string
  le_Action :: string

definition opt_str :: "string \<Rightarrow> string \<Rightarrow> (string \<times> json) list" where
  \<comment> \<open>a string field with \<open>omitempty\<close>\<close>
  "opt_str name s = (if s = [] then [] else [(name, JStr s)])"

definition enc_LogEntry :: "LogEntry \<Rightarrow> json" where
  "enc_LogEntry e = JObj
     ([(''timestamp'', JTime (le_Timestamp e)), (''service'', JStr (le_Service e)),
       (''host'', JStr (le_Host e)), (''path'', JStr (le_Path e)), (''prompt'', JStr (le_Prompt e)),
       (''triggered'', JBool (le_Triggered e))]
      @ opt_str ''severity'' (le_Severity e)
      @ (if le_RuleIDs e = [] then [] else [(''rule_ids'', JArr (map JStr (le_RuleIDs e)))])
      @ [(''client_ip'', JStr (le_ClientIP e))]
      @ opt_str ''user_id'' (le_UserID e)
      @ opt_str ''identity_source'' (le_IdentitySource e)
      @ opt_str ''action'' (le_Action e))"

definition log_line :: "LogEntry \<Rightarrow> string" where
  "log_line e = encode_json True (enc_LogEntry e) @ [CHR 0x0A]"

subsection \<open>The logger\<close>

record logger =
  lg_name :: string                        \<comment> \<open>the file \<open>l.file\<close> was opened as\<close>
  lg_open :: bool
  lg_written :: int
  lg_maxSize :: int
  lg_files :: "(string \<times> string) list"    \<comment> \<open>the log directory\<close>

definition defaultMaxSize :: int where "defaultMaxSize = 10485760"

definition append_file :: "string \<Rightarrow> string \<Rightarrow> (string \<times> string) list \<Rightarrow> (string \<times> string) list" where
  \<comment> \<open>\<open>O_CREATE|O_APPEND\<close>\<close>
  "append_file name data fs =
     (if find_by fst name fs = None then fs @ [(name, data)]
      else update_first fst name (\<lambda>(n, c). (n, c @ data)) fs)"

definition log_name :: "time \<Rightarrow> string" where
  "log_name now = ''prompts_'' @ file_stamp now @ ''.jsonl''"

definition open_log :: "bool \<Rightarrow> time \<Rightarrow> logger \<Rightarrow> bool \<times> logger" where
  \<comment> \<open>\<open>False\<close>: an error is returned\<close>
  "open_log ok now l =
     (if \<not> ok then (False, l)
      else (True, l\<lparr>lg_name := log_name now, lg_open := True, lg_written := 0,
                    lg_files := append_file (log_name now) [] (lg_files l)\<rparr>))"

definition NewLogger :: "bool \<Rightarrow> bool \<Rightarrow> time \<Rightarrow> (string \<times> string) list \<Rightarrow> logger option" where
  "NewLogger mkdir_ok open_ok now fs =
     (if \<not> mkdir_ok then None
      else (case open_log open_ok now \<lparr>lg_name = [], lg_open = False, lg_written = 0,
                   lg_maxSize = defaultMaxSize, lg_files = fs\<rparr> of
              (True, l) \<Rightarrow> Some l | _ \<Rightarrow> None))"

definition rotate_log :: "bool \<Rightarrow> time \<Rightarrow> logger \<Rightarrow> bool \<times> logger" where
  "rotate_log ok now l = open_log ok now (l\<lparr>lg_open := False\<rparr>)"

definition Write_log :: "bool \<Rightarrow> nat option \<Rightarrow> time \<Rightarrow> LogEntry \<Rightarrow> logger \<Rightarrow> bool \<times> logger" where
  "Write_log open_ok short now e l =
     (let data = log_line e;
          (ok, l') = (if lg_written l + int (length data) > lg_maxSize l
                      then rotate_log open_ok now l else (True, l))
      in if \<not> ok then (False, l')
         else if \<not> lg_open l' then (False, l')
         else (let out = (case short of None \<Rightarrow> data | Some k \<Rightarrow> take k data) in
               (short = None,
                l'\<lparr>lg_written := lg_written l' + int (length out),
                   lg_files := append_file (lg_name l') out (lg_files l')\<rparr>)))"

definition Close_log :: "logger \<Rightarrow> logger" where
  "Close_log l = l\<lparr>lg_open := False\<rparr>"

subsection \<open>The size of the files\<close>

definition file_names :: "logger \<Rightarrow> string list" where
  "file_names l = map fst (lg_files l)"

definition rotates :: "LogEntry \<Rightarrow> logger \<Rightarrow> bool" where
  "rotates e l \<longleftrightarrow> lg_written l + int (length (log_line e)) > lg_maxSize l"

inductive log_run :: "(string \<times> string) list \<Rightarrow> logger \<Rightarrow> bool" for fs where
  \<comment> \<open>a logger at work in a directory that held \<open>fs\<close>; no file is opened under a name in use\<close>
  log_start: "NewLogger True True now fs = Some l \<Longrightarrow> log_name now \<notin> fst ` set fs \<Longrightarrow>
     distinct (map fst fs) \<Longrightarrow> log_run fs l"
| log_write: "log_run fs l \<Longrightarrow> (rotates e l \<Longrightarrow> log_name now \<notin> set (file_names l)) \<Longrightarrow>
     log_run fs (snd (Write_log open_ok short now e l))"

definition small_file :: "string \<Rightarrow> bool" where
  "small_file c \<longleftrightarrow> int (length c) \<le> defaultMaxSize \<or> (\<exists>e. length c \<le> length (log_line e))"

definition log_inv :: "(string \<times> string) list \<Rightarrow> logger \<Rightarrow> bool" where
  "log_inv fs l \<longleftrightarrow> lg_maxSize l = defaultMaxSize \<and> distinct (file_names l)
     \<and> fst ` set fs \<subseteq> set (file_names l)
     \<and> (\<forall>(n, c) \<in> set (lg_files l). n \<in> fst ` set fs \<or> small_file c)
     \<and> (lg_open l \<longrightarrow> lg_name l \<notin> fst ` set fs
          \<and> (\<exists>c. find_by fst (lg_name l) (lg_files l) = Some (lg_name l, c)
                 \<and> lg_written l = int (length c)))"

lemma in_keys: "(k, v) \<in> set fs \<Longrightarrow> k \<in> fst ` set fs"
  by force

lemma names_append_file:
  "map fst (append_file n d fs) = (if n \<in> fst ` set fs then map fst fs else map fst fs @ [n])"
proof -
  have "map fst (update_first fst n (\<lambda>(n, c). (n, c @ d)) fs) = map fst fs"
    by (induction fs) auto
  then show ?thesis by (simp add: append_file_def find_by_None_iff)
qed

lemma keys_append_file: "fst ` set (append_file n d fs) = insert n (fst ` set fs)"
  using arg_cong [OF names_append_file [of n d fs], of set] by auto

lemma find_append_file:
  "find_by fst n (append_file n d fs) =
     Some (n, (case find_by fst n fs of None \<Rightarrow> [] | Some (_, c) \<Rightarrow> c) @ d)"
proof (cases "find_by fst n fs")
  case None
  then show ?thesis by (simp add: append_file_def find_by_append)
next
  case (Some p)
  then show ?thesis
    using find_by_SomeD [OF Some]
    by (cases p) (auto simp: append_file_def intro!: trans [OF find_by_update_first])
qed

lemma set_append_file:
  "p \<in> set (append_file n d fs) \<Longrightarrow>
     p \<in> set fs \<or> p = (n, (case find_by fst n fs of None \<Rightarrow> [] | Some (_, c) \<Rightarrow> c) @ d)"
  by (induction fs) (auto simp: append_file_def find_by_append split: if_splits option.splits)

lemma log_inv_open:
  assumes "log_inv fs l" and "log_name now \<notin> set (file_names l)"
  shows "log_inv fs (snd (open_log ok now (l\<lparr>lg_open := False\<rparr>)))"
proof (cases ok)
  case True
  have "find_by fst (log_name now) (lg_files l) = None"
    using assms(2) by (simp add: find_by_None_iff file_names_def)
  then show ?thesis
    using assms True
    by (auto simp: log_inv_def open_log_def file_names_def append_file_def find_by_append
        small_file_def defaultMaxSize_def)
qed (use assms in \<open>auto simp: log_inv_def open_log_def file_names_def\<close>)

lemma log_inv_append:
  assumes inv: "log_inv fs l" and op: "lg_open l"
    and fit: "\<not> rotates e l \<or> lg_written l = 0" and out: "length out \<le> length (log_line e)"
  shows "log_inv fs (l\<lparr>lg_written := lg_written l + int (length out),
                       lg_files := append_file (lg_name l) out (lg_files l)\<rparr>)"
proof -
  obtain c where c: "find_by fst (lg_name l) (lg_files l) = Some (lg_name l, c)"
      "lg_written l = int (length c)"
    using inv op by (auto simp: log_inv_def)
  have "small_file (c @ out)"
    using fit out c(2) inv
    by (auto simp: small_file_def rotates_def log_inv_def intro: le_trans)
  moreover have "distinct (map fst (append_file (lg_name l) out (lg_files l)))"
    using inv by (simp add: names_append_file log_inv_def file_names_def)
  ultimately show ?thesis
    using inv c op
    by (auto simp: log_inv_def file_names_def find_append_file keys_append_file dest: in_keys
        dest!: set_append_file)
qed

lemma log_inv_write:
  assumes inv: "log_inv fs l" and fresh: "rotates e l \<Longrightarrow> log_name now \<notin> set (file_names l)"
  shows "log_inv fs (snd (Write_log open_ok short now e l))"
proof -
  define out where "out = (case short of None \<Rightarrow> log_line e | Some k \<Rightarrow> take k (log_line e))"
  have out: "length out \<le> length (log_line e)" by (simp add: out_def split: option.splits)
  obtain ok l' where r: "(if rotates e l then rotate_log open_ok now l else (True, l)) = (ok, l')"
    by fastforce
  have inv': "log_inv fs l'"
    using r inv log_inv_open [OF inv fresh, of open_ok]
    by (auto simp: rotate_log_def split: if_splits)
  have w0: "\<not> rotates e l' \<or> lg_written l' = 0" if "ok"
    using r that by (auto simp: rotate_log_def open_log_def split: if_splits)
  have "snd (Write_log open_ok short now e l) =
     (if ok \<and> lg_open l' then l'\<lparr>lg_written := lg_written l' + int (length out),
         lg_files := append_file (lg_name l') out (lg_files l')\<rparr> else l')"
    using r by (simp add: Write_log_def rotates_def out_def Let_def)
  then show ?thesis using inv' log_inv_append [OF inv' _ w0 out] by simp
qed


definition sample_entry :: LogEntry where
  "sample_entry = \<lparr>le_Timestamp = 0, le_Service = ''ChatGPT'', le_Host = ''h'', le_Path = ''/'',
     le_Prompt = lit ''a~nb'', le_Triggered = True, le_Severity = ''high'', le_RuleIDs = [''R:d''],
     le_ClientIP = ''c'', le_UserID = [], le_IdentitySource = ''ip-only'', le_Action = ''warned''\<rparr>"

definition sample_logger :: logger where
  "sample_logger = snd (Write_log True None 0 sample_entry (the (NewLogger True True 0 [])))"


end
