(* ===== verification/Log_Lines.thy ===== *)
theory Log_Lines
  imports Storage
begin

text \<open>
  The framing of the log: no byte of an encoded entry is a control character, so a log file splits
  into its entries.
\<close>

subsection \<open>The bytes of an encoding\<close>

lemma ibyte_byte: "ibyte c = int (byte c)"
  by (simp add: of_char_def)

lemma cont_byte_high: "cont_byte c \<Longrightarrow> 128 \<le> ibyte c"
  by (simp add: cont_byte_def ibyte_byte)

lemma decode_rune_tail:
  "list_all (\<lambda>x. 128 \<le> ibyte x) (take (snd (decode_rune (b # r)) - 1) r)"
proof -
  consider "r = []" | d where "r = [d]" | d e where "r = [d, e]" | d e f q where "r = d # e # f # q"
    by (metis list.exhaust)
  then show ?thesis
    by cases (simp_all add: decode_rune_def Let_def cont_byte_high)
qed

lemma decode_rune_high:
  assumes "c \<in> set (take (snd (decode_rune (b # r))) (b # r))" and "128 \<le> ibyte b"
  shows "128 \<le> ibyte c"
proof -
  have "c = b \<or> c \<in> set (take (snd (decode_rune (b # r)) - 1) r)"
    using assms(1) by (cases "snd (decode_rune (b # r))") auto
  then show ?thesis using decode_rune_tail [of b r] assms(2) by (auto simp: list_all_iff)
qed

lemma hex_digit_range: "0 \<le> n \<Longrightarrow> n < 16 \<Longrightarrow> 48 \<le> ibyte (hex_digit n)"
proof -
  have "list_all (\<lambda>n. 48 \<le> ibyte (hex_digit n)) [0..15]" by code_simp
  then show "0 \<le> n \<Longrightarrow> n < 16 \<Longrightarrow> 48 \<le> ibyte (hex_digit n)" by (auto simp: list_all_iff)
qed

lemma dec_digit_range: "48 \<le> ibyte (dec_digit n)"
proof -
  have "list_all (\<lambda>n. 48 \<le> ibyte (char_byte (48 + n))) [0..9]" by code_simp
  then show ?thesis by (auto simp: list_all_iff dec_digit_def)
qed
definition printable :: "string \<Rightarrow> bool" where
  \<comment> \<open>no control characters\<close>
  "printable s \<longleftrightarrow> (\<forall>c \<in> set s. 32 \<le> ibyte c)"

lemma printable_simps [simp]:
  "printable []" "printable (a @ b) \<longleftrightarrow> printable a \<and> printable b"
  "printable (c # s) \<longleftrightarrow> 32 \<le> ibyte c \<and> printable s"
  by (auto simp: printable_def)

lemma printable_join: "printable sep \<Longrightarrow> (\<And>x. x \<in> set xs \<Longrightarrow> printable x) \<Longrightarrow> printable (join xs sep)"
  by (induction xs sep rule: join.induct) auto

lemma printable_u_escape: "printable (u_escape n)"
proof -
  have "32 \<le> ibyte (hex_digit m)" if "0 \<le> m" "m < 16" for m
    using hex_digit_range [OF that] by simp
  then show ?thesis by (simp add: u_escape_def)
qed

lemma printable_escape_ascii: "printable (escape_ascii html c)"
  using printable_u_escape by (auto simp: escape_ascii_def ibyte_byte)

lemma printable_rune:
  assumes "\<not> byte b < (128 :: nat)"
  shows "printable (take (snd (decode_rune (b # r))) (b # r))"
proof -
  have "128 \<le> ibyte b" using assms by (simp add: ibyte_byte)
  then have "128 \<le> ibyte c" if "c \<in> set (take (snd (decode_rune (b # r))) (b # r))" for c
    by (rule decode_rune_high [OF that])
  then show ?thesis unfolding printable_def by fastforce
qed

lemma printable_encode_chars: "printable (encode_chars html s)"
proof (induction html s rule: encode_chars.induct)
  case (1 html s)
  show ?case
  proof (cases s)
    case (Cons b r)
    obtain cp w where d: "decode_rune (b # r) = (cp, w)" by (cases "decode_rune (b # r)")
    show ?thesis
    proof (cases "byte b < (128 :: nat)")
      case True
      then show ?thesis using "1.IH"(1) [OF Cons True]
        unfolding Cons by (subst encode_chars.simps) (simp add: printable_escape_ascii)
    next
      case False
      then have "printable (encode_chars html (drop (w - 1) r))"
        using "1.IH"(2) [OF Cons False] d by simp
      moreover have "printable (take w (b # r))" using printable_rune [OF False, of r] by (simp only: d snd_conv)
      ultimately show ?thesis using False d
        unfolding Cons by (subst encode_chars.simps) (simp add: printable_u_escape del: take_Cons')
    qed
  qed (simp add: encode_chars.simps)
qed

lemma printable_encode_string: "printable (encode_string html s)"
  by (simp add: encode_string_def printable_encode_chars)

fun numbers_printable :: "json \<Rightarrow> bool" where
  "numbers_printable (JNum n) = printable n"
| "numbers_printable (JArr vs) = list_all numbers_printable vs"
| "numbers_printable (JObj ms) = list_all (\<lambda>m. numbers_printable (snd m)) ms"
| "numbers_printable j = True"

lemma printable_encode_json: "numbers_printable v \<Longrightarrow> printable (encode_json html v)"
  by (induction html v rule: encode_json.induct)
    (auto simp: printable_encode_string list_all_iff intro!: printable_join)

subsection \<open>One line for an entry\<close>

subsection \<open>One line for an entry\<close>

lemma split_n_sep_free:
  assumes "c \<notin> set x"
  shows "split_n (Suc (Suc n)) (x @ c # s) [c] = x # split_n (Suc n) s [c]"
proof -
  have "index (x @ c # s) [c] = Some (length x)"
    using assms by (induction x) (auto simp: has_prefix_iff)
  then show ?thesis by simp
qed

lemma split_n_lines:
  assumes "\<And>x. x \<in> set xs \<Longrightarrow> c \<notin> set x" and "length xs \<le> n"
  shows "split_n (Suc n) (concat (map (\<lambda>x. x @ [c]) xs)) [c] = xs @ [[]]"
  using assms
proof (induction xs arbitrary: n)
  case Nil
  then show ?case by (cases n) (simp_all add: has_prefix_iff)
next
  case (Cons x xs)
  then obtain m where n: "n = Suc m" by (cases n) auto
  have "c \<notin> set x" using Cons.prems(1) by simp
  from split_n_sep_free [OF this, of m "concat (map (\<lambda>x. x @ [c]) xs)"]
  show ?case using Cons.IH [of m] Cons.prems by (simp add: n)
qed

lemma numbers_printable_LogEntry: "numbers_printable (enc_LogEntry e)"
  by (simp add: enc_LogEntry_def opt_str_def list_all_iff)

text \<open>
  The log is one JSON document per line: whatever text a prompt, a path or a header carries, an
  encoded entry holds no line break, so splitting a file at its line breaks gives back exactly the
  entries that were appended and no entry can forge another.
\<close>
theorem log_splits_into_entries:
  "split (concat (map log_line es)) [CHR 0x0A] = map (\<lambda>e. encode_json True (enc_LogEntry e)) es @ [[]]"
proof -
  let ?xs = "map (\<lambda>e. encode_json True (enc_LogEntry e)) es"
  have nl: "CHR 0x0A \<notin> set (encode_json True (enc_LogEntry e))" for e
    using printable_encode_json [OF numbers_printable_LogEntry, of True e]
    by (fastforce simp: printable_def)
  have cat: "concat (map log_line es) = concat (map (\<lambda>x. x @ [CHR 0x0A]) ?xs)"
    by (simp add: comp_def log_line_def [abs_def])
  have "length es \<le> length (concat (map log_line es))"
    by (induction es) (simp_all add: log_line_def)
  then show ?thesis
    unfolding split_def cat by (subst split_n_lines) (auto simp: nl)
qed

end
