(* ===== verification/Json_Text.thy ===== *)
theory Json_Text
  imports Log_Lines
begin

text \<open>
  What \<open>json.Unmarshal\<close> reads of what \<open>json.Marshal\<close> wrote: the scanner of \<open>Json\<close> inverts the encoder of \<open>Encode\<close> on every
  value without numbers. Strings come back with the bytes that are not UTF-8 replaced; an instant comes back as its
  text. The two programs that share log files and the two ends of an enrollment exchange such texts.
\<close>

subsection \<open>Escapes\<close>

lemma hex_digit_val: "0 \<le> m \<Longrightarrow> m < 16 \<Longrightarrow> digit_val (hex_digit m) = Some (nat m)"
proof -
  assume "0 \<le> m" "m < 16"
  then have "m \<in> set [0..15]" unfolding set_upto by simp
  moreover have "set [0..15] = {0, 1, 2, 3, 4, 5, 6, 7, 8, 9, 10, 11, 12, 13, 14, 15 :: int}" by (simp add: upto.simps)
  ultimately have "m \<in> {0, 1, 2, 3, 4, 5, 6, 7, 8, 9, 10, 11, 12, 13, 14, 15}" by (simp only:)
  then show ?thesis
    by (elim insertE emptyE) (simp_all add: hex_digit_def char_byte_def digit_val_def)
qed

lemma hex_sum: "n = a * 16 + d \<Longrightarrow> a = b * 16 + c \<Longrightarrow> b = e * 16 + f \<Longrightarrow> ((e * 16 + f) * 16 + c) * 16 + d = (n :: int)"
  by simp

lemma int_hex: "0 \<le> a \<Longrightarrow> 0 \<le> b \<Longrightarrow> 0 \<le> c \<Longrightarrow> 0 \<le> d \<Longrightarrow>
    int (((nat a * 16 + nat b) * 16 + nat c) * 16 + nat d) = ((a * 16 + b) * 16 + c) * 16 + d"
  by simp

lemma hex4_u_escape:
  assumes "0 \<le> n" and "n < 65536"
  shows "hex4 (drop 2 (u_escape n) @ t) = Some n"
proof -
  let ?d = "\<lambda>k. n div k mod 16"
  have d: "digit_val (hex_digit (?d k)) = Some (nat (?d k))" and l: "nat (?d k) < 16" for k
    by (simp_all add: hex_digit_val nat_less_iff)
  have d1: "digit_val (hex_digit (n mod 16)) = Some (nat (n mod 16))" and l1: "nat (n mod 16) < 16"
    by (simp_all add: hex_digit_val nat_less_iff)
  have "int (((nat (?d 4096) * 16 + nat (?d 256)) * 16 + nat (?d 16)) * 16 + nat (n mod 16)) = n"
  proof -
    have "n div 16 div 16 = n div 256" and "n div 256 div 16 = n div 4096"
      by (simp_all add: zdiv_zmult2_eq [symmetric])
    then have q: "n = n div 16 * 16 + n mod 16" "n div 16 = n div 256 * 16 + ?d 16" "n div 256 = n div 4096 * 16 + ?d 256"
      using div_mult_mod_eq [of "n div 16" 16] div_mult_mod_eq [of "n div 256" 16] by simp_all
    have "?d 4096 = n div 4096" using assms by simp
    then have "((?d 4096 * 16 + ?d 256) * 16 + ?d 16) * 16 + n mod 16 = n" using hex_sum [OF q] by (simp only:)
    moreover have "0 \<le> ?d k" and "0 \<le> n mod 16" for k by simp_all
    ultimately show ?thesis by (simp only: int_hex)
  qed
  then show ?thesis
    by (simp add: u_escape_def hex4_def d d1 l l1 del: of_nat_add of_nat_mult)
qed

lemma scan_u_escape:
  assumes "0 \<le> n" and "n < 65536" and "\<not> surrogate n"
  shows "scan_string (u_escape n @ t) = map_option (apfst ((@) (utf8_enc n))) (scan_string t)"
proof -
  obtain a b c d where u: "u_escape n = [CHR 0x5C, CHR ''u'', a, b, c, d]" by (simp add: u_escape_def)
  have "hex4 (a # b # c # d # t) = Some n" using hex4_u_escape [OF assms(1,2), of t] by (simp add: u)
  then show ?thesis
    using assms(3) by (subst scan_string.simps) (simp add: u unicode_escape_def)
qed

text \<open>Runes of several bytes: a rune that decodes does so again, whatever follows it.\<close>

lemma decode_rune_take:
  assumes "decode_rune (c # r) = (cp, w)" and "\<not> byte c < (128 :: nat)" and "\<not> (cp = replacement_rune \<and> w = 1)"
  shows "decode_rune (take w (c # r) @ t) = (cp, w) \<and> 2 \<le> w \<and> w \<le> length (c # r)"
proof -
  have high: "\<not> ibyte c < 128" "\<not> ibyte c < 194" "ibyte c < 245"
    using assms by (auto simp: decode_rune_def ibyte_byte replacement_rune_def Let_def split: if_splits)
  note run = decode_rune_def Let_def
  consider (two) "ibyte c < 224" | (three) "\<not> ibyte c < 224" "ibyte c < 240" | (four) "\<not> ibyte c < 240" by linarith
  then show ?thesis
  proof cases
    case two
    then obtain d r' where "r = d # r'" using assms(1,3) high by (cases r) (simp_all add: run)
    then show ?thesis using assms(1,3) high two by (simp add: run split: if_splits)
  next
    case three
    then obtain d e r' where r: "r = d # e # r'"
      using assms(1,3) high by (cases r; cases "tl r") (simp_all add: run)
    then show ?thesis using assms(1,3) high three by (simp add: run split: if_splits)
  next
    case four
    then obtain d e f r' where r: "r = d # e # f # r'"
      using assms(1,3) high by (cases r; cases "tl r"; cases "tl (tl r)") (simp_all add: run)
    then show ?thesis using assms(1,3) high four by (simp add: run split: if_splits)
  qed
qed

subsection \<open>Strings\<close>

function sanitize :: "string \<Rightarrow> string" where
  \<comment> \<open>a string after a round trip\<close>
  "sanitize s =
     (case s of
        [] \<Rightarrow> []
      | c # r \<Rightarrow>
          if byte c < (128 :: nat) then c # sanitize r
          else
            (let (cp, w) = decode_rune (c # r) in
             (if cp = replacement_rune then replacement_bytes
              else if cp = 0x2028 \<or> cp = 0x2029 then utf8_enc cp
              else take w (c # r)) @ sanitize (drop (w - 1) r)))"
  by pat_completeness auto
termination
  by (relation "measure length") auto

declare sanitize.simps [simp del]

lemma sanitize_ascii: "is_ascii s \<Longrightarrow> sanitize s = s"
  by (induction s) (simp_all add: sanitize.simps is_ascii_def)

lemma char_byte_ibyte: "char_byte (ibyte c) = c"
proof -
  have "list_all (\<lambda>c. char_byte (ibyte c) = c) Enum.enum" by code_simp
  then show ?thesis by (simp add: list_all_iff enum_UNIV)
qed

lemma scan_escape_ascii:
  assumes "byte c < (128 :: nat)"
  shows "scan_string (escape_ascii html c @ t) = map_option (apfst ((#) c)) (scan_string t)"
proof -
  have simple: "scan_string ([CHR 0x5C, e] @ t) = map_option (apfst ((#) d)) (scan_string t)"
    if "simple_escape e = Some d" "e \<noteq> CHR ''u''" for d e
    using that by (subst scan_string.simps) simp
  have "ibyte c < 128" and "0 \<le> ibyte c" using assms by (simp_all add: ibyte_byte)
  moreover from this have "utf8_enc (ibyte c) = [c]"
    by (simp add: utf8_enc_def char_byte_ibyte)
  moreover have "((@) [c]) = ((#) c)" by auto
  ultimately have u: "scan_string (u_escape (ibyte c) @ t) = map_option (apfst ((#) c)) (scan_string t)"
    using scan_u_escape [of "ibyte c" t] by (simp add: surrogate_def comp_def)
  have plain: "scan_string ([c] @ t) = map_option (apfst ((#) c)) (scan_string t)"
    if "c \<noteq> CHR 0x22" "c \<noteq> CHR 0x5C" "\<not> byte c < (32 :: nat)"
    using that assms by (subst scan_string.simps) simp
  consider "c = CHR 0x22 \<or> c = CHR 0x5C" | "c = CHR 0x0A" | "c = CHR 0x0D" | "c = CHR 0x09"
    | "c \<noteq> CHR 0x22" "c \<noteq> CHR 0x5C" "c \<noteq> CHR 0x0A" "c \<noteq> CHR 0x0D" "c \<noteq> CHR 0x09" by blast
  then show ?thesis
  proof cases
    case 1
    then show ?thesis using simple [of c c] by (auto simp: escape_ascii_def simple_escape_def)
  next
    case 2
    then show ?thesis using simple [of "CHR ''n''"] by (simp add: escape_ascii_def simple_escape_def)
  next
    case 3
    then show ?thesis using simple [of "CHR ''r''"] by (simp add: escape_ascii_def simple_escape_def)
  next
    case 4
    then show ?thesis using simple [of "CHR ''t''"] by (simp add: escape_ascii_def simple_escape_def)
  next
    case 5
    then show ?thesis using u plain by (simp add: escape_ascii_def)
  qed
qed

lemma scan_rune:
  assumes d: "decode_rune (c # r) = (cp, w)" and high: "\<not> byte c < (128 :: nat)" and ok: "\<not> (cp = replacement_rune \<and> w = 1)"
  shows "scan_string (take w (c # r) @ t) =
     map_option (apfst ((@) (if cp = replacement_rune then replacement_bytes else take w (c # r)))) (scan_string t)"
proof -
  obtain k where w: "w = Suc k" and k: "k \<le> length r"
    using decode_rune_take [OF d high ok, of "[]"] by (cases w) auto
  have dec: "decode_rune (c # take k r @ t) = (cp, w)"
    using decode_rune_take [OF d high ok, of t] by (simp add: w)
  have quote: "c \<noteq> CHR 0x22" "c \<noteq> CHR 0x5C" "\<not> byte c < (32 :: nat)"
    using high by auto
  show ?thesis
    using k by (subst w, subst scan_string.simps) (simp add: dec high quote, simp add: w)
qed

lemma scan_string_encode:
  "scan_string (encode_chars html s @ CHR 0x22 # t) = Some (sanitize s, t)"
proof (induction html s rule: encode_chars.induct)
  case (1 html s)
  show ?case
  proof (cases s)
    case Nil
    then show ?thesis by (simp add: encode_chars.simps sanitize.simps, subst scan_string.simps, simp)
  next
    case (Cons c r)
    note enc = encode_chars.simps [of html "c # r"] and san = sanitize.simps [of "c # r"]
    obtain cp w where d: "decode_rune (c # r) = (cp, w)" by force
    show ?thesis
    proof (cases "byte c < (128 :: nat)")
      case True
      then show ?thesis using "1.IH"(1) [OF Cons True] scan_escape_ascii [OF True, of html "encode_chars html r @ CHR 0x22 # t"]
        unfolding Cons by (simp add: enc san)
    next
      case False
      let ?rest = "encode_chars html (drop (w - 1) r) @ CHR 0x22 # t"
      have IH: "scan_string ?rest = Some (sanitize (drop (w - 1) r), t)"
        using "1.IH"(2) [OF Cons False] d by simp
      have esc: "utf8_enc replacement_rune = replacement_bytes" by code_simp
      have u: "scan_string (u_escape n @ ?rest) = map_option (apfst ((@) (utf8_enc n))) (scan_string ?rest)"
        if "n = replacement_rune \<or> n = 0x2028 \<or> n = 0x2029" for n
        using that by (intro scan_u_escape) (auto simp: surrogate_def replacement_rune_def)
      show ?thesis
      proof (cases "cp = replacement_rune \<and> w = 1")
        case True
        then show ?thesis using False d IH u [of replacement_rune]
          unfolding Cons by (simp add: enc san esc del: take_Cons')
      next
        case valid: False
        then show ?thesis using scan_rune [OF d False valid, of ?rest] False d IH u [of cp]
          unfolding Cons by (auto simp: enc san esc simp del: take_Cons')
      qed
    qed
  qed
qed

lemma scan_encode_string:
  "encode_string html s @ t = CHR 0x22 # (encode_chars html s @ CHR 0x22 # t)"
  by (simp add: encode_string_def)

subsection \<open>Values\<close>

fun no_numbers :: "json \<Rightarrow> bool" where
  "no_numbers (JNum n) \<longleftrightarrow> False"
| "no_numbers (JArr vs) \<longleftrightarrow> list_all no_numbers vs"
| "no_numbers (JObj ms) \<longleftrightarrow> list_all (\<lambda>m. no_numbers (snd m)) ms"
| "no_numbers j \<longleftrightarrow> True"

fun as_read :: "json \<Rightarrow> json" where
  \<comment> \<open>a value after a round trip\<close>
  "as_read (JStr s) = JStr (sanitize s)"
| "as_read (JTime t) = JStr (sanitize (rfc3339 t))"
| "as_read (JArr vs) = JArr (map as_read vs)"
| "as_read (JObj ms) = JObj (map (\<lambda>m. (sanitize (fst m), as_read (snd m))) ms)"
| "as_read j = j"

fun calls :: "json \<Rightarrow> nat" where
  \<comment> \<open>the fuel the scanner needs\<close>
  "calls (JArr vs) = Suc (sum_list (map (\<lambda>v. Suc (calls v)) vs))"
| "calls (JObj ms) = Suc (sum_list (map (\<lambda>m. Suc (calls (snd m))) ms))"
| "calls j = 1"

lemma length_join: "length (join xs [c]) = sum_list (map length xs) + (length xs - 1)"
  by (induction xs "[c]" rule: join.induct) auto

lemma calls_le: "no_numbers j \<Longrightarrow> calls j \<le> 2 * length (encode_json html j)"
proof (induction html j rule: encode_json.induct)
  case (6 html vs)
  have "sum_list (map (\<lambda>v. Suc (calls v)) vs) \<le> sum_list (map (\<lambda>v. Suc (2 * length (encode_json html v))) vs)"
    using 6 by (intro sum_list_mono) (auto simp: list_all_iff)
  also have "\<dots> = length vs + 2 * sum_list (map length (map (encode_json html) vs))"
    by (induction vs) simp_all
  finally show ?case by (simp add: length_join del: map_map)
next
  case (7 html ms)
  let ?e = "\<lambda>m. encode_string html (fst m) @ '':'' @ encode_json html (snd m)"
  have "sum_list (map (\<lambda>m. Suc (calls (snd m))) ms) \<le> sum_list (map (\<lambda>m. 2 * length (?e m)) ms)"
    using 7 by (intro sum_list_mono) (fastforce simp: list_all_iff)
  also have "\<dots> = 2 * sum_list (map length (map ?e ms))"
    by (induction ms) simp_all
  finally show ?case by (simp add: length_join del: map_map)
qed (simp_all add: encode_string_def)

lemma skip_ws_plain: "\<not> json_space c \<Longrightarrow> skip_ws (c # s) = c # s"
  by (simp add: skip_ws_def)

lemma json_space_simps [simp]:
  "\<not> json_space (CHR 0x22)" "\<not> json_space (CHR ''['')" "\<not> json_space (CHR '']'')" "\<not> json_space (CHR ''{'')"
  "\<not> json_space (CHR ''}'')" "\<not> json_space (CHR '','')" "\<not> json_space (CHR '':'')"
  "\<not> json_space (CHR ''t'')" "\<not> json_space (CHR ''f'')" "\<not> json_space (CHR ''n'')"
  by (simp_all add: json_space_def)

lemma encode_json_head:
  "no_numbers j \<Longrightarrow> \<exists>c r. encode_json html j @ t = c # r \<and> \<not> json_space c \<and> c \<noteq> CHR '']'' \<and> c \<noteq> CHR ''}''"
  by (cases j) (auto simp: encode_string_def)

lemma scan_elems_encode:
  assumes IH: "\<And>v n t. v \<in> set vs \<Longrightarrow> calls v \<le> n \<Longrightarrow> scan_value n (encode_json html v @ t) = Some (as_read v, t)"
    and "vs \<noteq> []" and "sum_list (map (\<lambda>v. Suc (calls v)) vs) \<le> n"
  shows "scan_elems n (join (map (encode_json html) vs) '','' @ CHR '']'' # t) = Some (map as_read vs, t)"
  using assms
proof (induction vs arbitrary: n)
  case (Cons v vs)
  obtain m where n: "n = Suc m" and m: "calls v \<le> m" using Cons.prems(3) by (cases n) simp_all
  have v: "scan_value m (encode_json html v @ r) = Some (as_read v, r)" for r
    using Cons.prems(1) [of v] m by simp
  show ?case
  proof (cases vs)
    case Nil
    then show ?thesis using v by (simp add: n skip_ws_plain)
  next
    case (Cons w ws)
    have "scan_elems m (join (map (encode_json html) vs) '','' @ CHR '']'' # t) = Some (map as_read vs, t)"
      using Cons.IH [of m] Cons.prems Cons n by simp
    then show ?thesis using v Cons by (simp add: n skip_ws_plain)
  qed
qed simp

lemma scan_members_encode:
  fixes html defines "e \<equiv> \<lambda>m. encode_string html (fst m) @ '':'' @ encode_json html (snd m)"
  assumes IH: "\<And>m n t. m \<in> set ms \<Longrightarrow> calls (snd m) \<le> n \<Longrightarrow>
      scan_value n (encode_json html (snd m) @ t) = Some (as_read (snd m), t)"
    and "ms \<noteq> []" and "sum_list (map (\<lambda>m. Suc (calls (snd m))) ms) \<le> n"
  shows "scan_members n (join (map e ms) '','' @ CHR ''}'' # t) = Some (map (\<lambda>m. (sanitize (fst m), as_read (snd m))) ms, t)"
  using assms(2-)
proof (induction ms arbitrary: n)
  case (Cons p ms)
  obtain k where n: "n = Suc k" and k: "calls (snd p) \<le> k" using Cons.prems(3) by (cases n) simp_all
  have v: "scan_value k (encode_json html (snd p) @ r) = Some (as_read (snd p), r)" for r
    using Cons.prems(1) [of p] k by simp
  have key: "e p @ r = CHR 0x22 # (encode_chars html (fst p) @ CHR 0x22 # (CHR '':'' # (encode_json html (snd p) @ r)))" for r
    by (simp add: e_def encode_string_def)
  show ?case
  proof (cases ms)
    case Nil
    then show ?thesis using v by (simp add: n skip_ws_plain key scan_string_encode)
  next
    case (Cons q qs)
    have "scan_members k (join (map e ms) '','' @ CHR ''}'' # t) = Some (map (\<lambda>m. (sanitize (fst m), as_read (snd m))) ms, t)"
      using Cons.IH [of k] Cons.prems Cons n by simp
    then show ?thesis using v Cons by (simp add: n skip_ws_plain key scan_string_encode)
  qed
qed simp

lemma scan_value_encode:
  "no_numbers j \<Longrightarrow> calls j \<le> n \<Longrightarrow> scan_value n (encode_json html j @ t) = Some (as_read j, t)"
proof (induction html j arbitrary: n t rule: encode_json.induct)
  case (6 html vs)
  obtain m where n: "n = Suc m" and m: "sum_list (map (\<lambda>v. Suc (calls v)) vs) \<le> m" using 6(3) by (cases n) simp_all
  have IH: "scan_value k (encode_json html v @ r) = Some (as_read v, r)" if "v \<in> set vs" "calls v \<le> k" for v k r
    using 6(1) [OF that(1)] 6(2) that by (simp add: list_all_iff)
  show ?case
  proof (cases vs)
    case Nil
    then show ?thesis by (simp add: n skip_ws_plain)
  next
    case (Cons v ws)
    have "no_numbers v" using 6(2) Cons by simp
    then obtain c r where h: "join (map (encode_json html) vs) '','' @ CHR '']'' # t = c # r" "\<not> json_space c" "c \<noteq> CHR '']''"
      using encode_json_head [of v html] Cons by (cases ws) (fastforce+)
    have "scan_elems m (c # r) = Some (map as_read vs, t)"
      using scan_elems_encode [OF IH _ m, of t] Cons h(1) by simp
    then show ?thesis using h by (simp add: n skip_ws_plain)
  qed
next
  case (7 html ms)
  obtain k where n: "n = Suc k" and k: "sum_list (map (\<lambda>m. Suc (calls (snd m))) ms) \<le> k" using 7(3) by (cases n) simp_all
  let ?e = "\<lambda>m. encode_string html (fst m) @ '':'' @ encode_json html (snd m)"
  have IH: "scan_value l (encode_json html (snd m) @ r) = Some (as_read (snd m), r)"
    if "m \<in> set ms" "calls (snd m) \<le> l" for m l r
    using 7(1) [OF that(1)] 7(2) that by (simp add: list_all_iff)
  show ?case
  proof (cases ms)
    case Nil
    then show ?thesis by (simp add: n skip_ws_plain)
  next
    case (Cons p ps)
    obtain r where h: "join (map ?e ms) '','' @ CHR ''}'' # t = CHR 0x22 # r"
      using Cons by (cases ps) (simp_all add: encode_string_def)
    have "scan_members k (CHR 0x22 # r) = Some (map (\<lambda>m. (sanitize (fst m), as_read (snd m))) ms, t)"
      using scan_members_encode [OF IH _ k, where t = t] Cons h by simp
    then show ?thesis using h by (simp add: n skip_ws_plain)
  qed
qed (auto simp: encode_string_def skip_ws_plain scan_string_encode elim!: Suc_le_D [THEN exE])

lemma decode_first_encode:
  "no_numbers j \<Longrightarrow> decode_first (encode_json html j @ t) = Some (as_read j, t)"
  unfolding decode_first_def using calls_le [of j html]
  by (intro scan_value_encode) (auto simp del: scan_value.simps)

lemma unmarshal_any_encode: "no_numbers j \<Longrightarrow> unmarshal_any (encode_json html j) = Some (as_read j)"
  using decode_first_encode [of j html "[]"] by (simp add: unmarshal_any_def skip_ws_def)

lemma is_ascii_simps [simp]:
  "is_ascii []" "is_ascii (c # s) \<longleftrightarrow> byte c < (128 :: nat) \<and> is_ascii s" "is_ascii (s @ t) \<longleftrightarrow> is_ascii s \<and> is_ascii t"
  by (simp_all add: is_ascii_def)

lemma is_ascii_padded: "is_ascii (padded k n)"
proof (induction k arbitrary: n)
  case (Suc k)
  have "list_all (\<lambda>n. ibyte (char_byte (48 + n)) < 128) [0..9]" by code_simp
  then have "ibyte (dec_digit n) < 128" by (auto simp: list_all_iff dec_digit_def)
  then show ?case using Suc by (simp add: ibyte_byte)
qed simp

lemma is_ascii_rfc3339: "is_ascii (rfc3339 t)"
proof -
  have "is_ascii (rev (dropWhile p (rev s)))" if "is_ascii s" for p s
    using that set_dropWhileD [of _ p "rev s"] by (auto simp: is_ascii_def list_all_iff)
  then show ?thesis by (simp add: rfc3339_def is_ascii_padded split_beta Let_def)
qed

lemma dec_members_append:
  "dec_members strict fs r (xs @ ys) =
     (case dec_members strict fs r xs of None \<Rightarrow> None | Some r' \<Rightarrow> dec_members strict fs r' ys)"
  by (induction strict fs r xs rule: dec_members.induct) (auto split: option.split)

end
