(* ===== verification/Fuel.thy ===== *)
theory Fuel
  imports Patterns Json_Text
begin

text \<open>
  The fuel of the model's recursive functions is enough: more of it does not change a result. The functions are the
  scanner of JSON values, the collection of strings in a JSON tree, the iteration of a regular expression, and the
  parser of regular expressions; each step consumes input or goes down one level.
\<close>

subsection \<open>The JSON scanner\<close>

lemma length_skip_ws: "length (skip_ws s) \<le> length s"
  by (simp add: skip_ws_def length_dropWhile_le)

lemma skip_ws_less: "skip_ws s = c # r \<Longrightarrow> length r < length s"
  using length_skip_ws [of s] by simp

lemma scan_string_shorter: "scan_string s = Some (x, t) \<Longrightarrow> length t < length s"
proof (induction s arbitrary: x rule: scan_string.induct)
  case (1 s)
  note IH = "1.IH" and run = "1.prems" [unfolded scan_string.simps [of s]]
  show ?case
  proof (cases s)
    case Nil
    then show ?thesis using run by simp
  next
    case (Cons c r)
    consider (quote) "c = CHR 0x22" | (slash) "c = CHR 0x5C"
      | (ascii) "c \<noteq> CHR 0x22" "c \<noteq> CHR 0x5C" "\<not> byte c < (32 :: nat)" "byte c < (128 :: nat)"
      | (rune) "c \<noteq> CHR 0x22" "c \<noteq> CHR 0x5C" "\<not> byte c < (128 :: nat)"
    proof -
      have "\<not> (byte c < (32 :: nat) \<and> c \<noteq> CHR 0x22 \<and> c \<noteq> CHR 0x5C)" using run Cons by (auto split: if_split_asm)
      then show ?thesis using that by linarith
    qed
    then show ?thesis
    proof cases
      case quote
      then show ?thesis using run Cons by simp
    next
      case slash
      then obtain e r' where r: "r = e # r'" using run Cons by (cases r) simp_all
      show ?thesis
      proof (cases "e = CHR ''u''")
        case True
        then obtain out n x' where "unicode_escape r' = Some (out, n)" "scan_string (drop n r') = Some (x', t)"
          using run Cons r slash by (auto split: option.splits)
        then show ?thesis using IH(1) [OF Cons _ slash r True _ refl] Cons r slash by fastforce
      next
        case False
        then obtain d x' where "simple_escape e = Some d" "scan_string r' = Some (x', t)"
          using run Cons r slash by (auto split: option.splits)
        then show ?thesis using IH(2) [OF Cons _ slash r False] Cons r slash by fastforce
      qed
    next
      case ascii
      then obtain x' where "scan_string r = Some (x', t)" using run Cons by auto
      then show ?thesis using IH(3) [OF Cons] ascii Cons by fastforce
    next
      case rune
      obtain cp w where d: "decode_rune (c # r) = (cp, w)" by force
      then obtain x' where "scan_string (drop (w - 1) r) = Some (x', t)" using run Cons rune by auto
      then show ?thesis using IH(4) [OF Cons _ _ _ _ d [symmetric] refl] rune Cons by fastforce
    qed
  qed
qed

lemma dropped_shorter:
  "(if b then None else Some (a, drop i (drop j (drop k (drop l s))))) = Some (x, t) \<Longrightarrow> length t \<le> length s"
  by (auto split: if_split_asm)

lemma scan_number_shorter: "scan_number s = Some (x, t) \<Longrightarrow> length t \<le> length s"
  unfolding scan_number_def Let_def by (rule dropped_shorter)

lemma scan_shorter:
  "scan_value n s = Some (v, t) \<Longrightarrow> length t \<le> length s"
  "scan_elems n s = Some (vs, t) \<Longrightarrow> length t \<le> length s"
  "scan_members n s = Some (ms, t) \<Longrightarrow> length t \<le> length s"
proof (induction n arbitrary: s v vs ms t)
  case (Suc n)
  note short = Suc.IH [THEN order_trans] length_skip_ws
  {
    case 1
    then show ?case
      by (auto split: list.splits if_splits dest!: skip_ws_less scan_string_shorter scan_number_shorter Suc.IH(2,3))
  next
    case 2
    then show ?case
      by (auto split: list.splits if_splits option.splits dest!: skip_ws_less Suc.IH(1,2))
  next
    case 3
    then show ?case
      by (auto split: list.splits if_splits option.splits dest!: skip_ws_less scan_string_shorter Suc.IH(1,3))
  }
qed simp_all

lemma scan_fuel:
  "2 * length s < n \<Longrightarrow> 2 * length s < m \<Longrightarrow> scan_value n s = scan_value m s"
  "2 * length s + 1 < n \<Longrightarrow> 2 * length s + 1 < m \<Longrightarrow> scan_elems n s = scan_elems m s"
  "2 * length s < n \<Longrightarrow> 2 * length s < m \<Longrightarrow> scan_members n s = scan_members m s"
proof (induction n arbitrary: m s)
  case (Suc n)
  {
    case 1
    then obtain k where m: "m = Suc k" by (cases m) simp_all
    have "scan_elems n r = scan_elems k r" "scan_members n r = scan_members k r" if "skip_ws s = c # r" for c r
      using skip_ws_less [OF that] 1 m by (auto intro!: Suc.IH(2,3))
    then show ?case by (auto simp: m split: list.split)
  next
    case 2
    then obtain k where m: "m = Suc k" by (cases m) simp_all
    have v: "scan_value n s = scan_value k s" using 2 m by (intro Suc.IH(1)) simp_all
    have "scan_elems n r = scan_elems k r" if "scan_value k s = Some (v, t)" "skip_ws t = c # r" for v t c r
      using scan_shorter(1) [OF that(1)] skip_ws_less [OF that(2)] 2 m by (intro Suc.IH(2)) simp_all
    then show ?case by (auto simp: m v split: list.split option.split)
  next
    case 3
    then obtain k where m: "m = Suc k" by (cases m) simp_all
    have v: "scan_value n t = scan_value k t" "scan_members n t = scan_members k t" if "length t < length s" for t
      using that 3 m by (auto intro!: Suc.IH(1,3))
    show ?case
    proof (cases "\<exists>q r kk s1 c s2. skip_ws s = q # r \<and> scan_string r = Some (kk, s1) \<and> skip_ws s1 = c # s2")
      case True
      then obtain q r kk s1 c s2 where st: "skip_ws s = q # r" "scan_string r = Some (kk, s1)" "skip_ws s1 = c # s2" by blast
      have l: "length s2 < length s"
        using skip_ws_less [OF st(1)] scan_string_shorter [OF st(2)] skip_ws_less [OF st(3)] by simp
      have "scan_members n s4 = scan_members k s4" if "scan_value k s2 = Some (w, s3)" "skip_ws s3 = d # s4" for w s3 d s4
        using scan_shorter(1) [OF that(1)] skip_ws_less [OF that(2)] l by (intro v) simp
      then show ?thesis by (auto simp: m st v(1) [OF l] split: list.split option.split)
    next
      case False
      then show ?thesis by (auto simp: m split: list.split option.split)
    qed
  }
qed simp_all

lemma json_scanner_fuel: "2 * length s < n \<Longrightarrow> scan_value n s = decode_first s"
  unfolding decode_first_def by (rule scan_fuel) simp_all

subsection \<open>JSON trees\<close>

lemma foldr_max_le: "foldr (\<lambda>v. max (f v)) vs 0 \<le> (n :: nat) \<longleftrightarrow> (\<forall>v\<in>set vs. f v \<le> n)"
  by (induction vs) auto

lemma json_depth_pos: "0 < json_depth v"
  by (cases v) simp_all

lemma gather_json_fuel:
  assumes ord: "\<And>ms. set (ord ms) \<subseteq> set ms"
  shows "json_depth v \<le> n \<Longrightarrow> json_depth v \<le> m \<Longrightarrow> gather_json ord minLen n v = gather_json ord minLen m v"
proof (induction n arbitrary: m v)
  case 0
  then show ?case using json_depth_pos [of v] by simp
next
  case (Suc n)
  obtain k where m: "m = Suc k" using Suc.prems(2) json_depth_pos [of v] by (cases m) simp_all
  show ?case
  proof (cases v)
    case (JArr vs)
    have "map (gather_json ord minLen n) vs = map (gather_json ord minLen k) vs"
      using Suc.prems m by (intro map_cong refl Suc.IH) (auto simp: JArr foldr_max_le)
    then show ?thesis by (simp only: JArr m gather_json.simps json.case)
  next
    case (JObj ms)
    have "x \<in> set ms" if "x \<in> set (ord (last_members ms))" for x
      using that ord set_last_members by blast
    then have "map (\<lambda>m. gather_json ord minLen n (snd m)) (ord (last_members ms))
        = map (\<lambda>m. gather_json ord minLen k (snd m)) (ord (last_members ms))"
      using Suc.prems m by (intro map_cong refl Suc.IH) (auto simp: JObj foldr_max_le)
    then show ?thesis by (simp only: JObj m gather_json.simps json.case)
  qed (simp_all add: m)
qed

subsection \<open>Regular expressions\<close>

lemma star_iter_fuel:
  "length (ms_rest s) \<le> n \<Longrightarrow> length (ms_rest s) \<le> m \<Longrightarrow> star_iter n g f s = star_iter m g f s"
proof (induction n arbitrary: m s)
  case 0
  then show ?case by (cases m) (simp_all add: Let_def)
next
  case (Suc n)
  show ?case
  proof (cases m)
    case 0
    then show ?thesis using Suc by (simp add: Let_def)
  next
    case m: (Suc k)
    have "map (star_iter n g f) (filter (\<lambda>t. length (ms_rest t) < length (ms_rest s)) (f s))
        = map (star_iter k g f) (filter (\<lambda>t. length (ms_rest t) < length (ms_rest s)) (f s))"
      using Suc m by (intro map_cong) auto
    then show ?thesis by (simp only: m star_iter.simps)
  qed
qed

lemma class_char_shorter: "class_char cs = Some (x, r) \<Longrightarrow> length r < length cs"
  by (auto simp: class_char_def split: list.splits if_split_asm)

lemma parse_class_shorter: "parse_class n first cs = Some (rs, r) \<Longrightarrow> length r < length cs"
proof (induction n arbitrary: first cs rs)
  case (Suc n)
  then obtain c s where cs: "cs = c # s" by (cases cs) simp_all
  have drop: "length r < length (drop 1 l) \<Longrightarrow> length l \<le> k \<Longrightarrow> length r < Suc k" for l :: "rune list" and k
    by simp
  show ?case
  proof (cases "c = 93 \<and> \<not> first")
    case True
    then show ?thesis using Suc.prems by (auto simp: cs)
  next
    case item: False
    let ?k = "if c = 92 then case s of [] \<Rightarrow> None | e # _ \<Rightarrow> perl_class e else None"
    show ?thesis
    proof (cases ?k)
      case (Some p)
      then obtain rs' where "parse_class n False (drop 1 s) = Some (rs', r)"
        using Suc.prems item by (cases p) (auto simp: cs)
      from Suc.IH [OF this] show ?thesis by (simp add: cs)
    next
      case None
      then obtain lo r1 where lo: "class_char cs = Some (lo, r1)"
        using Suc.prems item by (auto simp: cs split: option.splits)
      then have run: "(if starts 45 r1 \<and> drop 1 r1 \<noteq> [] \<and> \<not> starts 93 (drop 1 r1) then
          (case class_char (drop 1 r1) of None \<Rightarrow> None
           | Some (hi, r2) \<Rightarrow> if hi < lo then None else map_option (apfst ((#) (lo, hi))) (parse_class n False r2))
          else map_option (apfst ((#) (lo, lo))) (parse_class n False r1)) = Some (rs, r)"
        using Suc.prems item None by (simp add: cs)
      have l1: "length r1 < length cs" by (rule class_char_shorter [OF lo])
      show ?thesis
      proof (cases "starts 45 r1 \<and> drop 1 r1 \<noteq> [] \<and> \<not> starts 93 (drop 1 r1)")
        case True
        then obtain hi r2 rs' where hi: "class_char (drop 1 r1) = Some (hi, r2)" "parse_class n False r2 = Some (rs', r)"
          using run by (auto split: option.splits if_split_asm)
        show ?thesis using class_char_shorter [OF hi(1)] Suc.IH [OF hi(2)] l1 by simp
      next
        case False
        then obtain rs' where "parse_class n False r1 = Some (rs', r)" using run by (simp only: if_False map_option_eq_Some) auto
        from Suc.IH [OF this] show ?thesis using l1 by simp
      qed
    qed
  qed
qed simp

lemma parse_flags_shorter: "parse_flags n on fl cs = Some (fl', g, r) \<Longrightarrow> length r < length cs"
proof (induction n arbitrary: on fl cs)
  case (Suc n)
  then show ?case by (cases cs) (auto split: if_split_asm dest!: Suc.IH)
qed simp

lemma parse_repeat_shorter: "parse_repeat cs = Some (lo, hi, r) \<Longrightarrow> length r < length cs"
proof -
  have d: "span_digits cs = (x, r) \<Longrightarrow> length r \<le> length cs" for x r and cs :: "rune list"
    by (auto simp: span_digits_def Let_def)
  assume "parse_repeat cs = Some (lo, hi, r)"
  then show ?thesis
    by (auto simp: parse_repeat_def split: prod.splits option.splits list.splits if_split_asm dest!: d)
qed

lemma parse_step_shorter: "parse_step c r ps = Some (r', ps') \<Longrightarrow> length r' \<le> length r"
proof -
  define ok where "ok X \<longleftrightarrow> (\<forall>r' ps'. X = Some (r', ps') \<longrightarrow> length r' \<le> length r)" for X :: "(rune list \<times> pstate) option"
  have ok_if: "ok (if b then X else Y)" if "b \<Longrightarrow> ok X" "\<not> b \<Longrightarrow> ok Y" for b X Y
    using that by simp
  have lazy: "lazy_mark l = (g, l') \<Longrightarrow> length l' \<le> length l" for l g l'
    by (auto simp: lazy_mark_def split: if_split_asm)
  have rep: "ok (case lazy_mark l of (g, l') \<Rightarrow> map_option (\<lambda>ps'. (l', ps')) (apply_repeat lo hi g ps))"
    if "length l \<le> length r" for l lo hi
    using that lazy [of l] by (cases "lazy_mark l") (auto simp: ok_def)
  have flags: "ok (case parse_flags n True fl (drop 1 r) of None \<Rightarrow> None
      | Some (fl', grp, r2) \<Rightarrow> Some (r2, f fl' grp))" for n fl f
    by (auto simp: ok_def split: option.split dest!: parse_flags_shorter)
  have repeat: "ok (case parse_repeat r of None \<Rightarrow> Some (r, q)
      | Some (lo, hi, r1) \<Rightarrow> case lazy_mark r1 of (g, l') \<Rightarrow> map_option (\<lambda>ps'. (l', ps')) (apply_repeat lo hi g ps))" for q
  proof (cases "parse_repeat r")
    case None
    then show ?thesis by (simp add: ok_def)
  next
    case (Some p)
    obtain lo hi r1 where p: "p = (lo, hi, r1)" by (cases p)
    show ?thesis using rep [of r1 lo hi] parse_repeat_shorter [of r lo hi r1] Some by (simp add: p)
  qed
  have cls: "ok (case parse_class n True l of None \<Rightarrow> None | Some (rs, r2) \<Rightarrow> Some (r2, f rs))"
    if "length l \<le> length r" for n l f
    using that by (auto simp: ok_def split: option.split dest!: parse_class_shorter)
  have escape: "ok (case r of [] \<Rightarrow> None | e # r1 \<Rightarrow> map_option (\<lambda>x. (r1, f x)) (parse_escape fl e))" for f fl
    by (auto simp: ok_def split: list.split)
  have pure: "ok (Some (r, q))" "ok (map_option (\<lambda>ps'. (r, ps')) Z)" for q Z
    by (auto simp: ok_def)
  have "ok (parse_step c r ps)"
    unfolding parse_step_def Let_def
    by (intro ok_if rep flags repeat cls escape pure) simp_all
  then show "parse_step c r ps = Some (r', ps') \<Longrightarrow> length r' \<le> length r" by (simp add: ok_def)
qed

lemma parse_loop_fuel:
  "length cs < n \<Longrightarrow> length cs < m \<Longrightarrow> parse_loop n cs ps = parse_loop m cs ps"
proof (induction n arbitrary: m cs ps)
  case (Suc n)
  then obtain k where m: "m = Suc k" by (cases m) simp_all
  have "parse_loop n r' ps' = parse_loop k r' ps'" if "cs = c # r" "parse_step c r ps = Some (r', ps')" for c r r' ps'
    using parse_step_shorter [OF that(2)] that(1) Suc.prems m by (intro Suc.IH) simp_all
  then show ?case by (auto simp: m split: list.split option.split)
qed simp

subsection \<open>Splitting\<close>

lemma index_Nil: "sep \<noteq> [] \<Longrightarrow> index [] sep = None"
  by (cases sep) simp_all

lemma split_n_fuel:
  "sep \<noteq> [] \<Longrightarrow> length s < n \<Longrightarrow> length s < m \<Longrightarrow> split_n n s sep = split_n m s sep"
proof (induction n arbitrary: m s)
  case (Suc n)
  then obtain k where m: "m = Suc k" by (cases m) simp_all
  show ?case
  proof (cases "index s sep")
    case None
    then show ?thesis by (cases n; cases k) (simp_all add: m)
  next
    case (Some i)
    then have "s \<noteq> []" using index_Nil [OF Suc.prems(1)] by auto
    then have s: "length (drop (i + length sep) s) < length s" using Suc.prems(1) by (cases s; cases sep) simp_all
    then obtain n' k' where n': "n = Suc n'" "k = Suc k'" using Suc.prems m by (cases n; cases k) simp_all
    have "split_n n (drop (i + length sep) s) sep = split_n k (drop (i + length sep) s) sep"
      using s Suc.prems m by (intro Suc.IH) simp_all
    then show ?thesis by (simp add: m n' Some)
  qed
qed simp

end
