(* ===== verification/Files.thy ===== *)
theory Files
  imports Json
begin

text \<open>
  The files two processes share, and the lock that serialises them.

  \<^item> A file is what reading and parsing it can show: it is missing, it cannot be read, it is empty,
    it is not JSON, or it holds a document. Writers go through a temporary file and a rename
    (\<open>atomicWrite\<close>, \<open>writeTokenStore\<close>, \<open>writeDevicesFile\<close>), so a write stores the whole document
    or, when it fails, leaves the file as it was. Whether a write succeeds is an argument of each
    operation. \<open>os.WriteFile\<close> truncates first: when it fails the old document may be gone.
  \<^item> \<open>WithFlock\<close> polls a non-blocking \<open>flock(2)\<close>. What the system call answers and what the clock
    shows at each attempt is a list of observations; the loop has not returned yet when they run out.
\<close>

datatype json_file = Missing | Unreadable | Blank | Malformed | Doc json

definition write_doc :: "bool \<Rightarrow> json \<Rightarrow> json_file \<Rightarrow> json_file" where
  "write_doc ok j f = (if ok then Doc j else f)"

lemma write_doc_simps [simp]: "write_doc True j f = Doc j" "write_doc False j f = f"
  by (simp_all add: write_doc_def)

datatype overwrite = Written | NotOpened | CutShort bool  \<comment> \<open>nothing was written?\<close>

definition overwrite_doc :: "overwrite \<Rightarrow> json \<Rightarrow> json_file \<Rightarrow> json_file" where
  \<comment> \<open>\<open>os.WriteFile\<close>\<close>
  "overwrite_doc w j f =
     (case w of Written \<Rightarrow> Doc j | NotOpened \<Rightarrow> f | CutShort blank \<Rightarrow> if blank then Blank else Malformed)"

datatype store_error = LockTimeout | LockFailed | ReadFailed | WriteFailed | NotFound | Duplicate
  | Invalid string

subsection \<open>The lock\<close>

datatype attempt = Acquired | WouldBlock | OtherErrno

datatype flock_result = FlockHeld | FlockTimeout | FlockError

fun flock_loop :: "time \<Rightarrow> (attempt \<times> time) list \<Rightarrow> flock_result option" where
  \<comment> \<open>the polling loop of the webui: only the deadline ends it\<close>
  "flock_loop deadline [] = None"
| "flock_loop deadline ((a, now) # obs) =
     (case a of
        Acquired \<Rightarrow> Some FlockHeld
      | OtherErrno \<Rightarrow> Some FlockError
      | WouldBlock \<Rightarrow>
          if now > deadline then Some FlockTimeout else flock_loop deadline obs)"

definition webui_flock :: "bool \<Rightarrow> int \<Rightarrow> time \<Rightarrow> (attempt \<times> time) list \<Rightarrow> flock_result option" where
  \<comment> \<open>\<open>WithFlock\<close> of the webui: whether the lock file opens, the timeout, the time of the call\<close>
  "webui_flock opens timeout start obs =
     (let timeout' = (if timeout \<le> 0 then 5 * second else timeout) in
      if \<not> opens then Some FlockError else flock_loop (start + timeout') obs)"

definition tls_flock :: "bool \<Rightarrow> int \<Rightarrow> time \<Rightarrow> (attempt \<times> time) list \<Rightarrow> flock_result option" where
  \<comment> \<open>\<open>WithFlock\<close> of tls-proxy: without a positive timeout the first refusal ends it\<close>
  "tls_flock opens timeout start obs =
     (if \<not> opens then Some FlockError
      else if timeout \<le> 0 then
        (case obs of
           [] \<Rightarrow> None
         | (a, _) # _ \<Rightarrow>
             (case a of Acquired \<Rightarrow> Some FlockHeld | WouldBlock \<Rightarrow> Some FlockTimeout
              | OtherErrno \<Rightarrow> Some FlockError))
      else flock_loop (start + timeout) obs)"

lemma flock_loop_returns:
  "\<exists>a now. (a, now) \<in> set obs \<and> now > deadline \<Longrightarrow> \<exists>r. flock_loop deadline obs = Some r"
  by (induction deadline obs rule: flock_loop.induct) (auto split: attempt.splits)

lemma flock_loop_held:
  "flock_loop deadline obs = Some FlockHeld \<Longrightarrow> \<exists>now. (Acquired, now) \<in> set obs"
  by (induction deadline obs rule: flock_loop.induct) (auto split: attempt.splits if_splits)

lemma flock_loop_timeout:
  "flock_loop deadline obs = Some FlockTimeout \<Longrightarrow>
     \<exists>now. (WouldBlock, now) \<in> set obs \<and> now > deadline"
  by (induction deadline obs rule: flock_loop.induct) (auto split: attempt.splits if_splits)

definition with_lock :: "flock_result \<Rightarrow> (store_error + 'a) \<times> 's \<Rightarrow> 's \<Rightarrow> (store_error + 'a) \<times> 's" where
  \<comment> \<open>what \<open>WithFlock\<close> returns: the result of the closure, or an error with nothing done\<close>
  "with_lock l result s =
     (case l of FlockHeld \<Rightarrow> result | FlockTimeout \<Rightarrow> (Inl LockTimeout, s) | FlockError \<Rightarrow> (Inl LockFailed, s))"

lemma with_lock_held [simp]: "with_lock FlockHeld result s = result"
  by (simp add: with_lock_def)

end
