(* ===== verification/Rules.thy ===== *)
theory Rules
  imports Regex_Parse Files
begin

text \<open>
  \<open>icap-server/detection/rules.go\<close>, \<open>rules_store.go\<close> and \<open>rules_reloader.go\<close>: the alert rules, how
  one is matched against a text, the severity order, the JSON form of a rule, the active rules and
  their reloader.

  The locale \<open>regex_engine\<close> is what the matching code asks of the engine: that a reported match
  lies within the text. It is interpreted on the matcher of theory \<open>Regex\<close>.
\<close>

record RuleMatch =
  rm_RuleID :: string
  rm_Severity :: string
  rm_Description :: string
  rm_Excerpt :: string

record alertRule =
  ar_ID :: string
  ar_Severity :: string
  ar_Description :: string
  ar_Pattern :: regexp
  ar_NegativeContext :: "regexp list"
  ar_ScanBody :: bool
  ar_MaskBody :: bool
  ar_MaskReplacement :: string

subsection \<open>Matching one rule\<close>

definition match_window :: "nat \<times> nat \<Rightarrow> int \<Rightarrow> string \<Rightarrow> string outcome" where
  \<comment> \<open>the text around a match, the margin clamped to the text\<close>
  "match_window loc margin s =
     (let start = int (fst loc) - margin; end' = int (snd loc) + margin in
      slice s (if start < 0 then 0 else start) (if end' > int (length s) then int (length s) else end'))"

definition match_rule :: "alertRule \<Rightarrow> string \<Rightarrow> string option outcome" where
  \<comment> \<open>\<open>alertRule.match\<close>: the excerpt when the rule hits\<close>
  "match_rule r s =
     (case find_string_index (ar_Pattern r) s of
        None \<Rightarrow> Ret None
      | Some loc \<Rightarrow>
          out_bind (match_window loc 150 s) (\<lambda>window.
            if list_ex (\<lambda>neg. match_string neg window) (ar_NegativeContext r) then Ret None
            else out_bind (match_window loc 20 s) (\<lambda>ex. Ret (Some (trim_space ex)))))"

locale regex_engine =
  fixes find :: "'r \<Rightarrow> string \<Rightarrow> (nat \<times> nat) option"
  assumes find_bounds: "find r s = Some (i, j) \<Longrightarrow> i \<le> j \<and> j \<le> length s"
begin

lemma window_Ret:
  assumes "find r s = Some loc" and "0 \<le> margin"
  shows "match_window loc margin s =
           Ret (take (min (length s) (snd loc + nat margin) - (fst loc - nat margin))
                  (drop (fst loc - nat margin) s))"
proof -
  obtain i j where loc: "loc = (i, j)" by (cases loc)
  with assms have b: "i \<le> j" "j \<le> length s" using find_bounds by auto
  define k where "k = nat margin"
  have m: "margin = int k" using assms(2) by (simp add: k_def)
  have st: "(if int i - margin < 0 then 0 else int i - margin) = int (i - k)"
    by (simp add: m of_nat_diff)
  have en: "(if int j + margin > int (length s) then int (length s) else int j + margin)
              = int (min (length s) (j + k))"
    by (auto simp: m)
  have le: "int (i - k) \<le> int (min (length s) (j + k))" using b by (simp add: min_def) arith
  show ?thesis
    unfolding match_window_def Let_def loc fst_conv snd_conv st en
    using le by (simp add: slice_def k_def [symmetric])
qed

end

interpretation go_re: regex_engine find_string_index
  by unfold_locales (rule find_string_index_bounds)

definition rule_excerpt :: "alertRule \<Rightarrow> string \<Rightarrow> string option" where
  \<comment> \<open>what \<open>match_rule\<close> computes, without the bounds checks\<close>
  "rule_excerpt r s =
     (case find_string_index (ar_Pattern r) s of
        None \<Rightarrow> None
      | Some (i, j) \<Rightarrow>
          (let around = (\<lambda>k. take (min (length s) (j + k) - (i - k)) (drop (i - k) s)) in
           if list_ex (\<lambda>neg. match_string neg (around 150)) (ar_NegativeContext r) then None
           else Some (trim_space (around 20))))"

lemma match_rule_eq: "match_rule r s = Ret (rule_excerpt r s)"
proof (cases "find_string_index (ar_Pattern r) s")
  case (Some loc)
  then show ?thesis
    by (cases loc) (simp add: match_rule_def rule_excerpt_def go_re.window_Ret)
qed (simp add: match_rule_def rule_excerpt_def)

lemma rule_excerpt_None: "find_string_index (ar_Pattern r) s = None \<Longrightarrow> rule_excerpt r s = None"
  by (simp add: rule_excerpt_def)

subsection \<open>The built-in rules and the severity order\<close>

definition builtinRules :: "alertRule list" where
  \<open>builtinRules = [
    \<lparr>ar_ID = ''CRED-001'', ar_Severity = ''critical'', ar_Description = ''OpenAI API key'',
      ar_Pattern = must_compile (raw ''sk-(?:proj|org)?-?[a-zA-Z0-9~-_]{20,}''),
      ar_NegativeContext = [],
      ar_ScanBody = True, ar_MaskBody = True, ar_MaskReplacement = []\<rparr>,
    \<lparr>ar_ID = ''CRED-002'', ar_Severity = ''critical'', ar_Description = ''Anthropic API key'',
      ar_Pattern = must_compile (raw ''sk-ant-api~d{2}-[a-zA-Z0-9~-_]{20,}''),
      ar_NegativeContext = [],
      ar_ScanBody = True, ar_MaskBody = True, ar_MaskReplacement = []\<rparr>,
    \<lparr>ar_ID = ''CRED-003'', ar_Severity = ''critical'', ar_Description = ''AWS Access Key ID'',
      ar_Pattern = must_compile ''(?:AKIA|ASIA|AROA|AIDA|ANPA|ANVA|AIPA)[0-9A-Z]{16}'',
      ar_NegativeContext = [],
      ar_ScanBody = True, ar_MaskBody = True, ar_MaskReplacement = []\<rparr>,
    \<lparr>ar_ID = ''CRED-004'', ar_Severity = ''critical'', ar_Description = ''AWS Secret Access Key'',
      ar_Pattern = must_compile (raw ''(?i)(aws[_~-~s]{0,5}secret[_~-~s]{0,5}(?:access[_~-~s]{0,5})?key~s*[=:]~s*(?:~~?")?)[A-Za-z0-9+/]{20,}''),
      ar_NegativeContext = [],
      ar_ScanBody = True, ar_MaskBody = True, ar_MaskReplacement = ''${1}[REDACTED]''\<rparr>,
    \<lparr>ar_ID = ''CRED-005'', ar_Severity = ''critical'', ar_Description = ''GitHub personal access token'',
      ar_Pattern = must_compile ''gh[pousr]_[A-Za-z0-9]{36,}'',
      ar_NegativeContext = [],
      ar_ScanBody = True, ar_MaskBody = True, ar_MaskReplacement = []\<rparr>,
    \<lparr>ar_ID = ''CRED-006'', ar_Severity = ''critical'', ar_Description = ''Google API key'',
      ar_Pattern = must_compile (raw ''AIza[0-9A-Za-z~-_]{35}''),
      ar_NegativeContext = [],
      ar_ScanBody = True, ar_MaskBody = True, ar_MaskReplacement = []\<rparr>,
    \<lparr>ar_ID = ''CRED-007'', ar_Severity = ''critical'', ar_Description = ''PEM private key'',
      ar_Pattern = must_compile ''-----BEGIN (?:RSA |EC |DSA |OPENSSH )?PRIVATE KEY-----'',
      ar_NegativeContext = [],
      ar_ScanBody = True, ar_MaskBody = True, ar_MaskReplacement = []\<rparr>,
    \<lparr>ar_ID = ''CRED-008'', ar_Severity = ''critical'', ar_Description = ''JWT bearer token'',
      ar_Pattern = must_compile (raw ''eyJ[a-zA-Z0-9_~-]{10,}~.eyJ[a-zA-Z0-9_~-]{10,}~.''),
      ar_NegativeContext = [],
      ar_ScanBody = True, ar_MaskBody = True, ar_MaskReplacement = []\<rparr>,
    \<lparr>ar_ID = ''CRED-009'', ar_Severity = ''critical'', ar_Description = ''AWS Session Token'',
      ar_Pattern = must_compile (raw ''(?i)((?:aws_session_token|x-amz-security-token)~s*[=:]~s*(?:~~?")?)[A-Za-z0-9+/=]{50,}''),
      ar_NegativeContext = [],
      ar_ScanBody = True, ar_MaskBody = True, ar_MaskReplacement = ''${1}[REDACTED]''\<rparr>,
    \<lparr>ar_ID = ''CRED-101'', ar_Severity = ''high'', ar_Description = ''Credential key-value assignment'',
      ar_Pattern = must_compile (raw ''(?i)((?:password|passwd|secret|api[_~-]?key|access[_~-]?token|auth[_~-]?token|private[_~-]?key)~s*[:=]~s*)~S{4,}''),
      ar_NegativeContext = [must_compile (raw ''(?i)(how[_ ]to|example|sample|placeholder|<[a-z_]+>|~[your|{your|your_[a-z]|~$~{|:= ""|~s""$|~s''
        @ [CHR 0x27, CHR 0x27] @ ''$)'')],
      ar_ScanBody = True, ar_MaskBody = True, ar_MaskReplacement = ''${1}[REDACTED]''\<rparr>,
    \<lparr>ar_ID = ''PII-101'', ar_Severity = ''high'', ar_Description = ''Japanese confidentiality markers'',
      ar_Pattern = must_compile (utf8 [0x6A5F, 0x5BC6] @ ''|'' @ utf8 [0x793E, 0x5916, 0x79D8] @ ''|''
        @ utf8 [0x6975, 0x79D8] @ ''|'' @ utf8 [0x79D8, 0x5BC6, 0x60C5, 0x5831]),
      ar_NegativeContext = [],
      ar_ScanBody = False, ar_MaskBody = False, ar_MaskReplacement = []\<rparr>,
    \<lparr>ar_ID = ''PII-102'', ar_Severity = ''high'', ar_Description = ''Credit/debit card number'',
      ar_Pattern = must_compile (raw ''~b(?:4[0-9]{12}(?:[0-9]{3})?|5[1-5][0-9]{14}|3[47][0-9]{13}|6(?:011|5[0-9]{2})[0-9]{12})~b''),
      ar_NegativeContext = [],
      ar_ScanBody = True, ar_MaskBody = True, ar_MaskReplacement = []\<rparr>,
    \<lparr>ar_ID = ''PII-103'', ar_Severity = ''high'', ar_Description = (''Japanese My Number ('' @ utf8 [0x500B, 0x4EBA, 0x756A, 0x53F7] @ '')''),
      ar_Pattern = must_compile (''(?i)('' @ utf8 [0x30DE, 0x30A4, 0x30CA, 0x30F3, 0x30D0, 0x30FC] @ ''|''
        @ utf8 [0x500B, 0x4EBA, 0x756A, 0x53F7] @ raw ''|my.?number)~s*[''
        @ utf8 [0xFF1A] @ '':'' @ utf8 [0x662F] @ raw '']?~s*~d[~d~-~s]{10,14}~d''),
      ar_NegativeContext = [],
      ar_ScanBody = False, ar_MaskBody = True, ar_MaskReplacement = []\<rparr>,
    \<lparr>ar_ID = ''KEYWORD-201'', ar_Severity = ''medium'', ar_Description = ''Password in disclosure context'',
      ar_Pattern = must_compile (raw ''(?i)~bpassword~b''),
      ar_NegativeContext = [must_compile (raw ''(?i)(how (to|do|can|should)|what is|validate|validation|minimum.{0,20}length|policy|example|sample|forgot|reset (your|my|the)|create.{0,10}password|password (strength|hint|recovery|manager|field|input|policy|hash|encrypt|check|require)|set.{0,5}password~s*$)'')],
      ar_ScanBody = False, ar_MaskBody = False, ar_MaskReplacement = []\<rparr>,
    \<lparr>ar_ID = ''KEYWORD-202'', ar_Severity = ''medium'', ar_Description = ''Internal-use or confidential label'',
      ar_Pattern = must_compile (''(?i)(internal use only|'' @ utf8 [0x793E, 0x5185, 0x9650, 0x308A]
        @ ''|confidential -|for internal)''),
      ar_NegativeContext = [],
      ar_ScanBody = False, ar_MaskBody = False, ar_MaskReplacement = []\<rparr>,
    \<lparr>ar_ID = ''KEYWORD-203'', ar_Severity = ''medium'', ar_Description = ''Authentication token in context'',
      ar_Pattern = must_compile (raw ''(?i)~b(bearer|auth|authorization)~s+[a-zA-Z0-9~-_+/]{16,}''),
      ar_NegativeContext = [],
      ar_ScanBody = True, ar_MaskBody = True, ar_MaskReplacement = []\<rparr>]\<close>

definition severityOrder :: "string \<Rightarrow> nat" where
  "severityOrder s =
     (if s = ''critical'' then 4 else if s = ''high'' then 3 else if s = ''medium'' then 2
      else if s = ''low'' then 1 else 0)"

definition highestSeverity :: "string \<Rightarrow> string \<Rightarrow> string" where
  "highestSeverity a b = (if severityOrder a \<ge> severityOrder b then a else b)"

lemma severityOrder_highest:
  "severityOrder (highestSeverity a b) = max (severityOrder a) (severityOrder b)"
  by (auto simp: highestSeverity_def)

lemma severityOrder_le [simp]: "severityOrder s \<le> 4"
  by (simp add: severityOrder_def)

subsection \<open>The JSON form of a rule\<close>

record RuleEntry =
  re_ID :: string
  re_Source :: string
  re_Enabled :: bool
  re_Severity :: string
  re_Description :: string
  re_Pattern :: string
  re_NegativeContext :: "string list"
  re_MaskBody :: bool
  re_MaskReplacement :: string

definition zero_RuleEntry :: RuleEntry where
  "zero_RuleEntry = \<lparr>re_ID = [], re_Source = [], re_Enabled = False, re_Severity = [],
     re_Description = [], re_Pattern = [], re_NegativeContext = [], re_MaskBody = False,
     re_MaskReplacement = []\<rparr>"

definition enc_RuleEntry :: "RuleEntry \<Rightarrow> json" where
  "enc_RuleEntry e = JObj
     ([(''id'', JStr (re_ID e)), (''source'', JStr (re_Source e)), (''enabled'', JBool (re_Enabled e)),
       (''severity'', JStr (re_Severity e)), (''description'', JStr (re_Description e)),
       (''pattern'', JStr (re_Pattern e))]
      @ (if re_NegativeContext e = [] then []
         else [(''negative_context'', JArr (map JStr (re_NegativeContext e)))])
      @ [(''mask_body'', JBool (re_MaskBody e))]
      @ (if re_MaskReplacement e = [] then []
         else [(''mask_replacement'', JStr (re_MaskReplacement e))]))"

definition RuleEntry_fields :: "RuleEntry fields" where
  "RuleEntry_fields =
     [fld ''id'' dec_string re_ID re_ID_update,
      fld ''source'' dec_string re_Source re_Source_update,
      fld ''enabled'' dec_bool re_Enabled re_Enabled_update,
      fld ''severity'' dec_string re_Severity re_Severity_update,
      fld ''description'' dec_string re_Description re_Description_update,
      fld ''pattern'' dec_string re_Pattern re_Pattern_update,
      fld ''negative_context'' (dec_list dec_string []) re_NegativeContext re_NegativeContext_update,
      fld ''mask_body'' dec_bool re_MaskBody re_MaskBody_update,
      fld ''mask_replacement'' dec_string re_MaskReplacement re_MaskReplacement_update]"

definition dec_RuleEntries :: "json \<Rightarrow> RuleEntry list option" where
  "dec_RuleEntries j = dec_list (dec_struct RuleEntry_fields) zero_RuleEntry [] j"

definition enc_RuleEntries :: "RuleEntry list \<Rightarrow> json" where
  "enc_RuleEntries es = JArr (map enc_RuleEntry es)"

interpretation rule_codec: json_codec enc_RuleEntry "dec_struct RuleEntry_fields" zero_RuleEntry
  "\<lambda>_. True"
  by unfold_locales
    (simp add: codec_simps enc_RuleEntry_def RuleEntry_fields_def zero_RuleEntry_def)

definition DefaultEntries :: "RuleEntry list" where
  "DefaultEntries =
     map (\<lambda>r. \<lparr>re_ID = ar_ID r, re_Source = ''builtin'', re_Enabled = True,
               re_Severity = ar_Severity r, re_Description = ar_Description r,
               re_Pattern = re_src (ar_Pattern r),
               re_NegativeContext = map re_src (ar_NegativeContext r),
               re_MaskBody = ar_MaskBody r, re_MaskReplacement = ar_MaskReplacement r\<rparr>)
       builtinRules"

definition LoadRulesFile :: "json_file \<Rightarrow> RuleEntry list option" where
  "LoadRulesFile f =
     (case f of Doc j \<Rightarrow> dec_RuleEntries j | _ \<Rightarrow> None)"

definition SaveRulesFile :: "overwrite \<Rightarrow> RuleEntry list \<Rightarrow> json_file \<Rightarrow> json_file" where
  "SaveRulesFile w es f = overwrite_doc w (enc_RuleEntries es) f"

definition SeedRulesFile :: "overwrite \<Rightarrow> json_file \<Rightarrow> json_file" where
  \<comment> \<open>\<open>os.Stat\<close> succeeds on every file that is not missing\<close>
  "SeedRulesFile w f = (if f \<noteq> Missing then f else SaveRulesFile w DefaultEntries f)"

definition entry_to_rule :: "RuleEntry \<Rightarrow> alertRule option" where
  \<comment> \<open>one turn of the loop of \<open>EntriesToAlertRules\<close>: \<open>None\<close> when the entry is skipped\<close>
  "entry_to_rule e =
     (if \<not> re_Enabled e then None
      else (case compile (re_Pattern e) of
              None \<Rightarrow> None
            | Some re \<Rightarrow>
                Some \<lparr>ar_ID = re_ID e, ar_Severity = re_Severity e,
                      ar_Description = re_Description e, ar_Pattern = re,
                      ar_NegativeContext = List.map_filter compile (re_NegativeContext e),
                      ar_ScanBody = False, ar_MaskBody = re_MaskBody e,
                      ar_MaskReplacement = re_MaskReplacement e\<rparr>))"

definition EntriesToAlertRules :: "RuleEntry list \<Rightarrow> alertRule list" where
  "EntriesToAlertRules es = List.map_filter entry_to_rule es"

subsection \<open>The active rules and the reloader\<close>

record rules_state =
  rs_active :: "alertRule list"   \<comment> \<open>\<open>activeStore.rules\<close>\<close>
  rs_lastMod :: time              \<comment> \<open>of the reloader goroutine\<close>

definition SetActiveRules :: "alertRule list \<Rightarrow> rules_state \<Rightarrow> rules_state" where
  "SetActiveRules rs s = s\<lparr>rs_active := rs\<rparr>"

definition start_rules :: "overwrite \<Rightarrow> json_file \<Rightarrow> json_file \<times> rules_state" where
  \<comment> \<open>what \<open>main\<close> does with \<open>rules.json\<close>: seed it, load it or fall back, activate\<close>
  "start_rules w f =
     (let f' = SeedRulesFile w f;
          es = (case LoadRulesFile f' of Some es \<Rightarrow> es | None \<Rightarrow> DefaultEntries) in
      (f', \<lparr>rs_active = EntriesToAlertRules es, rs_lastMod = zero_time\<rparr>))"

definition reload_tick :: "(json_file \<times> time) option \<Rightarrow> rules_state \<Rightarrow> rules_state" where
  \<comment> \<open>one tick: the file and its modification time, \<open>None\<close> when \<open>os.Stat\<close> fails\<close>
  "reload_tick st s =
     (case st of
        None \<Rightarrow> s
      | Some (f, modt) \<Rightarrow>
          if \<not> modt > rs_lastMod s then s
          else (case LoadRulesFile f of
                  None \<Rightarrow> s
                | Some es \<Rightarrow>
                    (SetActiveRules (EntriesToAlertRules es) s)\<lparr>rs_lastMod := modt\<rparr>))"

end
