(* ===== verification/Builtins.thy ===== *)
theory Builtins
  imports Rules
begin

text \<open>
  What the rule store guarantees of the built-in rules and of the rules file: every built-in pattern
  compiles, the seeded file gives the built-in rules back, a rules file survives a write and a read,
  and the reloader never leaves the active rules in a state no file described.
\<close>

subsection \<open>Every built-in pattern compiles\<close>

definition rule_patterns :: "alertRule \<Rightarrow> regexp list" where
  "rule_patterns r = ar_Pattern r # ar_NegativeContext r"

lemma builtin_sources_compile:
  "list_all (\<lambda>s. compile s \<noteq> None) (map re_src (concat (map rule_patterns builtinRules)))"
  unfolding builtinRules_def rule_patterns_def
  apply (simp only: list.map concat.simps append.simps append_Nil2 alertRule.select_convs re_src_must_compile)
  by code_simp

lemma builtin_must_compile:
  "\<forall>p \<in> set (concat (map rule_patterns builtinRules)). p = must_compile (re_src p)"
  unfolding builtinRules_def rule_patterns_def by simp

lemma builtin_compiles:
  assumes "r \<in> set builtinRules" and "p \<in> set (rule_patterns r)"
  shows "compile (re_src p) = Some p"
proof -
  have p: "p \<in> set (concat (map rule_patterns builtinRules))" using assms by auto
  then have "compile (re_src p) \<noteq> None"
    using builtin_sources_compile by (auto simp: list_all_iff)
  then show ?thesis using compile_must_compile builtin_must_compile p by metis
qed

lemma map_filter_compile:
  "(\<And>p. p \<in> set ps \<Longrightarrow> compile (re_src p) = Some p) \<Longrightarrow>
     List.map_filter compile (map re_src ps) = ps"
  by (induction ps) (auto simp: List.map_filter_simps)

subsection \<open>The rules file\<close>

text \<open>
  The rules file seeded on first start activates the built-in rules: none is lost, because
  every built-in pattern and negative context compiles, and each keeps its identity, severity,
  pattern, context and masking; only the flag \<open>ScanBody\<close>, which the JSON form has no field for,
  comes back false. The same rules are active when the file could
  not be written, or not completely.
\<close>
theorem seeded_file_activates_builtins:
  "rs_active (snd (start_rules w Missing)) = map (\<lambda>r. r\<lparr>ar_ScanBody := False\<rparr>) builtinRules"
proof -
  let ?e = "\<lambda>r. \<lparr>re_ID = ar_ID r, re_Source = ''builtin'', re_Enabled = True,
               re_Severity = ar_Severity r, re_Description = ar_Description r,
               re_Pattern = re_src (ar_Pattern r),
               re_NegativeContext = map re_src (ar_NegativeContext r),
               re_MaskBody = ar_MaskBody r, re_MaskReplacement = ar_MaskReplacement r\<rparr>"
  have one: "entry_to_rule (?e r) = Some (r\<lparr>ar_ScanBody := False\<rparr>)" if "r \<in> set builtinRules" for r
    using builtin_compiles [OF that] by (simp add: entry_to_rule_def rule_patterns_def map_filter_compile)
  have all: "List.map_filter entry_to_rule (map ?e rs) = map (\<lambda>r. r\<lparr>ar_ScanBody := False\<rparr>) rs"
    if "set rs \<subseteq> set builtinRules" for rs
    using that by (induction rs) (auto simp: List.map_filter_simps one)
  have "EntriesToAlertRules DefaultEntries = map (\<lambda>r. r\<lparr>ar_ScanBody := False\<rparr>) builtinRules"
    unfolding EntriesToAlertRules_def DefaultEntries_def by (rule all) simp
  then show ?thesis
    by (cases w) (simp_all add: overwrite_doc_def start_rules_def SeedRulesFile_def SaveRulesFile_def LoadRulesFile_def
        enc_RuleEntries_def dec_RuleEntries_def rule_codec.dec_list_enc)
qed

text \<open>
  A rules file survives a write and a read: whatever entries are saved, loading the file gives
  exactly these entries back, omitted empty fields included.
\<close>
theorem rules_file_roundtrip: "LoadRulesFile (SaveRulesFile Written es f) = Some es"
  by (simp add: overwrite_doc_def SaveRulesFile_def LoadRulesFile_def enc_RuleEntries_def dec_RuleEntries_def
      rule_codec.dec_list_enc)

lemma reload_tick_cases:
  "reload_tick st s = s
   \<or> (\<exists>f es modt. st = Some (f, modt) \<and> modt > rs_lastMod s \<and> LoadRulesFile f = Some es
        \<and> reload_tick st s = s\<lparr>rs_active := EntriesToAlertRules es, rs_lastMod := modt\<rparr>)"
  by (auto simp: reload_tick_def SetActiveRules_def split: option.splits)

text \<open>
  C34: the reloader follows the file and fails safe: over any series of ticks the active rules are
  those of the start or those of some file a tick read completely; a file that is missing, unreadable
  or malformed never empties them.
\<close>
theorem reloader_fails_safe:
  "rs_active (fold reload_tick ticks s) \<in>
     insert (rs_active s) {EntriesToAlertRules es |f modt es.
        Some (f, modt) \<in> set ticks \<and> LoadRulesFile f = Some es}"
proof (induction ticks arbitrary: s)
  case (Cons t ticks)
  consider "reload_tick t s = s"
    | f modt es where "t = Some (f, modt)" and "LoadRulesFile f = Some es"
        and "rs_active (reload_tick t s) = EntriesToAlertRules es"
    using reload_tick_cases [of t s] by force
  then show ?case using Cons.IH [of "reload_tick t s"] by cases (simp, blast)+
qed simp

text \<open>
  An edit saved by the web UI is active after the next tick that sees its modification time, and
  later ticks on the unchanged file keep it.
\<close>
theorem saved_rules_become_active:
  assumes "rs_lastMod s < modt"
  shows "rs_active (fold reload_tick (replicate (Suc n) (Some (SaveRulesFile Written es f, modt))) s)
           = EntriesToAlertRules es"
proof -
  let ?t = "Some (SaveRulesFile Written es f, modt)"
  have "reload_tick ?t s = s\<lparr>rs_active := EntriesToAlertRules es, rs_lastMod := modt\<rparr>"
    using assms
    by (simp add: overwrite_doc_def reload_tick_def SetActiveRules_def SaveRulesFile_def LoadRulesFile_def
        enc_RuleEntries_def dec_RuleEntries_def rule_codec.dec_list_enc)
  moreover have "fold reload_tick (replicate n ?t) u = u" if "rs_lastMod u = modt" for u
    using that by (induction n) (simp_all add: reload_tick_def)
  ultimately show ?thesis by simp
qed

lemma saved_rules_become_active_witness:
  "rs_active (fold reload_tick (replicate 2 (Some (SaveRulesFile Written [] Missing, 5)))
      \<lparr>rs_active = builtinRules, rs_lastMod = 0\<rparr>) = []"
  using saved_rules_become_active [of "\<lparr>rs_active = builtinRules, rs_lastMod = 0\<rparr>" 5 1 "[]" Missing]
  by (simp add: EntriesToAlertRules_def List.map_filter_simps numeral_2_eq_2)

end
