(* ===== verification/Hostport.thy ===== *)
theory Hostport
  imports Gostrings
begin

text \<open>
  Addresses: \<open>net.SplitHostPort\<close>, and the helpers the programs build on it.
\<close>

definition split_host_port :: "string \<Rightarrow> (string \<times> string) option" where
  \<comment> \<open>\<open>host:port\<close> or \<open>[host]:port\<close>; everything else is an error\<close>
  "split_host_port s =
     (case last_index s '':'' of
        None \<Rightarrow> None
      | Some i \<Rightarrow>
          if has_prefix s ''['' then
            (case index s '']'' of
               None \<Rightarrow> None
             | Some e \<Rightarrow>
                 if e + 1 \<noteq> i then None
                 else if CHR ''['' \<in> set (drop 1 s) \<or> CHR '']'' \<in> set (drop (e + 1) s) then None
                 else Some (take (e - 1) (drop 1 s), drop (i + 1) s))
          else if CHR '':'' \<in> set (take i s) \<or> CHR ''['' \<in> set s \<or> CHR '']'' \<in> set s then None
          else Some (take i s, drop (i + 1) s))"

definition bareHost :: "string \<Rightarrow> string" where
  "bareHost hostPort = (case split_host_port hostPort of None \<Rightarrow> hostPort | Some (h, _) \<Rightarrow> h)"

definition splitHostNoErr :: "string \<Rightarrow> string \<times> string" where
  "splitHostNoErr addr = (case split_host_port addr of None \<Rightarrow> (addr, []) | Some hp \<Rightarrow> hp)"

lemma last_index_absent: "c \<notin> set s \<Longrightarrow> last_index s [c] = None"
  by (induction s) auto

lemma last_index_single: "c \<notin> set b \<Longrightarrow> last_index (a @ c # b) [c] = Some (length a)"
  by (induction a) (simp_all add: last_index_absent)

lemma split_host_port_plain:
  assumes "set host \<inter> {CHR '':'', CHR ''['', CHR '']''} = {}" and "set port \<inter> {CHR '':'', CHR ''['', CHR '']''} = {}"
  shows "split_host_port (host @ '':'' @ port) = Some (host, port)"
proof -
  have "\<not> has_prefix (host @ '':'' @ port) ''[''"
    using assms(1) by (cases host) auto
  moreover have "last_index (host @ '':'' @ port) '':'' = Some (length host)"
    using last_index_single [of "CHR '':''" port host] assms(2) by auto
  ultimately show ?thesis using assms by (auto simp: split_host_port_def)
qed

lemma bareHost_plain:
  "set host \<inter> {CHR '':'', CHR ''['', CHR '']''} = {} \<Longrightarrow> set port \<inter> {CHR '':'', CHR ''['', CHR '']''} = {} \<Longrightarrow>
     bareHost (host @ '':'' @ port) = host"
  by (simp only: bareHost_def split_host_port_plain option.case prod.case)

lemma bareHost_no_port: "CHR '':'' \<notin> set host \<Longrightarrow> bareHost host = host"
  by (simp add: bareHost_def split_host_port_def last_index_absent)

end
