(* ===== verification/Webui_Http.thy ===== *)
theory Webui_Http
  imports Hostport Files
begin

text \<open>
  Requests and replies of the web UI (\<open>webui/handler.go\<close>). A request carries what the handlers read of it: \<open>net/http\<close>
  parses the cookie, the path and the query. A reply is its status, its body, and the session cookie it sets.
\<close>

record web_request =
  wq_Method :: string
  wq_Path :: string
  wq_Query :: "(string \<times> string) list"
  wq_Cookie :: "string option"     \<comment> \<open>the value of \<open>sessionCookieName\<close>\<close>
  wq_Body :: string
  wq_RemoteAddr :: string
  wq_Host :: string
  wq_TLS :: bool

datatype reply_body =
    No_body
  | Message string      \<comment> \<open>\<open>http.Error\<close>\<close>
  | Json json
  | Document json_file   \<comment> \<open>the bytes of a file as they are\<close>

record reply =
  wr_Status :: int
  wr_Body :: reply_body
  wr_Cookie :: "string option"     \<comment> \<open>the session cookie set; empty: it is to be forgotten\<close>

definition http_fail :: "int \<Rightarrow> string \<Rightarrow> reply" where
  "http_fail n msg = \<lparr>wr_Status = n, wr_Body = Message msg, wr_Cookie = None\<rparr>"

definition bad_verb :: reply where
  "bad_verb = http_fail 405 ''method not allowed''"

definition status_only :: "int \<Rightarrow> reply" where
  "status_only n = \<lparr>wr_Status = n, wr_Body = No_body, wr_Cookie = None\<rparr>"

definition json_reply :: "int \<Rightarrow> json \<Rightarrow> reply" where
  "json_reply n j = \<lparr>wr_Status = n, wr_Body = Json j, wr_Cookie = None\<rparr>"

lemma reply_simps [simp]:
  "wr_Status (http_fail n msg) = n" "wr_Status bad_verb = 405" "wr_Status (status_only n) = n"
  "wr_Status (json_reply n j) = n" "wr_Cookie (http_fail n msg) = None" "wr_Cookie bad_verb = None"
  "wr_Cookie (status_only n) = None" "wr_Cookie (json_reply n j) = None" "wr_Body (json_reply n j) = Json j"
  by (simp_all add: http_fail_def bad_verb_def status_only_def json_reply_def)

definition decode_body :: "'a decoder \<Rightarrow> 'a \<Rightarrow> string \<Rightarrow> 'a option" where
  \<comment> \<open>\<open>json.NewDecoder(r.Body).Decode(&req)\<close>: the first value of the body\<close>
  "decode_body d zero body = (case decode_first body of None \<Rightarrow> None | Some (j, _) \<Rightarrow> d zero j)"

definition split_sub :: "string \<Rightarrow> string \<times> string" where
  \<comment> \<open>\<open>{id}/{sub}\<close>, as the handlers of users and devices take the rest of a path apart\<close>
  "split_sub rest =
     (case index rest ''/'' of None \<Rightarrow> (rest, []) | Some i \<Rightarrow> (take i rest, drop (i + 1) rest))"

definition clientIP :: "web_request \<Rightarrow> string" where
  "clientIP req = (case split_host_port (wq_RemoteAddr req) of None \<Rightarrow> wq_RemoteAddr req | Some (h, _) \<Rightarrow> h)"

definition sample_web_request :: web_request where
  "sample_web_request = \<lparr>wq_Method = ''GET'', wq_Path = [], wq_Query = [], wq_Cookie = None, wq_Body = [],
     wq_RemoteAddr = ''10.0.0.9:4711'', wq_Host = ''webui:8080'', wq_TLS = False\<rparr>"

end
