(* ===== verification/Policy.thy ===== *)
theory Policy
  imports Files
begin

text \<open>
  \<open>icap-server/policy/config.go\<close>: the enforcement policy, its file and the reloader that polls it.
  The per-service modes are the map the JSON object decodes to, kept as its members with one entry
  for a name; the order of the members carries no meaning.
\<close>

type_synonym mode = string

definition ModeMonitor :: mode where "ModeMonitor = ''monitor''"
definition ModeWarn :: mode where "ModeWarn = ''warn''"
definition ModeBlock :: mode where "ModeBlock = ''block''"
definition ModeMask :: mode where "ModeMask = ''mask''"

lemmas modes = ModeMonitor_def ModeWarn_def ModeBlock_def ModeMask_def

record policy =
  pol_GlobalMode :: mode
  pol_ServiceModes :: "(string \<times> mode) list"
  pol_UpdatedAt :: time

record config =
  cf_data :: policy
  cf_file :: json_file

subsection \<open>The JSON form\<close>

fun dec_modes :: "(string \<times> mode) list \<Rightarrow> (string \<times> json) list \<Rightarrow> (string \<times> mode) list option" where
  \<comment> \<open>a JSON object into a map of strings; \<open>null\<close> sets the zero value\<close>
  "dec_modes m [] = Some m"
| "dec_modes m ((k, j) # js) =
     (case dec_string [] j of None \<Rightarrow> None | Some v \<Rightarrow> dec_modes (set_key k v m) js)"

definition dec_mode_map :: "(string \<times> mode) list decoder" where
  "dec_mode_map old j =
     (case j of JObj ms \<Rightarrow> dec_modes old ms | JNull \<Rightarrow> Some [] | _ \<Rightarrow> None)"

definition zero_policy :: policy where
  "zero_policy = \<lparr>pol_GlobalMode = [], pol_ServiceModes = [], pol_UpdatedAt = zero_time\<rparr>"

definition policy_fields :: "policy fields" where
  "policy_fields =
     [fld ''global_mode'' dec_string pol_GlobalMode pol_GlobalMode_update,
      fld ''service_modes'' dec_mode_map pol_ServiceModes pol_ServiceModes_update,
      fld ''updated_at'' dec_time pol_UpdatedAt pol_UpdatedAt_update]"

definition enc_policy :: "policy \<Rightarrow> json" where
  "enc_policy p = JObj
     ([(''global_mode'', JStr (pol_GlobalMode p))]
      @ (if pol_ServiceModes p = [] then []
         else [(''service_modes'', JObj (map (\<lambda>(k, v). (k, JStr v)) (pol_ServiceModes p)))])
      @ [(''updated_at'', JTime (pol_UpdatedAt p))])"

definition dec_policy :: "json \<Rightarrow> policy option" where
  "dec_policy j = dec_struct policy_fields zero_policy j"

subsection \<open>Operations\<close>

definition writeFile :: "overwrite \<Rightarrow> config \<Rightarrow> config" where
  "writeFile w c = c\<lparr>cf_file := overwrite_doc w (enc_policy (cf_data c)) (cf_file c)\<rparr>"

definition read_policy :: "json_file \<Rightarrow> policy option" where
  "read_policy f = (case f of Doc j \<Rightarrow> dec_policy j | _ \<Rightarrow> None)"

definition Load :: "overwrite \<Rightarrow> time \<Rightarrow> json_file \<Rightarrow> config option" where
  \<comment> \<open>\<open>None\<close>: an error is returned\<close>
  "Load w now f =
     (if f = Missing then
        Some (writeFile w \<lparr>cf_data = \<lparr>pol_GlobalMode = ModeMonitor, pol_ServiceModes = [],
                pol_UpdatedAt = now\<rparr>, cf_file = f\<rparr>)
      else map_option (\<lambda>p. \<lparr>cf_data = p, cf_file = f\<rparr>) (read_policy f))"

definition GetMode :: "config \<Rightarrow> string \<Rightarrow> mode" where
  "GetMode c service =
     (case find_by fst service (pol_ServiceModes (cf_data c)) of
        Some (_, m) \<Rightarrow> m
      | None \<Rightarrow> pol_GlobalMode (cf_data c))"

definition Set_policy :: "overwrite \<Rightarrow> time \<Rightarrow> policy \<Rightarrow> config \<Rightarrow> config" where
  \<comment> \<open>\<open>Config.Set\<close>; its error is that of the write\<close>
  "Set_policy w now p c = writeFile w (c\<lparr>cf_data := p\<lparr>pol_UpdatedAt := now\<rparr>\<rparr>)"

definition Get :: "config \<Rightarrow> policy" where
  "Get c = cf_data c"

definition reload_policy :: "config \<Rightarrow> config" where
  \<comment> \<open>one tick of \<open>StartReloader\<close>\<close>
  "reload_policy c =
     (case read_policy (cf_file c) of None \<Rightarrow> c | Some p \<Rightarrow> c\<lparr>cf_data := p\<rparr>)"

subsection \<open>Round trip and enforcement\<close>

definition wf_policy :: "policy \<Rightarrow> bool" where
  \<comment> \<open>a map has one entry for a key\<close>
  "wf_policy p \<longleftrightarrow> distinct (map fst (pol_ServiceModes p))"

lemma dec_modes_enc:
  "distinct (map fst (m @ ms)) \<Longrightarrow> dec_modes m (map (\<lambda>(k, v). (k, JStr v)) ms) = Some (m @ ms)"
proof (induction ms arbitrary: m)
  case (Cons kv ms)
  obtain k v where kv: "kv = (k, v)" by (cases kv)
  have "find_by fst k m = None" using Cons.prems by (simp add: kv find_by_None_iff)
  then show ?case using Cons.IH [of "m @ [(k, v)]"] Cons.prems by (simp add: kv set_key_def)
qed simp

lemma dec_enc_policy: "wf_policy p \<Longrightarrow> dec_policy (enc_policy p) = Some p"
  using dec_modes_enc [of "[]" "pol_ServiceModes p"]
  by (simp add: dec_policy_def enc_policy_def policy_fields_def zero_policy_def codec_simps
      dec_mode_map_def wf_policy_def)

lemma dec_modes_distinct:
  "dec_modes m js = Some m' \<Longrightarrow> distinct (map fst m) \<Longrightarrow> distinct (map fst m')"
  by (induction m js rule: dec_modes.induct) (auto split: option.splits simp: distinct_set_key)

text \<open>
  A policy set through the API is what the next tick of any process's reloader enforces: the
  file written by \<open>Set\<close> decodes to the same policy, so every service keeps the mode it was given,
  whatever policy the reading process had before.
\<close>
theorem set_policy_reaches_reloader:
  assumes "wf_policy p"
  shows "GetMode (reload_policy (d\<lparr>cf_file := cf_file (Set_policy Written now p c)\<rparr>)) service
           = (case map_of (pol_ServiceModes p) service of
                Some m \<Rightarrow> m | None \<Rightarrow> pol_GlobalMode p)"
proof -
  have f: "find_by fst service ms = map_option (\<lambda>m. (service, m)) (map_of ms service)" for ms
    by (induction ms) auto
  have "read_policy (cf_file (Set_policy Written now p c)) = Some (p\<lparr>pol_UpdatedAt := now\<rparr>)"
    using dec_enc_policy [of "p\<lparr>pol_UpdatedAt := now\<rparr>"] assms
    by (simp add: read_policy_def Set_policy_def writeFile_def overwrite_doc_def wf_policy_def)
  then show ?thesis
    by (auto simp: reload_policy_def GetMode_def f split: option.splits)
qed

lemma set_policy_reaches_reloader_witness:
  "GetMode (reload_policy (\<lparr>cf_data = zero_policy, cf_file = Missing\<rparr>\<lparr>cf_file := cf_file
       (Set_policy Written 7 \<lparr>pol_GlobalMode = ModeMonitor,
          pol_ServiceModes = [(''ChatGPT'', ModeBlock)], pol_UpdatedAt = 0\<rparr>
          \<lparr>cf_data = zero_policy, cf_file = Missing\<rparr>)\<rparr>)) ''ChatGPT'' = ModeBlock"
  by (subst set_policy_reaches_reloader) (simp_all add: wf_policy_def)

lemma reload_policy_keeps: "read_policy (cf_file c) = None \<Longrightarrow> reload_policy c = c"
  by (simp add: reload_policy_def)

text \<open>
  A missing policy file never stops the service: \<open>Load\<close> starts in monitor mode for every service
  whatever becomes of the write of the default file, and the first tick of the reloader keeps it.
\<close>
theorem missing_policy_monitors:
  "\<exists>c. Load w now Missing = Some c \<and> GetMode c service = ModeMonitor
     \<and> GetMode (reload_policy c) service = ModeMonitor"
proof -
  let ?p = "\<lparr>pol_GlobalMode = ModeMonitor, pol_ServiceModes = [], pol_UpdatedAt = now\<rparr>"
  have "dec_policy (enc_policy ?p) = Some ?p" by (rule dec_enc_policy) (simp add: wf_policy_def)
  then show ?thesis
    by (cases w) (auto simp: Load_def writeFile_def GetMode_def reload_policy_def read_policy_def
        overwrite_doc_def)
qed

end
