(* ===== verification/Webui_Config.thy ===== *)
theory Webui_Config
  imports Webui_Http Policy Builtins
begin

text \<open>
  The policy and the detection rules in the web UI (\<open>handlePolicy\<close>, \<open>handleRules\<close>, \<open>handleRuleByID\<close> and
  \<open>handleRulesReset\<close> of \<open>webui/handler.go\<close>), and what the engine makes of the files they write: the policy reloader
  of \<open>Policy\<close>, the rule store of \<open>Rules\<close>. The web UI has types of its own for both files; its rules lack the
  field \<open>mask_replacement\<close>. Files are written in place.
\<close>

subsection \<open>The policy\<close>

definition validModes :: "string list" where
  "validModes = [''monitor'', ''warn'', ''block'', ''mask'']"

record PolicyConfig =
  pc_GlobalMode :: string
  pc_ServiceModes :: "(string \<times> string) list"

definition PolicyConfig_fields :: "PolicyConfig fields" where
  "PolicyConfig_fields =
     [fld ''global_mode'' dec_string pc_GlobalMode pc_GlobalMode_update,
      fld ''service_modes'' dec_mode_map pc_ServiceModes pc_ServiceModes_update]"

definition enc_PolicyConfig :: "time \<Rightarrow> PolicyConfig \<Rightarrow> json" where
  "enc_PolicyConfig now p = JObj
     [(''global_mode'', JStr (pc_GlobalMode p)),
      (''service_modes'', JObj (map (\<lambda>(k, v). (k, JStr v)) (pc_ServiceModes p))),
      (''updated_at'', JTime now)]"

definition policy_request :: "string \<Rightarrow> PolicyConfig option" where
  \<comment> \<open>unknown members are an error\<close>
  "policy_request body =
     decode_body
       (\<lambda>old j. case j of
          JObj ms \<Rightarrow> dec_members True PolicyConfig_fields old ms | JNull \<Rightarrow> Some old | _ \<Rightarrow> None)
       \<lparr>pc_GlobalMode = [], pc_ServiceModes = []\<rparr> body"

definition handlePolicy :: "overwrite \<Rightarrow> time \<Rightarrow> web_request \<Rightarrow> json_file \<Rightarrow> reply \<times> json_file" where
  "handlePolicy w now req f =
     (if wq_Method req = ''GET'' then
        (case f of
           Missing \<Rightarrow> (json_reply 200 (JObj [(''global_mode'', JStr ''monitor''), (''service_modes'', JObj [])]), f)
         | Unreadable \<Rightarrow> (http_fail 500 ''failed to read policy'', f)
         | _ \<Rightarrow> (\<lparr>wr_Status = 200, wr_Body = Document f, wr_Cookie = None\<rparr>, f))
      else if wq_Method req = ''PUT'' then
        (case policy_request (wq_Body req) of
           None \<Rightarrow> (http_fail 400 ''invalid JSON'', f)
         | Some p \<Rightarrow>
             if pc_GlobalMode p \<notin> set validModes then (http_fail 400 ''invalid global_mode value'', f)
             else
               (case List.find (\<lambda>sm. snd sm \<notin> set validModes) (pc_ServiceModes p) of
                  Some (svc, _) \<Rightarrow> (http_fail 400 (''invalid mode for service '' @ svc), f)
                | None \<Rightarrow>
                    (if w = Written then status_only 204 else http_fail 500 ''failed to write policy'',
                     overwrite_doc w (enc_PolicyConfig now p) f)))
      else (bad_verb, f))"

subsection \<open>The rules\<close>

record web_rule =
  we_ID :: string
  we_Source :: string
  we_Enabled :: bool
  we_Severity :: string
  we_Description :: string
  we_Pattern :: string
  we_NegativeContext :: "string list"
  we_MaskBody :: bool

definition zero_web_rule :: web_rule where
  "zero_web_rule = \<lparr>we_ID = [], we_Source = [], we_Enabled = False, we_Severity = [], we_Description = [],
     we_Pattern = [], we_NegativeContext = [], we_MaskBody = False\<rparr>"

definition web_rule_fields :: "web_rule fields" where
  "web_rule_fields =
     [fld ''id'' dec_string we_ID we_ID_update,
      fld ''source'' dec_string we_Source we_Source_update,
      fld ''enabled'' dec_bool we_Enabled we_Enabled_update,
      fld ''severity'' dec_string we_Severity we_Severity_update,
      fld ''description'' dec_string we_Description we_Description_update,
      fld ''pattern'' dec_string we_Pattern we_Pattern_update,
      fld ''negative_context'' (dec_list dec_string []) we_NegativeContext we_NegativeContext_update,
      fld ''mask_body'' dec_bool we_MaskBody we_MaskBody_update]"

definition enc_web_rule :: "web_rule \<Rightarrow> json" where
  "enc_web_rule r = JObj
     ([(''id'', JStr (we_ID r)), (''source'', JStr (we_Source r)), (''enabled'', JBool (we_Enabled r)),
       (''severity'', JStr (we_Severity r)), (''description'', JStr (we_Description r)),
       (''pattern'', JStr (we_Pattern r))]
      @ (if we_NegativeContext r = [] then []
         else [(''negative_context'', JArr (map JStr (we_NegativeContext r)))])
      @ [(''mask_body'', JBool (we_MaskBody r))])"

definition validRuleSeverities :: "string list" where
  "validRuleSeverities = [''critical'', ''high'', ''medium'', ''low'']"

definition builtinRuleEntries :: "web_rule list" where
  \<open>builtinRuleEntries = [
    \<lparr>we_ID = ''CRED-001'', we_Source = ''builtin'', we_Enabled = True, we_Severity = ''critical'', we_Description = ''OpenAI API key'',
      we_Pattern = (raw ''sk-(?:proj|org)?-?[a-zA-Z0-9~-_]{20,}''),
      we_NegativeContext = [], we_MaskBody = True\<rparr>,
    \<lparr>we_ID = ''CRED-002'', we_Source = ''builtin'', we_Enabled = True, we_Severity = ''critical'', we_Description = ''Anthropic API key'',
      we_Pattern = (raw ''sk-ant-api~d{2}-[a-zA-Z0-9~-_]{20,}''),
      we_NegativeContext = [], we_MaskBody = True\<rparr>,
    \<lparr>we_ID = ''CRED-003'', we_Source = ''builtin'', we_Enabled = True, we_Severity = ''critical'', we_Description = ''AWS Access Key ID'',
      we_Pattern = ''(?:AKIA|ASIA|AROA|AIDA|ANPA|ANVA|AIPA)[0-9A-Z]{16}'',
      we_NegativeContext = [], we_MaskBody = True\<rparr>,
    \<lparr>we_ID = ''CRED-004'', we_Source = ''builtin'', we_Enabled = True, we_Severity = ''critical'', we_Description = ''AWS Secret Access Key'',
      we_Pattern = (raw ''(?i)aws[_~-~s]{0,5}secret[_~-~s]{0,5}(access[_~-~s]{0,5})?key~s*[=:]~s*(?:~~?")?[A-Za-z0-9+/]{20,}''),
      we_NegativeContext = [], we_MaskBody = True\<rparr>,
    \<lparr>we_ID = ''CRED-005'', we_Source = ''builtin'', we_Enabled = True, we_Severity = ''critical'', we_Description = ''GitHub personal access token'',
      we_Pattern = ''gh[pousr]_[A-Za-z0-9]{36,}'',
      we_NegativeContext = [], we_MaskBody = True\<rparr>,
    \<lparr>we_ID = ''CRED-006'', we_Source = ''builtin'', we_Enabled = True, we_Severity = ''critical'', we_Description = ''Google API key'',
      we_Pattern = (raw ''AIza[0-9A-Za-z~-_]{35}''),
      we_NegativeContext = [], we_MaskBody = True\<rparr>,
    \<lparr>we_ID = ''CRED-007'', we_Source = ''builtin'', we_Enabled = True, we_Severity = ''critical'', we_Description = ''PEM private key'',
      we_Pattern = ''-----BEGIN (?:RSA |EC |DSA |OPENSSH )?PRIVATE KEY-----'',
      we_NegativeContext = [], we_MaskBody = True\<rparr>,
    \<lparr>we_ID = ''CRED-008'', we_Source = ''builtin'', we_Enabled = True, we_Severity = ''critical'', we_Description = ''JWT bearer token'',
      we_Pattern = (raw ''eyJ[a-zA-Z0-9_~-]{10,}~.eyJ[a-zA-Z0-9_~-]{10,}~.''),
      we_NegativeContext = [], we_MaskBody = True\<rparr>,
    \<lparr>we_ID = ''CRED-009'', we_Source = ''builtin'', we_Enabled = True, we_Severity = ''critical'', we_Description = ''AWS Session Token'',
      we_Pattern = (raw ''(?i)(aws_session_token|x-amz-security-token)~s*[=:]~s*(?:~~?")?[A-Za-z0-9+/=]{50,}''),
      we_NegativeContext = [], we_MaskBody = True\<rparr>,
    \<lparr>we_ID = ''CRED-101'', we_Source = ''builtin'', we_Enabled = True, we_Severity = ''high'', we_Description = ''Credential key-value assignment'',
      we_Pattern = (raw ''(?i)(password|passwd|secret|api[_~-]?key|access[_~-]?token|auth[_~-]?token|private[_~-]?key)~s*[:=]~s*~S{4,}''),
      we_NegativeContext = [(raw ''(?i)(how[_ ]to|example|sample|placeholder|<[a-z_]+>|~[your|{your|your_[a-z]|~$~{|:= ""|~s""$|~s''
        @ [CHR 0x27, CHR 0x27] @ ''$)'')], we_MaskBody = True\<rparr>,
    \<lparr>we_ID = ''PII-101'', we_Source = ''builtin'', we_Enabled = True, we_Severity = ''high'', we_Description = ''Japanese confidentiality markers'',
      we_Pattern = (utf8 [0x6A5F, 0x5BC6] @ ''|'' @ utf8 [0x793E, 0x5916, 0x79D8] @ ''|''
        @ utf8 [0x6975, 0x79D8] @ ''|'' @ utf8 [0x79D8, 0x5BC6, 0x60C5, 0x5831]),
      we_NegativeContext = [], we_MaskBody = False\<rparr>,
    \<lparr>we_ID = ''PII-102'', we_Source = ''builtin'', we_Enabled = True, we_Severity = ''high'', we_Description = ''Credit/debit card number'',
      we_Pattern = (raw ''~b(?:4[0-9]{12}(?:[0-9]{3})?|5[1-5][0-9]{14}|3[47][0-9]{13}|6(?:011|5[0-9]{2})[0-9]{12})~b''),
      we_NegativeContext = [], we_MaskBody = True\<rparr>,
    \<lparr>we_ID = ''PII-103'', we_Source = ''builtin'', we_Enabled = True, we_Severity = ''high'', we_Description = (''Japanese My Number ('' @ utf8 [0x500B, 0x4EBA, 0x756A, 0x53F7] @ '')''),
      we_Pattern = (''(?i)('' @ utf8 [0x30DE, 0x30A4, 0x30CA, 0x30F3, 0x30D0, 0x30FC] @ ''|''
        @ utf8 [0x500B, 0x4EBA, 0x756A, 0x53F7] @ raw ''|my.?number)~s*[''
        @ utf8 [0xFF1A] @ '':'' @ utf8 [0x662F] @ raw '']?~s*~d[~d~-~s]{10,14}~d''),
      we_NegativeContext = [], we_MaskBody = True\<rparr>,
    \<lparr>we_ID = ''KEYWORD-201'', we_Source = ''builtin'', we_Enabled = True, we_Severity = ''medium'', we_Description = ''Password in disclosure context'',
      we_Pattern = (raw ''(?i)~bpassword~b''),
      we_NegativeContext = [(raw ''(?i)(how (to|do|can|should)|what is|validate|validation|minimum.{0,20}length|policy|example|sample|forgot|reset (your|my|the)|create.{0,10}password|password (strength|hint|recovery|manager|field|input|policy|hash|encrypt|check|require)|set.{0,5}password~s*$)'')], we_MaskBody = False\<rparr>,
    \<lparr>we_ID = ''KEYWORD-202'', we_Source = ''builtin'', we_Enabled = True, we_Severity = ''medium'', we_Description = ''Internal-use or confidential label'',
      we_Pattern = (''(?i)(internal use only|'' @ utf8 [0x793E, 0x5185, 0x9650, 0x308A]
        @ ''|confidential -|for internal)''),
      we_NegativeContext = [], we_MaskBody = False\<rparr>,
    \<lparr>we_ID = ''KEYWORD-203'', we_Source = ''builtin'', we_Enabled = True, we_Severity = ''medium'', we_Description = ''Authentication token in context'',
      we_Pattern = (raw ''(?i)~b(bearer|auth|authorization)~s+[a-zA-Z0-9~-_+/]{16,}''),
      we_NegativeContext = [], we_MaskBody = True\<rparr>]\<close>

definition readRules :: "json_file \<Rightarrow> web_rule list option" where
  "readRules f =
     (case f of
        Missing \<Rightarrow> Some []
      | Doc j \<Rightarrow> dec_list (dec_struct web_rule_fields) zero_web_rule [] j
      | _ \<Rightarrow> None)"

definition writeRules :: "overwrite \<Rightarrow> web_rule list \<Rightarrow> json_file \<Rightarrow> bool \<times> json_file" where
  "writeRules w rs f = (w = Written, overwrite_doc w (JArr (map enc_web_rule rs)) f)"

definition validateNewRule :: "web_rule \<Rightarrow> web_rule list \<Rightarrow> string" where
  "validateNewRule r existing =
     (if we_ID r = [] then ''id must not be empty''
      else if we_Severity r \<notin> set validRuleSeverities then ''invalid severity: must be critical, high, medium, or low''
      else if compile (we_Pattern r) = None then ''invalid regex pattern: ''
      else if we_ID r \<in> we_ID ` set existing then ''id '' @ we_ID r @ '' already exists''
      else [])"

definition store_rules :: "overwrite \<Rightarrow> int \<Rightarrow> web_rule list \<Rightarrow> json_file \<Rightarrow> reply \<times> json_file" where
  \<comment> \<open>the end of every edit: write, answer 500 when that fails\<close>
  "store_rules w n rs f =
     (case writeRules w rs f of
        (True, f') \<Rightarrow> (status_only n, f') | (False, f') \<Rightarrow> (http_fail 500 ''failed to write rules'', f'))"

definition rule_request :: "string \<Rightarrow> web_rule option" where
  "rule_request body = decode_body (dec_struct web_rule_fields) zero_web_rule body"

definition handleRules :: "overwrite \<Rightarrow> web_request \<Rightarrow> json_file \<Rightarrow> reply \<times> json_file" where
  "handleRules w req f =
     (if wq_Method req = ''GET'' then
        (case readRules f of
           None \<Rightarrow> (http_fail 500 ''failed to read rules'', f)
         | Some rs \<Rightarrow> (json_reply 200 (JArr (map enc_web_rule rs)), f))
      else if wq_Method req = ''POST'' then
        (case rule_request (wq_Body req) of
           None \<Rightarrow> (http_fail 400 ''invalid JSON'', f)
         | Some r0 \<Rightarrow>
             (let r = r0\<lparr>we_Source := ''custom''\<rparr> in
              case readRules f of
                None \<Rightarrow> (http_fail 500 ''failed to read rules'', f)
              | Some rs \<Rightarrow>
                  if validateNewRule r rs \<noteq> [] then (http_fail 400 (validateNewRule r rs), f)
                  else store_rules w 201 (rs @ [r]) f))
      else (bad_verb, f))"

definition handleRuleByID :: "overwrite \<Rightarrow> web_request \<Rightarrow> json_file \<Rightarrow> reply \<times> json_file" where
  "handleRuleByID w req f =
     (let k = trim_prefix (wq_Path req) ''/api/rules/'' in
      if k = [] then (http_fail 400 ''missing rule id'', f)
      else if wq_Method req = ''PUT'' then
        (case rule_request (wq_Body req) of
           None \<Rightarrow> (http_fail 400 ''invalid JSON'', f)
         | Some updated \<Rightarrow>
             (case readRules f of
                None \<Rightarrow> (http_fail 500 ''failed to read rules'', f)
              | Some rs \<Rightarrow>
                  (case find_by we_ID k rs of
                     None \<Rightarrow> (http_fail 404 ''rule not found'', f)
                   | Some old \<Rightarrow>
                       if compile (we_Pattern updated) = None then (http_fail 400 ''invalid regex pattern: '', f)
                       else if we_Severity updated \<noteq> [] \<and> we_Severity updated \<notin> set validRuleSeverities then
                         (http_fail 400 ''invalid severity: must be critical, high, medium, or low'', f)
                       else
                         store_rules w 204
                           (update_first we_ID k (\<lambda>_. updated\<lparr>we_ID := we_ID old, we_Source := we_Source old\<rparr>) rs) f)))
      else if wq_Method req = ''DELETE'' then
        (case readRules f of
           None \<Rightarrow> (http_fail 500 ''failed to read rules'', f)
         | Some rs \<Rightarrow>
             if find_by we_ID k rs = None then (http_fail 404 ''rule not found'', f)
             else store_rules w 204 (filter (\<lambda>r. we_ID r \<noteq> k) rs) f)
      else (bad_verb, f))"

definition handleRulesReset :: "overwrite \<Rightarrow> web_request \<Rightarrow> json_file \<Rightarrow> reply \<times> json_file" where
  "handleRulesReset w req f =
     (if wq_Method req \<noteq> ''POST'' then (bad_verb, f)
      else (case writeRules w builtinRuleEntries f of
              (True, f') \<Rightarrow> (status_only 204, f') | (False, f') \<Rightarrow> (http_fail 500 ''failed to reset rules'', f')))"

subsection \<open>What the engine sees\<close>

definition web_view :: "RuleEntry \<Rightarrow> web_rule" where
  "web_view e = \<lparr>we_ID = re_ID e, we_Source = re_Source e, we_Enabled = re_Enabled e, we_Severity = re_Severity e,
     we_Description = re_Description e, we_Pattern = re_Pattern e, we_NegativeContext = re_NegativeContext e,
     we_MaskBody = re_MaskBody e\<rparr>"

definition as_entry :: "web_rule \<Rightarrow> RuleEntry" where
  "as_entry r = \<lparr>re_ID = we_ID r, re_Source = we_Source r, re_Enabled = we_Enabled r, re_Severity = we_Severity r,
     re_Description = we_Description r, re_Pattern = we_Pattern r, re_NegativeContext = we_NegativeContext r,
     re_MaskBody = we_MaskBody r, re_MaskReplacement = []\<rparr>"

definition no_replacement :: "RuleEntry \<Rightarrow> RuleEntry" where
  "no_replacement e = e\<lparr>re_MaskReplacement := []\<rparr>"

lemma views [simp]:
  "as_entry (web_view e) = no_replacement e" "re_ID (as_entry r) = we_ID r" "we_ID (web_view e) = re_ID e"
  "re_ID (no_replacement e) = re_ID e" "re_MaskReplacement (as_entry r) = []" "re_Pattern (as_entry r) = we_Pattern r"
  "re_Source (as_entry r) = we_Source r" "re_Enabled (as_entry r) = we_Enabled r"
  "we_Source (web_view e) = re_Source e" "web_view (as_entry r) = r"
  by (simp_all add: as_entry_def web_view_def no_replacement_def)

lemma rule_keys:
  "list_all (\<lambda>k. fold_key k = k)
     [''id'', ''source'', ''enabled'', ''severity'', ''description'', ''pattern'', ''negative_context'', ''mask_body'',
      ''mask_replacement'']"
  by code_simp

lemmas rule_key_simps = rule_keys [unfolded list.pred_inject]

interpretation web_reads_engine: json_view enc_RuleEntry "dec_struct web_rule_fields" zero_web_rule web_view
  by unfold_locales
    (simp add: codec_simps rule_key_simps enc_RuleEntry_def web_rule_fields_def zero_web_rule_def web_view_def
      del: fold_key.simps)

interpretation engine_reads_web: json_view enc_web_rule "dec_struct RuleEntry_fields" zero_RuleEntry as_entry
  by unfold_locales
    (simp add: codec_simps enc_web_rule_def RuleEntry_fields_def zero_RuleEntry_def as_entry_def)

interpretation web_rule_codec: json_codec enc_web_rule "dec_struct web_rule_fields" zero_web_rule "\<lambda>_. True"
  by unfold_locales
    (simp add: codec_simps enc_web_rule_def web_rule_fields_def zero_web_rule_def)

lemma readRules_engine: "readRules (Doc (enc_RuleEntries es)) = Some (map web_view es)"
  by (simp add: readRules_def enc_RuleEntries_def web_reads_engine.dec_list_view)

lemma store_rules_ok:
  "store_rules w n rs f = (rp, f') \<Longrightarrow> wr_Status rp = n \<Longrightarrow> n \<noteq> 500 \<Longrightarrow>
     f' = Doc (JArr (map enc_web_rule rs)) \<and> LoadRulesFile f' = Some (map as_entry rs)"
  by (cases w) (auto simp: store_rules_def writeRules_def overwrite_doc_def LoadRulesFile_def dec_RuleEntries_def
      engine_reads_web.dec_list_view)

text \<open>
  An edit of the rules in the web UI reaches the engine, and only what was edited and every mask replacement
  change. From a file as the engine writes it: an accepted POST appends one custom rule with a new identifier and a
  pattern that compiles; an accepted PUT replaces the fields of the first rule with the identifier, except its identifier and
  source; an accepted DELETE removes the rules with the identifier. In each case the engine reads all
  other rules as they were, except that no rule has a mask replacement any more.
\<close>
theorem web_edits_reach_engine:
  "(case handleRules w req (Doc (enc_RuleEntries es)) of (rp, f') \<Rightarrow>
      wr_Status rp = 201 \<longrightarrow>
        (\<exists>r. LoadRulesFile f' = Some (map no_replacement es @ [r]) \<and> re_ID r \<notin> re_ID ` set es
             \<and> re_Source r = ''custom'' \<and> compile (re_Pattern r) \<noteq> None \<and> re_MaskReplacement r = []))
   \<and> (case handleRuleByID w req (Doc (enc_RuleEntries es)) of (rp, f') \<Rightarrow>
      wr_Status rp = 204 \<longrightarrow>
        (let k = trim_prefix (wq_Path req) ''/api/rules/'' in
         if wq_Method req = ''PUT'' then
           (case find_by re_ID k es of
              None \<Rightarrow> False
            | Some old \<Rightarrow>
                \<exists>r. re_ID r = k \<and> re_Source r = re_Source old \<and> compile (re_Pattern r) \<noteq> None
                  \<and> re_MaskReplacement r = []
                  \<and> LoadRulesFile f' = Some (update_first re_ID k (\<lambda>_. r) (map no_replacement es)))
         else LoadRulesFile f' = Some (map no_replacement (filter (\<lambda>e. re_ID e \<noteq> k) es))))"
proof (intro conjI)
  have upd: "map as_entry (update_first we_ID k (\<lambda>_. r) (map web_view es))
      = update_first re_ID k (\<lambda>_. as_entry r) (map no_replacement es)" for k r
    by (induction es) auto
  have fnd: "find_by we_ID k (map web_view es) = Some old
      \<longleftrightarrow> (\<exists>e. old = web_view e \<and> re_ID e = k \<and> find_by re_ID k es = Some e)" for k old
    by (induction es) auto
  have flt: "map as_entry (filter (\<lambda>r. we_ID r \<noteq> k) (map web_view es))
      = map no_replacement (filter (\<lambda>e. re_ID e \<noteq> k) es)" for k
    by (induction es) auto
  show "case handleRules w req (Doc (enc_RuleEntries es)) of (rp, f') \<Rightarrow>
      wr_Status rp = 201 \<longrightarrow>
        (\<exists>r. LoadRulesFile f' = Some (map no_replacement es @ [r]) \<and> re_ID r \<notin> re_ID ` set es
             \<and> re_Source r = ''custom'' \<and> compile (re_Pattern r) \<noteq> None \<and> re_MaskReplacement r = [])"
    by (auto simp: handleRules_def readRules_engine Let_def validateNewRule_def image_image
        split: option.splits if_splits dest!: store_rules_ok intro!: exI [of _ "as_entry _"])
  show "case handleRuleByID w req (Doc (enc_RuleEntries es)) of (rp, f') \<Rightarrow>
      wr_Status rp = 204 \<longrightarrow>
        (let k = trim_prefix (wq_Path req) ''/api/rules/'' in
         if wq_Method req = ''PUT'' then
           (case find_by re_ID k es of
              None \<Rightarrow> False
            | Some old \<Rightarrow>
                \<exists>r. re_ID r = k \<and> re_Source r = re_Source old \<and> compile (re_Pattern r) \<noteq> None
                  \<and> re_MaskReplacement r = []
                  \<and> LoadRulesFile f' = Some (update_first re_ID k (\<lambda>_. r) (map no_replacement es)))
         else LoadRulesFile f' = Some (map no_replacement (filter (\<lambda>e. re_ID e \<noteq> k) es)))"
    by (auto simp: handleRuleByID_def readRules_engine Let_def upd fnd flt
        split: option.splits if_splits dest!: store_rules_ok intro!: exI [of _ "as_entry (_\<lparr>we_ID := _, we_Source := _\<rparr>)"])
qed

definition sample_new_rule :: web_request where
  \<open>sample_new_rule = sample_web_request\<lparr>wq_Method := ''POST'', wq_Path := ''/api/rules'',
     wq_Body := ''{"id":"C-1","severity":"high","pattern":"ab+c","enabled":true,"source":"builtin"}''\<rparr>\<close>

lemma web_edits_reach_engine_witness:
  "wr_Status (fst (handleRules Written sample_new_rule (Doc (enc_RuleEntries [])))) = 201
   \<and> (\<exists>r. LoadRulesFile (snd (handleRules Written sample_new_rule (Doc (enc_RuleEntries [])))) = Some [r]
        \<and> re_Source r = ''custom'')"
proof -
  have "wr_Status (fst (handleRules Written sample_new_rule (Doc (enc_RuleEntries [])))) = 201" by code_simp
  then show ?thesis
    using web_edits_reach_engine [where w = Written and req = sample_new_rule and es = "[]"] by (auto split: prod.splits)
qed

subsection \<open>Whole series of requests\<close>

definition serve_rules :: "overwrite \<Rightarrow> web_request \<Rightarrow> json_file \<Rightarrow> reply \<times> json_file" where
  \<comment> \<open>the three routes below \<open>/api/rules\<close>\<close>
  "serve_rules w req f =
     (if wq_Path req = ''/api/rules/reset'' then handleRulesReset w req f
      else if wq_Path req = ''/api/rules'' then handleRules w req f
      else handleRuleByID w req f)"

definition rules_ok :: "json_file \<Rightarrow> bool" where
  "rules_ok f \<longleftrightarrow>
     (\<exists>es. LoadRulesFile f = Some es \<and> readRules f = Some (map web_view es) \<and> distinct (map re_ID es)
        \<and> list_all (\<lambda>e. compile (re_Pattern e) \<noteq> None) es)"

lemma rules_ok_web:
  "distinct (map we_ID rs) \<Longrightarrow> list_all (\<lambda>r. compile (we_Pattern r) \<noteq> None) rs \<Longrightarrow>
     rules_ok (Doc (JArr (map enc_web_rule rs)))"
  by (simp add: rules_ok_def LoadRulesFile_def dec_RuleEntries_def engine_reads_web.dec_list_view readRules_def
      web_rule_codec.dec_list_enc comp_def list_all_iff)

lemma rules_ok_store:
  assumes "rules_ok f" and "w = Written \<or> w = NotOpened" and "distinct (map we_ID rs)"
    and "list_all (\<lambda>r. compile (we_Pattern r) \<noteq> None) rs"
  shows "rules_ok (snd (writeRules w rs f))" "rules_ok (snd (store_rules w n rs f))"
  using assms rules_ok_web [OF assms(3,4)]
  by (auto simp: writeRules_def store_rules_def overwrite_doc_def)

lemma rules_ok_readD:
  "rules_ok f \<Longrightarrow> readRules f = Some rs \<Longrightarrow>
     distinct (map we_ID rs) \<and> list_all (\<lambda>r. compile (we_Pattern r) \<noteq> None) rs"
  by (auto simp: rules_ok_def list_all_iff comp_def web_view_def)

lemma builtin_entries_compile: "list_all (\<lambda>r. compile (we_Pattern r) \<noteq> None) builtinRuleEntries"
  unfolding builtinRuleEntries_def
  apply (simp only: list.pred_inject web_rule.select_convs)
  by code_simp

lemma builtin_entries_distinct: "distinct (map we_ID builtinRuleEntries)"
  by (simp add: builtinRuleEntries_def)

lemma set_update_first: "set (update_first key k f xs) \<subseteq> f ` set xs \<union> set xs"
  by (induction xs) auto

lemma rules_ok_serve:
  assumes ok: "rules_ok f" and w: "w = Written \<or> w = NotOpened"
  shows "rules_ok (snd (serve_rules w req f))"
proof -
  note st = rules_ok_store [OF ok w]
  have rd: "readRules f = Some rs \<Longrightarrow> distinct (map we_ID rs)"
    "readRules f = Some rs \<Longrightarrow> r \<in> set rs \<Longrightarrow> compile (we_Pattern r) \<noteq> None" for rs r
    using rules_ok_readD [OF ok] by (auto simp: list_all_iff)
  have "rules_ok (snd (handleRulesReset w req f))"
    using st [OF builtin_entries_distinct builtin_entries_compile] ok
    by (auto simp: handleRulesReset_def split: prod.splits bool.splits)
  moreover have "rules_ok (snd (handleRules w req f))"
    using ok by (auto simp: handleRules_def Let_def validateNewRule_def list_all_iff rd intro!: st
        split: option.splits)
  moreover have "rules_ok (snd (handleRuleByID w req f))"
  proof -
    have "rules_ok (snd (store_rules w 204 (update_first we_ID k (\<lambda>_. u\<lparr>we_ID := we_ID old, we_Source := so\<rparr>) rs) f))"
      if "readRules f = Some rs" "find_by we_ID k rs = Some old" "compile (we_Pattern u) \<noteq> None" for k u old so rs
    proof (rule st)
      have "map we_ID (update_first we_ID k (\<lambda>_. u\<lparr>we_ID := k, we_Source := so\<rparr>) rs) = map we_ID rs"
        by (induction rs) auto
      then show "distinct (map we_ID (update_first we_ID k (\<lambda>_. u\<lparr>we_ID := we_ID old, we_Source := so\<rparr>) rs))"
        using rd(1) that find_by_SomeD [OF that(2)] by simp
      show "list_all (\<lambda>r. compile (we_Pattern r) \<noteq> None)
          (update_first we_ID k (\<lambda>_. u\<lparr>we_ID := we_ID old, we_Source := so\<rparr>) rs)"
        using rd(2) [OF that(1)] that(3) set_update_first [of we_ID k "\<lambda>_. u\<lparr>we_ID := we_ID old, we_Source := so\<rparr>" rs]
        by (fastforce simp: list_all_iff)
    qed
    moreover have "rules_ok (snd (store_rules w 204 (filter (\<lambda>r. we_ID r \<noteq> k) rs) f))" if "readRules f = Some rs" for k rs
      using rd [OF that] by (intro st) (auto simp: list_all_iff distinct_map inj_on_def)
    ultimately show ?thesis
      using ok by (auto simp: handleRuleByID_def Let_def split: option.splits)
  qed
  ultimately show ?thesis by (simp add: serve_rules_def)
qed

lemma active_ids:
  "list_all (\<lambda>e. compile (re_Pattern e) \<noteq> None) es \<Longrightarrow>
     map ar_ID (EntriesToAlertRules es) = map re_ID (filter re_Enabled es)"
  by (induction es) (auto simp: EntriesToAlertRules_def List.map_filter_simps entry_to_rule_def split: option.splits)

lemma default_entries_compile: "list_all (\<lambda>e. compile (re_Pattern e) \<noteq> None) DefaultEntries"
  using builtin_compiles by (auto simp: list_all_iff DefaultEntries_def rule_patterns_def)

lemma rules_ok_seeded: "rules_ok (SeedRulesFile Written Missing)"
proof -
  have "distinct (map re_ID DefaultEntries)" by (simp add: DefaultEntries_def builtinRules_def)
  then show ?thesis
    using default_entries_compile
    by (simp add: rules_ok_def SeedRulesFile_def SaveRulesFile_def overwrite_doc_def LoadRulesFile_def
        readRules_engine) (simp add: enc_RuleEntries_def dec_RuleEntries_def rule_codec.dec_list_enc)
qed

text \<open>
  C27: The rules stay usable under whatever the web UI is asked. After any series of requests to the rules, of any
  users, with any bodies, each of whose writes happens or fails as a whole, the engine can load the file, no identifier
  occurs twice, and no enabled rule is skipped for its pattern: the active rules are exactly the
  enabled ones, in their order.
\<close>
theorem rules_stay_usable:
  "\<exists>es. LoadRulesFile (fold (\<lambda>(ok, req) f. snd (serve_rules (if ok then Written else NotOpened) req f)) reqs
             (SeedRulesFile Written Missing)) = Some es
      \<and> distinct (map re_ID es) \<and> map ar_ID (EntriesToAlertRules es) = map re_ID (filter re_Enabled es)"
proof -
  have "rules_ok (fold (\<lambda>(ok, req) f. snd (serve_rules (if ok then Written else NotOpened) req f)) reqs f)"
    if "rules_ok f" for f
    using that
  proof (induction reqs arbitrary: f)
    case (Cons r reqs)
    obtain ok req where r: "r = (ok, req)" by fastforce
    have "rules_ok (snd (serve_rules (if ok then Written else NotOpened) req f))"
      using Cons.prems by (rule rules_ok_serve) simp
    then show ?case using Cons.IH r by simp
  qed simp
  from this [OF rules_ok_seeded] show ?thesis
    unfolding rules_ok_def using active_ids by blast
qed

subsection \<open>Reset and policy\<close>

definition rewritten :: "string set" where
  \<comment> \<open>the built-in rules whose copy in the web UI differs\<close>
  "rewritten = {''CRED-004'', ''CRED-009'', ''CRED-101''}"

lemma entries_agree:
  "list_all2 (\<lambda>r e. we_ID r = re_ID e \<and> we_Severity r = re_Severity e \<and> we_MaskBody r = re_MaskBody e
       \<and> re_Enabled (as_entry r) \<and> (re_ID e \<notin> rewritten \<longrightarrow> as_entry r = e)
       \<and> (re_ID e \<in> rewritten \<longrightarrow> re_MaskReplacement e \<noteq> []))
     builtinRuleEntries DefaultEntries"
  unfolding builtinRuleEntries_def DefaultEntries_def builtinRules_def
  by (simp add: rewritten_def as_entry_def)

lemma list_all2_filter:
  "list_all2 (\<lambda>r e. key r = key' e \<and> (P (key' e) \<longrightarrow> g r = e)) rs es \<Longrightarrow>
     filter (\<lambda>e. P (key' e)) es = map g (filter (\<lambda>r. P (key r)) rs)"
  by (induction rule: list_all2_induct) auto

lemma list_all2_map_eq: "list_all2 (\<lambda>r e. f r = g e) rs es \<Longrightarrow> map f rs = map g es"
  by (induction rule: list_all2_induct) auto


lemma keeps_mode_map: "keeps (\<lambda>m. distinct (map fst m)) dec_mode_map"
  by (auto simp: keeps_def dec_mode_map_def dest: dec_modes_distinct split: json.splits)

lemma policy_request_distinct:
  "policy_request body = Some p \<Longrightarrow> distinct (map fst (pc_ServiceModes p))"
proof -
  have "\<forall>fl \<in> set PolicyConfig_fields. keeps (\<lambda>p. distinct (map fst (pc_ServiceModes p))) (snd fl)"
    using keeps_mode_map by (auto simp: PolicyConfig_fields_def keeps_def fld_def)
  note keep = dec_members_keeps [OF this]
  show "policy_request body = Some p \<Longrightarrow> distinct (map fst (pc_ServiceModes p))"
    using keep [of "\<lparr>pc_GlobalMode = [], pc_ServiceModes = []\<rparr>" True _ p]
    by (auto simp: policy_request_def decode_body_def split: option.splits json.splits)
qed

lemma dec_enc_PolicyConfig:
  "distinct (map fst (pc_ServiceModes p)) \<Longrightarrow> dec_policy (enc_PolicyConfig now p) =
     Some \<lparr>pol_GlobalMode = pc_GlobalMode p, pol_ServiceModes = pc_ServiceModes p, pol_UpdatedAt = now\<rparr>"
  using dec_modes_enc [of "[]" "pc_ServiceModes p"]
  by (simp add: dec_policy_def enc_PolicyConfig_def policy_fields_def zero_policy_def codec_simps dec_mode_map_def)

text \<open>
  C14: The policy set in the web UI is the policy enforced. A PUT answered 204 leaves a file from which the next tick of any
  process's reloader gives every service exactly the mode requested for it, or the requested global mode, and that mode is one
  of the four; a request answered otherwise leaves the file alone unless its write failed.
\<close>
theorem web_policy_is_enforced:
  "case handlePolicy w now req f of (rp, f') \<Rightarrow>
     if wr_Status rp = 204 then
       (case policy_request (wq_Body req) of
          None \<Rightarrow> False
        | Some p \<Rightarrow>
            (\<forall>service. let m = GetMode (reload_policy (d\<lparr>cf_file := f'\<rparr>)) service in
               m = (case map_of (pc_ServiceModes p) service of Some m \<Rightarrow> m | None \<Rightarrow> pc_GlobalMode p)
               \<and> m \<in> {ModeMonitor, ModeWarn, ModeBlock, ModeMask}))
     else f' = f \<or> (w \<noteq> Written \<and> wr_Status rp = 500)"
proof -
  have fnd: "find_by fst service ms = map_option (\<lambda>m. (service, m)) (map_of ms service)" for ms :: "(string \<times> mode) list" and service
    by (induction ms) auto
  have valid: "{ModeMonitor, ModeWarn, ModeBlock, ModeMask} = set validModes"
    by (simp add: modes validModes_def)
  have enforced: "let m = GetMode (reload_policy (d\<lparr>cf_file := Doc (enc_PolicyConfig now p)\<rparr>)) service in
               m = (case map_of (pc_ServiceModes p) service of Some m \<Rightarrow> m | None \<Rightarrow> pc_GlobalMode p)
               \<and> m \<in> set validModes"
    if p: "policy_request body = Some p" and g: "pc_GlobalMode p \<in> set validModes"
      and sm: "List.find (\<lambda>sm. snd sm \<notin> set validModes) (pc_ServiceModes p) = None" for p body service
  proof -
    have "\<forall>sm \<in> set (pc_ServiceModes p). snd sm \<in> set validModes"
      using sm by (auto simp: find_None_iff)
    then show ?thesis
      using g dec_enc_PolicyConfig [OF policy_request_distinct [OF p]]
      by (fastforce simp: Let_def reload_policy_def read_policy_def GetMode_def fnd dest: map_of_SomeD split: option.split)
  qed
  show ?thesis unfolding valid
    using enforced by (auto simp: handlePolicy_def overwrite_doc_def
        split: option.splits json_file.splits overwrite.splits)
qed

end
