(* ===== verification/Webui_Logs.thy ===== *)
theory Webui_Logs
  imports Webui_Http Json_Text "HOL-Library.Multiset"
begin

text \<open>
  The captured prompts in the web UI (\<open>handleLogs\<close>, \<open>readAllLogs\<close>, \<open>parseJSONL\<close> and \<open>matchesText\<close> of
  \<open>webui/handler.go\<close>). The web UI reads the files the engine's logger writes (\<open>Storage\<close>) into a type of its own.

  \<^item> \<open>sort.Slice\<close> does not say how it orders equal timestamps: the sorted list is an argument of the handler, and the
    properties assume that it holds the entries in descending order. The parser of timestamps is an argument too.
  \<^item> \<open>strings.EqualFold\<close> compares the runes folded as in \<open>lower_rune\<close>, with the two runes that fold to an ASCII letter.
\<close>

record web_log =
  wl_Timestamp :: time
  wl_Service :: string
  wl_Host :: string
  wl_Path :: string
  wl_Prompt :: string
  wl_Triggered :: bool
  wl_Severity :: string
  wl_RuleIDs :: "string list"
  wl_ClientIP :: string
  wl_UserID :: string
  wl_Action :: string

definition zero_web_log :: web_log where
  "zero_web_log = \<lparr>wl_Timestamp = zero_time, wl_Service = [], wl_Host = [], wl_Path = [], wl_Prompt = [],
     wl_Triggered = False, wl_Severity = [], wl_RuleIDs = [], wl_ClientIP = [], wl_UserID = [], wl_Action = []\<rparr>"

definition dec_text_time :: "(string \<Rightarrow> time option) \<Rightarrow> time decoder" where
  "dec_text_time parse old j = (case j of JStr s \<Rightarrow> parse s | JNull \<Rightarrow> Some old | _ \<Rightarrow> None)"

definition web_log_fields :: "(string \<Rightarrow> time option) \<Rightarrow> web_log fields" where
  "web_log_fields parse =
     [fld ''timestamp'' (dec_text_time parse) wl_Timestamp wl_Timestamp_update,
      fld ''service'' dec_string wl_Service wl_Service_update,
      fld ''host'' dec_string wl_Host wl_Host_update,
      fld ''path'' dec_string wl_Path wl_Path_update,
      fld ''prompt'' dec_string wl_Prompt wl_Prompt_update,
      fld ''triggered'' dec_bool wl_Triggered wl_Triggered_update,
      fld ''severity'' dec_string wl_Severity wl_Severity_update,
      fld ''rule_ids'' (dec_list dec_string []) wl_RuleIDs wl_RuleIDs_update,
      fld ''client_ip'' dec_string wl_ClientIP wl_ClientIP_update,
      fld ''user_id'' dec_string wl_UserID wl_UserID_update,
      fld ''action'' dec_string wl_Action wl_Action_update]"

definition enc_web_log :: "web_log \<Rightarrow> json" where
  "enc_web_log e = JObj
     ([(''timestamp'', JTime (wl_Timestamp e)), (''service'', JStr (wl_Service e)), (''host'', JStr (wl_Host e)),
       (''path'', JStr (wl_Path e)), (''prompt'', JStr (wl_Prompt e)), (''triggered'', JBool (wl_Triggered e))]
      @ opt_str ''severity'' (wl_Severity e)
      @ (if wl_RuleIDs e = [] then [] else [(''rule_ids'', JArr (map JStr (wl_RuleIDs e)))])
      @ [(''client_ip'', JStr (wl_ClientIP e))] @ opt_str ''user_id'' (wl_UserID e) @ opt_str ''action'' (wl_Action e))"

subsection \<open>Reading the files\<close>

definition scan_lines :: "string \<Rightarrow> string list" where
  \<comment> \<open>the lines of a \<open>bufio.Scanner\<close>; the carriage return it cuts off, \<open>TrimSpace\<close> would\<close>
  "scan_lines s = (let ls = split s [CHR 0x0A] in if last ls = [] then butlast ls else ls)"

definition max_line :: nat where "max_line = 2 ^ 20"

definition parse_line :: "(string \<Rightarrow> time option) \<Rightarrow> string \<Rightarrow> web_log option" where
  \<comment> \<open>empty and malformed lines are skipped\<close>
  "parse_line parse l =
     (let t = trim_space l in
      if t = [] then None else unmarshal (dec_struct (web_log_fields parse)) zero_web_log t)"

definition parseJSONL :: "(string \<Rightarrow> time option) \<Rightarrow> string \<Rightarrow> web_log list option" where
  \<comment> \<open>a line that does not fit the buffer is an error\<close>
  "parseJSONL parse s =
     (if list_ex (\<lambda>l. max_line \<le> length l) (scan_lines s) then None
      else Some (List.map_filter (parse_line parse) (scan_lines s)))"

definition maxLogFiles :: nat where "maxLogFiles = 20"

datatype log_file = Irregular | Unopened | Regular string

definition file_logs :: "(string \<Rightarrow> time option) \<Rightarrow> log_file \<Rightarrow> web_log list" where
  \<comment> \<open>a file that cannot be read to its end is skipped\<close>
  "file_logs parse f =
     (case f of Regular s \<Rightarrow> (case parseJSONL parse s of None \<Rightarrow> [] | Some es \<Rightarrow> es) | _ \<Rightarrow> [])"

definition readAllLogs :: "(string \<Rightarrow> time option) \<Rightarrow> (string \<times> log_file) list \<Rightarrow> web_log list" where
  \<comment> \<open>the \<open>.jsonl\<close> files of the directory by name\<close>
  "readAllLogs parse fs = concat (map (\<lambda>(n, f). file_logs parse f) (take maxLogFiles (rev (sort_key fst fs))))"

subsection \<open>Filters\<close>

definition fold_rune :: "rune \<Rightarrow> rune" where
  "fold_rune r = (if r = 0x17F then 0x73 else lower_rune r)"

definition equal_fold :: "string \<Rightarrow> string \<Rightarrow> bool" where
  "equal_fold s t \<longleftrightarrow> map (fold_rune \<circ> fst) (runes s) = map (fold_rune \<circ> fst) (runes t)"

definition matchesText :: "web_log \<Rightarrow> string \<Rightarrow> bool" where
  "matchesText e q \<longleftrightarrow>
     contains (to_lower (wl_Prompt e)) q \<or> list_ex (\<lambda>r. contains (to_lower r) q) (wl_RuleIDs e)"

definition query :: "web_request \<Rightarrow> string \<Rightarrow> string" where
  \<comment> \<open>\<open>r.URL.Query().Get\<close>\<close>
  "query req k = (case find_by fst k (wq_Query req) of None \<Rightarrow> [] | Some (_, v) \<Rightarrow> v)"

definition excludeServices :: "web_request \<Rightarrow> string list" where
  "excludeServices req =
     (if query req ''exclude_service'' = [] then []
      else map to_lower (filter (\<lambda>t. t \<noteq> []) (map trim_space (split (query req ''exclude_service'') '',''))))"

definition wanted :: "web_request \<Rightarrow> web_log \<Rightarrow> bool" where
  \<comment> \<open>one turn of the loop over the entries\<close>
  "wanted req e \<longleftrightarrow>
     (query req ''service'' = [] \<or> equal_fold (wl_Service e) (query req ''service''))
     \<and> (query req ''severity'' = [] \<or> equal_fold (wl_Severity e) (query req ''severity''))
     \<and> (query req ''triggered'' \<noteq> ''true'' \<or> wl_Triggered e)
     \<and> (to_lower (query req ''q'') = [] \<or> matchesText e (to_lower (query req ''q'')))
     \<and> to_lower (wl_Service e) \<notin> set (excludeServices req)
     \<and> (to_lower (query req ''host'') = [] \<or> contains (to_lower (wl_Host e)) (to_lower (query req ''host'')))
     \<and> (to_lower (query req ''user_id'') = [] \<or> contains (to_lower (wl_UserID e)) (to_lower (query req ''user_id'')))"

definition filter_logs :: "web_request \<Rightarrow> web_log list \<Rightarrow> web_log list" where
  "filter_logs req es = take 500 (filter (wanted req) es)"

definition handleLogs :: "(web_log list \<Rightarrow> web_log list) \<Rightarrow> (string \<Rightarrow> time option) \<Rightarrow> web_request \<Rightarrow>
    (string \<times> log_file) list option \<Rightarrow> reply" where
  \<comment> \<open>the sort, the parser of timestamps; \<open>None\<close>: the directory cannot be listed\<close>
  "handleLogs srt parse req dir =
     (if wq_Method req \<noteq> ''GET'' then bad_verb
      else (case dir of
              None \<Rightarrow> http_fail 500 ''failed to read logs''
            | Some fs \<Rightarrow> json_reply 200 (JArr (map enc_web_log (filter_logs req (srt (readAllLogs parse fs)))))))"

subsection \<open>The page shows what the engine logged\<close>

definition shown :: "LogEntry \<Rightarrow> web_log" where
  \<comment> \<open>an entry of the engine in the type of the web UI, which has no field for the source of the identity\<close>
  "shown e = \<lparr>wl_Timestamp = le_Timestamp e, wl_Service = sanitize (le_Service e), wl_Host = sanitize (le_Host e),
     wl_Path = sanitize (le_Path e), wl_Prompt = sanitize (le_Prompt e), wl_Triggered = le_Triggered e,
     wl_Severity = sanitize (le_Severity e), wl_RuleIDs = map sanitize (le_RuleIDs e), wl_ClientIP = sanitize (le_ClientIP e),
     wl_UserID = sanitize (le_UserID e), wl_Action = sanitize (le_Action e)\<rparr>"

lemma sanitize_Nil [simp]: "sanitize [] = []"
  by (simp add: sanitize.simps)

lemma as_read_LogEntry:
  "as_read (enc_LogEntry e) = JObj
     ([(''timestamp'', JStr (rfc3339 (le_Timestamp e))), (''service'', JStr (sanitize (le_Service e))),
       (''host'', JStr (sanitize (le_Host e))), (''path'', JStr (sanitize (le_Path e))),
       (''prompt'', JStr (sanitize (le_Prompt e))), (''triggered'', JBool (le_Triggered e))]
      @ (if le_Severity e = [] then [] else [(''severity'', JStr (sanitize (le_Severity e)))])
      @ (if le_RuleIDs e = [] then [] else [(''rule_ids'', JArr (map JStr (map sanitize (le_RuleIDs e))))])
      @ [(''client_ip'', JStr (sanitize (le_ClientIP e)))]
      @ (if le_UserID e = [] then [] else [(''user_id'', JStr (sanitize (le_UserID e)))])
      @ (if le_IdentitySource e = [] then [] else [(''identity_source'', JStr (sanitize (le_IdentitySource e)))])
      @ (if le_Action e = [] then [] else [(''action'', JStr (sanitize (le_Action e)))]))"
  by (simp add: enc_LogEntry_def opt_str_def sanitize_ascii is_ascii_rfc3339)

lemma log_fields:
  "field_for (web_log_fields parse) ''timestamp'' = Some (snd (fld ''timestamp'' (dec_text_time parse) wl_Timestamp wl_Timestamp_update))"
  "field_for (web_log_fields parse) ''service'' = Some (snd (fld ''service'' dec_string wl_Service wl_Service_update))"
  "field_for (web_log_fields parse) ''host'' = Some (snd (fld ''host'' dec_string wl_Host wl_Host_update))"
  "field_for (web_log_fields parse) ''path'' = Some (snd (fld ''path'' dec_string wl_Path wl_Path_update))"
  "field_for (web_log_fields parse) ''prompt'' = Some (snd (fld ''prompt'' dec_string wl_Prompt wl_Prompt_update))"
  "field_for (web_log_fields parse) ''triggered'' = Some (snd (fld ''triggered'' dec_bool wl_Triggered wl_Triggered_update))"
  "field_for (web_log_fields parse) ''severity'' = Some (snd (fld ''severity'' dec_string wl_Severity wl_Severity_update))"
  "field_for (web_log_fields parse) ''rule_ids'' = Some (snd (fld ''rule_ids'' (dec_list dec_string []) wl_RuleIDs wl_RuleIDs_update))"
  "field_for (web_log_fields parse) ''client_ip'' = Some (snd (fld ''client_ip'' dec_string wl_ClientIP wl_ClientIP_update))"
  "field_for (web_log_fields parse) ''user_id'' = Some (snd (fld ''user_id'' dec_string wl_UserID wl_UserID_update))"
  "field_for (web_log_fields parse) ''identity_source'' = None"
  "field_for (web_log_fields parse) ''action'' = Some (snd (fld ''action'' dec_string wl_Action wl_Action_update))"
proof -
  have "list_all (\<lambda>k. fold_key k \<noteq> fold_key ''identity_source'') [''timestamp'', ''service'', ''host'', ''path'', ''prompt'',
      ''triggered'', ''severity'', ''rule_ids'', ''client_ip'', ''user_id'', ''action'']" by code_simp
  then show "field_for (web_log_fields parse) ''identity_source'' = None"
    by (simp add: field_for_def web_log_fields_def fld_def del: fold_key.simps)
qed (simp_all add: field_for_def web_log_fields_def fld_def)

lemma decode_log_entry:
  assumes "parse (rfc3339 (le_Timestamp e)) = Some (le_Timestamp e)"
  shows "dec_struct (web_log_fields parse) zero_web_log (as_read (enc_LogEntry e)) = Some (shown e)"
proof -
  have opt: "dec_members False fs r (if s = [] then [] else [m]) =
      (case dec_members False fs r [m] of None \<Rightarrow> None | Some r' \<Rightarrow> Some (if s = [] then r else r'))"
    if "dec_members False fs r [m] \<noteq> None" for fs :: "web_log fields" and r m and s :: "'a list"
    using that by auto
  have ids: "dec_list dec_string [] [] (JArr (map (JStr \<circ> sanitize) rs)) = Some (map sanitize rs)" for rs
    using string_codec.dec_list_enc [of "map sanitize rs"] by (simp add: list_all_iff)
  show ?thesis
    using assms
    by (simp add: as_read_LogEntry dec_struct_def dec_members_append log_fields fld_def dec_text_time_def dec_string_def
        ids opt zero_web_log_def shown_def)
qed

lemma sort_key_map: "(\<And>x. key' (g x) = key x) \<Longrightarrow> sort_key key' (map g xs) = map g (sort_key key xs)"
proof (induction xs)
  case (Cons x xs)
  have "insort_key key' (g x) (map g ys) = map g (insort_key key x ys)" for ys
    using Cons.prems by (induction ys) auto
  then show ?case using Cons by simp
qed simp

lemma scan_lines_log: "scan_lines (concat (map log_line es)) = map (\<lambda>e. encode_json True (enc_LogEntry e)) es"
  by (simp add: scan_lines_def log_splits_into_entries)

lemma parse_log_line:
  assumes "parse (rfc3339 (le_Timestamp e)) = Some (le_Timestamp e)"
  shows "parse_line parse (encode_json True (enc_LogEntry e)) = Some (shown e)"
proof -
  let ?s = "encode_json True (enc_LogEntry e)"
  have plain: "plain_char (CHR ''{'')" "plain_char (CHR ''}'')" by code_simp+
  have "hd ?s = CHR ''{''" and "last ?s = CHR ''}''" and ne: "?s \<noteq> []" by (simp_all add: enc_LogEntry_def)
  then have "trim_space ?s = ?s" using plain by (intro trim_space_plain) simp_all
  moreover have "no_numbers (enc_LogEntry e)" by (simp add: enc_LogEntry_def opt_str_def list_all_iff)
  ultimately show ?thesis
    using ne decode_log_entry [where parse = parse and e = e] assms
    by (simp add: parse_line_def Let_def unmarshal_def unmarshal_any_encode)
qed

definition readable :: "(string \<Rightarrow> time option) \<Rightarrow> LogEntry \<Rightarrow> bool" where
  \<comment> \<open>the parser reads the timestamp back, and the line fits the buffer\<close>
  "readable parse e \<longleftrightarrow> parse (rfc3339 (le_Timestamp e)) = Some (le_Timestamp e)
     \<and> length (encode_json True (enc_LogEntry e)) < max_line"

lemma parse_log_file:
  assumes "list_all (readable parse) es"
  shows "parseJSONL parse (concat (map log_line es)) = Some (map shown es)"
proof -
  have "\<not> list_ex (\<lambda>l. max_line \<le> length l) (map (\<lambda>e. encode_json True (enc_LogEntry e)) es)"
    using assms by (auto simp: list_ex_iff list_all_iff readable_def)
  moreover have "List.map_filter (parse_line parse) (map (\<lambda>e. encode_json True (enc_LogEntry e)) es) = map shown es"
    using assms by (induction es) (simp_all add: parse_log_line readable_def)
  ultimately show ?thesis by (simp add: parseJSONL_def scan_lines_log)
qed

text \<open>
  C30: the page reads every entry the engine logged. Of a directory that holds log files of the engine, the web UI reads the
  twenty last ones by name, and of each the entries in the order they were written, with every field the page has; bytes
  that are not UTF-8 were replaced when they were written. Lines of a mebibyte and more are the exception: they hide the
  whole file.
\<close>
theorem engine_logs_are_read:
  assumes "list_all (\<lambda>(n, es). list_all (readable parse) es) logs"
  shows "readAllLogs parse (map (\<lambda>(n, es). (n, Regular (concat (map log_line es)))) logs)
     = concat (map (\<lambda>(n, es). map shown es) (take maxLogFiles (rev (sort_key fst logs))))"
proof -
  let ?f = "\<lambda>(n, es). (n, Regular (concat (map log_line es)))"
  have "sort_key fst (map ?f logs) = map ?f (sort_key fst logs)"
    by (rule sort_key_map) auto
  moreover have "file_logs parse (snd (?f x)) = map shown (snd x)" if "x \<in> set logs" for x
    using assms that parse_log_file [of parse "snd x"] by (auto simp: file_logs_def list_all_iff split_beta)
  then have "map (\<lambda>(n, f). file_logs parse f) (map ?f xs) = map (\<lambda>(n, es). map shown es) xs" if "set xs \<subseteq> set logs" for xs
    using that by (induction xs) (auto simp: split_beta)
  moreover have "set (take maxLogFiles (rev (sort_key fst logs))) \<subseteq> set logs"
    using set_take_subset [of maxLogFiles "rev (sort_key fst logs)"] by simp
  ultimately show ?thesis by (simp add: readAllLogs_def rev_map take_map del: map_map)
qed

lemma take_sorted_wrt:
  assumes "sorted_wrt R xs" and "x \<in> set (drop n xs)" and "y \<in> set (take n xs)"
  shows "R y x"
  using assms sorted_wrt_append [of R "take n xs" "drop n xs"] by simp

text \<open>
  The page shows the newest matching entries. What is shown are at most 500 entries of the files that pass the filters,
  each as often as it is there; when a matching entry is left out, 500 are shown and none of them is older.
\<close>
theorem newest_entries_are_shown:
  assumes "wq_Method req = ''GET''"
    and srt: "mset (srt (readAllLogs parse fs)) = mset (readAllLogs parse fs)"
      "sorted_wrt (\<lambda>a b. wl_Timestamp b \<le> wl_Timestamp a) (srt (readAllLogs parse fs))"
  shows "\<exists>page rest. handleLogs srt parse req (Some fs) = json_reply 200 (JArr (map enc_web_log page))
     \<and> length page \<le> 500 \<and> mset page + mset rest = filter_mset (wanted req) (mset (readAllLogs parse fs))
     \<and> (\<forall>e \<in> set rest. length page = 500 \<and> (\<forall>p \<in> set page. wl_Timestamp e \<le> wl_Timestamp p))"
proof -
  let ?all = "filter (wanted req) (srt (readAllLogs parse fs))"
  have sorted: "sorted_wrt (\<lambda>a b. wl_Timestamp b \<le> wl_Timestamp a) ?all"
    using srt(2) by (rule sorted_wrt_filter)
  have "\<forall>e \<in> set (drop 500 ?all). length (take 500 ?all) = 500
      \<and> (\<forall>p \<in> set (take 500 ?all). wl_Timestamp e \<le> wl_Timestamp p)"
    using take_sorted_wrt [OF sorted] by (cases "length ?all \<le> 500") simp_all
  moreover have "mset (take 500 ?all) + mset (drop 500 ?all) = filter_mset (wanted req) (mset (readAllLogs parse fs))"
    by (simp flip: mset_append add: srt(1))
  ultimately show ?thesis
    using assms(1) by (intro exI [of _ "take 500 ?all"] exI [of _ "drop 500 ?all"]) (simp add: handleLogs_def filter_logs_def)
qed

definition sample_logged :: LogEntry where
  "sample_logged = \<lparr>le_Timestamp = 5, le_Service = ''claude'', le_Host = ''h'', le_Path = ''/'', le_Prompt = ''p'',
     le_Triggered = True, le_Severity = ''high'', le_RuleIDs = [''CRED-001''], le_ClientIP = ''10.0.0.1'', le_UserID = [],
     le_IdentitySource = ''dns'', le_Action = ''blocked''\<rparr>"

lemma sample_readable: "readable (\<lambda>_. Some 5) sample_logged"
proof -
  have "length (encode_json True (enc_LogEntry sample_logged)) < 1000" by code_simp
  then show ?thesis by (simp add: readable_def max_line_def sample_logged_def)
qed

lemma engine_logs_are_read_witness:
  "readAllLogs (\<lambda>_. Some 5) [(''a.jsonl'', Regular (log_line sample_logged))] = [shown sample_logged]"
  using engine_logs_are_read [of "\<lambda>_. Some 5" "[(''a.jsonl'', [sample_logged])]"] sample_readable
  by (simp add: maxLogFiles_def)

lemma newest_entries_are_shown_witness:
  "\<exists>page rest. handleLogs (\<lambda>es. es) (\<lambda>_. Some 5) sample_web_request (Some [(''a.jsonl'', Regular (log_line sample_logged))])
       = json_reply 200 (JArr (map enc_web_log page))
     \<and> mset page + mset rest = filter_mset (wanted sample_web_request) {#shown sample_logged#}"
proof -
  let ?fs = "[(''a.jsonl'', Regular (log_line sample_logged))]"
  have "readAllLogs (\<lambda>_. Some 5) ?fs = [shown sample_logged]"
    using parse_log_file [of "\<lambda>_. Some 5" "[sample_logged]"] sample_readable
    by (simp add: readAllLogs_def file_logs_def maxLogFiles_def)
  moreover have "wq_Method sample_web_request = ''GET''" by (simp add: sample_web_request_def)
  ultimately obtain page rest where "handleLogs (\<lambda>es. es) (\<lambda>_. Some 5) sample_web_request (Some ?fs)
       = json_reply 200 (JArr (map enc_web_log page))"
    and "mset page + mset rest = filter_mset (wanted sample_web_request) (mset [shown sample_logged])"
    using newest_entries_are_shown [where req = sample_web_request and srt = "\<lambda>es. es" and parse = "\<lambda>_. Some 5" and fs = ?fs]
    by auto
  then show ?thesis by (intro exI [of _ page] exI [of _ rest]) simp
qed

end
