(* ===== verification/Serials.thy ===== *)
theory Serials
  imports Gostrings
begin

text \<open>
  Certificate serials as text: the normal form the web UI keeps in its revocation list
  (\<open>normalizeSerial\<close>, \<open>webui/crlstore.go\<close>), the one tls-proxy uses as the key of its set
  (\<open>normalizeSerialHex\<close>, \<open>tls-proxy/crl.go\<close>), and what \<open>big.Int.Text(16)\<close> writes (\<open>serial_text\<close>).
  Both functions leave the written form alone, so the two programs agree on every serial tls-proxy issues.
\<close>

definition serial_text :: "nat \<Rightarrow> string" where
  "serial_text n = base_str 16 n"

definition normalizeSerial :: "string \<Rightarrow> string" where
  "normalizeSerial s =
     replace_all (replace_all (trim_prefix (to_lower (trim_space s)) ''0x'') '':'' []) '' '' []"

definition padEvenLen :: "string \<Rightarrow> string" where
  "padEvenLen s = (if odd (length s) then ''0'' @ s else s)"

definition hex_char :: "char \<Rightarrow> bool" where
  "hex_char c \<longleftrightarrow> (case digit_val c of Some d \<Rightarrow> d < 16 | None \<Rightarrow> False)"

definition hex_valid :: "string \<Rightarrow> bool" where
  \<comment> \<open>\<open>hex.DecodeString\<close> succeeds\<close>
  "hex_valid s \<longleftrightarrow> even (length s) \<and> list_all hex_char s"

definition normalizeSerialHex :: "string \<Rightarrow> string" where
  "normalizeSerialHex s0 =
     (let s1 = trim_prefix (trim_prefix (trim_space s0) ''0x'') ''0X'';
          s = replace_all (replace_all (replace_all s1 '':'' []) ''-'' []) '' '' []
      in if s = [] then []
         else if \<not> hex_valid (padEvenLen s) then []
         else (let stripped = trim_left_set (to_lower s) ''0'' in
               if stripped = [] then ''0'' else stripped))"

subsection \<open>Canonical serials\<close>

lemma replace_all_absent: "c \<in> set sub \<Longrightarrow> c \<notin> set s \<Longrightarrow> replace_all s sub new = s"
  by (cases "length s") (simp_all add: replace_all_def split_def index_absent_char)

lemma lower_hex_digit:
  assumes "d < 16"
  shows "lower_char (digit_char d) = digit_char d" "hex_char (digit_char d)" "plain_char (digit_char d)"
    "digit_char d \<notin> {CHR ''x'', CHR ''X'', CHR '':'', CHR ''-'', CHR '' ''}"
    "digit_char d = CHR ''0'' \<longleftrightarrow> d = 0"
proof -
  have v: "digit_val (digit_char d) = Some d" using assms by (simp add: digit_val_digit_char)
  define ds where "ds = ''0123456789abcdef''"
  have "list_all (\<lambda>c. lower_char c = c) ds" by (simp add: ds_def lower_char_def)
  moreover have "length ds = 16" by (simp add: ds_def)
  ultimately have "lower_char (ds ! d) = ds ! d" using assms by (simp add: list_all_length)
  moreover have "ds ! d = digit_char d"
  proof -
    have "take 16 ''0123456789abcdefghijklmnopqrstuvwxyz'' = ds" by (simp add: ds_def)
    then have "ds ! d = ''0123456789abcdefghijklmnopqrstuvwxyz'' ! d" using assms by (metis nth_take)
    then show ?thesis using assms by (simp add: digit_char_def)
  qed
  ultimately show "lower_char (digit_char d) = digit_char d" by simp
  show "hex_char (digit_char d)" using v assms by (simp add: hex_char_def)
  show "plain_char (digit_char d)" using assms by (simp add: plain_digit_char)
  have "digit_val CHR ''x'' = Some 33" "digit_val CHR ''X'' = Some 33" "digit_val CHR '':'' = None"
    "digit_val CHR ''-'' = None" "digit_val CHR '' '' = None"
    by (simp_all add: digit_val_def)
  then show "digit_char d \<notin> {CHR ''x'', CHR ''X'', CHR '':'', CHR ''-'', CHR '' ''}"
    using v assms by auto
  have "digit_val CHR ''0'' = Some 0" by (simp add: digit_val_def)
  then show "digit_char d = CHR ''0'' \<longleftrightarrow> d = 0"
    using v by (auto simp: digit_char_def)
qed

lemma serial_chars:
  assumes "c \<in> set (serial_text n)"
  shows "lower_char c = c" "hex_char c" "plain_char c"
    "c \<notin> {CHR ''x'', CHR ''X'', CHR '':'', CHR ''-'', CHR '' ''}"
proof -
  obtain d where "d < 16" and "c = digit_char d"
    using base_str_digits [of 16 c n] assms by (auto simp: serial_text_def)
  then show "lower_char c = c" "hex_char c" "plain_char c"
    "c \<notin> {CHR ''x'', CHR ''X'', CHR '':'', CHR ''-'', CHR '' ''}"
    using lower_hex_digit [of d] by simp_all
qed

lemma base_str_leading:
  "2 \<le> b \<Longrightarrow> b \<le> 16 \<Longrightarrow> 0 < n \<Longrightarrow> hd (base_str b n) \<noteq> CHR ''0''"
proof (induction b n rule: base_str.induct)
  case (1 b n)
  show ?case
  proof (cases "n < b")
    case True
    then show ?thesis using "1.prems" lower_hex_digit(5) [of n] by (subst base_str.simps) simp
  next
    case False
    then have "0 < n div b" using "1.prems" by (simp add: div_greater_zero_iff)
    then show ?thesis using "1.IH" "1.prems" False by (subst base_str.simps) simp
  qed
qed

lemma serial_text_not_Nil [simp]: "serial_text n \<noteq> []"
  by (simp add: serial_text_def)

lemma to_lower_serial: "to_lower (serial_text n) = serial_text n"
proof -
  have "is_ascii (serial_text n)"
    using serial_chars(3) [of _ n] by (auto simp: is_ascii_def list_all_iff plain_char_def)
  then show ?thesis using serial_chars(1) by (simp add: to_lower_def map_idI)
qed

lemma trim_space_serial: "trim_space (serial_text n) = serial_text n"
  using plain_base_str [of 16 n] by (simp add: serial_text_def trim_space_plain)

lemma no_0x_serial: "trim_prefix (serial_text n) ''0x'' = serial_text n"
    "trim_prefix (serial_text n) ''0X'' = serial_text n"
proof -
  have "\<not> has_prefix (serial_text n) [CHR ''0'', c]" if "c \<in> {CHR ''x'', CHR ''X''}" for c
    using serial_chars(4) [of c n] that by (auto simp: has_prefix_iff)
  then show "trim_prefix (serial_text n) ''0x'' = serial_text n"
    "trim_prefix (serial_text n) ''0X'' = serial_text n" by (simp_all add: trim_prefix_def)
qed

lemma no_separators_serial:
  "c \<in> {CHR '':'', CHR ''-'', CHR '' ''} \<Longrightarrow> replace_all (serial_text n) [c] new = serial_text n"
  using serial_chars(4) [of c n] by (intro replace_all_absent [of c]) auto

lemma normalizeSerial_text: "normalizeSerial (serial_text n) = serial_text n"
  by (simp add: normalizeSerial_def trim_space_serial to_lower_serial no_0x_serial no_separators_serial)

lemma hex_valid_serial: "hex_valid (padEvenLen (serial_text n))"
proof -
  have "hex_char CHR ''0''" by (simp add: hex_char_def digit_val_def)
  then show ?thesis
    using serial_chars(2) by (auto simp: hex_valid_def padEvenLen_def list_all_iff)
qed

lemma strip_zeros_serial:
  "(let t = trim_left_set (serial_text n) ''0'' in if t = [] then ''0'' else t) = serial_text n"
proof (cases "n = 0")
  case True
  have "serial_text 0 = ''0''" by (simp add: serial_text_def base_str.simps digit_char_def)
  then show ?thesis using True by (simp add: trim_left_set_def)
next
  case False
  then have "hd (serial_text n) \<noteq> CHR ''0''" by (simp add: serial_text_def base_str_leading)
  then have "trim_left_set (serial_text n) ''0'' = serial_text n"
    by (cases "serial_text n") (simp_all add: trim_left_set_def)
  then show ?thesis by simp
qed

lemma normalizeSerialHex_text: "normalizeSerialHex (serial_text n) = serial_text n"
  using strip_zeros_serial [of n]
  by (simp add: normalizeSerialHex_def trim_space_serial to_lower_serial no_0x_serial
      no_separators_serial hex_valid_serial Let_def)

lemma serial_text_inject [simp]: "serial_text n = serial_text m \<longleftrightarrow> n = m"
proof
  assume "serial_text n = serial_text m"
  then have "base_val 16 0 (serial_text n) = base_val 16 0 (serial_text m)" by simp
  then show "n = m" by (simp add: serial_text_def base_val_base_str)
qed simp

lemmas serial_simps = normalizeSerial_text normalizeSerialHex_text serial_text_inject

text \<open>
  The two programs agree on a serial: both the web UI's and tls-proxy's normal form of a serial that
  tls-proxy writes is that text itself, different serials have different texts, and the text of
  another writer, in capitals with colons and a leading zero, comes to the same key.
\<close>
theorem serials_agree:
  "normalizeSerial (serial_text n) = serial_text n
   \<and> normalizeSerialHex (serial_text n) = serial_text n
   \<and> (serial_text n = serial_text m \<longleftrightarrow> n = m)
   \<and> normalizeSerialHex ''0A:1B:2C'' = ''a1b2c''"
proof -
  have "normalizeSerialHex ''0A:1B:2C'' = ''a1b2c''" by code_simp
  then show ?thesis by (simp add: serial_simps)
qed

end
