(* ===== verification/Crl.thy ===== *)
theory Crl
  imports Serials Files
begin

text \<open>
  The revocation list \<open>revoked-serials.json\<close>: the web UI writes it (\<open>webui/crlstore.go\<close>), tls-proxy
  polls it (\<open>tls-proxy/crl.go\<close>). The locale \<open>keyed_set\<close> is what both sides mean by a list of revoked
  serials; the web UI's slice of entries is an instance of it.
\<close>

record RevokedEntry =
  rv_SerialHex :: string
  rv_Subject :: string
  rv_RevokedAt :: time

definition zero_RevokedEntry :: RevokedEntry where
  "zero_RevokedEntry = \<lparr>rv_SerialHex = [], rv_Subject = [], rv_RevokedAt = zero_time\<rparr>"

definition RevokedEntry_fields :: "RevokedEntry fields" where
  "RevokedEntry_fields =
     [fld ''serial_hex'' dec_string rv_SerialHex rv_SerialHex_update,
      fld ''subject'' dec_string rv_Subject rv_Subject_update,
      fld ''revoked_at'' dec_time rv_RevokedAt rv_RevokedAt_update]"

definition enc_RevokedEntry :: "RevokedEntry \<Rightarrow> json" where
  "enc_RevokedEntry e = JObj
     ([(''serial_hex'', JStr (rv_SerialHex e))]
      @ (if rv_Subject e = [] then [] else [(''subject'', JStr (rv_Subject e))])
      @ [(''revoked_at'', JTime (rv_RevokedAt e))])"

interpretation revoked_codec: json_codec enc_RevokedEntry "dec_struct RevokedEntry_fields" zero_RevokedEntry
    "\<lambda>_. True"
  by unfold_locales
    (simp add: codec_simps enc_RevokedEntry_def RevokedEntry_fields_def zero_RevokedEntry_def)

record crl_file =
  cl_Version :: int
  cl_Revoked :: "RevokedEntry list"

definition dec_crl_file :: "json \<Rightarrow> crl_file option" where
  \<comment> \<open>the two programs declare the same fields\<close>
  "dec_crl_file j = dec_struct
     [fld ''version'' dec_int cl_Version cl_Version_update,
      fld ''revoked'' (dec_list (dec_struct RevokedEntry_fields) zero_RevokedEntry) cl_Revoked
        cl_Revoked_update] \<lparr>cl_Version = 0, cl_Revoked = []\<rparr> j"

definition enc_crl_file :: "RevokedEntry list \<Rightarrow> json" where
  "enc_crl_file es =
     JObj [(''version'', enc_int 1), (''revoked'', JArr (map enc_RevokedEntry es))]"

lemma dec_enc_crl_file: "dec_crl_file (enc_crl_file es) = Some \<lparr>cl_Version = 1, cl_Revoked = es\<rparr>"
  by (simp add: dec_crl_file_def enc_crl_file_def codec_simps revoked_codec.dec_list_enc int64_def
      min_int64_def max_int64_def)

subsection \<open>The writer\<close>

record CRLStore =
  cr_entries :: "RevokedEntry list"
  cr_file :: json_file

definition load_crl :: "CRLStore \<Rightarrow> (store_error + unit) \<times> CRLStore" where
  \<comment> \<open>an empty file leaves the entries alone; a missing one is an error the callers ignore\<close>
  "load_crl s =
     (case cr_file s of
        Missing \<Rightarrow> (Inl NotFound, s)
      | Unreadable \<Rightarrow> (Inl ReadFailed, s)
      | Blank \<Rightarrow> (Inr (), s)
      | Malformed \<Rightarrow> (Inl ReadFailed, s)
      | Doc j \<Rightarrow> (case dec_crl_file j of
                   None \<Rightarrow> (Inl ReadFailed, s)
                 | Some cf \<Rightarrow> (Inr (), s\<lparr>cr_entries := cl_Revoked cf\<rparr>)))"

definition newCRLStore :: "json_file \<Rightarrow> CRLStore option" where
  "newCRLStore f =
     (case load_crl \<lparr>cr_entries = [], cr_file = f\<rparr> of
        (Inl NotFound, s) \<Rightarrow> Some s | (Inl _, _) \<Rightarrow> None | (Inr _, s) \<Rightarrow> Some s)"

definition Reload_crl :: "CRLStore \<Rightarrow> (store_error + unit) \<times> CRLStore" where
  "Reload_crl s = (case load_crl s of (Inl NotFound, s') \<Rightarrow> (Inr (), s') | r \<Rightarrow> r)"

definition save_crl :: "bool \<Rightarrow> CRLStore \<Rightarrow> (store_error + unit) \<times> CRLStore" where
  "save_crl ok s =
     (if ok then Inr () else Inl WriteFailed, s\<lparr>cr_file := write_doc ok (enc_crl_file (cr_entries s)) (cr_file s)\<rparr>)"

definition has_serial :: "string \<Rightarrow> RevokedEntry list \<Rightarrow> bool" where
  "has_serial k es \<longleftrightarrow> find_by rv_SerialHex k es \<noteq> None"

definition Add_serial :: "bool \<Rightarrow> time \<Rightarrow> string \<Rightarrow> string \<Rightarrow> CRLStore \<Rightarrow> (store_error + unit) \<times> CRLStore" where
  "Add_serial ok now serial subject s =
     (let k = normalizeSerial serial in
      if k = [] then (Inl (Invalid ''serial must not be empty''), s)
      else if has_serial k (cr_entries s) then (Inr (), s)
      else save_crl ok (s\<lparr>cr_entries := cr_entries s
                            @ [\<lparr>rv_SerialHex = k, rv_Subject = subject, rv_RevokedAt = now\<rparr>]\<rparr>))"

definition Remove_serial :: "bool \<Rightarrow> string \<Rightarrow> CRLStore \<Rightarrow> (store_error + unit) \<times> CRLStore" where
  "Remove_serial ok serial s =
     (let k = normalizeSerial serial in
      if k = [] then (Inl (Invalid ''serial must not be empty''), s)
      else if has_serial k (cr_entries s)
      then save_crl ok (s\<lparr>cr_entries := remove_first rv_SerialHex k (cr_entries s)\<rparr>)
      else (Inr (), s))"

definition Has_serial :: "string \<Rightarrow> CRLStore \<Rightarrow> bool" where
  "Has_serial serial s \<longleftrightarrow> normalizeSerial serial \<noteq> [] \<and> has_serial (normalizeSerial serial) (cr_entries s)"

subsection \<open>The reader\<close>

record RevokedStore =
  rk_serials :: "string set"
  rk_loadedAt :: time

definition NewEmptyRevokedStore :: RevokedStore where
  "NewEmptyRevokedStore = \<lparr>rk_serials = {}, rk_loadedAt = zero_time\<rparr>"

definition crl_keys :: "RevokedEntry list \<Rightarrow> string set" where
  "crl_keys es = set (filter (\<lambda>k. k \<noteq> []) (map (\<lambda>e. normalizeSerialHex (rv_SerialHex e)) es))"

definition reloadFrom :: "time \<Rightarrow> json_file \<Rightarrow> RevokedStore \<Rightarrow> bool \<times> RevokedStore" where
  \<comment> \<open>\<open>False\<close>: an error; the store is unchanged then\<close>
  "reloadFrom now f s =
     (case f of
        Missing \<Rightarrow> (True, \<lparr>rk_serials = {}, rk_loadedAt = now\<rparr>)
      | Unreadable \<Rightarrow> (False, s)
      | Blank \<Rightarrow> (True, \<lparr>rk_serials = {}, rk_loadedAt = now\<rparr>)
      | Malformed \<Rightarrow> (False, s)
      | Doc j \<Rightarrow> (case dec_crl_file j of
                   None \<Rightarrow> (False, s)
                 | Some cf \<Rightarrow> (True, \<lparr>rk_serials = crl_keys (cl_Revoked cf), rk_loadedAt = now\<rparr>)))"

definition LoadRevokedStore :: "time \<Rightarrow> json_file \<Rightarrow> RevokedStore option" where
  "LoadRevokedStore now f =
     (case reloadFrom now f NewEmptyRevokedStore of (True, s) \<Rightarrow> Some s | _ \<Rightarrow> None)"

definition reload_crl_tick :: "time \<Rightarrow> json_file \<Rightarrow> RevokedStore \<Rightarrow> RevokedStore" where
  \<comment> \<open>one tick of \<open>StartReloader\<close>\<close>
  "reload_crl_tick now f s = snd (reloadFrom now f s)"

definition IsRevokedHex :: "string \<Rightarrow> RevokedStore option \<Rightarrow> bool" where
  \<comment> \<open>on a nil store nothing is revoked\<close>
  "IsRevokedHex serialHex st =
     (case st of None \<Rightarrow> False | Some s \<Rightarrow> normalizeSerialHex serialHex \<in> rk_serials s)"

definition IsRevoked :: "nat option \<Rightarrow> RevokedStore option \<Rightarrow> bool" where
  "IsRevoked serial st =
     (case (st, serial) of
        (Some s, Some n) \<Rightarrow> normalizeSerialHex (serial_text n) \<in> rk_serials s
      | _ \<Rightarrow> False)"

definition Size_revoked :: "RevokedStore option \<Rightarrow> nat" where
  "Size_revoked st = (case st of None \<Rightarrow> 0 | Some s \<Rightarrow> card (rk_serials s))"

definition LoadedAt :: "RevokedStore option \<Rightarrow> time" where
  "LoadedAt st = (case st of None \<Rightarrow> zero_time | Some s \<Rightarrow> rk_loadedAt s)"

subsection \<open>A set of keys under insertions and removals\<close>

locale keyed_set =
  fixes inv :: "'s \<Rightarrow> bool" and has :: "'k \<Rightarrow> 's \<Rightarrow> bool"
    and ins :: "'p \<Rightarrow> 'k \<Rightarrow> 's \<Rightarrow> 's" and del :: "'k \<Rightarrow> 's \<Rightarrow> 's"
  assumes inv_ins: "inv s \<Longrightarrow> inv (ins p k s)"
    and inv_del: "inv s \<Longrightarrow> inv (del k s)"
    and has_ins: "inv s \<Longrightarrow> has j (ins p k s) \<longleftrightarrow> j = k \<or> has j s"
    and has_del: "inv s \<Longrightarrow> has j (del k s) \<longleftrightarrow> j \<noteq> k \<and> has j s"
begin

definition act :: "'k \<times> 'p option \<Rightarrow> 's \<Rightarrow> 's" where
  \<comment> \<open>insert with a payload, or delete\<close>
  "act a = (case a of (k, Some p) \<Rightarrow> ins p k | (k, None) \<Rightarrow> del k)"

lemma inv_act: "inv s \<Longrightarrow> inv (act a s)"
  by (auto simp: act_def inv_ins inv_del split: prod.splits option.splits)

lemma has_act: "inv s \<Longrightarrow> has j (act a s) \<longleftrightarrow> (if fst a = j then snd a \<noteq> None else has j s)"
  by (auto simp: act_def has_ins has_del split: prod.splits option.splits)

lemma inv_fold: "inv s \<Longrightarrow> inv (fold act as s)"
  by (induction as arbitrary: s) (simp_all add: inv_act)

lemma has_fold:
  "inv s \<Longrightarrow> has j (fold act as s) \<longleftrightarrow>
     (case rev (filter (\<lambda>a. fst a = j) as) of [] \<Rightarrow> has j s | a # _ \<Rightarrow> snd a \<noteq> None)"
proof (induction as arbitrary: s)
  case (Cons a as)
  show ?case
    using Cons.IH [OF inv_act [OF Cons.prems]] has_act [OF Cons.prems, of j a]
    by (auto split: list.splits)
qed simp

end

definition ins_serial :: "string \<times> time \<Rightarrow> string \<Rightarrow> RevokedEntry list \<Rightarrow> RevokedEntry list" where
  "ins_serial p k es =
     (if has_serial k es then es else es @ [\<lparr>rv_SerialHex = k, rv_Subject = fst p, rv_RevokedAt = snd p\<rparr>])"

definition distinct_serials :: "RevokedEntry list \<Rightarrow> bool" where
  "distinct_serials es \<longleftrightarrow> distinct (map rv_SerialHex es)"

lemma has_serial_iff: "has_serial k es \<longleftrightarrow> k \<in> rv_SerialHex ` set es"
  using find_by_None_iff [of rv_SerialHex k es] by (simp add: has_serial_def del: not_None_eq)

lemma has_serial_remove:
  assumes "distinct (map rv_SerialHex es)"
  shows "has_serial j (remove_first rv_SerialHex k es) \<longleftrightarrow> j \<noteq> k \<and> has_serial j es"
  using find_by_remove_first [of rv_SerialHex es j k] assms
  by (simp add: has_serial_def del: not_None_eq)

lemma has_serial_snoc [simp]: "has_serial j (es @ [e]) \<longleftrightarrow> j = rv_SerialHex e \<or> has_serial j es"
  by (auto simp: has_serial_iff)

interpretation entry_set: keyed_set distinct_serials has_serial ins_serial "remove_first rv_SerialHex"
proof unfold_locales
  show "distinct_serials (ins_serial p k s)" if "distinct_serials s" for p k s
    using that has_serial_iff [of k s] by (simp add: distinct_serials_def ins_serial_def)
qed (auto simp: distinct_serials_def ins_serial_def has_serial_remove distinct_remove_first)

lemma list_all_remove_first: "list_all P xs \<Longrightarrow> list_all P (remove_first key k xs)"
  by (induction xs) auto

lemma remove_first_absent: "find_by key k xs = None \<Longrightarrow> remove_first key k xs = xs"
  by (induction xs) (auto split: if_splits)

subsection \<open>What reaches the reader\<close>

definition revoke_serial :: "string \<times> time \<Rightarrow> nat \<Rightarrow> CRLStore \<Rightarrow> CRLStore" where
  \<comment> \<open>an addition whose write succeeds\<close>
  "revoke_serial p n s = snd (Add_serial True (snd p) (serial_text n) (fst p) s)"

definition restore_serial :: "nat \<Rightarrow> CRLStore \<Rightarrow> CRLStore" where
  "restore_serial n s = snd (Remove_serial True (serial_text n) s)"

definition crl_action :: "nat \<times> (string \<times> time) option \<Rightarrow> CRLStore \<Rightarrow> CRLStore" where
  \<comment> \<open>an administrator's action on a serial: revoke it with a subject and an instant, or restore it\<close>
  "crl_action a = (case a of (n, Some p) \<Rightarrow> revoke_serial p n | (n, None) \<Rightarrow> restore_serial n)"

definition normal_key :: "string \<Rightarrow> bool" where
  "normal_key k \<longleftrightarrow> k \<noteq> [] \<and> normalizeSerialHex k = k"

definition crl_synced :: "CRLStore \<Rightarrow> bool" where
  \<comment> \<open>the file says what the memory says\<close>
  "crl_synced s \<longleftrightarrow>
     cr_file s = Doc (enc_crl_file (cr_entries s))
     \<or> (cr_entries s = [] \<and> (cr_file s = Missing \<or> cr_file s = Blank))"

definition crl_wf :: "CRLStore \<Rightarrow> bool" where
  "crl_wf s \<longleftrightarrow>
     distinct_serials (cr_entries s) \<and> list_all (\<lambda>e. normal_key (rv_SerialHex e)) (cr_entries s) \<and> crl_synced s"

lemma normal_key_text [simp]: "normal_key (serial_text n)"
  by (simp add: normal_key_def serial_simps)

lemma cr_entries_revoke: "cr_entries (revoke_serial p n s) = ins_serial p (serial_text n) (cr_entries s)"
  by (simp add: revoke_serial_def Add_serial_def save_crl_def ins_serial_def serial_simps Let_def)

lemma cr_entries_restore:
  "cr_entries (restore_serial n s) = remove_first rv_SerialHex (serial_text n) (cr_entries s)"
  by (simp add: restore_serial_def Remove_serial_def save_crl_def serial_simps Let_def has_serial_def
      remove_first_absent)

lemma crl_synced_action:
  "crl_synced s \<Longrightarrow> crl_synced (revoke_serial p n s)" "crl_synced s \<Longrightarrow> crl_synced (restore_serial n s)"
  by (auto simp: revoke_serial_def restore_serial_def Add_serial_def Remove_serial_def save_crl_def
      crl_synced_def Let_def)

interpretation crl: keyed_set crl_wf "\<lambda>n s. has_serial (serial_text n) (cr_entries s)" revoke_serial restore_serial
  rewrites "keyed_set.act revoke_serial restore_serial = crl_action"
proof -
  show *: "keyed_set crl_wf (\<lambda>n s. has_serial (serial_text n) (cr_entries s)) revoke_serial restore_serial"
  proof unfold_locales
    show "crl_wf (revoke_serial p k s)" if "crl_wf s" for p k s
      using that entry_set.inv_ins
      by (simp add: crl_wf_def cr_entries_revoke crl_synced_action) (simp add: ins_serial_def)
    show "crl_wf (restore_serial k s)" if "crl_wf s" for k s
      using that
      by (simp add: crl_wf_def cr_entries_restore crl_synced_action entry_set.inv_del list_all_remove_first)
  qed (auto simp: crl_wf_def cr_entries_revoke cr_entries_restore entry_set.has_ins entry_set.has_del
      serial_simps)
  show "keyed_set.act revoke_serial restore_serial = crl_action"
    by (rule ext) (simp add: keyed_set.act_def [OF *] crl_action_def)
qed

lemma crl_keys_normal: "list_all (\<lambda>e. normal_key (rv_SerialHex e)) es \<Longrightarrow> crl_keys es = rv_SerialHex ` set es"
  by (induction es) (auto simp: crl_keys_def normal_key_def)

lemma reload_synced:
  "crl_wf s \<Longrightarrow> reloadFrom now (cr_file s) rk =
     (True, \<lparr>rk_serials = rv_SerialHex ` set (cr_entries s), rk_loadedAt = now\<rparr>)"
  by (auto simp: crl_wf_def crl_synced_def reloadFrom_def dec_enc_crl_file crl_keys_normal)

lemma reload_reads_store:
  "crl_wf s \<Longrightarrow> IsRevoked (Some n) (Some (reload_crl_tick now (cr_file s) rk)) \<longleftrightarrow>
     has_serial (serial_text n) (cr_entries s)"
  by (simp add: reload_crl_tick_def reload_synced IsRevoked_def serial_simps has_serial_iff)

lemma load_synced:
  assumes "crl_wf s" shows "newCRLStore (cr_file s) = Some s"
proof -
  from assms consider "cr_file s = Doc (enc_crl_file (cr_entries s))"
    | "cr_entries s = []" "cr_file s = Missing" | "cr_entries s = []" "cr_file s = Blank"
    by (auto simp: crl_wf_def crl_synced_def)
  then show ?thesis
    by cases (simp_all add: newCRLStore_def load_crl_def dec_enc_crl_file CRLStore.equality)
qed

text \<open>
  C8: the revocation list from end to end. From a web UI store that agrees with its file, after any sequence of
  revocations and restorations whose writes succeed, tls-proxy's next reload of the file (whatever
  it held before) refuses exactly the certificates whose last action was a revocation, or that
  were on the list and were left alone; and a restarted web UI reads the same store back.
\<close>
theorem revocations_reach_proxy:
  assumes "crl_wf s"
  shows "(IsRevoked (Some n) (Some (reload_crl_tick now (cr_file (fold crl_action as s)) rk)) \<longleftrightarrow>
            (case rev (filter (\<lambda>a. fst a = n) as) of
               [] \<Rightarrow> Has_serial (serial_text n) s | a # _ \<Rightarrow> snd a \<noteq> None))
         \<and> newCRLStore (cr_file (fold crl_action as s)) = Some (fold crl_action as s)"
  using crl.has_fold [OF assms, of n as] crl.inv_fold [OF assms, of as]
  by (simp_all add: reload_reads_store load_synced Has_serial_def serial_simps split: list.splits)

definition sample_crl_store :: CRLStore where
  "sample_crl_store =
     (let es = [\<lparr>rv_SerialHex = serial_text 123, rv_Subject = ''alice'', rv_RevokedAt = 5\<rparr>]
      in \<lparr>cr_entries = es, cr_file = Doc (enc_crl_file es)\<rparr>)"

lemma revocations_reach_proxy_witness:
  "\<forall>n. IsRevoked (Some n) (Some (reload_crl_tick 9
      (cr_file (fold crl_action [(200, Some (''bob'', 7)), (123, None)] sample_crl_store)) NewEmptyRevokedStore))
    \<longleftrightarrow> n = 200"
proof -
  have wf: "crl_wf sample_crl_store"
    by (simp add: crl_wf_def sample_crl_store_def distinct_serials_def crl_synced_def Let_def)
  have "Has_serial (serial_text n) sample_crl_store \<longleftrightarrow> n = 123" for n
    by (auto simp: Has_serial_def sample_crl_store_def has_serial_def serial_simps Let_def)
  then show ?thesis
    using revocations_reach_proxy [OF wf, of _ 9 "[(200, Some (''bob'', 7)), (123, None)]" NewEmptyRevokedStore]
    by auto
qed

text \<open>
  When the write of an addition fails, the entry stays in memory, so that a second attempt is reported as
  done without writing the file.
\<close>

lemma Add_serial_retry:
  assumes "\<not> has_serial (serial_text n) (cr_entries s)"
  obtains s1 where "Add_serial False now (serial_text n) subject s = (Inl WriteFailed, s1)"
    and "\<And>ok now2. Add_serial ok now2 (serial_text n) subject s1 = (Inr (), s1)"
    and "cr_file s1 = cr_file s" and "has_serial (serial_text n) (cr_entries s1)"
  using assms that
  by (simp add: Add_serial_def save_crl_def serial_simps Let_def)

end
