(* ===== verification/Ids.thy ===== *)
theory Ids
  imports Gostrings "HOL-Library.Word"
begin

unbundle bit_operations_syntax

text \<open>
  Identifiers and tokens made of random bytes: \<open>generateToken\<close> and the plaintext enrollment tokens of the
  web UI, the device identifiers of tls-proxy. The bytes that \<open>crypto/rand\<close> returns are an argument.
\<close>

definition hex_bytes :: "8 word list \<Rightarrow> string" where
  \<comment> \<open>\<open>hex.EncodeToString\<close>, and \<open>%x\<close> of a byte slice\<close>
  "hex_bytes bs = concat (map (\<lambda>b. [digit_char (unat b div 16), digit_char (unat b mod 16)]) bs)"

definition generateToken :: "8 word list \<Rightarrow> string" where
  "generateToken r = hex_bytes r"

definition base64url_char :: "nat \<Rightarrow> char" where
  "base64url_char n = ''ABCDEFGHIJKLMNOPQRSTUVWXYZabcdefghijklmnopqrstuvwxyz0123456789-_'' ! (n mod 64)"

fun base64url :: "8 word list \<Rightarrow> string" where
  \<comment> \<open>\<open>base64.RawURLEncoding\<close>: no padding\<close>
  "base64url [] = []"
| "base64url [a] = map base64url_char [unat a div 4, unat a mod 4 * 16]"
| "base64url [a, b] =
     map base64url_char [unat a div 4, unat a mod 4 * 16 + unat b div 16, unat b mod 16 * 4]"
| "base64url (a # b # c # r) =
     map base64url_char [unat a div 4, unat a mod 4 * 16 + unat b div 16,
       unat b mod 16 * 4 + unat c div 64, unat c mod 64] @ base64url r"

definition uuid_bytes :: "8 word list \<Rightarrow> 8 word list" where
  \<comment> \<open>the version and the variant\<close>
  "uuid_bytes r = r[6 := (r ! 6 AND 0x0f) OR 0x40, 8 := (r ! 8 AND 0x3f) OR 0x80]"

definition newDeviceID :: "8 word list \<Rightarrow> string" where
  \<comment> \<open>of the sixteen random bytes\<close>
  "newDeviceID r =
     (let b = uuid_bytes r; part = (\<lambda>i j. hex_bytes (take (j - i) (drop i b)))
      in part 0 4 @ ''-'' @ part 4 6 @ ''-'' @ part 6 8 @ ''-'' @ part 8 10 @ ''-'' @ part 10 16)"

subsection \<open>Different bytes give different tokens\<close>

lemma digit_char_inject: "m < 36 \<Longrightarrow> n < 36 \<Longrightarrow> digit_char m = digit_char n \<longleftrightarrow> m = n"
  using digit_val_digit_char by (metis option.inject)

lemma hex_bytes_simps [simp]:
  "hex_bytes [] = []"
  "hex_bytes (b # bs) = digit_char (unat b div 16) # digit_char (unat b mod 16) # hex_bytes bs"
  by (simp_all add: hex_bytes_def)

lemma length_hex_bytes [simp]: "length (hex_bytes bs) = 2 * length bs"
  by (induction bs) simp_all

lemma unat_byte_bounds: "unat (b :: 8 word) div 16 < 16" "unat b mod 16 < 16"
proof -
  have "unat b < 2 ^ LENGTH(8)" by (rule unsigned_less)
  then show "unat b div 16 < 16" "unat b mod 16 < 16" by simp_all
qed

lemma hex_bytes_inject [simp]: "hex_bytes a = hex_bytes b \<longleftrightarrow> a = b"
proof (induction a arbitrary: b)
  case Nil
  then show ?case by (cases b) simp_all
next
  case (Cons x a)
  have eq: "x = y" if "unat x div 16 = unat y div 16" "unat x mod 16 = unat y mod 16" for y :: "8 word"
    using that by (metis div_mult_mod_eq unsigned_word_eqI)
  have "digit_char (unat x div 16) = digit_char (unat y div 16)
      \<and> digit_char (unat x mod 16) = digit_char (unat y mod 16) \<longleftrightarrow> x = y" for y :: "8 word"
    using unat_byte_bounds [of x] unat_byte_bounds [of y] eq [of y] by (auto simp: digit_char_inject)
  then show ?case using Cons.IH by (cases b) auto
qed

lemma hex_bytes_append [simp]: "hex_bytes (a @ b) = hex_bytes a @ hex_bytes b"
  by (simp add: hex_bytes_def)

lemma length_base64url: "length (base64url bs) = (8 * length bs + 5) div 6"
  by (induction bs rule: base64url.induct) (simp_all add: algebra_simps)

end
