(* ===== verification/Devices.thy ===== *)
theory Devices
  imports Crl Ids
begin

text \<open>
  The register of enrolled devices, \<open>devices.json\<close>: tls-proxy appends a record for every certificate
  it issues (\<open>tls-proxy/devicestore.go\<close>), the web UI lists, revokes and restores them and keeps the
  revocation list in step (\<open>webui/devicestore.go\<close>).

  Only tls-proxy takes the lock of the file. The web UI reads the file, changes its copy and writes it
  whole; \<open>reloadUnlocked\<close> and \<open>saveUnlocked\<close> are separate steps here, so that what the other process
  does in between can be stated. The web UI holds pointers to its records and would dereference a
  nil pointer for an element \<open>null\<close> of the array; such a file counts as unparsable here.
\<close>

record Device =
  dv_DeviceID :: string
  dv_Subject :: string
  dv_Org :: string
  dv_SerialHex :: string
  dv_IssuedAt :: time
  dv_ExpiresAt :: time
  dv_Revoked :: bool
  dv_RevokedAt :: "time option"
  dv_LastSeen :: "time option"

definition zero_Device :: Device where
  "zero_Device = \<lparr>dv_DeviceID = [], dv_Subject = [], dv_Org = [], dv_SerialHex = [], dv_IssuedAt = zero_time,
     dv_ExpiresAt = zero_time, dv_Revoked = False, dv_RevokedAt = None, dv_LastSeen = None\<rparr>"

definition Device_fields :: "Device fields" where
  "Device_fields =
     [fld ''device_id'' dec_string dv_DeviceID dv_DeviceID_update,
      fld ''subject'' dec_string dv_Subject dv_Subject_update,
      fld ''org'' dec_string dv_Org dv_Org_update,
      fld ''serial_hex'' dec_string dv_SerialHex dv_SerialHex_update,
      fld ''issued_at'' dec_time dv_IssuedAt dv_IssuedAt_update,
      fld ''expires_at'' dec_time dv_ExpiresAt dv_ExpiresAt_update,
      fld ''revoked'' dec_bool dv_Revoked dv_Revoked_update,
      fld ''revoked_at'' dec_time_ptr dv_RevokedAt dv_RevokedAt_update,
      fld ''last_seen'' dec_time_ptr dv_LastSeen dv_LastSeen_update]"

definition enc_opt_time :: "string \<Rightarrow> time option \<Rightarrow> (string \<times> json) list" where
  "enc_opt_time name t = (case t of None \<Rightarrow> [] | Some x \<Rightarrow> [(name, JTime x)])"

definition enc_Device :: "Device \<Rightarrow> json" where
  "enc_Device d = JObj
     ([(''device_id'', JStr (dv_DeviceID d)), (''subject'', JStr (dv_Subject d)), (''org'', JStr (dv_Org d)),
       (''serial_hex'', JStr (dv_SerialHex d)), (''issued_at'', JTime (dv_IssuedAt d)),
       (''expires_at'', JTime (dv_ExpiresAt d)), (''revoked'', JBool (dv_Revoked d))]
      @ enc_opt_time ''revoked_at'' (dv_RevokedAt d) @ enc_opt_time ''last_seen'' (dv_LastSeen d))"

interpretation device_codec: json_codec enc_Device "dec_struct Device_fields" zero_Device "\<lambda>_. True"
  by unfold_locales
    (simp add: codec_simps enc_Device_def Device_fields_def zero_Device_def enc_opt_time_def split: option.splits)

definition enc_devices :: "Device list \<Rightarrow> json" where
  "enc_devices ds = JArr (map enc_Device ds)"

definition dec_devices :: "json \<Rightarrow> Device list option" where
  \<comment> \<open>\<open>[]device\<close>\<close>
  "dec_devices j = dec_list (dec_struct Device_fields) zero_Device [] j"

definition dec_device_ptrs :: "json \<Rightarrow> Device list option" where
  \<comment> \<open>\<open>[]*Device\<close>\<close>
  "dec_device_ptrs j = (case j of JArr js \<Rightarrow> if JNull \<in> set js then None else dec_devices j | _ \<Rightarrow> dec_devices j)"

lemma dec_enc_devices [simp]: "dec_devices (enc_devices ds) = Some ds"
  by (simp add: dec_devices_def enc_devices_def device_codec.dec_list_enc)

lemma dec_enc_device_ptrs [simp]: "dec_device_ptrs (enc_devices ds) = Some ds"
proof -
  have "JNull \<notin> set (map enc_Device ds)" by (auto simp: enc_Device_def)
  then show ?thesis using dec_enc_devices [of ds] by (simp add: dec_device_ptrs_def enc_devices_def)
qed

subsection \<open>The web UI\<close>

record DeviceStore =
  ds_devices :: "Device list"
  ds_file :: json_file

definition load_devices :: "DeviceStore \<Rightarrow> (store_error + unit) \<times> DeviceStore" where
  "load_devices s =
     (case ds_file s of
        Missing \<Rightarrow> (Inl NotFound, s)
      | Unreadable \<Rightarrow> (Inl ReadFailed, s)
      | Blank \<Rightarrow> (Inr (), s)
      | Malformed \<Rightarrow> (Inl ReadFailed, s)
      | Doc j \<Rightarrow> (case dec_device_ptrs j of
                   None \<Rightarrow> (Inl ReadFailed, s) | Some ds \<Rightarrow> (Inr (), s\<lparr>ds_devices := ds\<rparr>)))"

definition newDeviceStore :: "json_file \<Rightarrow> DeviceStore option" where
  "newDeviceStore f =
     (case load_devices \<lparr>ds_devices = [], ds_file = f\<rparr> of
        (Inl NotFound, s) \<Rightarrow> Some s | (Inl _, _) \<Rightarrow> None | (Inr _, s) \<Rightarrow> Some s)"

definition reloadUnlocked :: "DeviceStore \<Rightarrow> (store_error + unit) \<times> DeviceStore" where
  "reloadUnlocked s =
     (case ds_file s of
        Missing \<Rightarrow> (Inr (), s\<lparr>ds_devices := []\<rparr>)
      | Unreadable \<Rightarrow> (Inl ReadFailed, s)
      | Blank \<Rightarrow> (Inr (), s\<lparr>ds_devices := []\<rparr>)
      | Malformed \<Rightarrow> (Inl ReadFailed, s)
      | Doc j \<Rightarrow> (case dec_device_ptrs j of
                   None \<Rightarrow> (Inl ReadFailed, s) | Some ds \<Rightarrow> (Inr (), s\<lparr>ds_devices := ds\<rparr>)))"

definition saveUnlocked :: "bool \<Rightarrow> DeviceStore \<Rightarrow> (store_error + unit) \<times> DeviceStore" where
  "saveUnlocked ok s =
     (if ok then Inr () else Inl WriteFailed,
      s\<lparr>ds_file := write_doc ok (enc_devices (ds_devices s)) (ds_file s)\<rparr>)"

definition GetByID_device :: "string \<Rightarrow> DeviceStore \<Rightarrow> Device option" where
  "GetByID_device k s = find_by dv_DeviceID k (ds_devices s)"

definition Add_device :: "bool \<Rightarrow> Device \<Rightarrow> DeviceStore \<Rightarrow> (store_error + unit) \<times> DeviceStore" where
  "Add_device ok d s =
     (case reloadUnlocked s of
        (Inl e, s') \<Rightarrow> (Inl e, s')
      | (Inr _, s') \<Rightarrow>
          if find_by dv_DeviceID (dv_DeviceID d) (ds_devices s') \<noteq> None then (Inl Duplicate, s')
          else saveUnlocked ok (s'\<lparr>ds_devices := ds_devices s' @ [d]\<rparr>))"

definition mark_revoked :: "time \<Rightarrow> Device \<Rightarrow> Device" where
  "mark_revoked now d = d\<lparr>dv_Revoked := True, dv_RevokedAt := Some now\<rparr>"

definition clear_revoked :: "Device \<Rightarrow> Device" where
  "clear_revoked d = d\<lparr>dv_Revoked := False, dv_RevokedAt := None\<rparr>"

definition change_device ::
  "bool \<Rightarrow> string \<Rightarrow> (Device \<Rightarrow> bool) \<Rightarrow> (Device \<Rightarrow> Device) \<Rightarrow> DeviceStore \<Rightarrow> (store_error + Device) \<times> DeviceStore" where
  \<comment> \<open>what the mutations do after the file was read: find the record, change it when needed, write\<close>
  "change_device ok k needed f s =
     (case find_by dv_DeviceID k (ds_devices s) of
        None \<Rightarrow> (Inl NotFound, s)
      | Some d \<Rightarrow>
          if needed d then
            (case saveUnlocked ok (s\<lparr>ds_devices := update_first dv_DeviceID k f (ds_devices s)\<rparr>) of
               (Inl e, s') \<Rightarrow> (Inl e, s') | (Inr _, s') \<Rightarrow> (Inr (f d), s'))
          else (Inr d, s))"

definition Revoke_record :: "bool \<Rightarrow> time \<Rightarrow> string \<Rightarrow> DeviceStore \<Rightarrow> (store_error + Device) \<times> DeviceStore" where
  "Revoke_record ok now k = change_device ok k (\<lambda>d. \<not> dv_Revoked d) (mark_revoked now)"

definition UnRevoke_record :: "bool \<Rightarrow> string \<Rightarrow> DeviceStore \<Rightarrow> (store_error + Device) \<times> DeviceStore" where
  "UnRevoke_record ok k = change_device ok k dv_Revoked clear_revoked"

record registry =
  rg_devices :: DeviceStore
  rg_crl :: "CRLStore option"  \<comment> \<open>\<open>None\<close> until \<open>SetCRL\<close>\<close>

definition SetCRL :: "CRLStore \<Rightarrow> registry \<Rightarrow> registry" where
  "SetCRL c r = r\<lparr>rg_crl := Some c\<rparr>"

definition push_crl ::
  "(CRLStore \<Rightarrow> (store_error + unit) \<times> CRLStore) \<Rightarrow> string \<Rightarrow> registry \<Rightarrow> (store_error + unit) \<times> registry" where
  \<comment> \<open>\<open>if crl != nil && serial != ""\<close>\<close>
  "push_crl f serial r =
     (case rg_crl r of
        None \<Rightarrow> (Inr (), r)
      | Some c \<Rightarrow> if serial = [] then (Inr (), r) else (case f c of (res, c') \<Rightarrow> (res, r\<lparr>rg_crl := Some c'\<rparr>)))"

definition Revoke_device :: "bool \<Rightarrow> bool \<Rightarrow> time \<Rightarrow> string \<Rightarrow> registry \<Rightarrow> (store_error + unit) \<times> registry" where
  \<comment> \<open>whether each of the two files can be written\<close>
  "Revoke_device ok crl_ok now k r =
     (case reloadUnlocked (rg_devices r) of
        (Inl e, s) \<Rightarrow> (Inl e, r\<lparr>rg_devices := s\<rparr>)
      | (Inr _, s) \<Rightarrow>
          (case Revoke_record ok now k s of
             (Inl e, s') \<Rightarrow> (Inl e, r\<lparr>rg_devices := s'\<rparr>)
           | (Inr d, s') \<Rightarrow>
               push_crl (Add_serial crl_ok now (dv_SerialHex d) (dv_Subject d)) (dv_SerialHex d)
                 (r\<lparr>rg_devices := s'\<rparr>)))"

definition UnRevoke_device :: "bool \<Rightarrow> bool \<Rightarrow> string \<Rightarrow> registry \<Rightarrow> (store_error + unit) \<times> registry" where
  "UnRevoke_device ok crl_ok k r =
     (case reloadUnlocked (rg_devices r) of
        (Inl e, s) \<Rightarrow> (Inl e, r\<lparr>rg_devices := s\<rparr>)
      | (Inr _, s) \<Rightarrow>
          (case UnRevoke_record ok k s of
             (Inl e, s') \<Rightarrow> (Inl e, r\<lparr>rg_devices := s'\<rparr>)
           | (Inr d, s') \<Rightarrow>
               push_crl (Remove_serial crl_ok (dv_SerialHex d)) (dv_SerialHex d) (r\<lparr>rg_devices := s'\<rparr>)))"

definition TouchLastSeen :: "bool \<Rightarrow> string \<Rightarrow> time \<Rightarrow> DeviceStore \<Rightarrow> (store_error + unit) \<times> DeviceStore" where
  "TouchLastSeen ok k t s =
     (case reloadUnlocked s of
        (Inl e, s') \<Rightarrow> (Inl e, s')
      | (Inr _, s') \<Rightarrow>
          (case change_device ok k (\<lambda>_. True) (\<lambda>d. d\<lparr>dv_LastSeen := Some t\<rparr>) s' of
             (Inl e, s'') \<Rightarrow> (Inl e, s'') | (Inr _, s'') \<Rightarrow> (Inr (), s'')))"

subsection \<open>tls-proxy\<close>

definition readDevicesFile :: "json_file \<Rightarrow> store_error + Device list" where
  "readDevicesFile f =
     (case f of
        Missing \<Rightarrow> Inr [] | Unreadable \<Rightarrow> Inl ReadFailed | Blank \<Rightarrow> Inr [] | Malformed \<Rightarrow> Inl ReadFailed
      | Doc j \<Rightarrow> (case dec_devices j of None \<Rightarrow> Inl ReadFailed | Some ds \<Rightarrow> Inr ds))"

definition writeDevicesFile :: "bool \<Rightarrow> Device list \<Rightarrow> json_file \<Rightarrow> (store_error + unit) \<times> json_file" where
  "writeDevicesFile ok ds f = (if ok then Inr () else Inl WriteFailed, write_doc ok (enc_devices ds) f)"

definition appendDevice ::
  "flock_result \<Rightarrow> bool \<Rightarrow> Device \<Rightarrow> json_file \<Rightarrow> (store_error + unit) \<times> json_file" where
  "appendDevice l ok d f =
     with_lock l
       (case readDevicesFile f of
          Inl e \<Rightarrow> (Inl e, f)
        | Inr ds \<Rightarrow>
            if find_by dv_DeviceID (dv_DeviceID d) ds \<noteq> None then (Inl Duplicate, f)
            else writeDevicesFile ok (ds @ [d]) f) f"

subsection \<open>Reading back\<close>

lemma mark_revoked_simps [simp]:
  "dv_DeviceID (mark_revoked now d) = dv_DeviceID d" "dv_SerialHex (mark_revoked now d) = dv_SerialHex d"
  "dv_Subject (mark_revoked now d) = dv_Subject d" "dv_Revoked (mark_revoked now d)"
  by (simp_all add: mark_revoked_def)

lemma clear_revoked_simps [simp]:
  "dv_DeviceID (clear_revoked d) = dv_DeviceID d" "dv_SerialHex (clear_revoked d) = dv_SerialHex d"
  "\<not> dv_Revoked (clear_revoked d)"
  by (simp_all add: clear_revoked_def)

lemma reloadUnlocked_file:
  "reloadUnlocked s = (r, s') \<Longrightarrow> ds_file s' = ds_file s"
  by (auto simp: reloadUnlocked_def split: json_file.splits option.splits)

lemma reloadUnlocked_saved:
  "reloadUnlocked \<lparr>ds_devices = any, ds_file = Doc (enc_devices ds)\<rparr> = (Inr (), \<lparr>ds_devices = ds, ds_file = Doc (enc_devices ds)\<rparr>)"
  by (simp add: reloadUnlocked_def)

lemma reloadUnlocked_Inr_eq:
  "reloadUnlocked s = (Inr (), s') \<Longrightarrow> readDevicesFile (ds_file s) = Inr (ds_devices s')"
  by (auto simp: reloadUnlocked_def readDevicesFile_def dec_device_ptrs_def
      split: json_file.splits option.splits json.splits if_splits)

lemma change_device_Some:
  assumes "find_by dv_DeviceID k (ds_devices s) = Some d" and "needed d"
  shows "change_device True k needed f s =
    (Inr (f d), let ds = update_first dv_DeviceID k f (ds_devices s) in \<lparr>ds_devices = ds, ds_file = Doc (enc_devices ds)\<rparr>)"
  using assms by (simp add: change_device_def saveUnlocked_def Let_def DeviceStore.equality)

lemma change_device_skip:
  "find_by dv_DeviceID k (ds_devices s) = Some d \<Longrightarrow> \<not> needed d \<Longrightarrow> change_device ok k needed f s = (Inr d, s)"
  by (simp add: change_device_def)

lemma appendDevice_cases:
  "case appendDevice l ok d f of
     (Inl e, f') \<Rightarrow> f' = f
   | (Inr _, f') \<Rightarrow> (\<exists>ds. readDevicesFile f = Inr ds \<and> find_by dv_DeviceID (dv_DeviceID d) ds = None
                     \<and> f' = Doc (enc_devices (ds @ [d])))"
  by (auto simp: appendDevice_def with_lock_def writeDevicesFile_def
      split: flock_result.splits sum.splits if_splits)

text \<open>
  What an enrollment writes, the web UI reads. A successful append keeps every record of the register and
  adds the new one, whose identifier was not taken; the web UI's next reload lists exactly these
  records and finds the new one by its identifier. A failed append, whether for the lock, the file, a
  taken identifier or the write, leaves the file as it was.
\<close>
theorem enrolled_device_is_listed:
  "case appendDevice l ok d f of
     (Inl e, f') \<Rightarrow> f' = f
   | (Inr _, f') \<Rightarrow>
       (\<exists>ds. readDevicesFile f = Inr ds \<and> find_by dv_DeviceID (dv_DeviceID d) ds = None
          \<and> readDevicesFile f' = Inr (ds @ [d])
          \<and> reloadUnlocked (s\<lparr>ds_file := f'\<rparr>) = (Inr (), s\<lparr>ds_devices := ds @ [d], ds_file := f'\<rparr>)
          \<and> GetByID_device (dv_DeviceID d) (s\<lparr>ds_devices := ds @ [d], ds_file := f'\<rparr>) = Some d)"
  using appendDevice_cases [where l = l and ok = ok and d = d and f = f]
  by (auto simp: reloadUnlocked_def GetByID_device_def readDevicesFile_def find_by_append split: sum.splits)

lemma Revoke_device_ok:
  assumes "reloadUnlocked (rg_devices r) = (Inr (), s)"
    and "find_by dv_DeviceID k (ds_devices s) = Some d" and "dv_SerialHex d = serial_text n"
    and "rg_crl r = Some c"
  obtains s1 where
    "Revoke_device True True now k r
       = (Inr (), r\<lparr>rg_devices := s1, rg_crl := Some (revoke_serial (dv_Subject d, now) n c)\<rparr>)"
    and "ds_devices s1 = (if dv_Revoked d then ds_devices s
                          else update_first dv_DeviceID k (mark_revoked now) (ds_devices s))"
    and "reloadUnlocked s1 = (Inr (), s1)"
proof -
  let ?d = "if dv_Revoked d then d else mark_revoked now d"
  obtain s1 where rec: "Revoke_record True now k s = (Inr ?d, s1)"
    and ds1: "ds_devices s1 = (if dv_Revoked d then ds_devices s
                               else update_first dv_DeviceID k (mark_revoked now) (ds_devices s))"
    and file1: "reloadUnlocked s1 = (Inr (), s1)"
  proof (cases "dv_Revoked d")
    case True
    moreover have "reloadUnlocked s = (Inr (), s)"
      using assms(1) by (auto simp: reloadUnlocked_def split: json_file.splits option.splits)
    ultimately show thesis
      using assms(2) that [of s] by (simp add: Revoke_record_def change_device_skip)
  next
    case False
    then show thesis
      using assms(2) that by (simp add: Revoke_record_def change_device_Some Let_def reloadUnlocked_saved)
  qed
  have "Add_serial True now (serial_text n) (dv_Subject d) c = (Inr (), revoke_serial (dv_Subject d, now) n c)"
    by (simp add: revoke_serial_def Add_serial_def save_crl_def serial_simps Let_def)
  then show thesis using that ds1 file1 assms by (simp add: Revoke_device_def rec push_crl_def)
qed

lemma UnRevoke_device_ok:
  assumes "reloadUnlocked (rg_devices r) = (Inr (), s)"
    and find: "find_by dv_DeviceID k (ds_devices s) = Some d" and "dv_SerialHex d = serial_text n"
    and "rg_crl r = Some c"
  obtains s1 d1 where
    "UnRevoke_device True True k r = (Inr (), r\<lparr>rg_devices := s1, rg_crl := Some (restore_serial n c)\<rparr>)"
    and "GetByID_device k s1 = Some d1" and "\<not> dv_Revoked d1"
proof -
  have del: "Remove_serial True (serial_text n) c = (Inr (), restore_serial n c)"
    by (simp add: restore_serial_def Remove_serial_def save_crl_def serial_simps Let_def)
  show thesis
  proof (cases "dv_Revoked d")
    case True
    then show thesis
      using assms del that change_device_Some [OF find, of dv_Revoked clear_revoked]
      by (simp add: UnRevoke_device_def UnRevoke_record_def push_crl_def GetByID_device_def Let_def
          find_by_update_first)
  next
    case False
    then show thesis
      using assms del that change_device_skip [OF find, of dv_Revoked True clear_revoked]
      by (simp add: UnRevoke_device_def UnRevoke_record_def push_crl_def GetByID_device_def)
  qed
qed

text \<open>
  A revocation takes effect. When the device is on the register with the serial tls-proxy gave it and both
  writes succeed, \<open>Revoke\<close> marks the record and leaves the other records alone, and tls-proxy refuses the serial
  after its next reload, while it treats every other serial as before; \<open>UnRevoke\<close> then clears the
  mark and the serial is accepted again.
\<close>
theorem revoked_device_is_refused:
  assumes "reloadUnlocked (rg_devices r) = (Inr (), s)"
    and "find_by dv_DeviceID k (ds_devices s) = Some d" and "dv_SerialHex d = serial_text n"
    and "rg_crl r = Some c" and "crl_wf c"
  shows "case Revoke_device True True now k r of (res, r1) \<Rightarrow>
     res = Inr ()
     \<and> readDevicesFile (ds_file (rg_devices r1))
         = Inr (if dv_Revoked d then ds_devices s else update_first dv_DeviceID k (mark_revoked now) (ds_devices s))
     \<and> (\<forall>m. IsRevoked (Some m) (Some (reload_crl_tick t (cr_file (the (rg_crl r1))) rk)) \<longleftrightarrow>
            m = n \<or> IsRevoked (Some m) (Some (reload_crl_tick t (cr_file c) rk)))
     \<and> (case UnRevoke_device True True k r1 of (res2, r2) \<Rightarrow>
          res2 = Inr ()
          \<and> map_option dv_Revoked (GetByID_device k (rg_devices r2)) = Some False
          \<and> \<not> IsRevoked (Some n) (Some (reload_crl_tick t (cr_file (the (rg_crl r2))) rk)))"
proof -
  let ?c = "revoke_serial (dv_Subject d, now) n c"
  have wf: "crl_wf ?c" using assms(5) by (rule crl.inv_ins)
  obtain s1 where rev: "Revoke_device True True now k r = (Inr (), r\<lparr>rg_devices := s1, rg_crl := Some ?c\<rparr>)"
    and ds1: "ds_devices s1 = (if dv_Revoked d then ds_devices s
                               else update_first dv_DeviceID k (mark_revoked now) (ds_devices s))"
    and file1: "reloadUnlocked s1 = (Inr (), s1)"
    using assms(1-4) by (rule Revoke_device_ok)
  let ?r1 = "r\<lparr>rg_devices := s1, rg_crl := Some ?c\<rparr>" and ?d = "if dv_Revoked d then d else mark_revoked now d"
  have "reloadUnlocked (rg_devices ?r1) = (Inr (), s1)" "find_by dv_DeviceID k (ds_devices s1) = Some ?d"
    "dv_SerialHex ?d = serial_text n" "rg_crl ?r1 = Some ?c"
    using file1 assms(2,3) by (simp_all add: ds1 find_by_update_first)
  then obtain s2 d2 where
    unrev: "UnRevoke_device True True k ?r1 = (Inr (), ?r1\<lparr>rg_devices := s2, rg_crl := Some (restore_serial n ?c)\<rparr>)"
    and "GetByID_device k s2 = Some d2" and "\<not> dv_Revoked d2"
    by (rule UnRevoke_device_ok)
  then show ?thesis
    using reloadUnlocked_Inr_eq [OF file1] ds1 assms(5) wf crl.inv_del [OF wf, of n] crl.has_ins [OF assms(5)]
      crl.has_del [OF wf]
    by (simp add: rev unrev [simplified] reload_reads_store)
qed

definition sample_device :: Device where
  "sample_device = zero_Device\<lparr>dv_DeviceID := ''d1'', dv_Subject := ''bob'', dv_SerialHex := serial_text 200\<rparr>"

definition sample_registry :: registry where
  "sample_registry =
     \<lparr>rg_devices = \<lparr>ds_devices = [], ds_file = Doc (enc_devices [sample_device])\<rparr>, rg_crl = Some sample_crl_store\<rparr>"

lemma sample_registry_simps:
  "reloadUnlocked (rg_devices sample_registry)
     = (Inr (), \<lparr>ds_devices = [sample_device], ds_file = Doc (enc_devices [sample_device])\<rparr>)"
  "rg_crl sample_registry = Some sample_crl_store" "crl_wf sample_crl_store"
  "dv_DeviceID sample_device = ''d1''" "dv_SerialHex sample_device = serial_text 200"
  "\<not> dv_Revoked sample_device" "\<not> has_serial (serial_text 200) (cr_entries sample_crl_store)"
  by (simp_all add: sample_registry_def reloadUnlocked_def sample_device_def zero_Device_def crl_wf_def
      sample_crl_store_def distinct_serials_def crl_synced_def Let_def has_serial_def serial_simps)

lemma revoked_device_is_refused_witness:
  "\<exists>r1. Revoke_device True True 7 ''d1'' sample_registry = (Inr (), r1)
     \<and> IsRevoked (Some 200) (Some (reload_crl_tick 9 (cr_file (the (rg_crl r1))) NewEmptyRevokedStore))"
  using revoked_device_is_refused [of sample_registry _ "''d1''" sample_device 200 sample_crl_store 7 9
      NewEmptyRevokedStore, OF sample_registry_simps(1) _ _ sample_registry_simps(2,3)]
  by (auto simp: sample_registry_simps)

text \<open>
  \<open>Revoke\<close> reported an error, the administrator tries again and is told it is done, but the certificate is
  still accepted: when the first attempt marks the record and fails to write the revocation list, the
  second finds the serial in memory, returns success, and the list tls-proxy reads is unchanged.
\<close>
theorem retried_revocation_is_lost:
  assumes "reloadUnlocked (rg_devices r) = (Inr (), s)"
    and "find_by dv_DeviceID k (ds_devices s) = Some d" and "dv_SerialHex d = serial_text n"
    and "rg_crl r = Some c" and "\<not> has_serial (serial_text n) (cr_entries c)"
    and "\<not> dv_Revoked d"
  shows "case Revoke_device True False now k r of (res1, r1) \<Rightarrow>
     case Revoke_device True True now2 k r1 of (res2, r2) \<Rightarrow>
       res1 = Inl WriteFailed \<and> res2 = Inr ()
       \<and> map_option dv_Revoked (GetByID_device k (rg_devices r2)) = Some True
       \<and> cr_file (the (rg_crl r2)) = cr_file c"
proof -
  obtain c1 where add: "Add_serial False now (serial_text n) (dv_Subject d) c = (Inl WriteFailed, c1)"
    "\<And>ok now2. Add_serial ok now2 (serial_text n) (dv_Subject d) c1 = (Inr (), c1)" "cr_file c1 = cr_file c"
    "has_serial (serial_text n) (cr_entries c1)"
    using Add_serial_retry [OF assms(5), where now = now and subject = "dv_Subject d"] by metis
  show ?thesis
    using assms add change_device_Some [OF assms(2), of "\<lambda>d. \<not> dv_Revoked d" "mark_revoked now"]
    by (simp add: Revoke_device_def Revoke_record_def push_crl_def Let_def reloadUnlocked_saved
        change_device_def find_by_update_first GetByID_device_def)
qed

lemma retried_revocation_is_lost_witness:
  "\<exists>r1 r2. Revoke_device True False 7 ''d1'' sample_registry = (Inl WriteFailed, r1)
     \<and> Revoke_device True True 8 ''d1'' r1 = (Inr (), r2)
     \<and> cr_file (the (rg_crl r2)) = cr_file sample_crl_store"
  using retried_revocation_is_lost [of sample_registry _ "''d1''" sample_device 200 sample_crl_store 8 7,
      OF sample_registry_simps(1) _ _ sample_registry_simps(2)]
  by (auto simp: sample_registry_simps split: prod.splits)

text \<open>
  An enrollment between the two halves of a web UI mutation is lost. The web UI takes no lock on the
  register; when tls-proxy appends a record after the web UI read the file and before it writes, the write
  removes the new record.
\<close>
theorem interleaved_enrollment_is_lost:
  assumes "reloadUnlocked s = (Inr (), s1)"
    and "appendDevice FlockHeld True d (ds_file s1) = (Inr (), f')"
    and "find_by dv_DeviceID k (ds_devices s1) = Some d0" and "\<not> dv_Revoked d0"
  shows "case Revoke_record True now k (s1\<lparr>ds_file := f'\<rparr>) of (res, s2) \<Rightarrow>
     res = Inr (mark_revoked now d0)
     \<and> (\<exists>ds. readDevicesFile f' = Inr ds \<and> find_by dv_DeviceID (dv_DeviceID d) ds = Some d)
     \<and> (\<exists>ds. readDevicesFile (ds_file s2) = Inr ds \<and> find_by dv_DeviceID (dv_DeviceID d) ds = None)"
proof -
  have read: "readDevicesFile (ds_file s1) = Inr (ds_devices s1)"
    using reloadUnlocked_Inr_eq [OF assms(1)] reloadUnlocked_file [OF assms(1)] by simp
  have new: "find_by dv_DeviceID (dv_DeviceID d) (ds_devices s1) = None"
    and f': "f' = Doc (enc_devices (ds_devices s1 @ [d]))"
    using assms(2) appendDevice_cases [where l = FlockHeld and ok = True and d = d and f = "ds_file s1"] read by auto
  have "readDevicesFile f' = Inr (ds_devices s1 @ [d])"
    by (simp add: f' readDevicesFile_def)
  moreover have "find_by dv_DeviceID (dv_DeviceID d) (ds_devices s1 @ [d]) = Some d"
    using new by (simp add: find_by_append)
  moreover have "k \<noteq> dv_DeviceID d" using assms(3) new by auto
  ultimately show ?thesis
    using assms(3,4) new
    by (auto simp: Revoke_record_def change_device_Some readDevicesFile_def Let_def find_by_update_first)
qed

lemma interleaved_enrollment_is_lost_witness:
  "\<exists>s f. reloadUnlocked (rg_devices sample_registry) = (Inr (), s)
     \<and> appendDevice FlockHeld True (sample_device\<lparr>dv_DeviceID := ''d2''\<rparr>) (ds_file s) = (Inr (), f)
     \<and> (\<exists>ds. readDevicesFile (ds_file (snd (Revoke_record True 7 ''d1'' (s\<lparr>ds_file := f\<rparr>)))) = Inr ds
             \<and> find_by dv_DeviceID ''d2'' ds = None)"
proof (intro exI conjI)
  let ?s = "\<lparr>ds_devices = [sample_device], ds_file = Doc (enc_devices [sample_device])\<rparr>"
  let ?d = "sample_device\<lparr>dv_DeviceID := ''d2''\<rparr>"
  show "reloadUnlocked (rg_devices sample_registry) = (Inr (), ?s)" by (rule sample_registry_simps)
  show *: "appendDevice FlockHeld True ?d (ds_file ?s) = (Inr (), Doc (enc_devices [sample_device, ?d]))"
    by (simp add: appendDevice_def readDevicesFile_def writeDevicesFile_def sample_registry_simps)
  have "\<exists>ds. readDevicesFile (ds_file (snd (Revoke_record True 7 ''d1''
           (?s\<lparr>ds_file := Doc (enc_devices [sample_device, ?d])\<rparr>)))) = Inr ds
         \<and> find_by dv_DeviceID (dv_DeviceID ?d) ds = None"
    using interleaved_enrollment_is_lost [OF sample_registry_simps(1) *, of "''d1''" sample_device 7]
    by (auto simp: sample_registry_simps split: prod.splits)
  then show "readDevicesFile (ds_file (snd (Revoke_record True 7 ''d1''
           (?s\<lparr>ds_file := Doc (enc_devices [sample_device, ?d])\<rparr>)))) = Inr [mark_revoked 7 sample_device]"
    and "find_by dv_DeviceID ''d2'' [mark_revoked 7 sample_device] = None"
    by (simp_all add: sample_registry_simps Revoke_record_def change_device_Some readDevicesFile_def
        Let_def)
qed

end
