(* ===== verification/Enroll_Tokens.thy ===== *)
theory Enroll_Tokens
  imports Ids Files
begin

text \<open>
  Enrollment tokens: the store of the web UI, which issues them (\<open>webui/enrolltoken.go\<close>), and the one
  of tls-proxy, which consumes them (\<open>tls-proxy/enroll.go\<close>). Both are configured to use the same file,
  \<open>enroll-tokens.json\<close>, under the same lock.

  The digest (\<open>crypto/sha256\<close>) is an argument \<open>hash\<close> where it is used: the program only compares its values.
  An element \<open>null\<close> in the web UI's array counts as unparsable, as in \<open>Devices\<close>.
\<close>

subsection \<open>The issuer\<close>

record EnrollToken =
  et_ID :: string
  et_Description :: string
  et_TokenHash :: string
  et_CreatedAt :: time
  et_CreatedBy :: string
  et_ExpiresAt :: time
  et_MaxUses :: int
  et_UsedCount :: int
  et_Revoked :: bool
  et_RevokedAt :: "time option"

definition zero_EnrollToken :: EnrollToken where
  "zero_EnrollToken = \<lparr>et_ID = [], et_Description = [], et_TokenHash = [], et_CreatedAt = zero_time,
     et_CreatedBy = [], et_ExpiresAt = zero_time, et_MaxUses = 0, et_UsedCount = 0, et_Revoked = False,
     et_RevokedAt = None\<rparr>"

definition EnrollToken_fields :: "EnrollToken fields" where
  "EnrollToken_fields =
     [fld ''id'' dec_string et_ID et_ID_update,
      fld ''description'' dec_string et_Description et_Description_update,
      fld ''token_hash'' dec_string et_TokenHash et_TokenHash_update,
      fld ''created_at'' dec_time et_CreatedAt et_CreatedAt_update,
      fld ''created_by'' dec_string et_CreatedBy et_CreatedBy_update,
      fld ''expires_at'' dec_time et_ExpiresAt et_ExpiresAt_update,
      fld ''max_uses'' dec_int et_MaxUses et_MaxUses_update,
      fld ''used_count'' dec_int et_UsedCount et_UsedCount_update,
      fld ''revoked'' dec_bool et_Revoked et_Revoked_update,
      fld ''revoked_at'' dec_time_ptr et_RevokedAt et_RevokedAt_update]"

definition enc_EnrollToken :: "EnrollToken \<Rightarrow> json" where
  "enc_EnrollToken t = JObj
     ([(''id'', JStr (et_ID t)), (''description'', JStr (et_Description t)), (''token_hash'', JStr (et_TokenHash t)),
       (''created_at'', JTime (et_CreatedAt t)), (''created_by'', JStr (et_CreatedBy t)),
       (''expires_at'', JTime (et_ExpiresAt t)), (''max_uses'', enc_int (et_MaxUses t)),
       (''used_count'', enc_int (et_UsedCount t)), (''revoked'', JBool (et_Revoked t))]
      @ (case et_RevokedAt t of None \<Rightarrow> [] | Some x \<Rightarrow> [(''revoked_at'', JTime x)]))"

definition int_fields_ok :: "EnrollToken \<Rightarrow> bool" where
  \<comment> \<open>what a Go \<open>int\<close> can hold\<close>
  "int_fields_ok t \<longleftrightarrow> int64 (et_MaxUses t) \<and> int64 (et_UsedCount t)"

interpretation enroll_codec: json_codec enc_EnrollToken "dec_struct EnrollToken_fields" zero_EnrollToken
    int_fields_ok
  by unfold_locales
    (simp add: codec_simps enc_EnrollToken_def EnrollToken_fields_def zero_EnrollToken_def int_fields_ok_def
      split: option.splits)

definition enc_EnrollTokens :: "EnrollToken list \<Rightarrow> json" where
  "enc_EnrollTokens ts = JArr (map enc_EnrollToken ts)"

definition dec_EnrollTokens :: "json \<Rightarrow> EnrollToken list option" where
  "dec_EnrollTokens j =
     (case j of
        JArr js \<Rightarrow> if JNull \<in> set js then None else dec_list (dec_struct EnrollToken_fields) zero_EnrollToken [] j
      | _ \<Rightarrow> dec_list (dec_struct EnrollToken_fields) zero_EnrollToken [] j)"

record EnrollTokenStore =
  ts_tokens :: "EnrollToken list"
  ts_file :: json_file

definition load_tokens :: "EnrollTokenStore \<Rightarrow> (store_error + unit) \<times> EnrollTokenStore" where
  "load_tokens s =
     (case ts_file s of
        Missing \<Rightarrow> (Inl NotFound, s)
      | Unreadable \<Rightarrow> (Inl ReadFailed, s)
      | Blank \<Rightarrow> (Inr (), s\<lparr>ts_tokens := []\<rparr>)
      | Malformed \<Rightarrow> (Inl ReadFailed, s)
      | Doc j \<Rightarrow> (case dec_EnrollTokens j of
                   None \<Rightarrow> (Inl ReadFailed, s) | Some ts \<Rightarrow> (Inr (), s\<lparr>ts_tokens := ts\<rparr>)))"

definition newEnrollTokenStore :: "json_file \<Rightarrow> EnrollTokenStore option" where
  "newEnrollTokenStore f =
     (case load_tokens \<lparr>ts_tokens = [], ts_file = f\<rparr> of
        (Inl NotFound, s) \<Rightarrow> Some s | (Inl _, _) \<Rightarrow> None | (Inr _, s) \<Rightarrow> Some s)"

definition reloadFromDiskUnlocked :: "EnrollTokenStore \<Rightarrow> (store_error + unit) \<times> EnrollTokenStore" where
  "reloadFromDiskUnlocked s =
     (case ts_file s of
        Missing \<Rightarrow> (Inr (), s\<lparr>ts_tokens := []\<rparr>)
      | Unreadable \<Rightarrow> (Inl ReadFailed, s)
      | Blank \<Rightarrow> (Inr (), s\<lparr>ts_tokens := []\<rparr>)
      | Malformed \<Rightarrow> (Inl ReadFailed, s)
      | Doc j \<Rightarrow> (case dec_EnrollTokens j of
                   None \<Rightarrow> (Inl ReadFailed, s) | Some ts \<Rightarrow> (Inr (), s\<lparr>ts_tokens := ts\<rparr>)))"

definition save_tokens :: "bool \<Rightarrow> EnrollTokenStore \<Rightarrow> (store_error + unit) \<times> EnrollTokenStore" where
  "save_tokens ok s =
     (if ok then Inr () else Inl WriteFailed,
      s\<lparr>ts_file := write_doc ok (enc_EnrollTokens (ts_tokens s)) (ts_file s)\<rparr>)"

record CreateOptions =
  co_Description :: string
  co_ExpiresInHours :: int
  co_MaxUses :: int
  co_CreatedBy :: string

definition hashToken :: "(string \<Rightarrow> 8 word list) \<Rightarrow> string \<Rightarrow> string" where
  "hashToken hash s = hex_bytes (hash s)"

definition Create_token ::
  "flock_result \<Rightarrow> bool \<Rightarrow> time \<Rightarrow> (string \<Rightarrow> 8 word list) \<Rightarrow> 8 word list \<Rightarrow> 8 word list \<Rightarrow> CreateOptions
     \<Rightarrow> EnrollTokenStore \<Rightarrow> (store_error + EnrollToken \<times> string) \<times> EnrollTokenStore" where
  \<comment> \<open>the lock, whether the write succeeds, the clock, the digest, and the random bytes of the token and of its identifier\<close>
  "Create_token l ok now hash secret ident opt s =
     (let hours = (if co_ExpiresInHours opt \<le> 0 then 24 else co_ExpiresInHours opt);
          uses = (if co_MaxUses opt \<le> 0 then 1 else co_MaxUses opt) in
      if hours > 24 * 30 then (Inl (Invalid ''expires_in_hours must be <= 720 (30 days)''), s)
      else if uses > 1000 then (Inl (Invalid ''max_uses must be <= 1000''), s)
      else
        let plaintext = base64url secret;
            tok = \<lparr>et_ID = generateToken ident, et_Description = co_Description opt,
                   et_TokenHash = hashToken hash plaintext, et_CreatedAt = now, et_CreatedBy = co_CreatedBy opt,
                   et_ExpiresAt = now + hours * hour, et_MaxUses = uses, et_UsedCount = 0, et_Revoked = False,
                   et_RevokedAt = None\<rparr>
        in with_lock l
             (case reloadFromDiskUnlocked s of
                (Inl e, s1) \<Rightarrow> (Inl e, s1)
              | (Inr _, s1) \<Rightarrow>
                  (case save_tokens ok (s1\<lparr>ts_tokens := ts_tokens s1 @ [tok]\<rparr>) of
                     (Inl e, s2) \<Rightarrow> (Inl e, s2\<lparr>ts_tokens := butlast (ts_tokens s2)\<rparr>)
                   | (Inr _, s2) \<Rightarrow> (Inr (tok, plaintext), s2))) s)"

definition Reload_tokens :: "flock_result \<Rightarrow> EnrollTokenStore \<Rightarrow> (store_error + unit) \<times> EnrollTokenStore" where
  "Reload_tokens l s = with_lock l (reloadFromDiskUnlocked s) s"

definition GetByID_token :: "string \<Rightarrow> EnrollTokenStore \<Rightarrow> EnrollToken option" where
  "GetByID_token k s = find_by et_ID k (ts_tokens s)"

definition Revoke_token ::
  "flock_result \<Rightarrow> bool \<Rightarrow> time \<Rightarrow> string \<Rightarrow> EnrollTokenStore \<Rightarrow> (store_error + unit) \<times> EnrollTokenStore" where
  "Revoke_token l ok now k s =
     with_lock l
       (case reloadFromDiskUnlocked s of
          (Inl e, s1) \<Rightarrow> (Inl e, s1)
        | (Inr _, s1) \<Rightarrow>
            (case find_by et_ID k (ts_tokens s1) of
               None \<Rightarrow> (Inl NotFound, s1)
             | Some t \<Rightarrow>
                 if et_Revoked t then (Inr (), s1)
                 else save_tokens ok (s1\<lparr>ts_tokens := update_first et_ID k
                        (\<lambda>t. t\<lparr>et_Revoked := True, et_RevokedAt := Some now\<rparr>) (ts_tokens s1)\<rparr>))) s"

definition Delete_token ::
  "flock_result \<Rightarrow> bool \<Rightarrow> string \<Rightarrow> EnrollTokenStore \<Rightarrow> (store_error + unit) \<times> EnrollTokenStore" where
  "Delete_token l ok k s =
     with_lock l
       (case reloadFromDiskUnlocked s of
          (Inl e, s1) \<Rightarrow> (Inl e, s1)
        | (Inr _, s1) \<Rightarrow>
            (case find_by et_ID k (ts_tokens s1) of
               None \<Rightarrow> (Inl NotFound, s1)
             | Some _ \<Rightarrow> save_tokens ok (s1\<lparr>ts_tokens := remove_first et_ID k (ts_tokens s1)\<rparr>))) s"

subsection \<open>The consumer\<close>

record enrollToken =
  tk_Token :: string
  tk_OrgID :: string
  tk_User :: string
  tk_ExpiresAt :: time
  tk_ConsumedAt :: time
  tk_UsedCount :: int

definition zero_enrollToken :: enrollToken where
  "zero_enrollToken = \<lparr>tk_Token = [], tk_OrgID = [], tk_User = [], tk_ExpiresAt = zero_time,
     tk_ConsumedAt = zero_time, tk_UsedCount = 0\<rparr>"

definition enrollToken_fields :: "enrollToken fields" where
  "enrollToken_fields =
     [fld ''token'' dec_string tk_Token tk_Token_update,
      fld ''org_id'' dec_string tk_OrgID tk_OrgID_update,
      fld ''user'' dec_string tk_User tk_User_update,
      fld ''expires_at'' dec_time tk_ExpiresAt tk_ExpiresAt_update,
      fld ''consumed_at'' dec_time tk_ConsumedAt tk_ConsumedAt_update,
      fld ''used_count'' dec_int tk_UsedCount tk_UsedCount_update]"

definition enc_enrollToken :: "enrollToken \<Rightarrow> json" where
  \<comment> \<open>\<open>omitempty\<close> has no effect on a \<open>time.Time\<close>\<close>
  "enc_enrollToken t = JObj
     ([(''token'', JStr (tk_Token t)), (''org_id'', JStr (tk_OrgID t))]
      @ (if tk_User t = [] then [] else [(''user'', JStr (tk_User t))])
      @ [(''expires_at'', JTime (tk_ExpiresAt t)), (''consumed_at'', JTime (tk_ConsumedAt t))]
      @ (if tk_UsedCount t = 0 then [] else [(''used_count'', enc_int (tk_UsedCount t))]))"

interpretation token_codec: json_codec enc_enrollToken "dec_struct enrollToken_fields" zero_enrollToken
    "\<lambda>t. int64 (tk_UsedCount t)"
  by unfold_locales
    (simp add: codec_simps enc_enrollToken_def enrollToken_fields_def zero_enrollToken_def)

definition dec_token_store :: "json \<Rightarrow> enrollToken list option" where
  \<comment> \<open>\<open>enrollTokenStore\<close>\<close>
  "dec_token_store j =
     dec_struct [fld ''tokens'' (dec_list (dec_struct enrollToken_fields) zero_enrollToken) id (\<lambda>f. f)] [] j"

definition enc_token_store :: "enrollToken list \<Rightarrow> json" where
  \<comment> \<open>never of an empty store, whose nil slice would be \<open>null\<close>\<close>
  "enc_token_store ts = JObj [(''tokens'', JArr (map enc_enrollToken ts))]"

definition readTokenStore :: "json_file \<Rightarrow> store_error + enrollToken list" where
  "readTokenStore f =
     (case f of
        Missing \<Rightarrow> Inr [] | Unreadable \<Rightarrow> Inl ReadFailed | Blank \<Rightarrow> Inr [] | Malformed \<Rightarrow> Inl ReadFailed
      | Doc j \<Rightarrow> (case dec_token_store j of None \<Rightarrow> Inl ReadFailed | Some ts \<Rightarrow> Inr ts))"

definition writeTokenStore :: "bool \<Rightarrow> enrollToken list \<Rightarrow> json_file \<Rightarrow> (store_error + unit) \<times> json_file" where
  "writeTokenStore ok ts f = (if ok then Inr () else Inl WriteFailed, write_doc ok (enc_token_store ts) f)"

definition inc64 :: "int \<Rightarrow> int" where
  \<comment> \<open>\<open>n++\<close> on an \<open>int\<close>\<close>
  "inc64 n = (if n = max_int64 then min_int64 else n + 1)"

definition consume_mark :: "time \<Rightarrow> enrollToken \<Rightarrow> enrollToken" where
  "consume_mark now t = t\<lparr>tk_ConsumedAt := now, tk_UsedCount := inc64 (tk_UsedCount t)\<rparr>"

definition consumeEnrollToken ::
  "flock_result \<Rightarrow> bool \<Rightarrow> time \<Rightarrow> string \<Rightarrow> json_file \<Rightarrow> (store_error + enrollToken) \<times> json_file" where
  \<comment> \<open>the lock, whether the write succeeds, the clock, the token presented\<close>
  "consumeEnrollToken l ok now token f =
     with_lock l
       (case readTokenStore f of
          Inl e \<Rightarrow> (Inl e, f)
        | Inr ts \<Rightarrow>
            (case find_by tk_Token token ts of
               None \<Rightarrow> (Inl (Invalid ''not found''), f)
             | Some t \<Rightarrow>
                 if tk_ConsumedAt t \<noteq> zero_time then (Inl (Invalid ''already consumed''), f)
                 else if tk_ExpiresAt t \<noteq> zero_time \<and> now > tk_ExpiresAt t then (Inl (Invalid ''expired''), f)
                 else
                   (case writeTokenStore ok (update_first tk_Token token (consume_mark now) ts) f of
                      (Inl e, f') \<Rightarrow> (Inl e, f') | (Inr _, f') \<Rightarrow> (Inr (consume_mark now t), f')))) f"

subsection \<open>Reading back\<close>

lemma dec_enc_EnrollTokens: "list_all int_fields_ok ts \<Longrightarrow> dec_EnrollTokens (enc_EnrollTokens ts) = Some ts"
proof -
  assume "list_all int_fields_ok ts"
  moreover have "JNull \<notin> set (map enc_EnrollToken ts)" by (auto simp: enc_EnrollToken_def)
  ultimately show ?thesis
    using enroll_codec.dec_list_enc [of ts] by (simp add: dec_EnrollTokens_def enc_EnrollTokens_def)
qed

lemma keeps_true: "keeps (\<lambda>_. True) d"
  by (simp add: keeps_def)

lemma keeps_int_field: "(\<And>r x. Q x \<Longrightarrow> P r \<Longrightarrow> P (upd (\<lambda>_. x) r)) \<Longrightarrow> (\<And>r. P r \<Longrightarrow> Q (get r)) \<Longrightarrow> keeps Q d \<Longrightarrow>
    keeps P (snd (fld n d get upd))"
  by (rule keeps_fld [where Q = Q]) auto

lemma keeps_dec_int: "keeps int64 dec_int"
  by (simp add: keeps_def dec_int_int64)

lemma int64_0 [simp]: "int64 0"
  by (simp add: int64_def min_int64_def max_int64_def)

lemma keeps_EnrollToken: "keeps int_fields_ok (dec_struct EnrollToken_fields)"
proof (rule dec_struct_keeps)
  show "\<forall>f \<in> set EnrollToken_fields. keeps int_fields_ok (snd f)"
    by (simp add: EnrollToken_fields_def)
      (intro conjI; (rule keeps_int_field [OF _ _ keeps_dec_int] keeps_int_field [OF _ _ keeps_true]; simp add: int_fields_ok_def))
qed

lemma dec_EnrollTokens_ok: "dec_EnrollTokens j = Some ts \<Longrightarrow> list_all int_fields_ok ts"
  using keepsD [OF dec_list_keeps [OF keeps_EnrollToken, of zero_EnrollToken], of "[]" j ts]
  by (auto simp: dec_EnrollTokens_def int_fields_ok_def zero_EnrollToken_def split: json.splits if_splits)

lemma keeps_enrollToken: "keeps (\<lambda>t. int64 (tk_UsedCount t)) (dec_struct enrollToken_fields)"
proof (rule dec_struct_keeps)
  show "\<forall>f \<in> set enrollToken_fields. keeps (\<lambda>t. int64 (tk_UsedCount t)) (snd f)"
    by (simp add: enrollToken_fields_def)
      (intro conjI; (rule keeps_int_field [OF _ _ keeps_dec_int] keeps_int_field [OF _ _ keeps_true]; simp))
qed

definition counts_ok :: "enrollToken list \<Rightarrow> bool" where
  "counts_ok ts \<longleftrightarrow> list_all (\<lambda>t. int64 (tk_UsedCount t)) ts"

lemma dec_token_store_ok: "dec_token_store j = Some ts \<Longrightarrow> counts_ok ts"
proof -
  have "keeps (list_all (\<lambda>t. int64 (tk_UsedCount t))) (dec_list (dec_struct enrollToken_fields) zero_enrollToken)"
    by (rule dec_list_keeps [OF keeps_enrollToken]) (simp add: zero_enrollToken_def)
  then have "keeps counts_ok (dec_struct
      [fld ''tokens'' (dec_list (dec_struct enrollToken_fields) zero_enrollToken) id (\<lambda>f. f)])"
    unfolding counts_ok_def
    by (intro dec_struct_keeps) (auto intro: keeps_int_field)
  then show "dec_token_store j = Some ts \<Longrightarrow> counts_ok ts"
    using keepsD [of counts_ok _ "[]" j ts] by (simp add: dec_token_store_def counts_ok_def)
qed

lemma dec_enc_token_store: "counts_ok ts \<Longrightarrow> dec_token_store (enc_token_store ts) = Some ts"
  by (simp add: dec_token_store_def enc_token_store_def counts_ok_def codec_simps token_codec.dec_list_enc)

lemma readTokenStore_ok: "readTokenStore f = Inr ts \<Longrightarrow> counts_ok ts"
  using dec_token_store_ok by (auto simp: readTokenStore_def counts_ok_def split: json_file.splits option.splits)

lemma inc64_int64: "int64 n \<Longrightarrow> int64 (inc64 n)"
  by (auto simp: inc64_def int64_def min_int64_def max_int64_def)

lemma counts_ok_mark: "counts_ok ts \<Longrightarrow> counts_ok (update_first tk_Token k (consume_mark now) ts)"
  unfolding counts_ok_def by (induction ts) (auto simp: consume_mark_def inc64_int64)

lemma consume_mark_simps [simp]:
  "tk_Token (consume_mark now t) = tk_Token t" "tk_ConsumedAt (consume_mark now t) = now"
  "tk_ExpiresAt (consume_mark now t) = tk_ExpiresAt t" "tk_OrgID (consume_mark now t) = tk_OrgID t"
  "tk_User (consume_mark now t) = tk_User t"
  by (simp_all add: consume_mark_def)

lemma consume_Inr:
  assumes "consumeEnrollToken l ok now token f = (Inr t, f')"
  obtains ts t0 where "readTokenStore f = Inr ts" "find_by tk_Token token ts = Some t0"
    "t = consume_mark now t0" "tk_ConsumedAt t0 = zero_time" "tk_ExpiresAt t0 = zero_time \<or> now \<le> tk_ExpiresAt t0"
    "readTokenStore f' = Inr (update_first tk_Token token (consume_mark now) ts)"
proof -
  obtain ts t0 where r: "readTokenStore f = Inr ts" "find_by tk_Token token ts = Some t0"
    "t = consume_mark now t0" "tk_ConsumedAt t0 = zero_time" "tk_ExpiresAt t0 = zero_time \<or> now \<le> tk_ExpiresAt t0"
    and f': "f' = Doc (enc_token_store (update_first tk_Token token (consume_mark now) ts))"
    using assms
    by (auto simp: consumeEnrollToken_def with_lock_def writeTokenStore_def not_less
        split: flock_result.splits sum.splits option.splits if_splits)
  moreover have "readTokenStore f' = Inr (update_first tk_Token token (consume_mark now) ts)"
    using counts_ok_mark [OF readTokenStore_ok [OF r(1)]] by (simp add: f' readTokenStore_def dec_enc_token_store)
  ultimately show thesis using that by metis
qed

lemma consume_Inl: "consumeEnrollToken l ok now token f = (Inl e, f') \<Longrightarrow> f' = f"
  by (auto simp: consumeEnrollToken_def with_lock_def writeTokenStore_def
      split: flock_result.splits sum.splits option.splits if_splits)

subsection \<open>Tokens are used once\<close>

definition spent :: "string \<Rightarrow> json_file \<Rightarrow> bool" where
  "spent token f \<longleftrightarrow>
     (case readTokenStore f of
        Inl _ \<Rightarrow> False
      | Inr ts \<Rightarrow> (case find_by tk_Token token ts of None \<Rightarrow> False | Some t \<Rightarrow> tk_ConsumedAt t \<noteq> zero_time))"

fun grants :: "(flock_result \<times> bool \<times> time \<times> string) list \<Rightarrow> json_file \<Rightarrow> enrollToken list" where
  \<comment> \<open>the tokens granted by a sequence of attempts, of any clients\<close>
  "grants [] f = []"
| "grants ((l, ok, now, token) # as) f =
     (case consumeEnrollToken l ok now token f of
        (Inl _, f') \<Rightarrow> grants as f' | (Inr t, f') \<Rightarrow> t # grants as f')"

lemma spent_blocks:
  assumes "spent token f" shows "\<exists>e. consumeEnrollToken l ok now token f = (Inl e, f)"
  using assms
  by (auto simp: consumeEnrollToken_def spent_def with_lock_def split: flock_result.splits sum.splits option.splits)

lemma consume_spends:
  assumes "consumeEnrollToken l ok now token f = (Inr t, f')" and "now \<noteq> zero_time"
  shows "spent k f' \<longleftrightarrow> k = token \<or> spent k f" and "tk_Token t = token"
proof -
  obtain ts t0 where "readTokenStore f = Inr ts" "find_by tk_Token token ts = Some t0" "t = consume_mark now t0"
    "readTokenStore f' = Inr (update_first tk_Token token (consume_mark now) ts)"
    using assms(1) by (rule consume_Inr)
  then show "spent k f' \<longleftrightarrow> k = token \<or> spent k f" "tk_Token t = token"
    using assms(2) find_by_SomeD [of tk_Token token ts t0]
    by (auto simp: spent_def find_by_update_first)
qed

lemma grants_fresh:
  "list_all (\<lambda>(_, _, now, _). now \<noteq> zero_time) as \<Longrightarrow> t \<in> set (grants as f) \<Longrightarrow> \<not> spent (tk_Token t) f"
proof (induction as f rule: grants.induct)
  case (2 l ok now token as f)
  obtain r f' where c: "consumeEnrollToken l ok now token f = (r, f')" by fastforce
  show ?case
  proof (cases r)
    case (Inl e)
    then show ?thesis using 2 c consume_Inl [of l ok now token f e f'] by simp
  next
    case (Inr t')
    have "\<not> spent token f" using spent_blocks [of token f l ok now] c Inr by auto
    then show ?thesis using 2 c Inr consume_spends [of l ok now token f t' f'] by auto
  qed
qed simp

text \<open>
  C7: an enrollment token buys one certificate. Whatever sequence of attempts is made, by any clients, with
  writes and locks that fail or not, no token is granted twice, and a token already marked
  consumed in the file is never granted. The clock must not show the zero time.
\<close>
theorem tokens_are_single_use:
  assumes "list_all (\<lambda>(_, _, now, _). now \<noteq> zero_time) as"
  shows "distinct (map tk_Token (grants as f)) \<and> (\<forall>t \<in> set (grants as f). \<not> spent (tk_Token t) f)"
proof
  show "\<forall>t \<in> set (grants as f). \<not> spent (tk_Token t) f" using grants_fresh [OF assms] by blast
  show "distinct (map tk_Token (grants as f))" using assms
  proof (induction as f rule: grants.induct)
    case (2 l ok now token as f)
    obtain r f' where c: "consumeEnrollToken l ok now token f = (r, f')" by fastforce
    show ?case
    proof (cases r)
      case (Inr t')
      then show ?thesis
        using 2 c consume_spends [of l ok now token f t' f'] grants_fresh [of as _ f'] by fastforce
    qed (use 2 c in auto)
  qed simp
qed

definition sample_token :: enrollToken where
  "sample_token = \<lparr>tk_Token = ''secret'', tk_OrgID = ''acme'', tk_User = ''bob'', tk_ExpiresAt = 100,
     tk_ConsumedAt = zero_time, tk_UsedCount = 0\<rparr>"

lemma sample_read: "readTokenStore (Doc (enc_token_store [sample_token])) = Inr [sample_token]"
  by (simp add: readTokenStore_def dec_enc_token_store counts_ok_def sample_token_def)

lemma tokens_are_single_use_witness:
  "let as = [(FlockHeld, True, 50, ''secret''), (FlockTimeout, True, 51, ''secret''), (FlockHeld, True, 52, ''secret'')];
       g = grants as (Doc (enc_token_store [sample_token]))
   in distinct (map tk_Token g) \<and> hd g = consume_mark 50 sample_token"
proof -
  let ?as = "[(FlockHeld, True, 50, ''secret''), (FlockTimeout, True, 51, ''secret''), (FlockHeld, True, 52, ''secret'')]"
  have "distinct (map tk_Token (grants ?as (Doc (enc_token_store [sample_token]))))"
    by (rule tokens_are_single_use [THEN conjunct1]) (simp add: zero_time_def)
  moreover have "fst (consumeEnrollToken FlockHeld True 50 ''secret'' (Doc (enc_token_store [sample_token])))
      = Inr (consume_mark 50 sample_token)"
    by (simp add: consumeEnrollToken_def sample_read writeTokenStore_def) (simp add: sample_token_def)
  then have "hd (grants ?as (Doc (enc_token_store [sample_token]))) = consume_mark 50 sample_token"
    by (auto simp: fst_def split: prod.splits)
  ultimately show ?thesis by (simp add: Let_def)
qed

text \<open>
  What consuming does, on every branch. An attempt is granted exactly when the lock is held, the store can be
  read, the first record of the token is neither consumed nor past its expiry, and the write succeeds;
  then the file holds the same records with that one marked, and the grant carries the organisation and
  the user the token was issued for. In every other case the file is unchanged.
\<close>
theorem consumeEnrollToken_spec:
  "(case consumeEnrollToken l ok now token f of
      (Inr t, f') \<Rightarrow>
        (\<exists>ts t0. readTokenStore f = Inr ts \<and> find_by tk_Token token ts = Some t0 \<and> t = consume_mark now t0
           \<and> tk_OrgID t = tk_OrgID t0 \<and> tk_User t = tk_User t0 \<and> tk_ConsumedAt t0 = zero_time
           \<and> readTokenStore f' = Inr (update_first tk_Token token (consume_mark now) ts))
    | (Inl e, f') \<Rightarrow> f' = f)
   \<and> (isl (fst (consumeEnrollToken l ok now token f)) =
        (\<not> (l = FlockHeld \<and> ok
            \<and> (case readTokenStore f of
                 Inl _ \<Rightarrow> False
               | Inr ts \<Rightarrow> (case find_by tk_Token token ts of
                             None \<Rightarrow> False
                           | Some t \<Rightarrow> tk_ConsumedAt t = zero_time \<and> tk_ExpiresAt t \<in> {zero_time} \<union> {now..})))))"
proof
  show "case consumeEnrollToken l ok now token f of
     (Inr t, f') \<Rightarrow>
       (\<exists>ts t0. readTokenStore f = Inr ts \<and> find_by tk_Token token ts = Some t0 \<and> t = consume_mark now t0
          \<and> tk_OrgID t = tk_OrgID t0 \<and> tk_User t = tk_User t0 \<and> tk_ConsumedAt t0 = zero_time
          \<and> readTokenStore f' = Inr (update_first tk_Token token (consume_mark now) ts))
   | (Inl e, f') \<Rightarrow> f' = f"
    by (auto split: sum.splits elim!: consume_Inr dest: consume_Inl)
qed (auto simp: consumeEnrollToken_def with_lock_def writeTokenStore_def not_less
    split: flock_result.splits sum.splits option.splits)

subsection \<open>What the issuer writes\<close>

lemma Create_token_Inr:
  assumes "Create_token l ok now hash secret ident opt s = (Inr (tok, plaintext), s')"
  obtains s1 where "reloadFromDiskUnlocked s = (Inr (), s1)"
    "s' = \<lparr>ts_tokens = ts_tokens s1 @ [tok], ts_file = Doc (enc_EnrollTokens (ts_tokens s1 @ [tok]))\<rparr>"
    "plaintext = base64url secret" "et_TokenHash tok = hashToken hash plaintext"
    "1 \<le> et_MaxUses tok" "et_MaxUses tok \<le> 1000" "et_UsedCount tok = 0" "\<not> et_Revoked tok"
    "now + hour \<le> et_ExpiresAt tok" "et_ExpiresAt tok \<le> now + 720 * hour"
  using assms
  by (auto simp: Create_token_def Let_def with_lock_def save_tokens_def hour_def minute_def second_def
      split: flock_result.splits sum.splits prod.splits if_splits)

lemma reload_tokens_ok:
  "reloadFromDiskUnlocked s = (Inr (), s1) \<Longrightarrow> list_all int_fields_ok (ts_tokens s1)"
  by (auto simp: reloadFromDiskUnlocked_def dec_EnrollTokens_ok split: json_file.splits option.splits)

text \<open>
  What issuing a token does. On success the token expires within one hour to thirty days, allows one to a
  thousand uses, and the file, read back, holds the records it had and the new one, with the digest of the plaintext and
  not the plaintext itself; on failure the file is unchanged.
\<close>
theorem Create_token_spec:
  "case Create_token l ok now hash secret ident opt s of
     (Inl e, s') \<Rightarrow> ts_file s' = ts_file s
   | (Inr (tok, plaintext), s') \<Rightarrow>
       (\<exists>s1. reloadFromDiskUnlocked s = (Inr (), s1) \<and> ts_tokens s' = ts_tokens s1 @ [tok]
          \<and> newEnrollTokenStore (ts_file s') = Some s')
       \<and> plaintext = base64url secret \<and> et_TokenHash tok = hex_bytes (hash plaintext)
       \<and> et_MaxUses tok \<in> {1..1000} \<and> et_ExpiresAt tok \<in> {now + hour..now + 720 * hour}
       \<and> et_UsedCount tok = 0 \<and> \<not> et_Revoked tok"
proof (cases "Create_token l ok now hash secret ident opt s")
  case (Pair r s')
  show ?thesis
  proof (cases r)
    case (Inl e)
    then show ?thesis
      using Pair
      by (auto simp: Create_token_def Let_def with_lock_def save_tokens_def reloadFromDiskUnlocked_def
          split: flock_result.splits sum.splits prod.splits if_splits json_file.splits option.splits)
  next
    case (Inr p)
    obtain tok plaintext where p: "p = (tok, plaintext)" by fastforce
    obtain s1 where *: "reloadFromDiskUnlocked s = (Inr (), s1)"
      "s' = \<lparr>ts_tokens = ts_tokens s1 @ [tok], ts_file = Doc (enc_EnrollTokens (ts_tokens s1 @ [tok]))\<rparr>"
      "plaintext = base64url secret" "et_TokenHash tok = hashToken hash plaintext"
      "1 \<le> et_MaxUses tok" "et_MaxUses tok \<le> 1000" "et_UsedCount tok = 0" "\<not> et_Revoked tok"
      "now + hour \<le> et_ExpiresAt tok" "et_ExpiresAt tok \<le> now + 720 * hour"
      using Create_token_Inr Pair Inr p by metis
    then have "list_all int_fields_ok (ts_tokens s1 @ [tok])"
      using reload_tokens_ok [OF *(1)]
      by (auto simp: int_fields_ok_def int64_def min_int64_def max_int64_def)
    then have "newEnrollTokenStore (ts_file s') = Some s'"
      by (simp add: *(2) newEnrollTokenStore_def load_tokens_def dec_enc_EnrollTokens)
    then show ?thesis using * by (auto simp: Pair Inr p hashToken_def)
  qed
qed

text \<open>
  C36: tokens issued by the web UI cannot be used. The web UI writes an array of records without their plaintext,
  tls-proxy reads an object with a member \<open>tokens\<close>: after any token was issued, every attempt to consume
  any token fails to read the store.
\<close>
theorem issued_tokens_are_unusable:
  assumes "Create_token l ok now hash secret ident opt s = (Inr (tok, plaintext), s')"
  shows "consumeEnrollToken FlockHeld ok2 now2 token (ts_file s') = (Inl ReadFailed, ts_file s')"
  by (rule Create_token_Inr [OF assms])
    (simp add: consumeEnrollToken_def readTokenStore_def enc_EnrollTokens_def dec_token_store_def dec_struct_def)

definition sample_options :: CreateOptions where
  "sample_options = \<lparr>co_Description = ''laptop'', co_ExpiresInHours = 0, co_MaxUses = 0, co_CreatedBy = ''admin''\<rparr>"

lemma issued_tokens_are_unusable_witness:
  "\<exists>tok plaintext s'. Create_token FlockHeld True 50 (\<lambda>_. [1, 2]) [1, 2, 3] [7] sample_options
        \<lparr>ts_tokens = [], ts_file = Missing\<rparr> = (Inr (tok, plaintext), s')
     \<and> consumeEnrollToken FlockHeld True 60 plaintext (ts_file s') = (Inl ReadFailed, ts_file s')"
proof -
  obtain tok plaintext s' where *: "Create_token FlockHeld True 50 (\<lambda>_. [1, 2]) [1, 2, 3] [7] sample_options
        \<lparr>ts_tokens = [], ts_file = Missing\<rparr> = (Inr (tok, plaintext), s')"
    by (simp add: Create_token_def sample_options_def reloadFromDiskUnlocked_def save_tokens_def Let_def)
  show ?thesis
    using * issued_tokens_are_unusable [OF *] by blast
qed

end
