(* ===== verification/Enroll.thy ===== *)
theory Enroll
  imports Devices Enroll_Tokens Encode
begin

text \<open>
  Enrollment and admission of clients in tls-proxy: the endpoint \<open>/enroll\<close> (\<open>tls-proxy/enroll.go\<close>), the
  identity a certificate expresses (\<open>identity.go\<close>) and the check of a client certificate in the
  handshake of the mTLS listener (\<open>mtls.go\<close>).

  What the program uses of \<open>crypto/x509\<close> and \<open>encoding/pem\<close> is the record \<open>x509_lib\<close>: the codecs are arguments, the
  certificates are what the program reads or sets of them. What the outside answers during one
  enrollment (locks, writes, clocks, random bytes) is the record \<open>enroll_env\<close>.
\<close>

subsection \<open>Certificates\<close>

record cert =
  crt_CommonName :: string
  crt_Organization :: "string list"
  crt_SerialNumber :: "nat option"

record csr =
  csr_CommonName :: string
  csr_PublicKey :: string
  csr_SignatureOk :: bool

record cert_template =
  tm_SerialNumber :: nat
  tm_CommonName :: string
  tm_Organization :: "string list"
  tm_NotBefore :: time
  tm_NotAfter :: time
  tm_ClientAuth :: bool
  tm_IsCA :: bool

record x509_lib =
  xl_pem :: "string \<Rightarrow> (string \<times> string) option"   \<comment> \<open>the type and the bytes of the first block\<close>
  xl_cert :: "string \<Rightarrow> cert option"
  xl_csr :: "string \<Rightarrow> csr option"
  xl_pkcs1 :: "string \<Rightarrow> string option"
  xl_pkcs8 :: "string \<Rightarrow> string option option"        \<comment> \<open>\<open>Some None\<close>: a key that is not RSA\<close>
  xl_create :: "cert_template \<Rightarrow> string \<Rightarrow> string option"
     \<comment> \<open>the signed certificate for a public key, in PEM\<close>

record PeerIdentity =
  pi_UserHost :: string
  pi_OrgID :: string
  pi_Serial :: string

definition no_identity :: PeerIdentity where
  "no_identity = \<lparr>pi_UserHost = [], pi_OrgID = [], pi_Serial = []\<rparr>"

definition HasUser :: "PeerIdentity \<Rightarrow> bool" where
  "HasUser p \<longleftrightarrow> pi_UserHost p \<noteq> []"

definition identityFromCert :: "cert option \<Rightarrow> PeerIdentity" where
  "identityFromCert c =
     (case c of
        None \<Rightarrow> no_identity
      | Some c \<Rightarrow>
          \<lparr>pi_UserHost = trim_space (crt_CommonName c),
           pi_OrgID = (case crt_Organization c of [] \<Rightarrow> [] | org # _ \<Rightarrow> trim_space org),
           pi_Serial = (case crt_SerialNumber c of None \<Rightarrow> [] | Some n \<Rightarrow> serial_text n)\<rparr>)"

definition extractPeerIdentity :: "cert list \<Rightarrow> PeerIdentity" where
  "extractPeerIdentity peers = (case peers of [] \<Rightarrow> no_identity | c # _ \<Rightarrow> identityFromCert (Some c))"

subsection \<open>The check in the handshake\<close>

datatype verdict = Accepted | ParseError | NoCertificate | Revoked_cert string

definition verify_peer :: "(string \<Rightarrow> cert option) \<Rightarrow> RevokedStore \<Rightarrow> string list \<Rightarrow> cert list list \<Rightarrow> verdict" where
  \<comment> \<open>the hook \<open>makeRevocationVerifier\<close> returns\<close>
  "verify_peer parse store rawCerts paths =
     (let leaf = (case paths of
                    (c # _) # _ \<Rightarrow> Inr (Some c)
                  | _ \<Rightarrow> (case rawCerts of
                           [] \<Rightarrow> Inr None
                         | r # _ \<Rightarrow> (case parse r of None \<Rightarrow> Inl ParseError | Some c \<Rightarrow> Inr (Some c))))
      in case leaf of
           Inl e \<Rightarrow> e
         | Inr None \<Rightarrow> NoCertificate
         | Inr (Some c) \<Rightarrow>
             if IsRevoked (crt_SerialNumber c) (Some store)
             then Revoked_cert (case crt_SerialNumber c of None \<Rightarrow> [] | Some n \<Rightarrow> serial_text n)
             else Accepted)"

definition makeRevocationVerifier ::
  "(string \<Rightarrow> cert option) \<Rightarrow> RevokedStore option \<Rightarrow> (string list \<Rightarrow> cert list list \<Rightarrow> verdict) option" where
  "makeRevocationVerifier parse store = map_option (verify_peer parse) store"

definition handleMTLSConn ::
  "(string \<Rightarrow> cert option) \<Rightarrow> RevokedStore option \<Rightarrow> string list \<Rightarrow> cert list list \<Rightarrow> cert list \<Rightarrow> PeerIdentity option" where
  \<comment> \<open>the identity a connection is handed on with, \<open>None\<close> when it is closed; \<open>paths\<close> are the chains that
     \<open>RequireAndVerifyClientCert\<close> verified, none when the verification failed\<close>
  "handleMTLSConn parse store rawCerts paths peers =
     (if paths = [] then None
      else if (case makeRevocationVerifier parse store of None \<Rightarrow> False | Some v \<Rightarrow> v rawCerts paths \<noteq> Accepted)
      then None
      else if HasUser (extractPeerIdentity peers) then Some (extractPeerIdentity peers) else None)"

subsection \<open>The enrollment endpoint\<close>

record enrollConfig =
  ec_Listen :: string
  ec_OrgCAPEM :: string
  ec_TokensFile :: string
  ec_TokensLockFile :: string
  ec_DevicesFile :: string
  ec_DevicesLockFile :: string
  ec_LockTimeout :: int
  ec_CertLifetime :: int

definition loadOrgCA :: "x509_lib \<Rightarrow> string option \<Rightarrow> string option \<Rightarrow> string + cert \<times> string \<times> string" where
  \<comment> \<open>the contents of the two files; the certificate, the key and the PEM text\<close>
  "loadOrgCA X certPEM keyPEM =
     (case (certPEM, keyPEM) of
        (None, _) \<Rightarrow> Inl ''read ORG_CA_FILE''
      | (_, None) \<Rightarrow> Inl ''read ORG_CA_KEY_FILE''
      | (Some cp, Some kp) \<Rightarrow>
          (case xl_pem X cp of
             None \<Rightarrow> Inl ''ORG_CA_FILE: no PEM block''
           | Some (_, cb) \<Rightarrow>
               (case xl_cert X cb of
                  None \<Rightarrow> Inl ''parse org CA cert''
                | Some c \<Rightarrow>
                    (case xl_pem X kp of
                       None \<Rightarrow> Inl ''ORG_CA_KEY_FILE: no PEM block''
                     | Some (kt, kb) \<Rightarrow>
                         if kt = ''RSA PRIVATE KEY'' then
                           (case xl_pkcs1 X kb of None \<Rightarrow> Inl ''parse org CA key (PKCS1)'' | Some k \<Rightarrow> Inr (c, k, cp))
                         else if kt = ''PRIVATE KEY'' then
                           (case xl_pkcs8 X kb of
                              None \<Rightarrow> Inl ''parse org CA key (PKCS8)''
                            | Some None \<Rightarrow> Inl ''org CA key is not RSA''
                            | Some (Some k) \<Rightarrow> Inr (c, k, cp))
                         else Inl ''unsupported org CA key PEM type''))))"

definition getEnv :: "(string \<Rightarrow> string) \<Rightarrow> string \<Rightarrow> string \<Rightarrow> string" where
  "getEnv env key fallback = (if env key \<noteq> [] then env key else fallback)"

definition loadEnrollConfig ::
  "x509_lib \<Rightarrow> (string \<Rightarrow> string) \<Rightarrow> (string \<Rightarrow> string option) \<Rightarrow> string + enrollConfig" where
  \<comment> \<open>the environment and the contents of the files\<close>
  "loadEnrollConfig X env files =
     (let tokensFile = getEnv env ''ENROLL_TOKENS_FILE'' ''/config/enroll-tokens.json'';
          devicesFile = getEnv env ''DEVICES_FILE'' ''/config/devices.json''
      in case loadOrgCA X (files (getEnv env ''ORG_CA_FILE'' ''/config/org-ca.pem''))
                (files (getEnv env ''ORG_CA_KEY_FILE'' ''/config/org-ca.key'')) of
           Inl e \<Rightarrow> Inl e
         | Inr (_, _, pemBytes) \<Rightarrow>
             Inr \<lparr>ec_Listen = getEnv env ''ENROLL_LISTEN'' '':3131'', ec_OrgCAPEM = pemBytes,
                  ec_TokensFile = tokensFile,
                  ec_TokensLockFile = getEnv env ''ENROLL_TOKENS_LOCK_FILE'' (tokensFile @ ''.lock''),
                  ec_DevicesFile = devicesFile, ec_DevicesLockFile = devicesFile @ ''.lock'',
                  ec_LockTimeout = 5 * second, ec_CertLifetime = 7 * 24 * hour\<rparr>)"

record enrollRequest =
  er_CSR :: string
  er_EnrollmentToken :: string

definition dec_enrollRequest :: "json \<Rightarrow> enrollRequest option" where
  "dec_enrollRequest j = dec_struct
     [fld ''csr'' dec_string er_CSR er_CSR_update,
      fld ''enrollment_token'' dec_string er_EnrollmentToken er_EnrollmentToken_update]
     \<lparr>er_CSR = [], er_EnrollmentToken = []\<rparr> j"

record enrollResponse =
  es_Cert :: string
  es_CAChain :: string
  es_ExpiresAt :: string

record enroll_reply =
  rp_Status :: int
  rp_Retry :: bool     \<comment> \<open>the header \<open>Retry-After: 1\<close>\<close>
  rp_Body :: "enrollResponse option"

record enroll_env =
  ee_consumed_at :: time
  ee_tokens_lock :: flock_result
  ee_tokens_ok :: bool
  ee_serial :: "nat option"          \<comment> \<open>a random number below \<open>2^128\<close>, \<open>None\<close> an error\<close>
  ee_signed_at :: time
  ee_id_bytes :: "8 word list option"
  ee_issued_at :: time
  ee_devices_lock :: flock_result
  ee_devices_ok :: bool

record enroll_files =
  ef_tokens :: json_file
  ef_devices :: json_file

definition pickCommonName :: "enrollToken \<Rightarrow> csr \<Rightarrow> string" where
  "pickCommonName tok c =
     (if tk_User tok \<noteq> [] then tk_User tok
      else let cn = trim_space (csr_CommonName c) in if cn = [] then ''unknown@unknown'' else cn)"

definition parseCSRPEM :: "x509_lib \<Rightarrow> string \<Rightarrow> csr option" where
  "parseCSRPEM X s =
     (case xl_pem X s of
        None \<Rightarrow> None
      | Some (t, b) \<Rightarrow>
          if t \<noteq> ''CERTIFICATE REQUEST'' \<and> t \<noteq> ''NEW CERTIFICATE REQUEST'' then None else xl_csr X b)"

definition csr_template :: "enrollConfig \<Rightarrow> time \<Rightarrow> nat \<Rightarrow> string \<times> string list \<Rightarrow> cert_template" where
  "csr_template cfg now serial subject =
     \<lparr>tm_SerialNumber = serial, tm_CommonName = fst subject, tm_Organization = snd subject,
      tm_NotBefore = now - minute, tm_NotAfter = now + ec_CertLifetime cfg, tm_ClientAuth = True, tm_IsCA = False\<rparr>"

definition signCSR ::
  "x509_lib \<Rightarrow> enrollConfig \<Rightarrow> enroll_env \<Rightarrow> csr \<Rightarrow> string \<times> string list \<Rightarrow> (string \<times> time \<times> nat) option" where
  "signCSR X cfg E c subject =
     (case ee_serial E of
        None \<Rightarrow> None
      | Some serial \<Rightarrow>
          map_option (\<lambda>pem. (pem, ee_signed_at E + ec_CertLifetime cfg, serial))
            (xl_create X (csr_template cfg (ee_signed_at E) serial subject) (csr_PublicKey c)))"

definition persistDevice ::
  "enrollConfig \<Rightarrow> enroll_env \<Rightarrow> string \<Rightarrow> enrollToken \<Rightarrow> string \<Rightarrow> time \<Rightarrow> json_file \<Rightarrow> (store_error + unit) \<times> json_file" where
  "persistDevice cfg E cn tok serialHex expiresAt f =
     (if ec_DevicesFile cfg = [] then (Inr (), f)
      else (case ee_id_bytes E of
              None \<Rightarrow> (Inl (Invalid ''device id''), f)
            | Some r \<Rightarrow>
                appendDevice (ee_devices_lock E) (ee_devices_ok E)
                  \<lparr>dv_DeviceID = newDeviceID r, dv_Subject = cn, dv_Org = tk_OrgID tok, dv_SerialHex = serialHex,
                   dv_IssuedAt = ee_issued_at E, dv_ExpiresAt = expiresAt, dv_Revoked = False,
                   dv_RevokedAt = None, dv_LastSeen = None\<rparr> f))"

definition http_error :: "int \<Rightarrow> enroll_reply" where
  "http_error n = \<lparr>rp_Status = n, rp_Retry = False, rp_Body = None\<rparr>"

definition busy :: enroll_reply where
  "busy = \<lparr>rp_Status = 503, rp_Retry = True, rp_Body = None\<rparr>"

definition issue ::
  "x509_lib \<Rightarrow> enrollConfig \<Rightarrow> enroll_env \<Rightarrow> csr \<Rightarrow> enrollToken \<Rightarrow> enroll_files \<Rightarrow> enroll_reply \<times> enroll_files" where
  \<comment> \<open>the second half of \<open>handleEnroll\<close>: the token was consumed\<close>
  "issue X cfg E c tok fs =
     (let cn = pickCommonName tok c in
      case signCSR X cfg E c (cn, [tk_OrgID tok]) of
        None \<Rightarrow> (http_error 500, fs)
      | Some (certPEM, expiresAt, serial) \<Rightarrow>
          (let (res, f') = persistDevice cfg E cn tok (normalizeSerialHex (serial_text serial)) expiresAt (ef_devices fs);
               fs' = fs\<lparr>ef_devices := f'\<rparr>
           in if res = Inl LockTimeout then (busy, fs')
              else (\<lparr>rp_Status = 200, rp_Retry = False,
                     rp_Body = Some \<lparr>es_Cert = certPEM, es_CAChain = ec_OrgCAPEM cfg,
                                     es_ExpiresAt = rfc3339 (expiresAt - expiresAt mod second)\<rparr>\<rparr>, fs')))"

definition handleEnroll ::
  "x509_lib \<Rightarrow> enrollConfig \<Rightarrow> enroll_env \<Rightarrow> string \<Rightarrow> string \<Rightarrow> enroll_files \<Rightarrow> enroll_reply \<times> enroll_files" where
  \<comment> \<open>the method and the body of the request\<close>
  "handleEnroll X cfg E verb body fs =
     (if verb \<noteq> ''POST'' then (http_error 405, fs)
      else
        (case decode_first (take (64 * 1024) body) of
           None \<Rightarrow> (http_error 400, fs)
         | Some (j, _) \<Rightarrow>
             (case dec_enrollRequest j of
                None \<Rightarrow> (http_error 400, fs)
              | Some req \<Rightarrow>
                  if trim_space (er_CSR req) = [] \<or> trim_space (er_EnrollmentToken req) = [] then (http_error 400, fs)
                  else
                    (case parseCSRPEM X (er_CSR req) of
                       None \<Rightarrow> (http_error 400, fs)
                     | Some c \<Rightarrow>
                         if \<not> csr_SignatureOk c then (http_error 400, fs)
                         else
                           (case consumeEnrollToken (ee_tokens_lock E) (ee_tokens_ok E) (ee_consumed_at E)
                                   (er_EnrollmentToken req) (ef_tokens fs) of
                              (Inl LockTimeout, f') \<Rightarrow> (busy, fs\<lparr>ef_tokens := f'\<rparr>)
                            | (Inl _, f') \<Rightarrow> (http_error 401, fs\<lparr>ef_tokens := f'\<rparr>)
                            | (Inr tok, f') \<Rightarrow> issue X cfg E c tok (fs\<lparr>ef_tokens := f'\<rparr>))))))"

subsection \<open>What an enrollment guarantees\<close>

lemma issue_cases:
  "case issue X cfg E c tok fs of (rp, fs') \<Rightarrow>
     ef_tokens fs' = ef_tokens fs
     \<and> (case rp_Body rp of
          None \<Rightarrow> (rp = http_error 500 \<or> rp = busy) \<and> ef_devices fs' = ef_devices fs
        | Some resp \<Rightarrow>
            rp_Status rp = 200
            \<and> (\<exists>serial. ee_serial E = Some serial
                 \<and> xl_create X (csr_template cfg (ee_signed_at E) serial (pickCommonName tok c, [tk_OrgID tok]))
                     (csr_PublicKey c) = Some (es_Cert resp)
                 \<and> persistDevice cfg E (pickCommonName tok c) tok (serial_text serial)
                     (ee_signed_at E + ec_CertLifetime cfg) (ef_devices fs) = (fst (persistDevice cfg E
                       (pickCommonName tok c) tok (serial_text serial) (ee_signed_at E + ec_CertLifetime cfg)
                       (ef_devices fs)), ef_devices fs')))"
proof -
  have unchanged: "persistDevice cfg E cn tok hx t f = (Inl e, f') \<Longrightarrow> f' = f" for cn hx t f e f'
    using appendDevice_cases [where f = f]
    by (auto simp: persistDevice_def split: if_splits option.splits) (smt (verit) case_prod_conv sum.case(1))
  show ?thesis
    by (auto simp: issue_def signCSR_def Let_def http_error_def busy_def normalizeSerialHex_text
        split: option.splits prod.splits dest: unchanged)
qed

lemma handleEnroll_cases:
  obtains (refused) rp fs' where "handleEnroll X cfg E verb body fs = (rp, fs')" and "rp_Body rp = None"
      and "rp_Status rp \<in> {400, 401, 405, 500, 503}" and "ef_devices fs' = ef_devices fs"
  | (granted) c tok token f' where "verb = ''POST''" and "csr_SignatureOk c"
      and "consumeEnrollToken (ee_tokens_lock E) (ee_tokens_ok E) (ee_consumed_at E) token (ef_tokens fs) = (Inr tok, f')"
      and "handleEnroll X cfg E verb body fs = issue X cfg E c tok (fs\<lparr>ef_tokens := f'\<rparr>)"
proof (cases "\<exists>rp fs'. handleEnroll X cfg E verb body fs = (rp, fs') \<and> rp_Body rp = None
    \<and> rp_Status rp \<in> {400, 401, 405, 500, 503} \<and> ef_devices fs' = ef_devices fs")
  case False
  then have "\<exists>c tok token f'. verb = ''POST'' \<and> csr_SignatureOk c
      \<and> consumeEnrollToken (ee_tokens_lock E) (ee_tokens_ok E) (ee_consumed_at E) token (ef_tokens fs) = (Inr tok, f')
      \<and> handleEnroll X cfg E verb body fs = issue X cfg E c tok (fs\<lparr>ef_tokens := f'\<rparr>)"
    unfolding handleEnroll_def
    by (auto simp: http_error_def busy_def split: option.splits prod.splits sum.splits store_error.splits if_splits)
  then show thesis using granted by blast
qed (use refused in blast)

text \<open>
  C6: the endpoint issues a certificate only for a granted token, and the certificate says what the token says: a
  reply carries a certificate only when the method is POST, the signature of the CSR holds and the token was
  consumed by this request; it is signed from a template for client authentication, not a CA, of the configured lifetime,
  whose organisation is that of the token and whose name is the token's user when it names one, whatever the CSR
  claims. Every other reply is one of the five errors and leaves the device register alone.
\<close>
theorem certificates_follow_tokens:
  "case handleEnroll X cfg E verb body fs of (rp, fs') \<Rightarrow>
     case rp_Body rp of
       None \<Rightarrow> rp_Status rp \<in> {400, 401, 405, 500, 503} \<and> ef_devices fs' = ef_devices fs
     | Some resp \<Rightarrow>
         verb = ''POST'' \<and> rp_Status rp = 200
         \<and> (\<exists>c tok token tm f'. csr_SignatureOk c
              \<and> consumeEnrollToken (ee_tokens_lock E) (ee_tokens_ok E) (ee_consumed_at E) token (ef_tokens fs) = (Inr tok, f')
              \<and> ef_tokens fs' = f' \<and> xl_create X tm (csr_PublicKey c) = Some (es_Cert resp)
              \<and> tm_ClientAuth tm \<and> \<not> tm_IsCA tm \<and> tm_Organization tm = [tk_OrgID tok]
              \<and> tm_NotAfter tm - ee_signed_at E = ec_CertLifetime cfg
              \<and> tm_CommonName tm = (if tk_User tok = [] then pickCommonName tok c else tk_User tok))"
proof (cases rule: handleEnroll_cases [of X cfg E verb body fs])
  case (refused rp fs')
  then show ?thesis by simp
next
  case (granted c tok token f')
  let ?fs = "fs\<lparr>ef_tokens := f'\<rparr>"
  obtain rp fs' where i: "issue X cfg E c tok ?fs = (rp, fs')" by fastforce
  have h: "handleEnroll X cfg E verb body fs = (rp, fs')" using granted i by simp
  show ?thesis
  proof (cases "rp_Body rp")
    case None
    then show ?thesis
      using issue_cases [where X = X and cfg = cfg and E = E and c = c and tok = tok and fs = ?fs]
      by (auto simp: h i http_error_def busy_def)
  next
    case (Some resp)
    then obtain serial where ok: "rp_Status rp = 200" "ef_tokens fs' = f'"
      and x: "xl_create X (csr_template cfg (ee_signed_at E) serial (pickCommonName tok c, [tk_OrgID tok]))
                (csr_PublicKey c) = Some (es_Cert resp)"
      using issue_cases [where X = X and cfg = cfg and E = E and c = c and tok = tok and fs = ?fs]
      by (auto simp: i)
    let ?tm = "csr_template cfg (ee_signed_at E) serial (pickCommonName tok c, [tk_OrgID tok])"
    have "tm_ClientAuth ?tm \<and> \<not> tm_IsCA ?tm \<and> tm_Organization ?tm = [tk_OrgID tok]
        \<and> tm_NotAfter ?tm - ee_signed_at E = ec_CertLifetime cfg
        \<and> tm_CommonName ?tm = (if tk_User tok = [] then pickCommonName tok c else tk_User tok)"
      by (simp add: csr_template_def pickCommonName_def)
    then show ?thesis
      using granted(1-3) Some ok x unfolding h by (simp only: prod.case option.case) blast
  qed
qed

lemma handleMTLSConn_revoked:
  "IsRevoked (crt_SerialNumber crt) (Some st) \<Longrightarrow> handleMTLSConn parse (Some st) rawCerts ((crt # ch) # ps) peers = None"
  by (simp add: handleMTLSConn_def makeRevocationVerifier_def verify_peer_def)

lemma persisted_device:
  assumes "persistDevice cfg E cn tok hx t f = (res, f')" and "f' \<noteq> f"
  obtains k d ds where "f' = Doc (enc_devices (ds @ [d]))" "find_by dv_DeviceID k (ds @ [d]) = Some d"
    "dv_SerialHex d = hx" "dv_Subject d = cn" "\<not> dv_Revoked d"
proof -
  obtain i where a: "appendDevice (ee_devices_lock E) (ee_devices_ok E)
      \<lparr>dv_DeviceID = newDeviceID i, dv_Subject = cn, dv_Org = tk_OrgID tok, dv_SerialHex = hx,
       dv_IssuedAt = ee_issued_at E, dv_ExpiresAt = t, dv_Revoked = False, dv_RevokedAt = None,
       dv_LastSeen = None\<rparr> f = (res, f')" (is "appendDevice ?l ?ok ?d f = _")
    using assms by (auto simp: persistDevice_def split: if_splits option.splits)
  then obtain ds where "f' = Doc (enc_devices (ds @ [?d]))" "find_by dv_DeviceID (dv_DeviceID ?d) ds = None"
    using appendDevice_cases [where l = ?l and ok = ?ok and d = ?d and f = f] assms(2)
    by (auto split: sum.splits)
  then show thesis using that [of ds ?d "dv_DeviceID ?d"] by (simp add: find_by_append)
qed

text \<open>
  C12: from enrollment to revocation. When an enrollment returned a certificate and registered the device, the
  web UI that reads this register can revoke the device: \<open>Revoke\<close> succeeds, and after tls-proxy's next
  reload of the list every connection that presents a verified certificate with the serial of the
  signed template is closed.
\<close>
theorem enrolled_then_revoked:
  assumes "handleEnroll X cfg E verb body fs = (rp, fs')" and "rp_Body rp = Some resp"
    and "ef_devices fs' \<noteq> ef_devices fs"
    and "ds_file (rg_devices r) = ef_devices fs'" and "rg_crl r = Some c" and "crl_wf c"
  shows "\<exists>tm pk k. xl_create X tm pk = Some (es_Cert resp)
     \<and> (case Revoke_device True True now k r of (res, r1) \<Rightarrow>
          res = Inr ()
          \<and> (\<forall>crt \<in> {crt. crt_SerialNumber crt = Some (tm_SerialNumber tm)}.
               handleMTLSConn parse (Some (reload_crl_tick t (cr_file (the (rg_crl r1))) rk)) rawCerts
                 ((crt # ch) # ps) peers = None))"
proof -
  obtain cs tok token f' where i: "issue X cfg E cs tok (fs\<lparr>ef_tokens := f'\<rparr>) = (rp, fs')"
    using assms(1,2) by (cases rule: handleEnroll_cases [of X cfg E verb body fs]) auto
  obtain serial where
    x: "xl_create X (csr_template cfg (ee_signed_at E) serial (pickCommonName tok cs, [tk_OrgID tok]))
          (csr_PublicKey cs) = Some (es_Cert resp)"
    and p: "persistDevice cfg E (pickCommonName tok cs) tok (serial_text serial) (ee_signed_at E + ec_CertLifetime cfg)
        (ef_devices fs) = (fst (persistDevice cfg E (pickCommonName tok cs) tok (serial_text serial)
          (ee_signed_at E + ec_CertLifetime cfg) (ef_devices fs)), ef_devices fs')"
    using issue_cases [where X = X and cfg = cfg and E = E and c = cs and tok = tok and fs = "fs\<lparr>ef_tokens := f'\<rparr>"]
      assms(2) by (auto simp: i)
  obtain k d ds where f': "ef_devices fs' = Doc (enc_devices (ds @ [d]))"
    and find: "find_by dv_DeviceID k (ds @ [d]) = Some d" and hx: "dv_SerialHex d = serial_text serial"
    using persisted_device [OF p assms(3)] by metis
  have read: "reloadUnlocked (rg_devices r) = (Inr (), (rg_devices r)\<lparr>ds_devices := ds @ [d]\<rparr>)"
    by (simp add: reloadUnlocked_def assms(4) f')
  obtain s1 where rev: "Revoke_device True True now k r
      = (Inr (), r\<lparr>rg_devices := s1, rg_crl := Some (revoke_serial (dv_Subject d, now) serial c)\<rparr>)"
    by (rule Revoke_device_ok [OF read _ hx assms(5)]) (use find in simp)
  have "IsRevoked (Some serial) (Some (reload_crl_tick t (cr_file (revoke_serial (dv_Subject d, now) serial c)) rk))"
    using crl.has_ins [OF assms(6)] crl.inv_ins [OF assms(6)] by (simp add: reload_reads_store)
  then show ?thesis
    using x by (intro exI [of _ "csr_template cfg (ee_signed_at E) serial (pickCommonName tok cs, [tk_OrgID tok])"]
        exI [of _ "csr_PublicKey cs"] exI [of _ k])
      (simp add: rev csr_template_def handleMTLSConn_revoked)
qed

text \<open>
  \<open>retry shortly\<close> cannot work. When the register is locked by another process, the client is told to retry with
  status 503, but its token is already consumed: the same request is refused with 401 from then on.
\<close>
theorem busy_register_burns_token:
  assumes "handleEnroll X cfg E verb body fs = (busy, fs1)" and "ee_tokens_lock E \<noteq> FlockTimeout"
    and "ee_consumed_at E \<noteq> zero_time" and "ee_tokens_lock E2 = FlockHeld"
  shows "handleEnroll X cfg E2 verb body fs1 = (http_error 401, fs1)"
proof -
  have nb: "busy \<noteq> http_error n" for n by (simp add: busy_def http_error_def)
  have nt: "consumeEnrollToken l ok now token f \<noteq> (Inl LockTimeout, f1)" if "l \<noteq> FlockTimeout" for l ok now token f f1
    using that
    by (auto simp: consumeEnrollToken_def with_lock_def writeTokenStore_def readTokenStore_def
        split: flock_result.splits sum.splits option.splits if_splits json_file.splits)
  obtain j rest req c tok f' where step: "verb = ''POST''" "decode_first (take (64 * 1024) body) = Some (j, rest)"
    "dec_enrollRequest j = Some req" "trim_space (er_CSR req) \<noteq> []" "trim_space (er_EnrollmentToken req) \<noteq> []"
    "parseCSRPEM X (er_CSR req) = Some c" "csr_SignatureOk c"
    and con: "consumeEnrollToken (ee_tokens_lock E) (ee_tokens_ok E) (ee_consumed_at E) (er_EnrollmentToken req)
        (ef_tokens fs) = (Inr tok, f')"
    and i: "issue X cfg E c tok (fs\<lparr>ef_tokens := f'\<rparr>) = (busy, fs1)"
    using assms(1) nb [symmetric] nt [OF assms(2)]
    by (auto simp: handleEnroll_def split: option.splits prod.splits sum.splits store_error.splits if_splits)
  have "ef_tokens fs1 = f'"
    using issue_cases [where X = X and cfg = cfg and E = E and c = c and tok = tok and fs = "fs\<lparr>ef_tokens := f'\<rparr>"]
    by (simp add: i)
  then have "spent (er_EnrollmentToken req) (ef_tokens fs1)"
    using consume_spends [OF con assms(3)] by simp
  then obtain e where e: "consumeEnrollToken FlockHeld (ee_tokens_ok E2) (ee_consumed_at E2) (er_EnrollmentToken req)
      (ef_tokens fs1) = (Inl e, ef_tokens fs1)"
    using spent_blocks by blast
  moreover have "e \<noteq> LockTimeout" using e nt [of FlockHeld] by auto
  ultimately show ?thesis
    using step assms(4) by (auto simp: handleEnroll_def split: store_error.splits)
qed

subsection \<open>A sample enrollment\<close>

definition sample_x509 :: x509_lib where
  "sample_x509 = \<lparr>xl_pem = (\<lambda>s. Some (''CERTIFICATE REQUEST'', s)), xl_cert = (\<lambda>_. None),
     xl_csr = (\<lambda>s. Some \<lparr>csr_CommonName = ''mallory'', csr_PublicKey = s, csr_SignatureOk = True\<rparr>),
     xl_pkcs1 = (\<lambda>_. None), xl_pkcs8 = (\<lambda>_. None), xl_create = (\<lambda>tm pk. Some (tm_CommonName tm @ pk))\<rparr>"

definition sample_enroll_config :: enrollConfig where
  "sample_enroll_config = \<lparr>ec_Listen = '':3131'', ec_OrgCAPEM = ''ca'', ec_TokensFile = ''t'', ec_TokensLockFile = ''tl'',
     ec_DevicesFile = ''d'', ec_DevicesLockFile = ''dl'', ec_LockTimeout = 5 * second, ec_CertLifetime = hour\<rparr>"

definition sample_enroll_env :: "flock_result \<Rightarrow> enroll_env" where
  "sample_enroll_env l = \<lparr>ee_consumed_at = 50, ee_tokens_lock = FlockHeld, ee_tokens_ok = True, ee_serial = Some 77,
     ee_signed_at = 51, ee_id_bytes = Some (replicate 16 1), ee_issued_at = 52, ee_devices_lock = l,
     ee_devices_ok = True\<rparr>"

definition sample_enroll_body :: string where
  \<open>sample_enroll_body = ''{"csr":"c","enrollment_token":"secret"}''\<close>

definition sample_enroll_files :: enroll_files where
  "sample_enroll_files = \<lparr>ef_tokens = Doc (enc_token_store [sample_token]), ef_devices = Missing\<rparr>"

lemma sample_enroll_steps:
  "take (64 * 1024) sample_enroll_body = sample_enroll_body"
  "decode_first sample_enroll_body
     = Some (JObj [(''csr'', JStr ''c''), (''enrollment_token'', JStr ''secret'')], [])"
  "dec_enrollRequest (JObj [(''csr'', JStr ''c''), (''enrollment_token'', JStr ''secret'')])
     = Some \<lparr>er_CSR = ''c'', er_EnrollmentToken = ''secret''\<rparr>"
  "trim_space ''c'' \<noteq> []" "trim_space ''secret'' \<noteq> []"
  "parseCSRPEM sample_x509 ''c'' = Some \<lparr>csr_CommonName = ''mallory'', csr_PublicKey = ''c'', csr_SignatureOk = True\<rparr>"
  "consumeEnrollToken FlockHeld True 50 ''secret'' (ef_tokens sample_enroll_files)
     = (Inr (consume_mark 50 sample_token), Doc (enc_token_store [consume_mark 50 sample_token]))"
proof -
  show "take (64 * 1024) sample_enroll_body = sample_enroll_body"
    by (simp add: sample_enroll_body_def)
  show "decode_first sample_enroll_body
     = Some (JObj [(''csr'', JStr ''c''), (''enrollment_token'', JStr ''secret'')], [])" by code_simp
  show "dec_enrollRequest (JObj [(''csr'', JStr ''c''), (''enrollment_token'', JStr ''secret'')])
     = Some \<lparr>er_CSR = ''c'', er_EnrollmentToken = ''secret''\<rparr>"
    by (simp add: dec_enrollRequest_def codec_simps)
  show "trim_space ''c'' \<noteq> []" "trim_space ''secret'' \<noteq> []" by code_simp+
  show "parseCSRPEM sample_x509 ''c'' = Some \<lparr>csr_CommonName = ''mallory'', csr_PublicKey = ''c'', csr_SignatureOk = True\<rparr>"
    by (simp add: parseCSRPEM_def sample_x509_def)
  show "consumeEnrollToken FlockHeld True 50 ''secret'' (ef_tokens sample_enroll_files)
     = (Inr (consume_mark 50 sample_token), Doc (enc_token_store [consume_mark 50 sample_token]))"
    by (simp add: consumeEnrollToken_def sample_enroll_files_def sample_read writeTokenStore_def)
      (simp add: sample_token_def)
qed

lemma sample_enroll:
  "handleEnroll sample_x509 sample_enroll_config (sample_enroll_env l) ''POST'' sample_enroll_body sample_enroll_files
     = issue sample_x509 sample_enroll_config (sample_enroll_env l)
         \<lparr>csr_CommonName = ''mallory'', csr_PublicKey = ''c'', csr_SignatureOk = True\<rparr> (consume_mark 50 sample_token)
         (sample_enroll_files\<lparr>ef_tokens := Doc (enc_token_store [consume_mark 50 sample_token])\<rparr>)"
  using sample_enroll_steps by (simp add: handleEnroll_def sample_enroll_env_def)

lemma busy_register_burns_token_witness:
  "\<exists>fs1. handleEnroll sample_x509 sample_enroll_config (sample_enroll_env FlockTimeout) ''POST'' sample_enroll_body
       sample_enroll_files = (busy, fs1)
     \<and> handleEnroll sample_x509 sample_enroll_config (sample_enroll_env FlockHeld) ''POST'' sample_enroll_body fs1
       = (http_error 401, fs1)"
proof -
  have "\<exists>fs1. handleEnroll sample_x509 sample_enroll_config (sample_enroll_env FlockTimeout) ''POST''
      sample_enroll_body sample_enroll_files = (busy, fs1)"
    unfolding sample_enroll
    by (simp add: issue_def signCSR_def persistDevice_def appendDevice_def with_lock_def sample_x509_def
        sample_enroll_config_def sample_enroll_env_def Let_def)
  then obtain fs1 where b: "handleEnroll sample_x509 sample_enroll_config (sample_enroll_env FlockTimeout) ''POST''
      sample_enroll_body sample_enroll_files = (busy, fs1)" ..
  have "handleEnroll sample_x509 sample_enroll_config (sample_enroll_env FlockHeld) ''POST'' sample_enroll_body fs1
       = (http_error 401, fs1)"
    by (rule busy_register_burns_token [OF b]) (simp_all add: sample_enroll_env_def zero_time_def)
  then show ?thesis using b by blast
qed

lemma enrolled_then_revoked_witness:
  "\<exists>fs' resp. handleEnroll sample_x509 sample_enroll_config (sample_enroll_env FlockHeld) ''POST'' sample_enroll_body
       sample_enroll_files = (\<lparr>rp_Status = 200, rp_Retry = False, rp_Body = Some resp\<rparr>, fs')
     \<and> (\<exists>tm pk k. xl_create sample_x509 tm pk = Some (es_Cert resp)
          \<and> fst (Revoke_device True True 60 k
              \<lparr>rg_devices = \<lparr>ds_devices = [], ds_file = ef_devices fs'\<rparr>, rg_crl = Some sample_crl_store\<rparr>) = Inr ())"
proof -
  have "\<exists>fs' resp. handleEnroll sample_x509 sample_enroll_config (sample_enroll_env FlockHeld) ''POST''
      sample_enroll_body sample_enroll_files = (\<lparr>rp_Status = 200, rp_Retry = False, rp_Body = Some resp\<rparr>, fs')
      \<and> ef_devices fs' \<noteq> ef_devices sample_enroll_files"
    unfolding sample_enroll
    by (simp add: issue_def signCSR_def persistDevice_def appendDevice_def sample_x509_def sample_enroll_config_def
        Let_def sample_enroll_files_def readDevicesFile_def writeDevicesFile_def sample_enroll_env_def)
  then obtain fs' resp where h: "handleEnroll sample_x509 sample_enroll_config (sample_enroll_env FlockHeld) ''POST''
      sample_enroll_body sample_enroll_files = (\<lparr>rp_Status = 200, rp_Retry = False, rp_Body = Some resp\<rparr>, fs')"
    and f: "ef_devices fs' \<noteq> ef_devices sample_enroll_files" by blast
  let ?r = "\<lparr>rg_devices = \<lparr>ds_devices = [], ds_file = ef_devices fs'\<rparr>, rg_crl = Some sample_crl_store\<rparr>"
  have "\<exists>tm pk k. xl_create sample_x509 tm pk = Some (es_Cert resp)
      \<and> (case Revoke_device True True 60 k ?r of (res, r1) \<Rightarrow>
          res = Inr ()
          \<and> (\<forall>crt \<in> {crt. crt_SerialNumber crt = Some (tm_SerialNumber tm)}.
               handleMTLSConn (\<lambda>_. None) (Some (reload_crl_tick 9 (cr_file (the (rg_crl r1))) NewEmptyRevokedStore)) []
                 ((crt # []) # []) [] = None))"
    by (rule enrolled_then_revoked [OF h _ f _ _ sample_registry_simps(3)]) simp_all
  then obtain tm pk k where "xl_create sample_x509 tm pk = Some (es_Cert resp)"
    and "fst (Revoke_device True True 60 k ?r) = Inr ()"
    unfolding split_beta by blast
  then show ?thesis using h by blast
qed

end
