(* ===== verification/Org_CA.thy ===== *)
theory Org_CA
  imports Enroll
begin

text \<open>
  The certificate authority of the organisation in the web UI (\<open>webui/orgca.go\<close>): loaded from two files, or generated and
  written to them; tls-proxy signs client certificates with the same two files. Key generation, signing and the encodings
  are arguments: \<open>x509_lib\<close> reads, \<open>ca_lib\<close> writes. The digest of a fingerprint is an argument.
\<close>

subsection \<open>Writing a file by a rename\<close>

datatype stage = CreateTemp | WriteTemp | ChmodTemp | SyncTemp | CloseTemp | RenameTemp

definition atomicWrite ::
  "stage option \<Rightarrow> string \<Rightarrow> string \<Rightarrow> string \<Rightarrow> (string \<Rightarrow> string option) \<Rightarrow> bool \<times> (string \<Rightarrow> string option)" where
  \<comment> \<open>the step that fails, the name \<open>os.CreateTemp\<close> chooses, the path, the data and the directory\<close>
  "atomicWrite fails tmp path data fs =
     (if fails = Some CreateTemp then (False, fs)
      else
        let fs1 = fs(tmp \<mapsto> []); cleanup = (\<lambda>g. g(tmp := None)) in
        if fails = Some WriteTemp then (False, cleanup fs1)
        else
          let fs2 = fs1(tmp \<mapsto> data) in
          if fails = Some ChmodTemp \<or> fails = Some SyncTemp \<or> fails = Some CloseTemp then (False, cleanup fs2)
          else if fails = Some RenameTemp then (False, cleanup fs2)
          else (True, (fs2(tmp := None))(path \<mapsto> data)))"

lemma atomicWrite_all_or_nothing:
  "fs tmp = None \<Longrightarrow> tmp \<noteq> path \<Longrightarrow>
     atomicWrite fails tmp path data fs = (if fails = None then (True, fs(path \<mapsto> data)) else (False, fs))"
  by (cases fails; cases "the fails") (auto simp: atomicWrite_def Let_def fun_eq_iff)

subsection \<open>The authority\<close>

definition orgCAValidYears :: int where "orgCAValidYears = 10"

record ca_template =
  ca_SerialNumber :: nat
  ca_CommonName :: string
  ca_Organization :: "string list"
  ca_NotBefore :: time
  ca_NotAfter :: time
  ca_IsCA :: bool
  ca_MaxPathLen :: int

record ca_lib =
  cl_create :: "ca_template \<Rightarrow> string \<Rightarrow> string option"    \<comment> \<open>the certificate a key signs of itself\<close>
  cl_pem :: "string \<Rightarrow> string \<Rightarrow> string"                   \<comment> \<open>the type and the bytes of a block\<close>
  cl_pkcs1 :: "string \<Rightarrow> string"

record org_ca =
  oc_certPEM :: string
  oc_keyPEM :: string
  oc_cert :: cert
  oc_key :: string

datatype ca_file = No_file | No_access | Contents string

definition contents :: "ca_file \<Rightarrow> string option" where
  "contents f = (case f of Contents s \<Rightarrow> Some s | _ \<Rightarrow> None)"

record ca_files =
  cf_cert_file :: ca_file
  cf_key_file :: ca_file

definition load_org_ca :: "x509_lib \<Rightarrow> ca_files \<Rightarrow> string + org_ca option" where
  \<comment> \<open>\<open>Inr None\<close>: a file is missing\<close>
  "load_org_ca X fs =
     (case (cf_cert_file fs, cf_key_file fs) of
        (No_file, _) \<Rightarrow> Inr None
      | (No_access, _) \<Rightarrow> Inl ''read cert''
      | (Contents _, No_file) \<Rightarrow> Inr None
      | (Contents _, No_access) \<Rightarrow> Inl ''read key''
      | (Contents cp, Contents kp) \<Rightarrow>
          (case xl_pem X cp of
             None \<Rightarrow> Inl ''org-ca.pem: not a PEM CERTIFICATE''
           | Some (ct, cb) \<Rightarrow>
               if ct \<noteq> ''CERTIFICATE'' then Inl ''org-ca.pem: not a PEM CERTIFICATE''
               else
                 (case xl_cert X cb of
                    None \<Rightarrow> Inl ''parse org CA cert''
                  | Some c \<Rightarrow>
                      (case xl_pem X kp of
                         None \<Rightarrow> Inl ''org-ca.key: not a PEM block''
                       | Some (kt, kb) \<Rightarrow>
                           (let ca = (\<lambda>k. \<lparr>oc_certPEM = cp, oc_keyPEM = kp, oc_cert = c, oc_key = k\<rparr>) in
                            if kt = ''RSA PRIVATE KEY'' then
                              (case xl_pkcs1 X kb of None \<Rightarrow> Inl ''parse org CA key'' | Some k \<Rightarrow> Inr (Some (ca k)))
                            else if kt = ''PRIVATE KEY'' then
                              (case xl_pkcs8 X kb of
                                 None \<Rightarrow> Inl ''parse org CA key (PKCS8)''
                               | Some None \<Rightarrow> Inl ''org-ca.key: not an RSA key''
                               | Some (Some k) \<Rightarrow> Inr (Some (ca k)))
                            else Inl ''org-ca.key: unsupported PEM type'')))))"

definition civil_day :: "int \<times> int \<times> int \<Rightarrow> int" where
  \<comment> \<open>the day of a date, the inverse of \<open>civil\<close>; a day past the end of its month falls into the next one\<close>
  "civil_day ymd =
     (let (y, m, d) = ymd; y' = (if m \<le> 2 then y - 1 else y); yoe = y' mod 400;
          doy = (153 * (if m > 2 then m - 3 else m + 9) + 2) div 5 + d - 1
      in y' div 400 * 146097 + yoe * 365 + yoe div 4 - yoe div 100 + doy - 306)"

definition add_years :: "int \<Rightarrow> time \<Rightarrow> time" where
  \<comment> \<open>\<open>AddDate(n, 0, 0)\<close>\<close>
  "add_years n t =
     (let day = 86400 * second; (y, m, d) = civil (t div day) in civil_day (y + n, m, d) * day + t mod day)"

record ca_env =
  ce_key :: "string option"           \<comment> \<open>\<open>None\<close>: the key cannot be generated\<close>
  ce_serial :: "nat option"
  ce_now :: time
  ce_cert_write :: bool
  ce_key_write :: bool

definition org_template :: "string \<Rightarrow> time \<Rightarrow> nat \<Rightarrow> ca_template" where
  "org_template orgName now serial =
     \<lparr>ca_SerialNumber = serial, ca_CommonName = ''AI-Scan-Interceptor Org CA'', ca_Organization = [orgName],
      ca_NotBefore = now - 5 * minute, ca_NotAfter = add_years orgCAValidYears now, ca_IsCA = True, ca_MaxPathLen = 1\<rparr>"

definition generate_org_ca :: "x509_lib \<Rightarrow> ca_lib \<Rightarrow> ca_env \<Rightarrow> string \<Rightarrow> ca_files \<Rightarrow> (string + org_ca) \<times> ca_files" where
  "generate_org_ca X L E orgName fs =
     (case ce_key E of
        None \<Rightarrow> (Inl ''rsa generate'', fs)
      | Some k \<Rightarrow>
          (case ce_serial E of
             None \<Rightarrow> (Inl ''serial'', fs)
           | Some serial \<Rightarrow>
               (case cl_create L (org_template orgName (ce_now E) serial) k of
                  None \<Rightarrow> (Inl ''create cert'', fs)
                | Some der \<Rightarrow>
                    (let certPEM = cl_pem L ''CERTIFICATE'' der; keyPEM = cl_pem L ''RSA PRIVATE KEY'' (cl_pkcs1 L k) in
                     if \<not> ce_cert_write E then (Inl ''write cert'', fs)
                     else
                       let fs1 = fs\<lparr>cf_cert_file := Contents certPEM\<rparr> in
                       if \<not> ce_key_write E then (Inl ''write key'', fs1)
                       else
                         let fs2 = fs1\<lparr>cf_key_file := Contents keyPEM\<rparr> in
                         (case xl_cert X der of
                            None \<Rightarrow> (Inl ''parse generated cert'', fs2)
                          | Some c \<Rightarrow> (Inr \<lparr>oc_certPEM = certPEM, oc_keyPEM = keyPEM, oc_cert = c, oc_key = k\<rparr>, fs2))))))"

definition newOrgCA :: "x509_lib \<Rightarrow> ca_lib \<Rightarrow> ca_env \<Rightarrow> string \<Rightarrow> ca_files \<Rightarrow> (string + org_ca) \<times> ca_files" where
  "newOrgCA X L E orgName fs =
     (case load_org_ca X fs of
        Inl e \<Rightarrow> (Inl e, fs)
      | Inr (Some ca) \<Rightarrow> (Inr ca, fs)
      | Inr None \<Rightarrow> generate_org_ca X L E (if orgName = [] then ''default-org'' else orgName) fs)"

definition colonHex :: "8 word list \<Rightarrow> string" where
  "colonHex bs = join (map (\<lambda>b. map upper_char (hex_bytes [b])) bs) '':''"

record cert_view =
  cv_Subject :: string
  cv_NotAfter :: time
  cv_Raw :: string

definition org_ca_json :: "(cert \<Rightarrow> cert_view) \<Rightarrow> (string \<Rightarrow> 8 word list) \<Rightarrow> org_ca \<Rightarrow> json" where
  \<comment> \<open>what the web UI shows: \<open>Subject\<close>, \<open>NotAfter\<close>, \<open>Fingerprint\<close> and \<open>CertPEM\<close>\<close>
  "org_ca_json view sha256 ca =
     (let v = view (oc_cert ca) in JObj
        [(''subject'', JStr (cv_Subject v)), (''not_after'', JTime (cv_NotAfter v)),
         (''fingerprint'', JStr (colonHex (sha256 (cv_Raw v)))), (''cert_pem'', JStr (oc_certPEM ca))])"

subsection \<open>The two programs use one authority\<close>

lemma load_agrees:
  "load_org_ca X fs = Inr (Some ca) \<Longrightarrow>
     loadOrgCA X (contents (cf_cert_file fs)) (contents (cf_key_file fs)) = Inr (oc_cert ca, oc_key ca, oc_certPEM ca)"
  by (cases "cf_cert_file fs"; cases "cf_key_file fs")
    (simp_all add: load_org_ca_def loadOrgCA_def contents_def Let_def split: option.split_asm prod.split_asm if_split_asm,
     auto)

text \<open>
  C29: The web UI and tls-proxy sign with one authority, and it survives restarts. When the web UI starts with an
  authority, loaded or freshly generated, its two files are such that tls-proxy loads the same certificate and key, and every
  later start of the web UI loads it again instead of generating another, whatever name is configured then. The
  encodings are assumed to be inverses of each other.
\<close>
theorem org_ca_shared:
  assumes "newOrgCA X L E orgName fs = (Inr ca, fs')"
    and "\<And>b. xl_pem X (cl_pem L ''CERTIFICATE'' b) = Some (''CERTIFICATE'', b)"
    and "\<And>b. xl_pem X (cl_pem L ''RSA PRIVATE KEY'' b) = Some (''RSA PRIVATE KEY'', b)"
    and "\<And>k. xl_pkcs1 X (cl_pkcs1 L k) = Some k"
  shows "loadOrgCA X (contents (cf_cert_file fs')) (contents (cf_key_file fs')) = Inr (oc_cert ca, oc_key ca, oc_certPEM ca)
     \<and> newOrgCA X L E' orgName' fs' = (Inr ca, fs')"
proof -
  have "load_org_ca X fs' = Inr (Some ca)"
    using assms
    by (auto simp: newOrgCA_def generate_org_ca_def load_org_ca_def Let_def
        split: sum.splits option.splits if_splits)
  then show ?thesis using load_agrees [of X fs' ca] by (simp add: newOrgCA_def)
qed

definition sample_x509 :: x509_lib where
  "sample_x509 = \<lparr>xl_pem = (\<lambda>s. map_option (\<lambda>i. (take i s, drop (i + 1) s)) (index s ''|'')),
     xl_cert = (\<lambda>b. Some \<lparr>crt_CommonName = b, crt_Organization = [], crt_SerialNumber = Some 7\<rparr>),
     xl_csr = (\<lambda>b. None), xl_pkcs1 = Some, xl_pkcs8 = (\<lambda>b. None), xl_create = (\<lambda>t k. None)\<rparr>"

definition sample_ca_lib :: ca_lib where
  "sample_ca_lib = \<lparr>cl_create = (\<lambda>t k. Some (ca_CommonName t)), cl_pem = (\<lambda>t b. t @ ''|'' @ b), cl_pkcs1 = (\<lambda>k. k)\<rparr>"

definition sample_ca_env :: ca_env where
  "sample_ca_env = \<lparr>ce_key = Some ''key'', ce_serial = Some 7, ce_now = 0, ce_cert_write = True, ce_key_write = True\<rparr>"

lemma org_ca_shared_witness:
  "case newOrgCA sample_x509 sample_ca_lib sample_ca_env [] \<lparr>cf_cert_file = No_file, cf_key_file = No_file\<rparr> of
     (Inr ca, fs') \<Rightarrow> fst (newOrgCA sample_x509 sample_ca_lib sample_ca_env ''x'' fs') = Inr ca
   | _ \<Rightarrow> False"
proof -
  let ?new = "newOrgCA sample_x509 sample_ca_lib sample_ca_env [] \<lparr>cf_cert_file = No_file, cf_key_file = No_file\<rparr>"
  have ix: "index (''CERTIFICATE'' @ ''|'' @ b) ''|'' = Some 11" "index (''RSA PRIVATE KEY'' @ ''|'' @ b) ''|'' = Some 15" for b
    by (simp_all add: has_prefix_def)
  obtain ca fs' where new: "?new = (Inr ca, fs')"
    by (simp add: newOrgCA_def load_org_ca_def generate_org_ca_def sample_ca_env_def sample_ca_lib_def sample_x509_def Let_def)
  have "newOrgCA sample_x509 sample_ca_lib sample_ca_env ''x'' fs' = (Inr ca, fs')"
    using org_ca_shared [OF new, of sample_ca_env "''x''"] ix
    by (simp add: sample_ca_lib_def sample_x509_def)
  then show ?thesis using new by simp
qed

end
