(* ===== verification/Auth.thy ===== *)
theory Auth
  imports Ids Files
begin

text \<open>
  The accounts of the web UI (\<open>webui/auth.go\<close>): the user store, the sessions, and the limiter of login attempts.

  \<^item> \<open>bcrypt\<close> is an argument: a record with the generation of a hash, which fails for passwords it cannot hash, and the
    comparison.
  \<^item> The users are a map from identifier to user; the list's order stands for the order in which Go
    iterates over the map. An element \<open>null\<close> in the file counts as unparsable, as in \<open>Devices\<close>.
  \<^item> \<open>users.json\<close> is written in place: \<open>overwrite\<close> says how far the write got.
\<close>

record bcrypt_lib =
  bc_generate :: "string \<Rightarrow> string option"
  bc_compare :: "string \<Rightarrow> string \<Rightarrow> bool"      \<comment> \<open>hash, password\<close>

type_synonym role = string

definition RoleAdmin :: role where "RoleAdmin = ''admin''"
definition RoleUser :: role where "RoleUser = ''user''"

definition sessionTTL :: int where "sessionTTL = 8 * hour"
definition minPasswordLen :: nat where "minPasswordLen = 12"

record User =
  us_ID :: string
  us_Username :: string
  us_PasswordHash :: string
  us_Role :: role
  us_CreatedAt :: time
  us_UpdatedAt :: time
  us_FailedLogins :: int      \<comment> \<open>this and the next field are not in the file\<close>
  us_LockedUntil :: time

definition zero_User :: User where
  "zero_User = \<lparr>us_ID = [], us_Username = [], us_PasswordHash = [], us_Role = [], us_CreatedAt = zero_time,
     us_UpdatedAt = zero_time, us_FailedLogins = 0, us_LockedUntil = zero_time\<rparr>"

definition User_fields :: "User fields" where
  "User_fields =
     [fld ''id'' dec_string us_ID us_ID_update,
      fld ''username'' dec_string us_Username us_Username_update,
      fld ''password_hash'' dec_string us_PasswordHash us_PasswordHash_update,
      fld ''role'' dec_string us_Role us_Role_update,
      fld ''created_at'' dec_time us_CreatedAt us_CreatedAt_update,
      fld ''updated_at'' dec_time us_UpdatedAt us_UpdatedAt_update]"

definition enc_User :: "User \<Rightarrow> json" where
  "enc_User u = JObj
     [(''id'', JStr (us_ID u)), (''username'', JStr (us_Username u)), (''password_hash'', JStr (us_PasswordHash u)),
      (''role'', JStr (us_Role u)), (''created_at'', JTime (us_CreatedAt u)), (''updated_at'', JTime (us_UpdatedAt u))]"

definition fresh_lockout :: "User \<Rightarrow> User" where
  \<comment> \<open>what is left of a user after a restart\<close>
  "fresh_lockout u = u\<lparr>us_FailedLogins := 0, us_LockedUntil := zero_time\<rparr>"

interpretation user_codec: json_codec enc_User "dec_struct User_fields" zero_User "\<lambda>u. fresh_lockout u = u"
proof unfold_locales
  show "dec_struct User_fields zero_User (enc_User u) = Some u" if "fresh_lockout u = u" for u
    using that by (cases u) (simp add: codec_simps enc_User_def User_fields_def zero_User_def fresh_lockout_def)
qed

definition enc_Users :: "User list \<Rightarrow> json" where
  "enc_Users us = JArr (map enc_User us)"

definition dec_Users :: "json \<Rightarrow> User list option" where
  "dec_Users j =
     (case j of
        JArr js \<Rightarrow> if JNull \<in> set js then None else dec_list (dec_struct User_fields) zero_User [] j
      | _ \<Rightarrow> dec_list (dec_struct User_fields) zero_User [] j)"

record UserStore =
  st_users :: "User list"
  st_file :: json_file

definition put_user :: "User \<Rightarrow> User list \<Rightarrow> User list" where
  \<comment> \<open>\<open>s.users[u.ID] = u\<close>\<close>
  "put_user u us =
     (if find_by us_ID (us_ID u) us = None then us @ [u] else update_first us_ID (us_ID u) (\<lambda>_. u) us)"

definition load_users :: "UserStore \<Rightarrow> (store_error + unit) \<times> UserStore" where
  "load_users s =
     (case st_file s of
        Missing \<Rightarrow> (Inl NotFound, s)
      | Doc j \<Rightarrow> (case dec_Users j of
                   None \<Rightarrow> (Inl ReadFailed, s) | Some us \<Rightarrow> (Inr (), s\<lparr>st_users := fold put_user us (st_users s)\<rparr>))
      | _ \<Rightarrow> (Inl ReadFailed, s))"

definition save_users :: "overwrite \<Rightarrow> UserStore \<Rightarrow> (store_error + unit) \<times> UserStore" where
  "save_users w s =
     (if w = Written then Inr () else Inl WriteFailed, s\<lparr>st_file := overwrite_doc w (enc_Users (st_users s)) (st_file s)\<rparr>)"

definition createDefaultAdmin ::
  "bcrypt_lib \<Rightarrow> overwrite \<Rightarrow> time \<Rightarrow> 8 word list \<Rightarrow> 8 word list \<Rightarrow> UserStore \<Rightarrow> UserStore option" where
  \<comment> \<open>the random bytes of the password and of the identifier; \<open>None\<close>: the program ends\<close>
  "createDefaultAdmin B w now pw ident s =
     (case bc_generate B (generateToken pw) of
        None \<Rightarrow> None
      | Some h \<Rightarrow>
          (case save_users w (s\<lparr>st_users := put_user
              \<lparr>us_ID = generateToken ident, us_Username = ''admin'', us_PasswordHash = h, us_Role = RoleAdmin,
               us_CreatedAt = now, us_UpdatedAt = now, us_FailedLogins = 0, us_LockedUntil = zero_time\<rparr>
              (st_users s)\<rparr>) of
             (Inl _, _) \<Rightarrow> None | (Inr _, s') \<Rightarrow> Some s'))"

definition newUserStore ::
  "bcrypt_lib \<Rightarrow> overwrite \<Rightarrow> time \<Rightarrow> 8 word list \<Rightarrow> 8 word list \<Rightarrow> json_file \<Rightarrow> UserStore option" where
  "newUserStore B w now pw ident f =
     (let start = (\<lambda>s. if st_users s = [] then createDefaultAdmin B w now pw ident s else Some s) in
      case load_users \<lparr>st_users = [], st_file = f\<rparr> of
        (Inl NotFound, s) \<Rightarrow> start s | (Inl _, _) \<Rightarrow> None | (Inr _, s) \<Rightarrow> start s)"

definition failed_login :: "time \<Rightarrow> User \<Rightarrow> User" where
  "failed_login now u =
     (let n = us_FailedLogins u + 1 in
      u\<lparr>us_FailedLogins := n, us_LockedUntil := (if n \<ge> 10 then now + 30 * minute else us_LockedUntil u)\<rparr>)"

definition Authenticate ::
  "bcrypt_lib \<Rightarrow> time \<Rightarrow> string \<Rightarrow> string \<Rightarrow> UserStore \<Rightarrow> (store_error + User) \<times> UserStore" where
  "Authenticate B now username password s =
     (case find_by us_Username username (st_users s) of
        None \<Rightarrow> (Inl (Invalid ''invalid credentials''), s)
      | Some u \<Rightarrow>
          if now < us_LockedUntil u then (Inl (Invalid ''account locked''), s)
          else if \<not> bc_compare B (us_PasswordHash u) password then
            (Inl (Invalid ''invalid credentials''),
             s\<lparr>st_users := update_first us_Username username (failed_login now) (st_users s)\<rparr>)
          else
            (Inr (u\<lparr>us_FailedLogins := 0\<rparr>),
             s\<lparr>st_users := update_first us_Username username (us_FailedLogins_update (\<lambda>_. 0)) (st_users s)\<rparr>))"

definition GetByID_user :: "string \<Rightarrow> UserStore \<Rightarrow> User option" where
  "GetByID_user k s = find_by us_ID k (st_users s)"

definition valid_role :: "role \<Rightarrow> bool" where
  "valid_role r \<longleftrightarrow> r = RoleAdmin \<or> r = RoleUser"

definition Create_user ::
  "bcrypt_lib \<Rightarrow> overwrite \<Rightarrow> time \<Rightarrow> 8 word list \<Rightarrow> string \<Rightarrow> string \<Rightarrow> role \<Rightarrow> UserStore
     \<Rightarrow> (store_error + User) \<times> UserStore" where
  "Create_user B w now ident username password r s =
     (if length password < minPasswordLen then (Inl (Invalid ''password must be at least 12 characters''), s)
      else if \<not> valid_role r then (Inl (Invalid ''invalid role''), s)
      else
        (case bc_generate B password of
           None \<Rightarrow> (Inl (Invalid ''bcrypt''), s)
         | Some h \<Rightarrow>
             if find_by us_Username username (st_users s) \<noteq> None then (Inl Duplicate, s)
             else
               (let u = \<lparr>us_ID = generateToken ident, us_Username = username, us_PasswordHash = h, us_Role = r,
                         us_CreatedAt = now, us_UpdatedAt = now, us_FailedLogins = 0, us_LockedUntil = zero_time\<rparr>
                in case save_users w (s\<lparr>st_users := put_user u (st_users s)\<rparr>) of
                     (Inl e, s') \<Rightarrow> (Inl e, s') | (Inr _, s') \<Rightarrow> (Inr u, s'))))"

definition change_user :: "overwrite \<Rightarrow> string \<Rightarrow> (User \<Rightarrow> User) \<Rightarrow> UserStore \<Rightarrow> (store_error + unit) \<times> UserStore" where
  \<comment> \<open>change the user with this identifier and save\<close>
  "change_user w k f s =
     (if find_by us_ID k (st_users s) = None then (Inl NotFound, s)
      else save_users w (s\<lparr>st_users := update_first us_ID k f (st_users s)\<rparr>))"

definition UpdateRole :: "overwrite \<Rightarrow> time \<Rightarrow> string \<Rightarrow> role \<Rightarrow> UserStore \<Rightarrow> (store_error + unit) \<times> UserStore" where
  "UpdateRole w now k r s =
     (if \<not> valid_role r then (Inl (Invalid ''invalid role''), s)
      else change_user w k (\<lambda>u. u\<lparr>us_Role := r, us_UpdatedAt := now\<rparr>) s)"

definition UpdatePassword ::
  "bcrypt_lib \<Rightarrow> overwrite \<Rightarrow> time \<Rightarrow> string \<Rightarrow> string \<Rightarrow> UserStore \<Rightarrow> (store_error + unit) \<times> UserStore" where
  "UpdatePassword B w now k password s =
     (if length password < minPasswordLen then (Inl (Invalid ''password must be at least 12 characters''), s)
      else
        (case bc_generate B password of
           None \<Rightarrow> (Inl (Invalid ''bcrypt''), s)
         | Some h \<Rightarrow> change_user w k (\<lambda>u. u\<lparr>us_PasswordHash := h, us_UpdatedAt := now\<rparr>) s))"

definition Delete_user :: "overwrite \<Rightarrow> string \<Rightarrow> UserStore \<Rightarrow> (store_error + unit) \<times> UserStore" where
  "Delete_user w k s =
     (if find_by us_ID k (st_users s) = None then (Inl NotFound, s)
      else save_users w (s\<lparr>st_users := remove_first us_ID k (st_users s)\<rparr>))"

definition UnlockUser :: "string \<Rightarrow> UserStore \<Rightarrow> (store_error + unit) \<times> UserStore" where
  "UnlockUser k s =
     (if find_by us_ID k (st_users s) = None then (Inl NotFound, s)
      else (Inr (), s\<lparr>st_users := update_first us_ID k fresh_lockout (st_users s)\<rparr>))"

definition UnlockUserByName :: "string \<Rightarrow> UserStore \<Rightarrow> (store_error + unit) \<times> UserStore" where
  "UnlockUserByName username s =
     (if find_by us_Username username (st_users s) = None then (Inl NotFound, s)
      else (Inr (), s\<lparr>st_users := update_first us_Username username fresh_lockout (st_users s)\<rparr>))"

definition AdminCount :: "UserStore \<Rightarrow> nat" where
  "AdminCount s = length (filter (\<lambda>u. us_Role u = RoleAdmin) (st_users s))"

record UserInfo =
  ui_ID :: string
  ui_Username :: string
  ui_Role :: role
  ui_CreatedAt :: time

definition user_info :: "User \<Rightarrow> UserInfo" where
  "user_info u = \<lparr>ui_ID = us_ID u, ui_Username = us_Username u, ui_Role = us_Role u, ui_CreatedAt = us_CreatedAt u\<rparr>"

definition GetAll :: "UserStore \<Rightarrow> UserInfo list" where
  "GetAll s = map user_info (st_users s)"

subsection \<open>The commands of the web UI's executable\<close>

definition runUnlockUser ::
  "bcrypt_lib \<Rightarrow> overwrite \<Rightarrow> time \<Rightarrow> 8 word list \<Rightarrow> 8 word list \<Rightarrow> string \<Rightarrow> json_file \<Rightarrow> UserStore option" where
  \<comment> \<open>\<open>unlock-user\<close>; \<open>None\<close>: it exits with an error\<close>
  "runUnlockUser B w now pw ident username f =
     (case newUserStore B w now pw ident f of
        None \<Rightarrow> None
      | Some s \<Rightarrow> (case UnlockUserByName username s of (Inl _, _) \<Rightarrow> None | (Inr _, s') \<Rightarrow> Some s'))"

definition runSetPassword ::
  "bcrypt_lib \<Rightarrow> overwrite \<Rightarrow> overwrite \<Rightarrow> time \<Rightarrow> 8 word list \<Rightarrow> 8 word list \<Rightarrow> string \<Rightarrow> string \<Rightarrow> json_file \<Rightarrow>
     UserStore option" where
  \<comment> \<open>\<open>set-password\<close>; an empty identifier counts as not found\<close>
  "runSetPassword B w w2 now pw ident username password f =
     (case newUserStore B w now pw ident f of
        None \<Rightarrow> None
      | Some s \<Rightarrow>
          (case find_by us_Username username (st_users s) of
             None \<Rightarrow> None
           | Some u \<Rightarrow>
               if us_ID u = [] then None
               else (case UpdatePassword B w2 now (us_ID u) password s of
                       (Inl _, _) \<Rightarrow> None | (Inr _, s') \<Rightarrow> Some s')))"

subsection \<open>Sessions\<close>

record Session =
  sn_Token :: string
  sn_UserID :: string
  sn_Username :: string
  sn_Role :: role
  sn_ExpiresAt :: time

type_synonym SessionStore = "(string \<times> Session) list"

definition Create_session :: "time \<Rightarrow> 8 word list \<Rightarrow> User \<Rightarrow> SessionStore \<Rightarrow> string \<times> SessionStore" where
  "Create_session now r u ss =
     (let token = generateToken r in
      (token, set_key token \<lparr>sn_Token = token, sn_UserID = us_ID u, sn_Username = us_Username u, sn_Role = us_Role u,
                             sn_ExpiresAt = now + sessionTTL\<rparr> ss))"

definition Delete_session :: "string \<Rightarrow> SessionStore \<Rightarrow> SessionStore" where
  "Delete_session token ss = filter (\<lambda>p. fst p \<noteq> token) ss"

definition Get_session :: "time \<Rightarrow> string \<Rightarrow> SessionStore \<Rightarrow> Session option \<times> SessionStore" where
  "Get_session now token ss =
     (case find_by fst token ss of
        None \<Rightarrow> (None, ss)
      | Some (_, sn) \<Rightarrow>
          if now > sn_ExpiresAt sn then (None, Delete_session token ss) else (Some sn, ss))"

definition DeleteByUserID :: "string \<Rightarrow> SessionStore \<Rightarrow> SessionStore" where
  "DeleteByUserID k ss = filter (\<lambda>p. sn_UserID (snd p) \<noteq> k) ss"

subsection \<open>The limiter of login attempts\<close>

record rateBucket =
  rb_failures :: int
  rb_resetAt :: time

type_synonym rateLimiter = "(string \<times> rateBucket) list"

definition rateLimitWindow :: int where "rateLimitWindow = 15 * minute"
definition rateLimitMaxTries :: int where "rateLimitMaxTries = 5"

definition live_bucket :: "time \<Rightarrow> string \<Rightarrow> rateLimiter \<Rightarrow> rateBucket option" where
  \<comment> \<open>the bucket of the address, unless its window has passed\<close>
  "live_bucket now ip rl =
     (case find_by fst ip rl of None \<Rightarrow> None | Some (_, b) \<Rightarrow> if now > rb_resetAt b then None else Some b)"

definition Allow :: "time \<Rightarrow> string \<Rightarrow> rateLimiter \<Rightarrow> bool \<times> rateLimiter" where
  "Allow now ip rl =
     (case live_bucket now ip rl of
        None \<Rightarrow> (True, set_key ip \<lparr>rb_failures = 0, rb_resetAt = now + rateLimitWindow\<rparr> rl)
      | Some b \<Rightarrow> (rb_failures b < rateLimitMaxTries, rl))"

definition RecordFailure :: "time \<Rightarrow> string \<Rightarrow> rateLimiter \<Rightarrow> rateLimiter" where
  "RecordFailure now ip rl =
     (case live_bucket now ip rl of
        None \<Rightarrow> set_key ip \<lparr>rb_failures = 1, rb_resetAt = now + rateLimitWindow\<rparr> rl
      | Some b \<Rightarrow> set_key ip (b\<lparr>rb_failures := rb_failures b + 1\<rparr>) rl)"

definition ClearIP :: "string \<Rightarrow> rateLimiter \<Rightarrow> rateLimiter" where
  "ClearIP ip rl = filter (\<lambda>p. fst p \<noteq> ip) rl"

definition RecordSuccess :: "string \<Rightarrow> rateLimiter \<Rightarrow> rateLimiter" where
  "RecordSuccess ip rl = filter (\<lambda>p. fst p \<noteq> ip) rl"

definition ClearAll :: "rateLimiter \<Rightarrow> rateLimiter" where
  "ClearAll rl = []"

subsection \<open>Lockout\<close>

fun checked_guesses :: "bcrypt_lib \<Rightarrow> string \<Rightarrow> (time \<times> string) list \<Rightarrow> UserStore \<Rightarrow> time list" where
  \<comment> \<open>when, in a series of attempts on an account, a password is compared at all\<close>
  "checked_guesses B username [] s = []"
| "checked_guesses B username ((now, password) # as) s =
     (let s' = snd (Authenticate B now username password s) in
      case find_by us_Username username (st_users s) of
        None \<Rightarrow> checked_guesses B username as s'
      | Some u \<Rightarrow> if now < us_LockedUntil u then checked_guesses B username as s'
                  else now # checked_guesses B username as s')"

lemma failed_login_simps [simp]:
  "us_Username (failed_login now u) = us_Username u" "us_PasswordHash (failed_login now u) = us_PasswordHash u"
  "us_FailedLogins (failed_login now u) = us_FailedLogins u + 1" "us_ID (failed_login now u) = us_ID u"
  "us_Role (failed_login now u) = us_Role u"
  by (simp_all add: failed_login_def Let_def)

lemma Authenticate_wrong:
  assumes "find_by us_Username username (st_users s) = Some u" and "\<not> bc_compare B (us_PasswordHash u) password"
  shows "find_by us_Username username (st_users (snd (Authenticate B now username password s)))
       = Some (if now < us_LockedUntil u then u else failed_login now u)"
  using assms by (simp add: Authenticate_def find_by_update_first)

lemma checked_guesses_spaced:
  assumes "find_by us_Username username (st_users s) = Some u" and "0 \<le> us_FailedLogins u"
    and "list_all (\<lambda>(_, password). \<not> bc_compare B (us_PasswordHash u) password) as"
  shows "(\<forall>g gs. checked_guesses B username as s = g # gs \<longrightarrow> us_LockedUntil u \<le> g)
     \<and> (\<forall>i. 9 \<le> us_FailedLogins u + int i \<longrightarrow> Suc i < length (checked_guesses B username as s) \<longrightarrow>
          checked_guesses B username as s ! i + 30 * minute \<le> checked_guesses B username as s ! Suc i)"
  using assms
proof (induction as arbitrary: s u)
  case (Cons a as)
  obtain now password where a: "a = (now, password)" by fastforce
  have wrong: "\<not> bc_compare B (us_PasswordHash u) password" using Cons.prems(3) a by simp
  note step = Authenticate_wrong [OF Cons.prems(1) wrong, of now]
  show ?case
  proof (cases "now < us_LockedUntil u")
    case True
    then show ?thesis
      using Cons.IH [of "snd (Authenticate B now username password s)" u] step Cons.prems
      by (simp add: a Let_def)
  next
    case False
    let ?gs = "checked_guesses B username as (snd (Authenticate B now username password s))"
    have ih: "(\<forall>g gs. ?gs = g # gs \<longrightarrow> us_LockedUntil (failed_login now u) \<le> g)
       \<and> (\<forall>i. 9 \<le> us_FailedLogins u + 1 + int i \<longrightarrow> Suc i < length ?gs \<longrightarrow> ?gs ! i + 30 * minute \<le> ?gs ! Suc i)"
      using Cons.IH [of "snd (Authenticate B now username password s)" "failed_login now u"] step Cons.prems False
      by (simp add: a)
    have eq: "checked_guesses B username (a # as) s = now # ?gs"
      using False Cons.prems(1) by (simp add: a Let_def)
    have "(now # ?gs) ! i + 30 * minute \<le> (now # ?gs) ! Suc i"
      if i: "9 \<le> us_FailedLogins u + int i" and len: "Suc i < length (now # ?gs)" for i
    proof (cases i)
      case 0
      then obtain g gs where "?gs = g # gs" using len 0 by (cases ?gs) auto
      then show ?thesis using ih 0 i by (simp add: failed_login_def Let_def)
    next
      case (Suc j)
      then show ?thesis using ih i len by simp
    qed
    then show ?thesis using False by (simp add: eq)
  qed
qed simp


definition sample_user :: User where
  "sample_user = zero_User\<lparr>us_ID := ''u1'', us_Username := ''bob'', us_PasswordHash := ''h'', us_Role := ''user''\<rparr>"


subsection \<open>Restarts\<close>

definition users_ok :: "UserStore \<Rightarrow> bool" where
  "users_ok s \<longleftrightarrow> distinct (map us_ID (st_users s)) \<and> distinct (map us_Username (st_users s))"

lemma dec_enc_Users: "dec_Users (enc_Users us) = Some (map fresh_lockout us)"
proof -
  have enc: "enc_User (fresh_lockout u) = enc_User u" for u by (simp add: enc_User_def fresh_lockout_def)
  have "JNull \<notin> set (map enc_User us)" by (auto simp: enc_User_def)
  moreover have "dec_list (dec_struct User_fields) zero_User [] (JArr (map enc_User (map fresh_lockout us)))
      = Some (map fresh_lockout us)"
    by (rule user_codec.dec_list_enc) (simp add: list_all_iff fresh_lockout_def)
  ultimately show ?thesis by (simp add: dec_Users_def enc_Users_def enc comp_def)
qed

lemma fold_put_user: "distinct (map us_ID (vs @ us)) \<Longrightarrow> fold put_user us vs = vs @ us"
proof (induction us arbitrary: vs)
  case (Cons u us)
  then have "find_by us_ID (us_ID u) vs = None" by (auto simp: find_by_None_iff)
  then show ?case using Cons.IH [of "vs @ [u]"] Cons.prems by (simp add: put_user_def)
qed simp

lemma load_saved_users:
  assumes "distinct (map us_ID us)" and "us \<noteq> []"
  shows "newUserStore B w now pw ident (Doc (enc_Users us))
     = Some \<lparr>st_users = map fresh_lockout us, st_file = Doc (enc_Users us)\<rparr>"
proof -
  have "distinct (map us_ID (map fresh_lockout us))"
    using assms(1) by (simp add: comp_def fresh_lockout_def)
  then have "fold put_user (map fresh_lockout us) [] = map fresh_lockout us"
    using fold_put_user [of "[]" "map fresh_lockout us"] by simp
  then show ?thesis
    using assms(2) by (simp add: newUserStore_def load_users_def dec_enc_Users Let_def del: map_map)
qed

text \<open>
  The commands for emergencies do not reach the server. They work on a store of their own, loaded from the file:
  \<open>unlock-user\<close> succeeds and changes neither that store nor the file, so the account stays locked in the
  server; what \<open>set-password\<close> writes is undone by the next change the server saves.
\<close>
theorem commands_do_not_reach_server:
  assumes "distinct (map us_ID (st_users server))" and "find_by us_Username username (st_users server) = Some u"
    and "now < us_LockedUntil u" and "st_file server = Doc (enc_Users (st_users server))"
  shows "(case runUnlockUser B w t pw ident username (st_file server) of
            None \<Rightarrow> False
          | Some cli \<Rightarrow> st_file cli = st_file server \<and> isl (fst (Authenticate B now username password server)))
       \<and> (case runSetPassword B w w2 t pw ident username new (st_file server) of
            None \<Rightarrow> True
          | Some cli \<Rightarrow> st_file (snd (save_users Written (server\<lparr>st_file := st_file cli\<rparr>))) = st_file server)"
proof
  have ne: "st_users server \<noteq> []" using assms(2) by auto
  have found: "find_by us_Username username (map fresh_lockout (st_users server)) \<noteq> None"
    using find_by_SomeD [OF assms(2)]
    by (auto simp: find_by_None_iff fresh_lockout_def image_image simp del: not_None_eq)
  show "case runUnlockUser B w t pw ident username (st_file server) of
      None \<Rightarrow> False
    | Some cli \<Rightarrow> st_file cli = st_file server \<and> isl (fst (Authenticate B now username password server))"
    using assms found
    by (simp add: runUnlockUser_def load_saved_users [OF assms(1) ne] UnlockUserByName_def Authenticate_def
        del: not_None_eq)
  show "case runSetPassword B w w2 t pw ident username new (st_file server) of
      None \<Rightarrow> True
    | Some cli \<Rightarrow> st_file (snd (save_users Written (server\<lparr>st_file := st_file cli\<rparr>))) = st_file server"
    by (simp add: save_users_def overwrite_doc_def assms(4) split: option.split)
qed

lemma commands_do_not_reach_server_witness:
  "let locked = sample_user\<lparr>us_FailedLogins := 10, us_LockedUntil := 100\<rparr>;
       server = \<lparr>st_users = [locked], st_file = Doc (enc_Users [locked])\<rparr>;
       B = \<lparr>bc_generate = (\<lambda>p. Some ''h''), bc_compare = (\<lambda>h p. True)\<rparr>
   in runUnlockUser B Written 60 [] [] ''bob'' (st_file server) \<noteq> None
      \<and> isl (fst (Authenticate B 61 ''bob'' ''right'' server))"
proof -
  let ?locked = "sample_user\<lparr>us_FailedLogins := 10, us_LockedUntil := 100\<rparr>"
  let ?B = "\<lparr>bc_generate = (\<lambda>p. Some ''h''), bc_compare = (\<lambda>h p. True)\<rparr>"
  let ?server = "\<lparr>st_users = [?locked], st_file = Doc (enc_Users [?locked])\<rparr>"
  have "(case runUnlockUser ?B Written 60 [] [] ''bob'' (st_file ?server) of
            None \<Rightarrow> False
          | Some cli \<Rightarrow> st_file cli = st_file ?server \<and> isl (fst (Authenticate ?B 61 ''bob'' ''right'' ?server)))
       \<and> (case runSetPassword ?B Written Written 60 [] [] ''bob'' ''x'' (st_file ?server) of
            None \<Rightarrow> True
          | Some cli \<Rightarrow> st_file (snd (save_users Written (?server\<lparr>st_file := st_file cli\<rparr>))) = st_file ?server)"
    by (rule commands_do_not_reach_server [of _ _ ?locked]) (simp_all add: sample_user_def zero_User_def)
  then show ?thesis by (auto simp: Let_def split: option.splits)
qed

end
