(* ===== verification/Notify.thy ===== *)
theory Notify
  imports Storage Files
begin

text \<open>
  \<open>icap-server/notification\<close>: alerts by Slack webhook and e-mail. A notifier is static (its channels are
  fixed) or dynamic (it reads \<open>notification.json\<close>, with the environment as a fallback). What an alert
  sends is a list of deliveries; both run in goroutines of their own, where a panic ends the
  process, so a panic of one is the panic of \<open>Send\<close>.
\<close>

subsection \<open>Configuration\<close>

record FileConfig =
  fc_SlackWebhookURL :: string
  fc_SMTPHost :: string
  fc_SMTPPort :: string
  fc_SMTPUser :: string
  fc_SMTPPass :: string
  fc_SMTPFrom :: string
  fc_AlertEmailTo :: "string list"

definition zero_FileConfig :: FileConfig where
  "zero_FileConfig = \<lparr>fc_SlackWebhookURL = [], fc_SMTPHost = [], fc_SMTPPort = [], fc_SMTPUser = [],
     fc_SMTPPass = [], fc_SMTPFrom = [], fc_AlertEmailTo = []\<rparr>"

definition FileConfig_fields :: "FileConfig fields" where
  "FileConfig_fields =
     [fld ''slack_webhook_url'' dec_string fc_SlackWebhookURL fc_SlackWebhookURL_update,
      fld ''smtp_host'' dec_string fc_SMTPHost fc_SMTPHost_update,
      fld ''smtp_port'' dec_string fc_SMTPPort fc_SMTPPort_update,
      fld ''smtp_user'' dec_string fc_SMTPUser fc_SMTPUser_update,
      fld ''smtp_pass'' dec_string fc_SMTPPass fc_SMTPPass_update,
      fld ''smtp_from'' dec_string fc_SMTPFrom fc_SMTPFrom_update,
      fld ''alert_email_to'' (dec_list dec_string []) fc_AlertEmailTo fc_AlertEmailTo_update]"

definition tryLoad :: "json_file \<Rightarrow> FileConfig \<Rightarrow> FileConfig" where
  \<comment> \<open>the start and every tick of the reloader\<close>
  "tryLoad f cfg =
     (case f of
        Doc j \<Rightarrow> (case dec_struct FileConfig_fields zero_FileConfig j of Some c \<Rightarrow> c | None \<Rightarrow> cfg)
      | _ \<Rightarrow> cfg)"

definition LoadConfigStore :: "json_file \<Rightarrow> FileConfig" where
  "LoadConfigStore f = tryLoad f zero_FileConfig"

record EmailConfig =
  em_Host :: string
  em_Port :: string
  em_User :: string
  em_Password :: string
  em_From :: string
  em_To :: "string list"

definition NewEmailNotifier :: "EmailConfig \<Rightarrow> EmailConfig option" where
  "NewEmailNotifier cfg = (if em_Host cfg = [] \<or> em_To cfg = [] then None else Some cfg)"

record Notifier =
  nt_webhookURL :: string
  nt_email :: "EmailConfig option"
  nt_store :: "FileConfig option"       \<comment> \<open>the current content of the store; \<open>None\<close> in a static one\<close>
  nt_envWebhook :: string
  nt_envEmail :: EmailConfig

definition zero_EmailConfig :: EmailConfig where
  "zero_EmailConfig = \<lparr>em_Host = [], em_Port = [], em_User = [], em_Password = [], em_From = [], em_To = []\<rparr>"

definition NewNotifier :: "string \<Rightarrow> EmailConfig option \<Rightarrow> Notifier" where
  "NewNotifier webhookURL email = \<lparr>nt_webhookURL = webhookURL, nt_email = email, nt_store = None,
     nt_envWebhook = [], nt_envEmail = zero_EmailConfig\<rparr>"

definition NewDynamicNotifier :: "FileConfig \<Rightarrow> EmailConfig \<Rightarrow> string \<Rightarrow> Notifier" where
  "NewDynamicNotifier store envEmail envWebhook = \<lparr>nt_webhookURL = [], nt_email = None,
     nt_store = Some store, nt_envWebhook = envWebhook, nt_envEmail = envEmail\<rparr>"

fun firstNonEmpty :: "string list \<Rightarrow> string" where
  "firstNonEmpty [] = []"
| "firstNonEmpty (v # vs) = (if v \<noteq> [] then v else firstNonEmpty vs)"

definition nonEmptySlice :: "string list \<Rightarrow> string list \<Rightarrow> string list" where
  "nonEmptySlice a b = (if a \<noteq> [] then a else b)"

definition resolveConfig :: "Notifier \<Rightarrow> string \<times> EmailConfig option" where
  "resolveConfig n =
     (case nt_store n of
        None \<Rightarrow> (nt_webhookURL n, nt_email n)
      | Some cfg \<Rightarrow>
          (firstNonEmpty [fc_SlackWebhookURL cfg, nt_envWebhook n],
           NewEmailNotifier
             \<lparr>em_Host = firstNonEmpty [fc_SMTPHost cfg, em_Host (nt_envEmail n)],
              em_Port = firstNonEmpty [fc_SMTPPort cfg, em_Port (nt_envEmail n), ''587''],
              em_User = firstNonEmpty [fc_SMTPUser cfg, em_User (nt_envEmail n)],
              em_Password = firstNonEmpty [fc_SMTPPass cfg, em_Password (nt_envEmail n)],
              em_From = firstNonEmpty [fc_SMTPFrom cfg, em_From (nt_envEmail n)],
              em_To = nonEmptySlice (fc_AlertEmailTo cfg) (em_To (nt_envEmail n))\<rparr>))"

subsection \<open>Messages\<close>

definition entry_map :: "LogEntry \<Rightarrow> (string \<times> json) list" where
  \<comment> \<open>the entry marshalled and read back as a map\<close>
  "entry_map e =
     (case unmarshal_any (encode_json True (enc_LogEntry e)) of
        Some (JObj ms) \<Rightarrow> last_members ms | _ \<Rightarrow> [])"

definition str :: "(string \<times> json) list \<Rightarrow> string \<Rightarrow> string" where
  "str m k =
     (case find_by fst k m of
        None \<Rightarrow> []
      | Some (_, v) \<Rightarrow>
          (case v of JNull \<Rightarrow> [] | JStr s \<Rightarrow> s | _ \<Rightarrow> encode_json True v))"

definition ellipsis :: string where "ellipsis = utf8 [0x2026]"

definition mrkdwn :: "string \<Rightarrow> json" where
  "mrkdwn s = JObj [(''text'', JStr s), (''type'', JStr ''mrkdwn'')]"

definition slack_payload :: "(string \<times> json) list \<Rightarrow> json" where
  "slack_payload m =
     (let p = str m ''prompt'';
          prompt = (if length p > 200 then take 200 p @ ellipsis else p);
          field = (\<lambda>name key. mrkdwn (''*'' @ name @ lit '':*~n'' @ str m key))
      in JObj
           [(''blocks'', JArr
              [JObj [(''text'', JObj [(''text'', JStr ''AI-Scan-Interceptor Alert''),
                                     (''type'', JStr ''plain_text'')]), (''type'', JStr ''header'')],
               JObj [(''fields'', JArr [field ''Service'' ''service'', field ''Host'' ''host'',
                                       field ''Client IP'' ''client_ip'', field ''Keywords'' ''keywords'',
                                       field ''Time'' ''timestamp'']), (''type'', JStr ''section'')],
               JObj [(''text'', mrkdwn (lit ''*Prompt excerpt:*~n```'' @ prompt @ ''```'')),
                     (''type'', JStr ''section'')]]),
            (''text'', JStr ''[AI-Scan-Interceptor] Sensitive Prompt Detected'')])"

definition sendSlackURL :: "string \<Rightarrow> (string \<times> json) list \<Rightarrow> string \<times> string" where
  \<comment> \<open>the URL and the body posted\<close>
  "sendSlackURL webhookURL m = (webhookURL, encode_json True (slack_payload m))"

definition rule_line :: string where
  "rule_line = concat (replicate 50 (utf8 [0x2500]))"

definition email_subject :: "(string \<times> json) list \<Rightarrow> string" where
  "email_subject m =
     ''[AI-Scan-Interceptor] Alert: '' @ str m ''keywords'' @ '' keyword detected ('' @ str m ''service'' @ '')''"

definition email_body :: "(string \<times> json) list \<Rightarrow> string" where
  "email_body m =
     (let p = str m ''prompt'';
          prompt = (if length p > 500 then take 500 p @ lit ''~n'' @ ellipsis @ '' [truncated]'' else p)
      in join
           [''AI-Scan-Interceptor '' @ utf8 [0x2014] @ '' Sensitive Prompt Detected'',
            rule_line,
            ''Service   : '' @ str m ''service'',
            ''Host      : '' @ str m ''host'',
            ''Path      : '' @ str m ''path'',
            ''Client IP : '' @ str m ''client_ip'',
            ''Keywords  : '' @ str m ''keywords'',
            ''Timestamp : '' @ str m ''timestamp'',
            [],
            ''Prompt excerpt:'',
            ''  '' @ replace_all prompt (lit ''~n'') (lit ''~n  ''),
            [],
            rule_line,
            ''This alert was generated automatically by AI-Scan-Interceptor.''] crlf)"

definition buildMIME :: "string \<Rightarrow> string \<Rightarrow> string list \<Rightarrow> string \<Rightarrow> string \<Rightarrow> string" where
  \<comment> \<open>the first argument is the formatted date\<close>
  "buildMIME date from to subject body =
     ''From: '' @ from @ crlf @ ''To: '' @ join to '', '' @ crlf @ ''Subject: '' @ subject @ crlf
     @ ''Date: '' @ date @ crlf @ ''MIME-Version: 1.0'' @ crlf
     @ ''Content-Type: text/plain; charset=UTF-8'' @ crlf @ crlf @ body"

record mail =
  ml_addr :: string
  ml_implicit_tls :: bool
  ml_from :: string
  ml_to :: "string list"
  ml_msg :: string

definition join_host_port :: "string \<Rightarrow> string \<Rightarrow> string" where
  "join_host_port host port =
     (if contains host '':'' then ''['' @ host @ '']:'' @ port else host @ '':'' @ port)"

definition Send_email :: "string \<Rightarrow> EmailConfig option \<Rightarrow> string \<Rightarrow> string \<Rightarrow> mail outcome" where
  \<comment> \<open>the method dereferences its receiver: \<open>None\<close>, the nil pointer, panics\<close>
  "Send_email date rcv subject body =
     (case rcv of
        None \<Rightarrow> Panic
      | Some cfg \<Rightarrow> Ret \<lparr>ml_addr = join_host_port (em_Host cfg) (em_Port cfg),
                        ml_implicit_tls = (em_Port cfg = ''465''), ml_from = em_From cfg,
                        ml_to = em_To cfg,
                        ml_msg = buildMIME date (em_From cfg) (em_To cfg) subject body\<rparr>)"

definition sendEmail :: "string \<Rightarrow> Notifier \<Rightarrow> (string \<times> json) list \<Rightarrow> mail outcome" where
  "sendEmail date n m = Send_email date (nt_email n) (email_subject m) (email_body m)"

datatype smtp_op = Dial | Greet | Auth | MailFrom | Rcpt string | Data | Body | CloseData

definition smtp_ops :: "string list \<Rightarrow> smtp_op list" where
  "smtp_ops to = [Dial, Greet, Auth, MailFrom] @ map Rcpt to @ [Data, Body, CloseData]"

definition sendTLS :: "(smtp_op \<Rightarrow> bool) \<Rightarrow> string list \<Rightarrow> smtp_op list \<times> bool" where
  \<comment> \<open>the operations tried, the last one the first that fails, and whether all succeed\<close>
  "sendTLS ok to =
     (let good = takeWhile ok (smtp_ops to) in
      (good @ take 1 (drop (length good) (smtp_ops to)), length good = length (smtp_ops to)))"

subsection \<open>Dispatch\<close>

datatype delivery = SlackPost string string | Mail mail

definition Send_alert :: "string \<Rightarrow> Notifier \<Rightarrow> LogEntry \<Rightarrow> delivery list outcome" where
  "Send_alert date n e =
     (let m = entry_map e; (webhookURL, email) = resolveConfig n;
          slack = (if webhookURL \<noteq> []
                   then [case sendSlackURL webhookURL m of (u, b) \<Rightarrow> SlackPost u b] else [])
      in if email \<noteq> None
         then out_bind (sendEmail date n m) (\<lambda>ml. Ret (slack @ [Mail ml]))
         else Ret slack)"

text \<open>
  A dynamic notifier with an e-mail channel panics on its first alert: \<open>Send\<close> decides by the
  notifier it has just resolved, but \<open>sendEmail\<close> goes through the field \<open>n.email\<close>, which
  \<open>NewDynamicNotifier\<close> leaves nil. The panic is in a goroutine, so it ends the server.
\<close>
theorem dynamic_email_panics:
  assumes "firstNonEmpty [fc_SMTPHost cfg, em_Host envEmail] \<noteq> []"
    and "nonEmptySlice (fc_AlertEmailTo cfg) (em_To envEmail) \<noteq> []"
  shows "Send_alert date (NewDynamicNotifier cfg envEmail envWebhook) e = Panic"
  using assms
  by (simp add: Send_alert_def NewDynamicNotifier_def resolveConfig_def NewEmailNotifier_def
      sendEmail_def Send_email_def Let_def)

lemma dynamic_email_panics_witness:
  "Send_alert [] (NewDynamicNotifier (zero_FileConfig\<lparr>fc_SMTPHost := ''smtp'', fc_AlertEmailTo := [''a'']\<rparr>)
     zero_EmailConfig []) sample_entry = Panic"
  by (rule dynamic_email_panics) (simp_all add: nonEmptySlice_def)

text \<open>
  A static notifier never panics, and delivers to exactly the channels it was built with; a
  dynamic one without an e-mail channel posts to the webhook of the file, or else of the environment.
\<close>
theorem static_notifier_delivers:
  "\<exists>ds. Send_alert date (NewNotifier url email) e = Ret ds
     \<and> length ds = (if url \<noteq> [] then 1 else 0) + (if email \<noteq> None then 1 else 0)
     \<and> (NewEmailNotifier envEmail = None \<and> fc_SMTPHost cfg = [] \<and> fc_AlertEmailTo cfg = [] \<longrightarrow>
        (\<exists>b. Send_alert date (NewDynamicNotifier cfg envEmail envWebhook) e =
           Ret (if firstNonEmpty [fc_SlackWebhookURL cfg, envWebhook] = [] then []
                else [SlackPost (firstNonEmpty [fc_SlackWebhookURL cfg, envWebhook]) b])))"
  by (cases email)
    (auto simp: Send_alert_def NewNotifier_def NewDynamicNotifier_def resolveConfig_def Let_def
      NewEmailNotifier_def sendEmail_def Send_email_def sendSlackURL_def nonEmptySlice_def)

lemma static_notifier_delivers_witness:
  "\<exists>b. Send_alert [] (NewDynamicNotifier zero_FileConfig zero_EmailConfig ''u'') sample_entry
     = Ret [SlackPost ''u'' b]"
  using static_notifier_delivers [of "[]" "[]" None sample_entry zero_EmailConfig zero_FileConfig "''u''"]
  by (simp add: NewEmailNotifier_def zero_EmailConfig_def zero_FileConfig_def)

end
