(* ===== verification/Settings.thy ===== *)
theory Settings
  imports Notify
begin

text \<open>
  Two settings files of the web UI: the retention of logs with its cleanup (\<open>webui/logsettings.go\<close>), and the
  notification settings (\<open>webui/notificationsettings.go\<close>), which the ICAP server and tls-proxy reload
  (\<open>notification/fileconfig.go\<close>). Both are written in place.
\<close>

subsection \<open>Retention\<close>

definition defaultRetentionDays :: int where "defaultRetentionDays = 30"

record LogSettingsStore =
  ls_RetentionDays :: int     \<comment> \<open>the one field of \<open>LogSettings\<close>\<close>
  ls_file :: json_file

definition dec_LogSettings :: "int decoder" where
  "dec_LogSettings old j = dec_struct [fld ''retention_days'' dec_int id (\<lambda>f. f)] old j"

definition enc_LogSettings :: "int \<Rightarrow> json" where
  "enc_LogSettings n = JObj [(''retention_days'', enc_int n)]"

definition newLogSettingsStore :: "json_file \<Rightarrow> LogSettingsStore option" where
  "newLogSettingsStore f =
     (case f of
        Missing \<Rightarrow> Some \<lparr>ls_RetentionDays = defaultRetentionDays, ls_file = f\<rparr>
      | Doc j \<Rightarrow> map_option (\<lambda>n. \<lparr>ls_RetentionDays = n, ls_file = f\<rparr>) (dec_LogSettings defaultRetentionDays j)
      | _ \<Rightarrow> None)"

definition Set_retention :: "overwrite \<Rightarrow> int \<Rightarrow> LogSettingsStore \<Rightarrow> (store_error + unit) \<times> LogSettingsStore" where
  "Set_retention w n s =
     (let n1 = (if n < 1 then 1 else n); n2 = (if n1 > 3650 then 3650 else n1) in
      (if w = Written then Inr () else Inl WriteFailed,
       s\<lparr>ls_RetentionDays := n2, ls_file := overwrite_doc w (enc_LogSettings n2) (ls_file s)\<rparr>))"

definition cleanup :: "(string \<Rightarrow> bool) \<Rightarrow> time \<Rightarrow> LogSettingsStore \<Rightarrow> (string \<times> time) list \<Rightarrow> (string \<times> time) list" where
  \<comment> \<open>one run of \<open>RunLogCleanup\<close> on the \<open>.jsonl\<close> files and their times: what is left, when the removable ones
     are those of the first argument; days are of 24 hours, in UTC\<close>
  "cleanup removable now s files =
     filter (\<lambda>(name, mtime). \<not> (mtime < now - ls_RetentionDays s * (24 * hour) \<and> removable name)) files"

subsection \<open>Notification settings\<close>

record NotificationSettings =
  ns_SlackWebhookURL :: string
  ns_SMTPHost :: string
  ns_SMTPPort :: string
  ns_SMTPUser :: string
  ns_SMTPPass :: string
  ns_SMTPFrom :: string
  ns_AlertEmailTo :: "string list"

definition NotificationSettings_fields :: "NotificationSettings fields" where
  "NotificationSettings_fields =
     [fld ''slack_webhook_url'' dec_string ns_SlackWebhookURL ns_SlackWebhookURL_update,
      fld ''smtp_host'' dec_string ns_SMTPHost ns_SMTPHost_update,
      fld ''smtp_port'' dec_string ns_SMTPPort ns_SMTPPort_update,
      fld ''smtp_user'' dec_string ns_SMTPUser ns_SMTPUser_update,
      fld ''smtp_pass'' dec_string ns_SMTPPass ns_SMTPPass_update,
      fld ''smtp_from'' dec_string ns_SMTPFrom ns_SMTPFrom_update,
      fld ''alert_email_to'' (dec_list dec_string []) ns_AlertEmailTo ns_AlertEmailTo_update]"

definition enc_NotificationSettings :: "NotificationSettings \<Rightarrow> json" where
  "enc_NotificationSettings n = JObj
     [(''slack_webhook_url'', JStr (ns_SlackWebhookURL n)), (''smtp_host'', JStr (ns_SMTPHost n)),
      (''smtp_port'', JStr (ns_SMTPPort n)), (''smtp_user'', JStr (ns_SMTPUser n)),
      (''smtp_pass'', JStr (ns_SMTPPass n)), (''smtp_from'', JStr (ns_SMTPFrom n)),
      (''alert_email_to'', JArr (map JStr (ns_AlertEmailTo n)))]"

definition passwordMask :: string where "passwordMask = ''***''"

record NotificationSettingsStore =
  nst_s :: NotificationSettings
  nst_file :: json_file

definition initial_settings :: NotificationSettings where
  "initial_settings = \<lparr>ns_SlackWebhookURL = [], ns_SMTPHost = [], ns_SMTPPort = ''587'', ns_SMTPUser = [],
     ns_SMTPPass = [], ns_SMTPFrom = [], ns_AlertEmailTo = []\<rparr>"

definition newNotificationSettingsStore :: "json_file \<Rightarrow> NotificationSettingsStore option" where
  "newNotificationSettingsStore f =
     (case f of
        Missing \<Rightarrow> Some \<lparr>nst_s = initial_settings, nst_file = f\<rparr>
      | Doc j \<Rightarrow> map_option (\<lambda>n. \<lparr>nst_s = n, nst_file = f\<rparr>) (dec_struct NotificationSettings_fields initial_settings j)
      | _ \<Rightarrow> None)"

definition GetMasked :: "NotificationSettingsStore \<Rightarrow> NotificationSettings" where
  "GetMasked st =
     (if ns_SMTPPass (nst_s st) \<noteq> [] then (nst_s st)\<lparr>ns_SMTPPass := passwordMask\<rparr> else nst_s st)"

definition Set_notification ::
  "overwrite \<Rightarrow> NotificationSettings \<Rightarrow> NotificationSettingsStore \<Rightarrow> (store_error + unit) \<times> NotificationSettingsStore" where
  "Set_notification w n st =
     (let n1 = (if ns_SMTPPort n = [] then n\<lparr>ns_SMTPPort := ''587''\<rparr> else n);
          n2 = (if ns_SMTPPass n1 = passwordMask then n1\<lparr>ns_SMTPPass := ns_SMTPPass (nst_s st)\<rparr> else n1)
      in (if w = Written then Inr () else Inl WriteFailed,
          \<lparr>nst_s = n2, nst_file = overwrite_doc w (enc_NotificationSettings n2) (nst_file st)\<rparr>))"

subsection \<open>Round trips\<close>

definition as_FileConfig :: "NotificationSettings \<Rightarrow> FileConfig" where
  "as_FileConfig n = \<lparr>fc_SlackWebhookURL = ns_SlackWebhookURL n, fc_SMTPHost = ns_SMTPHost n,
     fc_SMTPPort = ns_SMTPPort n, fc_SMTPUser = ns_SMTPUser n, fc_SMTPPass = ns_SMTPPass n,
     fc_SMTPFrom = ns_SMTPFrom n, fc_AlertEmailTo = ns_AlertEmailTo n\<rparr>"

interpretation settings_codec: json_codec enc_NotificationSettings "dec_struct NotificationSettings_fields"
    initial_settings "\<lambda>_. True"
  by unfold_locales
    (simp add: codec_simps enc_NotificationSettings_def NotificationSettings_fields_def initial_settings_def)

interpretation notifier_reads: json_view enc_NotificationSettings "dec_struct FileConfig_fields" zero_FileConfig
    as_FileConfig
  by unfold_locales
    (simp add: codec_simps enc_NotificationSettings_def FileConfig_fields_def zero_FileConfig_def as_FileConfig_def)

lemma save_shown:
  "ns_SMTPPort (nst_s st) \<noteq> [] \<Longrightarrow> nst_s (snd (Set_notification w (GetMasked st) st)) = nst_s st"
  by (simp add: Set_notification_def GetMasked_def Let_def passwordMask_def)

text \<open>
  C37: settings saved in the web UI are the ones alerts are sent with: after a save that is written, the reload of every
  notifier reads exactly the saved values, and so does a restarted web UI. Saving what the web UI shows,
  whose password is masked, changes nothing but an empty port, and the mask never is the password sent.
\<close>
theorem saved_settings_reach_notifier:
  "case Set_notification Written n st of (r, st') \<Rightarrow>
     r = Inr ()
     \<and> tryLoad (nst_file st') cfg = as_FileConfig (nst_s st')
     \<and> newNotificationSettingsStore (nst_file st') = Some st'
     \<and> nst_s (snd (Set_notification Written (GetMasked st') st')) = nst_s st'
     \<and> ns_SMTPPass (nst_s st') = (if ns_SMTPPass n = passwordMask then ns_SMTPPass (nst_s st) else ns_SMTPPass n)
     \<and> ns_SMTPPass (GetMasked st') \<in> {[], passwordMask}"
proof -
  let ?st = "snd (Set_notification Written n st)"
  have fileq: "nst_file ?st = Doc (enc_NotificationSettings (nst_s ?st))"
    by (simp add: Set_notification_def overwrite_doc_def Let_def)
  have port: "ns_SMTPPort (nst_s ?st) \<noteq> []" by (simp add: Set_notification_def Let_def)
  have again: "nst_s (snd (Set_notification Written (GetMasked ?st) ?st)) = nst_s ?st"
    using port by (rule save_shown)
  have "newNotificationSettingsStore (nst_file ?st) = Some ?st"
    by (simp add: fileq newNotificationSettingsStore_def settings_codec.dec_enc
        NotificationSettingsStore.equality)
  moreover have "tryLoad (nst_file ?st) cfg = as_FileConfig (nst_s ?st)"
    by (simp add: tryLoad_def fileq notifier_reads.view_enc)
  moreover have "ns_SMTPPass (nst_s ?st) = (if ns_SMTPPass n = passwordMask then ns_SMTPPass (nst_s st) else ns_SMTPPass n)"
    by (simp add: Set_notification_def Let_def)
  moreover have "ns_SMTPPass (GetMasked ?st) \<in> {[], passwordMask}" by (simp add: GetMasked_def)
  moreover have "fst (Set_notification Written n st) = Inr ()" by (simp add: Set_notification_def Let_def)
  ultimately show ?thesis using again by (simp add: split_beta)
qed

text \<open>
  Logs are kept for the days that were set. Whatever number is set, it is clamped to 1 to 3650 days, survives a
  restart, and a cleanup then removes no file of the last 24 hours and keeps exactly the files that are not older
  than these days.
\<close>
theorem retention_is_bounded:
  "case Set_retention Written n s of (r, s') \<Rightarrow>
     r = Inr () \<and> ls_RetentionDays s' \<in> {1..3650} \<and> newLogSettingsStore (ls_file s') = Some s'
     \<and> set (cleanup (\<lambda>_. True) now s' files)
         = {f \<in> set files. now - ls_RetentionDays s' * (24 * hour) \<le> snd f}
     \<and> filter (\<lambda>f. now - 24 * hour \<le> snd f) (cleanup removable now s' files) = filter (\<lambda>f. now - 24 * hour \<le> snd f) files"
proof -
  let ?s = "snd (Set_retention Written n s)"
  have days: "1 \<le> ls_RetentionDays ?s" "ls_RetentionDays ?s \<le> 3650"
    by (simp_all add: Set_retention_def Let_def)
  have fileq: "ls_file ?s = Doc (enc_LogSettings (ls_RetentionDays ?s))"
    by (simp add: Set_retention_def overwrite_doc_def Let_def)
  have "int64 (ls_RetentionDays ?s)" using days by (simp add: int64_def min_int64_def max_int64_def)
  then have "newLogSettingsStore (ls_file ?s) = Some ?s"
    by (simp add: fileq newLogSettingsStore_def dec_LogSettings_def enc_LogSettings_def codec_simps
        LogSettingsStore.equality)
  moreover have "filter (\<lambda>f. now - 24 * hour \<le> snd f) (cleanup removable now ?s files)
      = filter (\<lambda>f. now - 24 * hour \<le> snd f) files"
  proof -
    define age where "age = ls_RetentionDays ?s * (24 * hour)"
    have "24 * hour \<le> age"
      using mult_right_mono [OF days(1), of "24 * hour"] by (simp add: age_def hour_def minute_def second_def)
    then show ?thesis by (auto simp: cleanup_def age_def [symmetric] intro!: filter_cong)
  qed
  moreover have "set (cleanup (\<lambda>_. True) now ?s files) = {f \<in> set files. now - ls_RetentionDays ?s * (24 * hour) \<le> snd f}"
    by (auto simp: cleanup_def)
  moreover have "fst (Set_retention Written n s) = Inr ()" by (simp add: Set_retention_def Let_def)
  ultimately show ?thesis using days by (simp add: split_beta)
qed

end
