(* ===== verification/Mask.thy ===== *)
theory Mask
  imports Detector
begin

text \<open>
  \<open>icap-server/detection/mask.go\<close>: redacting credentials in a body before it is forwarded. The active
  rules are an argument. \<open>canon\<close> is what the generic decoder keeps of a document: an object becomes a
  map, which the encoder writes in the order of its keys.
\<close>

subsection \<open>Plain text\<close>

definition mask_with :: "alertRule \<Rightarrow> string \<Rightarrow> string" where
  \<comment> \<open>one turn of the masking loops\<close>
  "mask_with r s =
     (if \<not> ar_MaskBody r then s
      else replace_all_string (ar_Pattern r) s
             (if ar_MaskReplacement r = [] then ''[REDACTED]'' else ar_MaskReplacement r))"

definition MaskSensitive :: "alertRule list \<Rightarrow> string \<Rightarrow> string" where
  "MaskSensitive active body = fold mask_with active body"

definition applyMaskPatterns :: "alertRule list \<Rightarrow> string \<Rightarrow> string" where
  "applyMaskPatterns active s = fold mask_with active s"

subsection \<open>Multipart bodies\<close>

definition write_part :: "alertRule list \<Rightarrow> string \<Rightarrow> mime_part \<Rightarrow> string" where
  \<comment> \<open>boundary line, headers, blank line, data\<close>
  "write_part active boundary p =
     ''--'' @ boundary @ crlf
     @ concat (map (\<lambda>(k, vals). concat (map (\<lambda>v. k @ '': '' @ v @ crlf) vals)) (mp_Header p))
     @ crlf
     @ (if text_part p then applyMaskPatterns active (mp_Data p) else mp_Data p)"

definition maskMultipartBody :: "env \<Rightarrow> alertRule list \<Rightarrow> string \<Rightarrow> string" where
  "maskMultipartBody E active body =
     (case multipart_boundary body of
        None \<Rightarrow> MaskSensitive active body
      | Some boundary \<Rightarrow>
          if \<not> starts_dashes body then MaskSensitive active body
          else
            (let parts = env_parts E boundary body in
             if list_ex mp_DataErr parts then MaskSensitive active body
             else join (map (write_part active boundary) parts) crlf
                  @ crlf @ ''--'' @ boundary @ ''--'' @ crlf))"

subsection \<open>JSON bodies\<close>

fun canon :: "json \<Rightarrow> json" where
  "canon (JArr vs) = JArr (map canon vs)"
| "canon (JObj ms) = JObj (sort_members (last_members (map (\<lambda>m. (fst m, canon (snd m))) ms)))"
| "canon j = j"

fun maskAny :: "alertRule list \<Rightarrow> json \<Rightarrow> bool \<times> json" where
  \<comment> \<open>whether a string changed, and the value after the masking\<close>
  "maskAny active (JStr s) =
     (let masked = applyMaskPatterns active s in (masked \<noteq> s, JStr masked))"
| "maskAny active (JObj ms) =
     (let rs = map (\<lambda>m. (fst m, maskAny active (snd m))) ms in
      (list_ex (\<lambda>r. fst (snd r)) rs, JObj (map (\<lambda>r. (fst r, snd (snd r))) rs)))"
| "maskAny active (JArr vs) =
     (let rs = map (maskAny active) vs in (list_ex fst rs, JArr (map snd rs)))"
| "maskAny active j = (False, j)"

definition maskJSONStrings :: "alertRule list \<Rightarrow> string \<Rightarrow> string" where
  \<comment> \<open>the newline \<open>Encode\<close> appends is cut off again\<close>
  "maskJSONStrings active body =
     (case decode_first body of
        None \<Rightarrow> MaskSensitive active body
      | Some (v, _) \<Rightarrow>
          (let (changed, v') = maskAny active (canon v) in
           if \<not> changed then body else encode_json False v'))"

subsection \<open>Gemini form bodies\<close>

definition unreserved :: "char \<Rightarrow> bool" where
  "unreserved c \<longleftrightarrow> word_char c \<or> c = CHR ''-'' \<or> c = CHR ''.'' \<or> c = CHR 0x7E"

definition upper_hex :: "int \<Rightarrow> char" where
  "upper_hex n = (if n < 10 then char_byte (48 + n) else char_byte (55 + n))"

definition query_escape :: "string \<Rightarrow> string" where
  "query_escape s =
     concat (map (\<lambda>c. if unreserved c then [c]
                       else if c = CHR '' '' then ''+''
                       else [CHR ''%'', upper_hex (ibyte c div 16), upper_hex (ibyte c mod 16)]) s)"

definition query_set :: "string \<Rightarrow> string \<Rightarrow> (string \<times> string) list \<Rightarrow> (string \<times> string) list" where
  "query_set k v vs = filter (\<lambda>p. fst p \<noteq> k) vs @ [(k, v)]"

definition encode_query :: "(string \<times> string) list \<Rightarrow> string" where
  \<comment> \<open>\<open>url.Values.Encode\<close>: sorted by key, the values of a key in their order\<close>
  "encode_query vs =
     join (map (\<lambda>(k, v). query_escape k @ ''='' @ query_escape v) (sort_members vs)) ''&''"

definition maskGeminiWebBody :: "alertRule list \<Rightarrow> string \<Rightarrow> string" where
  "maskGeminiWebBody active body =
     (case parse_query body of
        None \<Rightarrow> body
      | Some values \<Rightarrow>
          (let fReq = query_get values ''f.req'' in
           if fReq = [] then body
           else
             (let masked = maskJSONStrings active fReq in
              if masked = fReq then body
              else encode_query (query_set ''f.req'' masked values))))"

definition MaskSensitiveForService ::
    "env \<Rightarrow> alertRule list \<Rightarrow> string \<Rightarrow> string \<Rightarrow> string \<Rightarrow> string" where
  "MaskSensitiveForService E active body host path =
     (if is_multipart body then maskMultipartBody E active body
      else
        (case findRule host path of
           None \<Rightarrow> MaskSensitive active body
         | Some rule \<Rightarrow>
             if sr_Name rule = ''Gemini-Web'' then maskGeminiWebBody active body
             else maskJSONStrings active body))"

subsection \<open>What masking leaves alone\<close>

lemma replace_all_no_match:
  assumes "\<not> match_string re s" shows "replace_all_string re s tmpl = s"
proof -
  have "find_from (re_prog re) None (runes s) 0 = None"
    using assms by (simp add: match_string_def find_string_index_def del: not_None_eq)
  then show ?thesis by (simp add: replace_all_string_def)
qed

lemma mask_with_unmatched: "ar_MaskBody r \<longrightarrow> \<not> match_string (ar_Pattern r) s \<Longrightarrow> mask_with r s = s"
  by (auto simp: mask_with_def replace_all_no_match)

lemma fold_mask_unmatched:
  "\<forall>r \<in> set rs. ar_MaskBody r \<longrightarrow> \<not> match_string (ar_Pattern r) s \<Longrightarrow> fold mask_with rs s = s"
  by (induction rs) (simp_all add: mask_with_unmatched)

fun strings_of :: "json \<Rightarrow> string list" where
  \<comment> \<open>the string values of a document\<close>
  "strings_of (JStr s) = [s]"
| "strings_of (JArr vs) = concat (map strings_of vs)"
| "strings_of (JObj ms) = concat (map (\<lambda>m. strings_of (snd m)) ms)"
| "strings_of j = []"

lemma maskAny_unmatched:
  assumes "\<forall>s \<in> set (strings_of v). applyMaskPatterns active s = s"
  shows "maskAny active v = (False, v)"
  using assms
proof (induction active v rule: maskAny.induct)
  case (2 active ms)
  have "maskAny active (snd m) = (False, snd m)" if "m \<in> set ms" for m
    by (rule "2.IH" [OF that]) (use "2.prems" that in auto)
  then show ?case by (auto simp: Let_def list_ex_iff cong: map_cong)
next
  case (3 active vs)
  have "maskAny active u = (False, u)" if "u \<in> set vs" for u
    by (rule "3.IH" [OF that]) (use "3.prems" that in auto)
  then show ?case by (auto simp: Let_def list_ex_iff cong: map_cong intro: map_idI)
qed auto

lemma strings_of_canon: "set (strings_of (canon v)) \<subseteq> set (strings_of v)"
proof (induction v rule: canon.induct)
  case (2 ms)
  let ?ms = "map (\<lambda>m. (fst m, canon (snd m))) ms"
  have sub: "set (sort_members (last_members ?ms)) \<subseteq> set ?ms"
    using set_last_members [of ?ms] by (simp add: sort_members_def)
  have "set (strings_of (snd p)) \<subseteq> set (strings_of (JObj ms))"
    if p: "p \<in> set (sort_members (last_members ?ms))" for p
  proof -
    obtain m where "m \<in> set ms" and "snd p = canon (snd m)"
      using subsetD [OF sub p] by auto
    then show ?thesis using "2.IH" [of m] by auto
  qed
  then show ?case by (simp add: UN_subset_iff)
qed auto

end
