(* ===== verification/Siem.thy ===== *)
theory Siem
  imports Storage "HOL-Library.Multiset"
begin

text \<open>
  \<open>icap-server/siem\<close>: forwarding entries without ever blocking a request. \<open>asyncExporter\<close> is a buffered
  channel with two workers; the steps of its senders, workers and \<open>Close\<close> interleave freely. What the
  backend answers to an HTTP request is an argument of the worker's step.
\<close>

definition queueCap :: nat where "queueCap = 1000"
definition workerCount :: nat where "workerCount = 2"

subsection \<open>Backends\<close>

record http_post =
  hp_url :: string
  hp_headers :: "(string \<times> string) list"
  hp_body :: string

datatype siem_backend = Splunk string string string | Elastic string string string
  \<comment> \<open>url, token, index\<close>

definition splunk_payload :: "string \<Rightarrow> LogEntry \<Rightarrow> json" where
  \<comment> \<open>a map, so encoded in the order of its keys\<close>
  "splunk_payload idx e = JObj (sort_members
     [(''time'', JNum (itoa (unix_seconds (le_Timestamp e)))), (''index'', JStr idx),
      (''sourcetype'', JStr ''ai_scan_interceptor''), (''event'', enc_LogEntry e)])"

fun post_of :: "siem_backend \<Rightarrow> LogEntry \<Rightarrow> http_post" where
  "post_of (Splunk url token idx) e =
     \<lparr>hp_url = url,
      hp_headers = [(''Authorization'', ''Splunk '' @ token), (''Content-Type'', ''application/json'')],
      hp_body = encode_json True (splunk_payload idx e)\<rparr>"
| "post_of (Elastic url token idx) e =
     \<lparr>hp_url = url @ ''/'' @ idx @ ''/_doc'',
      hp_headers = [(''Content-Type'', ''application/json'')]
        @ (if token \<noteq> [] then [(''Authorization'', ''ApiKey '' @ token)] else []),
      hp_body = encode_json True (enc_LogEntry e)\<rparr>"

definition post_ok :: "int option \<Rightarrow> bool" where
  \<comment> \<open>the status of the answer, \<open>None\<close> when the request fails\<close>
  "post_ok status = (case status of None \<Rightarrow> False | Some c \<Rightarrow> c < 300)"

definition New_exporter :: "string \<Rightarrow> string \<Rightarrow> string \<Rightarrow> string \<Rightarrow> siem_backend option" where
  \<comment> \<open>\<open>siem.New\<close>; \<open>None\<close> is the no-op exporter\<close>
  "New_exporter siemType url token index0 =
     (let idx = (if index0 = [] then ''ai-scan'' else index0) in
      if siemType = ''splunk'' then Some (Splunk url token idx)
      else if siemType = ''elasticsearch'' then Some (Elastic url token idx)
      else None)"

subsection \<open>The queue\<close>

record exporter =
  ex_backend :: siem_backend
  ex_queue :: "LogEntry list"
  ex_closed :: bool
  ex_busy :: "LogEntry list"                 \<comment> \<open>entries the workers hold\<close>
  ex_idle :: nat                             \<comment> \<open>workers waiting for an entry\<close>
  ex_done :: nat                             \<comment> \<open>workers that have ended\<close>
  ex_posted :: "(LogEntry \<times> bool) list"     \<comment> \<open>requests made, with their success\<close>
  ex_dropped :: "LogEntry list"

definition newAsync :: "siem_backend \<Rightarrow> exporter" where
  "newAsync b = \<lparr>ex_backend = b, ex_queue = [], ex_closed = False, ex_busy = [], ex_idle = workerCount,
     ex_done = 0, ex_posted = [], ex_dropped = []\<rparr>"

definition Send_entry :: "LogEntry \<Rightarrow> exporter \<Rightarrow> exporter outcome" where
  \<comment> \<open>sending on a closed channel panics, even in a \<open>select\<close> with a default\<close>
  "Send_entry e x =
     (if ex_closed x then Panic
      else if length (ex_queue x) < queueCap then Ret (x\<lparr>ex_queue := ex_queue x @ [e]\<rparr>)
      else Ret (x\<lparr>ex_dropped := ex_dropped x @ [e]\<rparr>))"

definition Close_exporter :: "exporter \<Rightarrow> exporter" where
  \<comment> \<open>its first step; it then waits until \<open>ex_done\<close> is \<open>workerCount\<close>\<close>
  "Close_exporter x = x\<lparr>ex_closed := True\<rparr>"

inductive worker_step :: "exporter \<Rightarrow> exporter \<Rightarrow> bool" where
  take_entry: "ex_queue x = e # q \<Longrightarrow> 0 < ex_idle x \<Longrightarrow>
     worker_step x (x\<lparr>ex_queue := q, ex_idle := ex_idle x - 1, ex_busy := ex_busy x @ [e]\<rparr>)"
| post_entry: "ex_busy x = us @ e # vs \<Longrightarrow>
     worker_step x (x\<lparr>ex_busy := us @ vs, ex_idle := Suc (ex_idle x),
                      ex_posted := ex_posted x @ [(e, post_ok status)]\<rparr>)"
| end_worker: "ex_queue x = [] \<Longrightarrow> ex_closed x \<Longrightarrow> 0 < ex_idle x \<Longrightarrow>
     worker_step x (x\<lparr>ex_idle := ex_idle x - 1, ex_done := Suc (ex_done x)\<rparr>)"

inductive exporter_run :: "siem_backend \<Rightarrow> LogEntry list \<Rightarrow> exporter \<Rightarrow> bool" for b where
  \<comment> \<open>an exporter and the entries handed to it so far\<close>
  run_start: "exporter_run b [] (newAsync b)"
| run_send: "exporter_run b es x \<Longrightarrow> Send_entry e x = Ret y \<Longrightarrow> exporter_run b (es @ [e]) y"
| run_work: "exporter_run b es x \<Longrightarrow> worker_step x y \<Longrightarrow> exporter_run b es y"
| run_close: "exporter_run b es x \<Longrightarrow> exporter_run b es (Close_exporter x)"

inductive_cases worker_stepE: "worker_step x y"

subsection \<open>Nothing is lost silently, nothing blocks\<close>

definition accounted :: "LogEntry list \<Rightarrow> exporter \<Rightarrow> bool" where
  "accounted es x \<longleftrightarrow>
     mset es = mset (ex_queue x) + mset (ex_busy x) + mset (map fst (ex_posted x)) + mset (ex_dropped x)
     \<and> length (ex_queue x) \<le> queueCap
     \<and> length (ex_busy x) + ex_idle x + ex_done x = workerCount
     \<and> (ex_done x \<noteq> 0 \<longrightarrow> ex_queue x = [] \<and> ex_closed x)"

lemma accounted_send: "accounted es x \<Longrightarrow> Send_entry e x = Ret y \<Longrightarrow> accounted (es @ [e]) y"
  by (auto simp: accounted_def Send_entry_def split: if_splits)

lemma accounted_work: "accounted es x \<Longrightarrow> worker_step x y \<Longrightarrow> accounted es y"
  by (erule worker_stepE) (auto simp: accounted_def)

lemma accounted_close: "accounted es x \<Longrightarrow> accounted es (Close_exporter x)"
  by (simp add: accounted_def Close_exporter_def)

lemma run_accounted: "exporter_run b es x \<Longrightarrow> accounted es x"
proof (induction rule: exporter_run.induct)
  case run_start
  show ?case by (simp add: accounted_def newAsync_def)
qed (blast intro: accounted_send accounted_work accounted_close)+



subsection \<open>Closing drains\<close>

definition work_left :: "exporter \<Rightarrow> nat" where
  "work_left x = 2 * length (ex_queue x) + length (ex_busy x) + 2 * (workerCount - ex_done x)"

text \<open>
  C35: \<open>Close\<close> drains: after it, as long as not both workers have ended some worker step is possible,
  every worker step brings the end closer, and when both have ended every entry handed over was posted
  or had been dropped.
\<close>
theorem close_drains:
  assumes "exporter_run b es x" and "ex_closed x"
  shows "(ex_done x < workerCount \<longrightarrow> (\<exists>y. worker_step x y))
     \<and> (\<forall>y. worker_step x y \<longrightarrow> ex_closed y \<and> work_left y < work_left x)
     \<and> (ex_done x = workerCount \<longrightarrow> mset es = mset (map fst (ex_posted x)) + mset (ex_dropped x))"
proof (intro conjI impI allI)
  have inv: "accounted es x" by (rule run_accounted [OF assms(1)])
  {
    assume "ex_done x < workerCount"
    then consider "0 < ex_idle x" | e vs where "ex_busy x = [] @ e # vs"
      using inv by (cases "ex_busy x") (auto simp: accounted_def)
    then show "\<exists>y. worker_step x y"
    proof cases
      case 1
      then show ?thesis
        using assms(2) by (cases "ex_queue x") (blast intro: take_entry end_worker)+
    qed (blast intro: post_entry)
  }
  fix y assume s: "worker_step x y"
  show "ex_closed y" using s assms(2) by (auto elim: worker_stepE)
  show "work_left y < work_left x"
    using s inv by (auto elim!: worker_stepE simp: work_left_def accounted_def)
next
  assume "ex_done x = workerCount"
  then show "mset es = mset (map fst (ex_posted x)) + mset (ex_dropped x)"
    using run_accounted [OF assms(1)] by (auto simp: accounted_def workerCount_def)
qed

lemma close_drains_witness:
  "exporter_run (Splunk [] [] []) [] (Close_exporter (newAsync (Splunk [] [] [])))
   \<and> (\<exists>y. worker_step (Close_exporter (newAsync (Splunk [] [] []))) y)"
proof -
  have r: "exporter_run (Splunk [] [] []) [] (Close_exporter (newAsync (Splunk [] [] [])))"
    by (rule run_close [OF run_start])
  then show ?thesis
    using close_drains [OF r] by (simp add: Close_exporter_def newAsync_def workerCount_def)
qed

end
