(* ===== verification/Icap.thy ===== *)
theory Icap
  imports Encode
begin

text \<open>
  \<open>icap-server/icap/server.go\<close>: the ICAP wire format. A connection is the string of bytes still to be
  read; what is written is a string. Parsing the encapsulated HTTP headers is \<open>net/http\<close>: the record
  \<open>http_lib\<close> holds what it returns for a block of header bytes. A read error is \<open>Ret None\<close>, which ends
  the connection; a panic ends the server. \<open>make([]byte, n)\<close> panics for a negative \<open>n\<close> and above the
  address space of the runtime (\<open>max_alloc\<close>); running out of memory below it is not modelled.
\<close>

definition icapVersion :: string where "icapVersion = ''ICAP/1.0''"
definition isTag :: string where \<open>isTag = ''"AI-SCAN-1.0"''\<close>
definition maxChunkSize :: int where "maxChunkSize = 16777216"
definition maxBodySize :: int where "maxBodySize = 33554432"
definition max_alloc :: int where "max_alloc = 281474976710656"

record http_request =
  hr_Method :: string
  hr_Host :: string
  hr_Path :: string
  hr_RequestURI :: string
  hr_Header :: "(string \<times> string list) list"

record http_response =
  hs_Request :: "http_request option"

record http_lib =
  lib_request :: "string \<Rightarrow> http_request option"
  lib_response :: "string \<Rightarrow> bool"         \<comment> \<open>whether the response headers parse\<close>

record Request =
  rq_Method :: string
  rq_URL :: string
  rq_Headers :: "(string \<times> string) list"   \<comment> \<open>the latest first\<close>
  rq_HTTPRequest :: "http_request option"
  rq_HTTPResponse :: "http_response option"
  rq_HTTPBody :: string
  rq_RawHTTPHeaders :: string

subsection \<open>Reading\<close>

definition LF :: string where "LF = [CHR 0x0A]"

definition read_line :: "string \<Rightarrow> (string \<times> string) option" where
  \<comment> \<open>\<open>ReadString('\n')\<close>; \<open>None\<close> when the input ends first\<close>
  "read_line s = (case index s LF of None \<Rightarrow> None | Some i \<Rightarrow> Some (take (i + 1) s, drop (i + 1) s))"

definition skip_line :: "string \<Rightarrow> string" where
  "skip_line s = (case read_line s of None \<Rightarrow> [] | Some (_, r) \<Rightarrow> r)"

definition read_bytes :: "int \<Rightarrow> string \<Rightarrow> (string \<times> string) option outcome" where
  \<comment> \<open>\<open>make([]byte, n)\<close> and \<open>io.ReadFull\<close>\<close>
  "read_bytes n s =
     (if n < 0 \<or> n > max_alloc then Panic
      else if int (length s) < n then Ret None
      else Ret (Some (take (nat n) s, drop (nat n) s)))"

lemma read_line_length: "read_line s = Some (l, r) \<Longrightarrow> length r < length s"
  by (auto simp: read_line_def LF_def dest: index_SomeD split: option.splits)

lemma skip_line_length: "length (skip_line s) \<le> length s"
  by (auto simp: skip_line_def dest: read_line_length split: option.splits)

lemma read_bytes_length: "read_bytes n s = Ret (Some (b, r)) \<Longrightarrow> length r \<le> length s"
  by (auto simp: read_bytes_def split: if_splits)

lemma skip_after_bytes:
  "read_line s = Some (l, r) \<Longrightarrow> read_bytes n r = Ret (Some (b, r')) \<Longrightarrow> length (skip_line r') < length s"
  using read_line_length [of s l r] read_bytes_length [of n r b r'] skip_line_length [of r'] by simp

definition chunk_size :: "string \<Rightarrow> num_error option \<times> int" where
  \<comment> \<open>the size line without its extension\<close>
  "chunk_size line =
     (let l = trim_space line;
          l' = (case index l '';'' of Some i \<Rightarrow> take i l | None \<Rightarrow> l)
      in parse_int 16 (trim_space l'))"

function readChunked :: "string \<Rightarrow> string \<Rightarrow> (string \<times> string) option outcome" where
  \<comment> \<open>the bytes collected so far, the input\<close>
  "readChunked buf s =
     (case read_line s of
        None \<Rightarrow> Ret None
      | Some (line, r) \<Rightarrow>
          (case chunk_size line of
             (Some _, _) \<Rightarrow> Ret None
           | (None, n) \<Rightarrow>
               if n = 0 then Ret (Some (buf, skip_line r))
               else if n > maxChunkSize then Ret None
               else if int (length buf) + n > maxBodySize then Ret None
               else
                 (case read_bytes n r of
                    Panic \<Rightarrow> Panic
                  | Ret None \<Rightarrow> Ret None
                  | Ret (Some (chunk, r')) \<Rightarrow> readChunked (buf @ chunk) (skip_line r'))))"
  by pat_completeness auto
termination
  by (relation "measure (\<lambda>(buf, s). length s)") (auto intro: skip_after_bytes)

declare readChunked.simps [simp del]

definition encap_part :: "string \<Rightarrow> int \<times> bool \<Rightarrow> int \<times> bool" where
  \<comment> \<open>one turn of the loop: a part without \<open>=\<close> or with another key changes nothing\<close>
  "encap_part part acc =
     (case split_n 2 (trim_space part) ''='' of
        [k, v] \<Rightarrow>
          (let key = trim_space k; val = snd (atoi (trim_space v)) in
           if key = ''req-body'' \<or> key = ''res-body'' then (val, True)
           else if key = ''null-body'' then (val, False)
           else acc)
      | _ \<Rightarrow> acc)"

definition parseEncapsulated :: "string \<Rightarrow> int \<times> bool" where
  "parseEncapsulated s = fold encap_part (split s '','') (0, False)"

function skip_blank :: "string \<Rightarrow> (string \<times> string) option" where
  \<comment> \<open>the first line that is not blank, trimmed\<close>
  "skip_blank s =
     (case read_line s of
        None \<Rightarrow> None
      | Some (line, r) \<Rightarrow> if trim_space line \<noteq> [] then Some (trim_space line, r) else skip_blank r)"
  by pat_completeness auto
termination
  by (relation "measure length") (auto dest: read_line_length)

function read_headers :: "(string \<times> string) list \<Rightarrow> string \<Rightarrow> ((string \<times> string) list \<times> string) option" where
  \<comment> \<open>the latest value of a key comes first, so that it is the one found\<close>
  "read_headers hs s =
     (case read_line s of
        None \<Rightarrow> None
      | Some (line, r) \<Rightarrow>
          (let hdr = trim_space line in
           if hdr = [] then Some (hs, r)
           else
             (case index hdr '':'' of
                Some i \<Rightarrow>
                  if 0 < i
                  then read_headers ((to_lower (trim_space (take i hdr)), trim_space (drop (i + 1) hdr)) # hs) r
                  else read_headers hs r
              | None \<Rightarrow> read_headers hs r)))"
  by pat_completeness auto
termination
  by (relation "measure (\<lambda>(hs, s). length s)") (auto dest: read_line_length)

declare skip_blank.simps [simp del] read_headers.simps [simp del]

definition header_of :: "(string \<times> string) list \<Rightarrow> string \<Rightarrow> string" where
  "header_of hs k = (case find_by fst k hs of Some (_, v) \<Rightarrow> v | None \<Rightarrow> [])"

definition readRequest :: "http_lib \<Rightarrow> string \<Rightarrow> (Request \<times> string) option outcome" where
  "readRequest L s =
     (case skip_blank s of
        None \<Rightarrow> Ret None
      | Some (line, r1) \<Rightarrow>
          (case split_n 3 line '' '' of
             [meth, url, version] \<Rightarrow>
               if version \<noteq> icapVersion then Ret None
               else
                 (case read_headers [] r1 of
                    None \<Rightarrow> Ret None
                  | Some (hs, r2) \<Rightarrow>
                      (let req = \<lparr>rq_Method = meth, rq_URL = url, rq_Headers = hs,
                             rq_HTTPRequest = None, rq_HTTPResponse = None, rq_HTTPBody = [],
                             rq_RawHTTPHeaders = []\<rparr>;
                           (hdrLen, hasBody) = parseEncapsulated (header_of hs ''encapsulated'')
                       in if meth = ''OPTIONS'' then Ret (Some (req, r2))
                          else
                            out_bind (if hdrLen > 0 then read_bytes hdrLen r2 else Ret (Some ([], r2))) (\<lambda>h.
                              case h of
                                None \<Rightarrow> Ret None
                              | Some (hdr, r3) \<Rightarrow>
                                  out_bind (if hasBody then readChunked [] r3 else Ret (Some ([], r3))) (\<lambda>b.
                                    case b of
                                      None \<Rightarrow> Ret None
                                    | Some (body, r4) \<Rightarrow>
                                        Ret (Some (req\<lparr>rq_RawHTTPHeaders := hdr, rq_HTTPBody := body,
                                          rq_HTTPResponse :=
                                            (if hdr \<noteq> [] \<and> meth = ''RESPMOD'' \<and> lib_response L hdr
                                             then Some \<lparr>hs_Request = None\<rparr> else None),
                                          rq_HTTPRequest :=
                                            (if hdr \<noteq> [] \<and> meth \<noteq> ''RESPMOD''
                                             then lib_request L hdr else None)\<rparr>, r4))))))
           | _ \<Rightarrow> Ret None))"

subsection \<open>Writing\<close>

definition WriteNoModification :: string where
  "WriteNoModification = icapVersion @ '' 204 No Modifications Needed'' @ crlf @ ''ISTag: '' @ isTag @ crlf @ crlf"

definition method_not_allowed :: string where
  "method_not_allowed = icapVersion @ '' 405 Method Not Allowed'' @ crlf @ crlf"

definition chunked :: "string \<Rightarrow> string" where
  \<comment> \<open>one chunk and the terminating one\<close>
  "chunked body = base_str 16 (length body) @ crlf @ body @ crlf @ ''0'' @ crlf @ crlf"

definition icap_head :: "string \<Rightarrow> string \<Rightarrow> nat \<Rightarrow> string" where
  "icap_head hdr_name body_name n =
     icapVersion @ '' 200 OK'' @ crlf @ ''ISTag: '' @ isTag @ crlf
     @ ''Encapsulated: '' @ hdr_name @ ''=0, '' @ body_name @ ''='' @ itoa (int n) @ crlf @ crlf"

definition block_body :: string where
  \<open>block_body = ''{"error":"Request blocked by AI governance policy"}''\<close>

definition block_head :: string where
  "block_head = ''HTTP/1.1 403 Forbidden'' @ crlf @ ''Content-Type: application/json'' @ crlf
     @ ''Content-Length: '' @ itoa (int (length block_body)) @ crlf @ crlf"

definition WriteBlock :: string where
  "WriteBlock = icap_head ''res-hdr'' ''res-body'' (length block_head) @ block_head @ chunked block_body"

definition rawUpdateContentLength :: "string \<Rightarrow> nat \<Rightarrow> string outcome" where
  "rawUpdateContentLength s newLen =
     (let clLine = ''Content-Length: '' @ itoa (int newLen);
          inserted = (case last_index s (crlf @ crlf) of
                      Some i \<Rightarrow> take (i + 2) s @ clLine @ crlf @ crlf
                    | None \<Rightarrow> s)
      in case index (to_lower s) (LF @ ''content-length:'') of
           None \<Rightarrow> Ret inserted
         | Some i \<Rightarrow>
             out_bind (slice s (int i + 1) (int (length s))) (\<lambda>tl'.
               case index tl' crlf of
                 None \<Rightarrow> Ret inserted
               | Some e \<Rightarrow> Ret (take (i + 1) s @ clLine @ drop (i + 1 + e) s)))"

definition header_value :: "string \<Rightarrow> string" where
  \<comment> \<open>how \<open>http.Header.Write\<close> writes a value\<close>
  "header_value v =
     (let v' = map (\<lambda>c. if c = CHR 0x0A \<or> c = CHR 0x0D then CHR '' '' else c) v;
          sp = (lit '' ~t~n~r'')
      in trim_right_set (trim_left_set v' sp) sp)"

definition rebuilt_headers :: "http_request \<Rightarrow> nat \<Rightarrow> string" where
  \<comment> \<open>the fallback of \<open>WriteMasked\<close>\<close>
  "rebuilt_headers hr n =
     (let hs = filter (\<lambda>h. fst h \<noteq> ''Transfer-Encoding'' \<and> fst h \<noteq> ''Content-Length'') (hr_Header hr)
               @ [(''Content-Length'', [itoa (int n)])]
      in hr_Method hr @ '' '' @ hr_RequestURI hr @ '' HTTP/1.1'' @ crlf
         @ (if hr_Host hr \<noteq> [] then ''Host: '' @ hr_Host hr @ crlf else [])
         @ concat (map (\<lambda>(k, vs). concat (map (\<lambda>v. k @ '': '' @ header_value v @ crlf) vs)) (sort_members hs))
         @ crlf)"

definition masked_response :: "string \<Rightarrow> string \<Rightarrow> string" where
  "masked_response hdr body =
     icap_head ''req-hdr'' ''req-body'' (length hdr) @ hdr @ chunked body"

definition WriteMasked :: "Request \<Rightarrow> string \<Rightarrow> string outcome" where
  "WriteMasked req body =
     (if rq_RawHTTPHeaders req \<noteq> [] then
        out_bind (rawUpdateContentLength (rq_RawHTTPHeaders req) (length body)) (\<lambda>hdr.
          Ret (masked_response hdr body))
      else (case rq_HTTPRequest req of
              Some hr \<Rightarrow> Ret (masked_response (rebuilt_headers hr (length body)) body)
            | None \<Rightarrow> Ret WriteNoModification))"

definition writeOptions :: string where
  "writeOptions = icapVersion @ '' 200 OK'' @ crlf @ ''Methods: REQMOD, RESPMOD'' @ crlf
     @ ''Service: AI-Scan-Interceptor/1.0'' @ crlf @ ''ISTag: '' @ isTag @ crlf
     @ ''Max-Connections: 100'' @ crlf @ ''Options-TTL: 3600'' @ crlf @ ''Allow: 204'' @ crlf @ crlf"

subsection \<open>Chunks\<close>

lemma crlf_spaces: "list_all ascii_space crlf"
  by (simp add: crlf_def)

lemma read_line_LF:
  assumes "CHR 0x0A \<notin> set l"
  shows "read_line (l @ CHR 0x0A # r) = Some (l @ LF, r)"
proof -
  have "index (l @ CHR 0x0A # r) LF = Some (length l)"
    using assms by (induction l) (auto simp: LF_def has_prefix_iff)
  then show ?thesis by (simp add: read_line_def LF_def)
qed

lemma read_line_crlf:
  "CHR 0x0A \<notin> set l \<Longrightarrow> read_line (l @ crlf @ r) = Some (l @ crlf, r)"
  using read_line_LF [of "l @ [CHR 0x0D]" r] by (simp add: crlf_def LF_def)

lemma skip_line_crlf [simp]: "skip_line (crlf @ r) = r"
  using read_line_crlf [of "[]" r] by (simp add: skip_line_def)

lemma no_space_base_str:
  assumes "2 \<le> b" "b \<le> 36"
  shows "CHR 0x0A \<notin> set (base_str b n)" "CHR '';'' \<notin> set (base_str b n)"
  by (rule no_sign_base_str [OF assms]; code_simp)+

lemma chunk_size_base_str:
  assumes "int n \<le> max_int64"
  shows "chunk_size (base_str 16 n @ crlf) = (None, int n)"
proof -
  have "trim_space (base_str 16 n @ crlf) = base_str 16 n"
    using trim_space_pad [of "base_str 16 n" "[]" crlf] plain_base_str [of 16 n] crlf_spaces by simp
  moreover have "index (base_str 16 n) '';'' = None"
    using no_space_base_str(2) [of 16 n] by (simp add: index_absent_char)
  moreover have "trim_space (base_str 16 n) = base_str 16 n"
    using trim_space_plain plain_base_str [of 16 n] by simp
  ultimately show ?thesis
    using parse_int_base_str [of 16 n] assms by (simp add: chunk_size_def Let_def)
qed

lemma readChunked_chunk:
  assumes "body \<noteq> []" and "int (length body) \<le> maxChunkSize"
    and "int (length buf + length body) \<le> maxBodySize"
  shows "readChunked buf (base_str 16 (length body) @ crlf @ body @ crlf @ s) = readChunked (buf @ body) s"
proof -
  have "read_bytes (int (length body)) (body @ crlf @ s) = Ret (Some (body, crlf @ s))"
    using assms(2) by (simp add: read_bytes_def max_alloc_def maxChunkSize_def)
  moreover have "read_line (base_str 16 (length body) @ crlf @ body @ crlf @ s)
      = Some (base_str 16 (length body) @ crlf, body @ crlf @ s)"
    by (rule read_line_crlf) (simp add: no_space_base_str)
  moreover have "chunk_size (base_str 16 (length body) @ crlf) = (None, int (length body))"
    using assms(2) by (intro chunk_size_base_str) (simp add: maxChunkSize_def max_int64_def)
  ultimately show ?thesis
    using assms by (subst readChunked.simps) simp
qed

lemma readChunked_last: "readChunked buf (''0'' @ crlf @ crlf @ s) = Ret (Some (buf, s))"
proof -
  have b0: "base_str 16 0 = ''0''" by (simp add: base_str.simps digit_char_def)
  have "read_line (''0'' @ crlf @ crlf @ s) = Some (''0'' @ crlf, crlf @ s)"
    by (rule read_line_crlf) simp
  moreover have "chunk_size (''0'' @ crlf) = (None, 0)"
    using chunk_size_base_str [of 0] by (simp add: b0 max_int64_def)
  ultimately show ?thesis by (subst readChunked.simps) simp
qed

definition frame_chunks :: "string list \<Rightarrow> string" where
  "frame_chunks bs = concat (map (\<lambda>b. base_str 16 (length b) @ crlf @ b @ crlf) bs) @ ''0'' @ crlf @ crlf"

lemma readChunked_frames:
  assumes "\<forall>b \<in> set bs. b \<noteq> [] \<and> int (length b) \<le> maxChunkSize"
    and "int (length buf + length (concat bs)) \<le> maxBodySize"
  shows "readChunked buf (frame_chunks bs @ rest) = Ret (Some (buf @ concat bs, rest))"
  using assms
proof (induction bs arbitrary: buf)
  case Nil
  then show ?case using readChunked_last [of buf rest] by (simp add: frame_chunks_def)
next
  case (Cons b bs)
  then have "readChunked buf (frame_chunks (b # bs) @ rest) = readChunked (buf @ b) (frame_chunks bs @ rest)"
    using readChunked_chunk [of b buf "frame_chunks bs @ rest"] by (simp add: frame_chunks_def)
  then show ?case using Cons by simp
qed

lemma readChunked_bounded:
  "readChunked buf s = Ret (Some (body, r)) \<Longrightarrow> int (length buf) \<le> maxBodySize \<Longrightarrow>
     int (length body) \<le> maxBodySize"
proof (induction buf s rule: readChunked.induct)
  case (1 buf s)
  from "1.prems"(1) show ?case
    apply (subst (asm) readChunked.simps)
    using "1.IH" "1.prems"(2) 
    by (auto split: option.splits prod.splits if_splits outcome.splits simp: read_bytes_def)
qed
text \<open>
  C22: the chunked reader inverts chunked framing: any chunks of at most 16 MB that add up to at most
  32 MB are read back as their concatenation, and the reader stops exactly behind the last chunk, at
  the next request of the connection; and no body it returns is larger than 32 MB.
\<close>
theorem chunks_roundtrip:
  assumes "\<forall>b \<in> set bs. b \<noteq> [] \<and> int (length b) \<le> maxChunkSize"
    and "int (length (concat bs)) \<le> maxBodySize"
  shows "readChunked [] (frame_chunks bs @ rest) = Ret (Some (concat bs, rest))
    \<and> (\<forall>s body r. readChunked [] s = Ret (Some (body, r)) \<longrightarrow> int (length body) \<le> maxBodySize)"
  using readChunked_frames [of bs "[]" rest] assms readChunked_bounded [of "[]"]
  by (auto simp: maxBodySize_def)

lemma chunks_roundtrip_witness:
  "readChunked [] (frame_chunks [''abc'', ''de''] @ ''OPTIONS'') = Ret (Some (''abcde'', ''OPTIONS''))"
  using chunks_roundtrip [of "[''abc'', ''de'']" "''OPTIONS''"]
  by (simp add: maxChunkSize_def maxBodySize_def)

text \<open>
  A negative chunk size crashes the server: \<open>ParseInt\<close> accepts it, both limits let it pass, and
  \<open>make\<close> panics. One line from a client is enough, at any point of a body.
\<close>
theorem negative_chunk_panics:
  assumes "0 < n" and "int n \<le> max_int64"
    and "int (length buf) \<le> maxBodySize"
  shows "readChunked buf (''-'' @ base_str 16 n @ crlf @ rest) = Panic"
proof -
  let ?l = "''-'' @ base_str 16 n"
  have pl: "plain_char (hd ?l)" "plain_char (last ?l)"
    using plain_base_str [of 16 n] by (simp_all add: plain_char_def ascii_space_def)
  have "trim_space (?l @ crlf) = ?l"
    using trim_space_pad [of ?l "[]" crlf] pl crlf_spaces by simp
  moreover have "index ?l '';'' = None"
    by (rule index_absent_char [of "CHR '';''"]) (simp_all add: no_space_base_str(2))
  moreover have "trim_space ?l = ?l" using pl by (rule trim_space_plain)
  moreover have "parse_int 16 ?l = (None, - int n)"
    using uint_loop_base_val [of 16 0 "base_str 16 n" n] base_val_base_str [of 16 n] assms(2)
    by (simp add: parse_int_def Let_def max_int64_def min_int64_def)
  ultimately have size: "chunk_size (?l @ crlf) = (None, - int n)"
    by (simp add: chunk_size_def)
  have "read_line (?l @ crlf @ rest) = Some (?l @ crlf, rest)"
    using no_space_base_str(1) [of 16 n] by (intro read_line_crlf) simp
  then show ?thesis
    using size assms
    by (subst readChunked.simps) (simp add: read_bytes_def maxChunkSize_def maxBodySize_def)
qed

lemma negative_chunk_panics_witness: "readChunked [] (''-5'' @ crlf @ ''x'') = Panic"
proof -
  have "base_str 16 5 = ''5''" by code_simp
  then show ?thesis
    using negative_chunk_panics [of 5 "[]" "''x''"] by (simp add: max_int64_def maxBodySize_def)
qed

subsection \<open>Header lines\<close>

lemma split_two:
  assumes "c \<notin> set a" and "c \<notin> set b"
  shows "split (a @ c # b) [c] = [a, b]"
proof -
  have "index (a @ c # b) [c] = Some (length a)"
    using assms(1) by (induction a) (auto simp: has_prefix_iff)
  moreover have "index b [c] = None" using assms(2) by (intro index_absent_char [of c]) simp_all
  ultimately show ?thesis by (cases "length a + length b") (simp_all add: split_def)
qed

lemma split_n_two:
  "c \<notin> set a \<Longrightarrow> split_n 2 (a @ c # b) [c] = [a, b]"
proof -
  assume "c \<notin> set a"
  then have "index (a @ c # b) [c] = Some (length a)"
    by (induction a) (auto simp: has_prefix_iff)
  then show ?thesis by (simp add: numeral_2_eq_2)
qed

lemma itoa_base: "itoa (int n) = base_str 10 n"
  by (simp add: itoa_def)

lemma encap_part_body:
  assumes "int n \<le> max_int64" and "k \<in> {''req-body'', ''res-body'', ''null-body''}"
  shows "encap_part ('' '' @ k @ ''='' @ itoa (int n)) acc = (int n, k \<noteq> ''null-body'')"
proof -
  have k: "CHR ''='' \<notin> set k" "plain_char (hd k)" "plain_char (last k)" "k \<noteq> []"
    using assms(2) by (auto simp: plain_char_def ascii_space_def)
  let ?p = "k @ CHR ''='' # itoa (int n)"
  have "trim_space ('' '' @ ?p) = ?p"
    using trim_space_pad [of ?p "'' ''" "[]"] k plain_base_str(2) [of 10 n]
    by (simp add: itoa_base)
  moreover have "split_n 2 ?p ''='' = [k, itoa (int n)]" using split_n_two [OF k(1)] by simp
  moreover have "trim_space k = k" using k by (intro trim_space_plain)
  moreover have "trim_space (itoa (int n)) = itoa (int n)"
    using plain_base_str [of 10 n] by (simp add: itoa_base trim_space_plain)
  moreover have "snd (atoi (itoa (int n))) = int n" using assms(1) by (simp add: atoi_itoa)
  ultimately show ?thesis using assms(2) by (auto simp: encap_part_def Let_def)
qed

lemma parseEncapsulated_pair:
  assumes "int n \<le> max_int64" and "k \<in> {''req-body'', ''res-body'', ''null-body''}"
    and "h \<in> {''req-hdr'', ''res-hdr''}"
  shows "parseEncapsulated (h @ ''=0, '' @ k @ ''='' @ itoa (int n)) = (int n, k \<noteq> ''null-body'')"
proof -
  let ?a = "h @ ''=0''" and ?b = "'' '' @ k @ ''='' @ itoa (int n)"
  have dc: "digit_val CHR '','' = None" by code_simp
  have "split (?a @ CHR '','' # ?b) '','' = [?a, ?b]"
    using assms(2,3) no_sign_base_str [OF _ _ dc, of 10 n]
    by (intro split_two) (auto simp: itoa_base)
  moreover have "encap_part ?a (0, False) = (0, False)"
  proof -
    have "encap_part ''req-hdr=0'' (0, False) = (0, False)"
      "encap_part ''res-hdr=0'' (0, False) = (0, False)" by code_simp+
    then show ?thesis using assms(3) by auto
  qed
  ultimately show ?thesis
    using encap_part_body [OF assms(1,2)] by (simp add: parseEncapsulated_def)
qed

lemma read_headers_line:
  assumes "CHR 0x0A \<notin> set line" and "trim_space (line @ crlf) = line" and "index line '':'' = Some i" "0 < i"
  shows "read_headers hs (line @ crlf @ r) =
     read_headers ((to_lower (trim_space (take i line)), trim_space (drop (i + 1) line)) # hs) r"
proof -
  have "line \<noteq> []" using assms(3) by auto
  then show ?thesis
  using assms read_line_crlf [OF assms(1), of r] by (subst read_headers.simps) (simp add: Let_def)
qed

lemma read_headers_end: "read_headers hs (crlf @ r) = Some (hs, r)"
  using read_line_crlf [of "[]" r] trim_space_pad [of "[]" crlf "[]"] crlf_spaces
  by (subst read_headers.simps) simp

lemma encap_header_line:
  assumes "k \<in> {''req-body'', ''res-body'', ''null-body''}" and "h \<in> {''req-hdr'', ''res-hdr''}"
  shows "read_headers hs (''Encapsulated: '' @ (h @ ''=0, '' @ k @ ''='' @ itoa (int n)) @ crlf @ r)
     = read_headers ((''encapsulated'', h @ ''=0, '' @ k @ ''='' @ itoa (int n)) # hs) r"
proof -
  let ?v = "h @ ''=0, '' @ k @ ''='' @ itoa (int n)"
  have v: "plain_char (hd ?v)" "plain_char (last ?v)" "CHR 0x0A \<notin> set ?v"
    using assms plain_base_str [of 10 n] no_space_base_str(1) [of 10 n]
    by (auto simp: itoa_base plain_char_def ascii_space_def)
  have l: "plain_char CHR ''E''" by (simp add: plain_char_def ascii_space_def)
  have "trim_space ((''Encapsulated: '' @ ?v) @ crlf) = ''Encapsulated: '' @ ?v"
    using trim_space_pad [of "''Encapsulated: '' @ ?v" "[]" crlf] v l crlf_spaces by simp
  moreover have "trim_space ('' '' @ ?v) = ?v"
    using trim_space_pad [of ?v "'' ''" "[]"] v by simp
  moreover have "to_lower (trim_space ''Encapsulated'') = ''encapsulated''" by code_simp
  ultimately show ?thesis
    using read_headers_line [of "''Encapsulated: '' @ ?v" 12 hs r] v(3) by simp
qed

lemma encap_line:
  assumes "h = ''req-hdr'' \<and> k = ''req-body'' \<or> h = ''res-hdr'' \<and> k = ''res-body''"
  shows "read_headers hs (''Encapsulated: '' @ (h @ ''=0, '' @ k @ ''='' @ itoa (int n)) @ crlf @ r)
     = read_headers ((''encapsulated'', h @ ''=0, '' @ k @ ''='' @ itoa (int n)) # hs) r"
  using assms by (intro encap_header_line) auto

lemma istag_line:
  "read_headers hs (''ISTag: '' @ isTag @ crlf @ r) = read_headers ((''istag'', isTag) # hs) r"
proof -
  have t: "CHR 0x0A \<notin> set (''ISTag: '' @ isTag)"
    "trim_space ((''ISTag: '' @ isTag) @ crlf) = ''ISTag: '' @ isTag"
    "index (''ISTag: '' @ isTag) '':'' = Some 5"
    "to_lower (trim_space (take 5 (''ISTag: '' @ isTag))) = ''istag''"
    "trim_space (drop (5 + 1) (''ISTag: '' @ isTag)) = isTag"
    by code_simp+
  from read_headers_line [OF t(1-3), of hs r] show ?thesis unfolding t(4,5) by simp
qed


subsection \<open>The Content-Length line\<close>

lemma length_to_lower: "is_ascii s \<Longrightarrow> length (to_lower s) = length s"
  by (simp add: to_lower_def)

lemma rawUpdate_no_panic: assumes "is_ascii s" shows "rawUpdateContentLength s n \<noteq> Panic"
proof (cases "index (to_lower s) (LF @ ''content-length:'')")
  case None
  then show ?thesis by (simp add: rawUpdateContentLength_def Let_def)
next
  case (Some i)
  then have "i + 16 \<le> length s" using index_SomeD(1) [OF Some] length_to_lower [OF assms] by (simp add: LF_def)
  then show ?thesis
    using Some by (auto simp: rawUpdateContentLength_def Let_def slice_def split: option.splits)
qed

lemma index_at: "c \<notin> set a \<Longrightarrow> index (a @ (c # t) @ b) (c # t) = Some (length a)"
  by (induction a) auto

text \<open>
  On ASCII headers the first \<open>Content-Length\<close> line, in whatever case it is written, becomes the
  length of the new body, and every other byte of the headers is kept.
\<close>
theorem content_length_replaced:
  assumes "is_ascii s" and s: "s = a @ LF @ line @ crlf @ b" and "CHR 0x0D \<notin> set line"
    and first: "index (to_lower s) (LF @ ''content-length:'') = Some (length a)"
  shows "rawUpdateContentLength s n = Ret (a @ LF @ ''Content-Length: '' @ itoa (int n) @ crlf @ b)"
proof -
  have "slice s (int (length a) + 1) (int (length s)) = Ret (line @ crlf @ b)"
    by (simp add: s slice_def LF_def nat_add_distrib)
  moreover have "index (line @ crlf @ b) crlf = Some (length line)"
    using index_at [OF assms(3), of "[CHR 0x0A]" b] by (simp add: crlf_def)
  moreover have "take (length a + 1) s = a @ LF" "drop (length a + 1 + length line) s = crlf @ b"
    by (simp_all add: s LF_def)
  ultimately show ?thesis
    using first by (simp add: rawUpdateContentLength_def Let_def)
qed

lemma content_length_replaced_witness:
  "rawUpdateContentLength (''POST / HTTP/1.1'' @ [CHR 0x0D] @ LF @ ''content-LENGTH: 5'' @ crlf @ crlf) 12
     = Ret ((''POST / HTTP/1.1'' @ [CHR 0x0D]) @ LF @ ''Content-Length: '' @ itoa (int 12) @ crlf @ crlf)"
proof (rule content_length_replaced)
  let ?s = "''POST / HTTP/1.1'' @ [CHR 0x0D] @ LF @ ''content-LENGTH: 5'' @ crlf @ crlf"
  show "is_ascii ?s" "index (to_lower ?s) (LF @ ''content-length:'') = Some (length (''POST / HTTP/1.1'' @ [CHR 0x0D]))"
    by code_simp+
  show "CHR 0x0D \<notin> set ''content-LENGTH: 5''" by code_simp
qed simp

definition bad_headers :: string where
  "bad_headers = ''POST / HTTP/1.1'' @ crlf @ ''X: '' @ replicate 30 (CHR 0xFF) @ crlf
     @ ''Content-Length: 5'' @ crlf @ crlf"

text \<open>
  Header bytes that are not UTF-8 crash the server when the request is masked: \<open>ToLower\<close> makes
  three bytes of each, and the position found in the lowered copy lies behind the end of the original.
  The other way round, on ASCII headers the routine never panics.
\<close>
theorem non_ascii_headers_panic:
  "rawUpdateContentLength bad_headers 9 = Panic
   \<and> (\<forall>s n. is_ascii s \<longrightarrow> rawUpdateContentLength s n \<noteq> Panic)"
proof
  show "rawUpdateContentLength bad_headers 9 = Panic" by code_simp
qed (simp add: rawUpdate_no_panic)

lemma non_ascii_headers_panic_witness: "rawUpdateContentLength ''a'' 3 \<noteq> Panic"
proof -
  have "is_ascii ''a''" by code_simp
  then show ?thesis using non_ascii_headers_panic by blast
qed

end
