(* ===== verification/Ttl_Cache.thy ===== *)
theory Ttl_Cache
  imports Prelude
begin

text \<open>
  The caches with a time to live that several components keep in a package variable: a map from a key
  to a value and the instant it expires. An expired entry is not used and is overwritten by the next
  miss; nothing removes it. The locale says what the lookups built on such a cache rely on.
\<close>

type_synonym ('k, 'v) ttl_map = "('k \<times> 'v \<times> time) list"

definition ttl_get :: "time \<Rightarrow> 'k \<Rightarrow> ('k, 'v) ttl_map \<Rightarrow> 'v option" where
  \<comment> \<open>\<open>now.Before(e.expires)\<close>\<close>
  "ttl_get now k m =
     (case find_by fst k m of
        Some (_, v, expires) \<Rightarrow> if now < expires then Some v else None
      | None \<Rightarrow> None)"

definition ttl_put :: "time \<Rightarrow> 'k \<Rightarrow> 'v \<Rightarrow> ('k, 'v) ttl_map \<Rightarrow> ('k, 'v) ttl_map" where
  \<comment> \<open>the first argument is the instant of expiry\<close>
  "ttl_put expires k v m = set_key k (v, expires) m"

locale ttl_cache =
  fixes get :: "time \<Rightarrow> 'k \<Rightarrow> 'c \<Rightarrow> 'v option" and put :: "time \<Rightarrow> 'k \<Rightarrow> 'v \<Rightarrow> 'c \<Rightarrow> 'c"
  assumes get_put: "now < expires \<Longrightarrow> get now k (put expires k v c) = Some v"
    and get_put_other: "j \<noteq> k \<Longrightarrow> get now j (put expires k v c) = get now j c"
    and get_put_expired: "expires \<le> now \<Longrightarrow> get now k (put expires k v c) = None"
begin

definition lookup :: "time \<Rightarrow> int \<Rightarrow> ('k \<Rightarrow> 'v) \<Rightarrow> 'k \<Rightarrow> 'c \<Rightarrow> 'v \<times> 'c" where
  "lookup now ttl resolve k c =
     (case get now k c of
        Some v \<Rightarrow> (v, c)
      | None \<Rightarrow> (resolve k, put (now + ttl) k (resolve k) c))"

lemma lookup_cached:
  assumes "now \<le> later" and "later < now + ttl" and "get now k c = None"
  shows "lookup later ttl resolve' k (snd (lookup now ttl resolve k c)) =
           (fst (lookup now ttl resolve k c), snd (lookup now ttl resolve k c))"
  using assms by (simp add: lookup_def get_put)

lemma lookup_other: "j \<noteq> k \<Longrightarrow> get t j (snd (lookup now ttl resolve k c)) = get t j c"
  by (auto simp: lookup_def get_put_other split: option.splits)

end

interpretation ttl: ttl_cache ttl_get ttl_put
  by unfold_locales (auto simp: ttl_get_def ttl_put_def find_by_set_key split: option.splits)

end
