(* ===== verification/Handler.thy ===== *)
theory Handler
  imports Mask Policy Siem Notify Icap Ttl_Cache
begin

text \<open>
  \<open>icap-server/icap/handler.go\<close>, \<open>response_handler.go\<close>, \<open>hostname.go\<close> and the connection loop of
  \<open>server.go\<close>: what the server does with a request. Its state is the record \<open>icap_state\<close>; what the
  outside answers during one request (clock, reverse DNS, the log file, the parts of a multipart
  body) is the record \<open>req_env\<close>. A handler returns what it writes to the connection and the new state.
\<close>

record icap_state =
  st_rules :: "alertRule list"
  st_policy :: "config option"
  st_logger :: logger
  st_siem :: "exporter option"
  st_notifier :: Notifier
  st_deliveries :: "delivery list"
  st_hostnames :: "(string, string) ttl_map"

record req_env =
  re_detect :: env
  re_now :: time
  re_remote :: string                        \<comment> \<open>the address of the client\<close>
  re_dns :: "string \<Rightarrow> string list option"   \<comment> \<open>\<open>net.LookupAddr\<close>, \<open>None\<close> an error\<close>
  re_open_ok :: bool                         \<comment> \<open>of a rotation of the log\<close>
  re_short :: "nat option"                   \<comment> \<open>of the write to the log\<close>
  re_date :: string                          \<comment> \<open>of an alert mail\<close>

subsection \<open>The user of a request\<close>

definition hostname_of :: "(string \<Rightarrow> string list option) \<Rightarrow> string \<Rightarrow> string" where
  \<comment> \<open>the first label of the first name, unless it is that of a container of this product\<close>
  "hostname_of dns ip =
     (case dns ip of
        Some (n # _) \<Rightarrow>
          (let fqdn = trim_suffix n ''.'';
               name = (case index fqdn ''.'' of Some i \<Rightarrow> if 0 < i then take i fqdn else fqdn | None \<Rightarrow> fqdn)
           in if contains name ''ai-scan-interceptor-'' then [] else name)
      | _ \<Rightarrow> [])"

definition lookupHostname :: "(string \<Rightarrow> string list option) \<Rightarrow> time \<Rightarrow> string \<Rightarrow>
    (string, string) ttl_map \<Rightarrow> string \<times> (string, string) ttl_map" where
  "lookupHostname dns now ip cache =
     (if ip = [] \<or> ip = ''127.0.0.1'' \<or> ip = ''::1'' then ([], cache)
      else (case ttl_get now ip cache of
              Some name \<Rightarrow> (name, cache)
            | None \<Rightarrow> (hostname_of dns ip, ttl_put (now + 5 * minute) ip (hostname_of dns ip) cache)))"

definition b64url_val :: "char \<Rightarrow> int option" where
  "b64url_val c =
     (let b = ibyte c in
      if 65 \<le> b \<and> b \<le> 90 then Some (b - 65)
      else if 97 \<le> b \<and> b \<le> 122 then Some (b - 71)
      else if 48 \<le> b \<and> b \<le> 57 then Some (b + 4)
      else if c = CHR ''-'' then Some 62
      else if c = CHR ''_'' then Some 63
      else None)"

fun b64_bytes :: "int list \<Rightarrow> string option" where
  "b64_bytes [] = Some []"
| "b64_bytes [a] = None"
| "b64_bytes [a, b] = Some [char_byte (a * 4 + b div 16)]"
| "b64_bytes [a, b, c] = Some [char_byte (a * 4 + b div 16), char_byte (b mod 16 * 16 + c div 4)]"
| "b64_bytes (a # b # c # d # r) =
     map_option (\<lambda>s. char_byte (a * 4 + b div 16) # char_byte (b mod 16 * 16 + c div 4)
                     # char_byte (c mod 4 * 64 + d) # s) (b64_bytes r)"

definition raw_url_decode :: "string \<Rightarrow> string option" where
  \<comment> \<open>\<open>base64.RawURLEncoding\<close>, which skips line breaks\<close>
  "raw_url_decode s =
     (case those (map b64url_val (filter (\<lambda>c. c \<noteq> CHR 0x0A \<and> c \<noteq> CHR 0x0D) s)) of
        None \<Rightarrow> None | Some vs \<Rightarrow> b64_bytes vs)"

definition jwtSub :: "string \<Rightarrow> string" where
  "jwtSub authHeader =
     (case cut_prefix authHeader ''Bearer '' of
        None \<Rightarrow> []
      | Some token \<Rightarrow>
          if token = [] then []
          else (case split_n 3 token ''.'' of
                  [_, payload, _] \<Rightarrow>
                    (case raw_url_decode payload of
                       None \<Rightarrow> []
                     | Some p \<Rightarrow> (case unmarshal (dec_only ''sub'' dec_string) [] p of
                                    Some sub \<Rightarrow> sub | None \<Rightarrow> []))
                | _ \<Rightarrow> []))"

definition extractUserID :: "string \<Rightarrow> string \<Rightarrow> string \<Rightarrow> string \<times> string" where
  "extractUserID certSubject hostname authHeader =
     (if trim_space certSubject \<noteq> [] then (trim_space certSubject, ''mtls-cert'')
      else if hostname \<noteq> [] then (hostname, ''reverse-dns'')
      else if jwtSub authHeader \<noteq> [] then (jwtSub authHeader, ''jwt-sub'')
      else ([], ''ip-only''))"

subsection \<open>REQMOD\<close>

definition shouldNotify :: "string \<Rightarrow> bool" where
  "shouldNotify severity \<longleftrightarrow> severity = ''critical'' \<or> severity = ''high''"

definition effective_mode :: "icap_state \<Rightarrow> Result \<Rightarrow> mode" where
  \<comment> \<open>the mode of the service; an upload is blocked where it would be masked\<close>
  "effective_mode w r =
     (let mode = (case st_policy w of None \<Rightarrow> ModeWarn | Some c \<Rightarrow> GetMode c (res_Service r)) in
      if res_IsFileUpload r \<and> res_Triggered r \<and> mode = ModeMask then ModeBlock else mode)"

definition action_of :: "bool \<Rightarrow> mode \<Rightarrow> string" where
  "action_of triggered mode =
     (if \<not> triggered then ''passed''
      else if mode = ModeBlock then ''blocked''
      else if mode = ModeMask then ''masked''
      else if mode = ModeMonitor then ''monitored''
      else ''warned'')"

definition log_entry :: "req_env \<Rightarrow> http_request \<Rightarrow> Result \<Rightarrow> mode \<Rightarrow> string \<times> string \<Rightarrow> LogEntry" where
  "log_entry E hr r mode user =
     \<lparr>le_Timestamp = re_now E, le_Service = res_Service r, le_Host = hr_Host hr, le_Path = hr_Path hr,
      le_Prompt = res_Prompt r, le_Triggered = res_Triggered r, le_Severity = res_Severity r,
      le_RuleIDs = map (\<lambda>m. rm_RuleID m @ '':'' @ rm_Description m) (res_RuleMatches r),
      le_ClientIP = re_remote E, le_UserID = fst user, le_IdentitySource = snd user,
      le_Action = action_of (res_Triggered r) mode\<rparr>"

definition record_entry :: "req_env \<Rightarrow> LogEntry \<Rightarrow> icap_state \<Rightarrow> icap_state outcome" where
  \<comment> \<open>the log file and the SIEM queue; an error of the log is only printed\<close>
  "record_entry E e w =
     (let w' = w\<lparr>st_logger := snd (Write_log (re_open_ok E) (re_short E) (re_now E) e (st_logger w))\<rparr> in
      case st_siem w' of
        None \<Rightarrow> Ret w'
      | Some x \<Rightarrow> out_bind (Send_entry e x) (\<lambda>x'. Ret (w'\<lparr>st_siem := Some x'\<rparr>)))"

definition enforce :: "req_env \<Rightarrow> Request \<Rightarrow> http_request \<Rightarrow> Result \<Rightarrow> mode \<Rightarrow> LogEntry \<Rightarrow> icap_state \<Rightarrow>
    (string \<times> icap_state) outcome" where
  "enforce E req hr r mode e w =
     (if \<not> res_Triggered r then Ret (WriteNoModification, w)
      else if mode = ModeBlock then Ret (WriteBlock, w)
      else if mode = ModeMask then
        out_bind (WriteMasked req (MaskSensitiveForService (re_detect E) (st_rules w) (rq_HTTPBody req)
                                     (hr_Host hr) (hr_Path hr)))
          (\<lambda>out. Ret (out, w))
      else if mode = ModeMonitor then Ret (WriteNoModification, w)
      else if shouldNotify (res_Severity r) then
        out_bind (Send_alert (re_date E) (st_notifier w) e) (\<lambda>ds.
          Ret (WriteNoModification, w\<lparr>st_deliveries := st_deliveries w @ ds\<rparr>))
      else Ret (WriteNoModification, w))"

definition ServeREQMOD :: "req_env \<Rightarrow> Request \<Rightarrow> icap_state \<Rightarrow> (string \<times> icap_state) outcome" where
  "ServeREQMOD E req w =
     (case rq_HTTPRequest req of
        None \<Rightarrow> Ret (WriteNoModification, w)
      | Some hr \<Rightarrow>
          if rq_HTTPBody req = [] then Ret (WriteNoModification, w)
          else
            out_bind (Detect (re_detect E) (st_rules w) (hr_Host hr) (hr_Path hr) (hr_Method hr)
                        (rq_HTTPBody req)) (\<lambda>det.
              case det of
                None \<Rightarrow> Ret (WriteNoModification, w)
              | Some r \<Rightarrow>
                  (let mode = effective_mode w r;
                       (hostname, cache) = lookupHostname (re_dns E) (re_now E)
                          (header_of (rq_Headers req) ''x-client-ip'') (st_hostnames w);
                       user = extractUserID (header_get (hr_Header hr) ''X-User-Cert-Subject'') hostname
                                (header_get (hr_Header hr) ''Authorization'');
                       e = log_entry E hr r mode user
                   in out_bind (record_entry E e (w\<lparr>st_hostnames := cache\<rparr>)) (\<lambda>w'.
                        enforce E req hr r mode e w'))))"

subsection \<open>RESPMOD\<close>

definition truncate_text :: "string \<Rightarrow> nat \<Rightarrow> string" where
  "truncate_text s n = (if length s \<le> n then s else take n s @ ''...'')"

definition ServeRESPMOD :: "req_env \<Rightarrow> Request \<Rightarrow> icap_state \<Rightarrow> (string \<times> icap_state) outcome" where
  "ServeRESPMOD E req w =
     (if rq_HTTPBody req = [] then Ret (WriteNoModification, w)
      else
        (let body = rq_HTTPBody req;
             triggered = (body \<noteq> MaskSensitive (st_rules w) body);
             (host, path) = (case rq_HTTPResponse req of
                               Some resp \<Rightarrow> (case hs_Request resp of
                                               Some q \<Rightarrow> (hr_Host q, hr_Path q) | None \<Rightarrow> ([], []))
                             | None \<Rightarrow> ([], []));
             e = \<lparr>le_Timestamp = re_now E, le_Service = ''RESPMOD'', le_Host = host, le_Path = path,
                  le_Prompt = truncate_text body 512, le_Triggered = triggered,
                  le_Severity = (if triggered then ''high'' else []), le_RuleIDs = [],
                  le_ClientIP = re_remote E, le_UserID = [], le_IdentitySource = [], le_Action = []\<rparr>
         in Ret (WriteNoModification,
                 if triggered
                 then w\<lparr>st_logger := snd (Write_log (re_open_ok E) (re_short E) (re_now E) e (st_logger w))\<rparr>
                 else w)))"

subsection \<open>The connection\<close>

definition serve_one :: "req_env \<Rightarrow> Request \<Rightarrow> icap_state \<Rightarrow> (string \<times> icap_state) outcome" where
  "serve_one E req w =
     (if rq_Method req = ''OPTIONS'' then Ret (writeOptions, w)
      else if rq_Method req = ''REQMOD'' then ServeREQMOD E req w
      else if rq_Method req = ''RESPMOD'' then ServeRESPMOD E req w
      else Ret (method_not_allowed, w))"

lemma skip_blank_length: "skip_blank s = Some (l, r) \<Longrightarrow> length r < length s"
proof (induction s rule: skip_blank.induct)
  case (1 s)
  show ?case
  proof (cases "read_line s")
    case (Some lr)
    obtain l0 r0 where lr: "lr = (l0, r0)" by (cases lr)
    have "length r0 < length s" using Some lr by (simp add: read_line_length)
    then show ?thesis using "1.IH" [OF Some lr [symmetric]] "1.prems" Some lr
      by (subst (asm) skip_blank.simps) (auto split: if_splits)
  qed (use "1.prems" in \<open>simp add: skip_blank.simps\<close>)
qed

lemma read_headers_length: "read_headers hs s = Some (hs', r) \<Longrightarrow> length r \<le> length s"
proof (induction hs s rule: read_headers.induct)
  case (1 hs s)
  show ?case
  proof (cases "read_line s")
    case (Some lr)
    obtain l0 r0 where lr: "lr = (l0, r0)" by (cases lr)
    have "length r0 < length s" using Some lr by (simp add: read_line_length)
    then show ?thesis
      using "1.IH" [OF Some lr [symmetric] refl] "1.prems" Some lr
      by (subst (asm) read_headers.simps) (auto simp: Let_def split: if_splits option.splits)
  qed (use "1.prems" in \<open>simp add: read_headers.simps\<close>)
qed

lemma readChunked_step:
  assumes "readChunked buf s = Ret (Some (body, r))"
  shows "\<exists>line r0. read_line s = Some (line, r0)
     \<and> (r = skip_line r0
        \<or> (\<exists>n chunk r'. read_bytes n r0 = Ret (Some (chunk, r'))
             \<and> readChunked (buf @ chunk) (skip_line r') = Ret (Some (body, r))))"
  using assms
  by (subst (asm) readChunked.simps)
    (auto split: option.splits prod.splits if_splits outcome.splits)

lemma readChunked_length: "readChunked buf s = Ret (Some (body, r)) \<Longrightarrow> length r \<le> length s"
proof (induction "length s" arbitrary: buf s rule: less_induct)
  case less
  obtain line r0 where l: "read_line s = Some (line, r0)"
    and c: "r = skip_line r0 \<or> (\<exists>n chunk r'. read_bytes n r0 = Ret (Some (chunk, r'))
             \<and> readChunked (buf @ chunk) (skip_line r') = Ret (Some (body, r)))"
    using readChunked_step [OF less.prems] by blast
  from c show ?case
  proof
    assume "r = skip_line r0"
    then show ?thesis using read_line_length [OF l] skip_line_length [of r0] by simp
  next
    assume "\<exists>n chunk r'. read_bytes n r0 = Ret (Some (chunk, r'))
             \<and> readChunked (buf @ chunk) (skip_line r') = Ret (Some (body, r))"
    then obtain n chunk r' where b: "read_bytes n r0 = Ret (Some (chunk, r'))"
      and rec: "readChunked (buf @ chunk) (skip_line r') = Ret (Some (body, r))" by blast
    have lt: "length (skip_line r') < length s" by (rule skip_after_bytes [OF l b])
    then show ?thesis using less.hyps [OF lt rec] by simp
  qed
qed

lemma out_bind_RetD: "out_bind m f = Ret x \<Longrightarrow> \<exists>y. m = Ret y \<and> f y = Ret x"
  by (cases m) simp_all

lemma readRequest_length:
  assumes "readRequest L s = Ret (Some (req, r))" shows "length r < length s"
proof -
  obtain line r1 where sk: "skip_blank s = Some (line, r1)"
    using assms by (auto simp: readRequest_def split: option.splits)
  obtain meth url where sp: "split_n 3 line '' '' = [meth, url, icapVersion]"
    using assms sk by (auto simp: readRequest_def split: list.splits if_splits)
  obtain hs r2 where rh: "read_headers [] r1 = Some (hs, r2)"
    using assms sk sp by (auto simp: readRequest_def split: option.splits)
  obtain hdrLen hasBody where pe: "parseEncapsulated (header_of hs ''encapsulated'') = (hdrLen, hasBody)"
    by fastforce
  have lt: "length r2 < length s"
    using skip_blank_length [OF sk] read_headers_length [OF rh] by simp
  show ?thesis
  proof (cases "meth = ''OPTIONS''")
    case True
    then show ?thesis using assms sk sp rh pe lt by (simp add: readRequest_def)
  next
    case False
    define hb where "hb = (if hdrLen > 0 then read_bytes hdrLen r2 else Ret (Some ([], r2)))"
    obtain hdr r3 where h: "hb = Ret (Some (hdr, r3))"
      and b: "(if hasBody then readChunked [] r3 else Ret (Some ([], r3))) = Ret (Some (rq_HTTPBody req, r))"
      using assms sk sp rh pe False
      by (auto simp: readRequest_def hb_def [symmetric] Let_def dest!: out_bind_RetD split: option.splits)
    have "length r3 \<le> length r2"
      using h by (auto simp: hb_def split: if_splits dest: read_bytes_length)
    moreover have "length r \<le> length r3"
      using b by (auto split: if_splits dest: readChunked_length)
    ultimately show ?thesis using lt by simp
  qed
qed

function serve :: "http_lib \<Rightarrow> (nat \<Rightarrow> req_env) \<Rightarrow> nat \<Rightarrow> string \<Rightarrow> icap_state \<Rightarrow>
    (string list \<times> icap_state) outcome" where
  \<comment> \<open>the answers to the requests of a connection, until one cannot be read; request \<open>k\<close> is served
     in the environment \<open>E k\<close>\<close>
  "serve L E k s w =
     (case readRequest L s of
        Panic \<Rightarrow> Panic
      | Ret None \<Rightarrow> Ret ([], w)
      | Ret (Some (req, r)) \<Rightarrow>
          out_bind (serve_one (E k) req w) (\<lambda>(out, w').
            out_bind (serve L E (Suc k) r w') (\<lambda>(outs, w''). Ret (out # outs, w''))))"
  by pat_completeness auto
termination
  by (relation "measure (\<lambda>(L, E, k, s, w). length s)") (auto simp: readRequest_length)

declare serve.simps [simp del]

end
