(* ===== verification/Tls_Proxy.thy ===== *)
theory Tls_Proxy
  imports Enforcement Enroll Hostport
begin

text \<open>
  The interception of tls-proxy (\<open>tls-proxy/main.go\<close>, \<open>mtls.go\<close>): which connections are terminated, who their user
  is, and what happens to each request. The engine (detection, masking, policy, log, notifier) is the one of the
  ICAP server, of which tls-proxy imports the packages. TLS, the origin server and \<open>net/http\<close> are in the record
  \<open>proxy_env\<close>.
\<close>

subsection \<open>Configuration\<close>

definition getEnvSlice :: "(string \<Rightarrow> string) \<Rightarrow> string \<Rightarrow> string list \<Rightarrow> string list" where
  "getEnvSlice env key fallback =
     (if env key = [] then fallback
      else filter (\<lambda>s. s \<noteq> []) (map trim_space (split (env key) '','')))"

definition defaultInterceptHosts :: "string list" where
  "defaultInterceptHosts = [''api.anthropic.com'', ''a-api.anthropic.com'', ''claude.ai'']"

definition intercept_set :: "(string \<Rightarrow> string) \<Rightarrow> string set" where
  "intercept_set env = to_lower ` set (getEnvSlice env ''INTERCEPT_HOSTS'' defaultInterceptHosts)"

definition loadCA :: "x509_lib \<Rightarrow> string option \<Rightarrow> string option \<Rightarrow> string + cert \<times> string" where
  "loadCA X certPEM keyPEM =
     (case (certPEM, keyPEM) of
        (None, _) \<Rightarrow> Inl ''read cert''
      | (_, None) \<Rightarrow> Inl ''read key''
      | (Some cp, Some kp) \<Rightarrow>
          (case xl_pem X cp of
             None \<Rightarrow> Inl ''invalid cert PEM''
           | Some (_, cb) \<Rightarrow>
               (case xl_cert X cb of
                  None \<Rightarrow> Inl ''parse cert''
                | Some c \<Rightarrow>
                    (case xl_pem X kp of
                       None \<Rightarrow> Inl ''invalid key PEM''
                     | Some (kt, kb) \<Rightarrow>
                         if kt = ''RSA PRIVATE KEY'' then
                           (case xl_pkcs1 X kb of None \<Rightarrow> Inl ''parse key (PKCS1)'' | Some k \<Rightarrow> Inr (c, k))
                         else if kt = ''PRIVATE KEY'' then
                           (case xl_pkcs8 X kb of
                              None \<Rightarrow> Inl ''parse key (PKCS8)''
                            | Some None \<Rightarrow> Inl ''key is not RSA''
                            | Some (Some k) \<Rightarrow> Inr (c, k))
                         else Inl ''unsupported key PEM type''))))"

subsection \<open>Server certificates\<close>

record server_cert =
  sv_CommonName :: string
  sv_DNSNames :: "string list"
  sv_NotBefore :: time
  sv_NotAfter :: time

definition issueCert :: "bool \<Rightarrow> time \<Rightarrow> string \<Rightarrow> server_cert option" where
  \<comment> \<open>whether the key can be generated and the certificate signed\<close>
  "issueCert ok now host =
     (if ok then Some \<lparr>sv_CommonName = host, sv_DNSNames = [host], sv_NotBefore = now - minute,
                       sv_NotAfter = now + 24 * hour\<rparr>
      else None)"

type_synonym cert_cache = "(string, server_cert) ttl_map"

definition cert_get :: "bool \<Rightarrow> time \<Rightarrow> string \<Rightarrow> cert_cache \<Rightarrow> server_cert option \<times> cert_cache" where
  "cert_get ok now host cache =
     (case ttl_get now host cache of
        Some c \<Rightarrow> (Some c, cache)
      | None \<Rightarrow>
          (case issueCert ok now host of
             None \<Rightarrow> (None, cache)
           | Some c \<Rightarrow> (Some c, ttl_put (now + 12 * hour) host c cache)))"

record mtlsConfig =
  mt_Enabled :: bool
  mt_Listen :: string
  mt_OrgCAPEM :: string
  mt_ServerCert :: server_cert

definition loadMTLSConfig ::
  "(string \<Rightarrow> bool) \<Rightarrow> bool \<Rightarrow> bool \<Rightarrow> time \<Rightarrow> (string \<Rightarrow> string) \<Rightarrow> (string \<Rightarrow> string option) \<Rightarrow> cert_cache \<Rightarrow>
     string + mtlsConfig option" where
  \<comment> \<open>whether a text holds certificates, whether the server CA was loaded, whether a certificate can be issued,
     the clock, the environment, the files\<close>
  "loadMTLSConfig has_certs ca_loaded ok now env files cache =
     (if to_lower (trim_space (env ''MTLS_ENABLED'')) \<noteq> ''true'' then Inr None
      else
        let listen = getEnv env ''MTLS_PORT'' '':3130'' in
        (case files (getEnv env ''ORG_CA_FILE'' ''/config/org-ca.pem'') of
           None \<Rightarrow> Inl ''read ORG_CA_FILE''
         | Some pem \<Rightarrow>
             if \<not> has_certs pem then Inl ''ORG_CA_FILE: no valid PEM CA certs found''
             else if \<not> ca_loaded then Inl ''server CA not loaded; call loadCA before loadMTLSConfig''
             else
               (let host = fst (splitHostNoErr listen);
                    host' = (if host = [] then ''ai-scan-interceptor'' else host)
                in case fst (cert_get ok now host' cache) of
                     None \<Rightarrow> Inl ''mint mTLS server cert''
                   | Some c \<Rightarrow> Inr (Some \<lparr>mt_Enabled = True, mt_Listen = listen, mt_OrgCAPEM = pem,
                                         mt_ServerCert = c\<rparr>))))"

subsection \<open>The user of a connection\<close>

datatype conn = Raw_conn | IdentityConn PeerIdentity conn | ConnWithReader conn

primrec peerIdentityFromConn :: "conn \<Rightarrow> PeerIdentity" where
  "peerIdentityFromConn Raw_conn = no_identity"
| "peerIdentityFromConn (IdentityConn p c) = p"
| "peerIdentityFromConn (ConnWithReader c) = peerIdentityFromConn c"

definition b64std_val :: "char \<Rightarrow> int option" where
  "b64std_val c =
     (if c = CHR ''+'' then Some 62 else if c = CHR ''/'' then Some 63
      else if c = CHR ''-'' \<or> c = CHR ''_'' then None else b64url_val c)"

definition std_decode :: "string \<Rightarrow> string option" where
  \<comment> \<open>\<open>base64.StdEncoding\<close>: padded to a multiple of four, line breaks skipped\<close>
  "std_decode s =
     (let t = filter (\<lambda>c. c \<noteq> CHR 0x0A \<and> c \<noteq> CHR 0x0D) s in
      if length t mod 4 \<noteq> 0 then None
      else
        (let t' = trim_suffix (trim_suffix t ''='') ''='' in
         case those (map b64std_val t') of None \<Rightarrow> None | Some vs \<Rightarrow> b64_bytes vs))"

definition extractProxyUser :: "string \<Rightarrow> string" where
  "extractProxyUser authHeader =
     (case cut_prefix authHeader ''Basic '' of
        None \<Rightarrow> []
      | Some creds \<Rightarrow>
          (case std_decode creds of
             None \<Rightarrow> []
           | Some d \<Rightarrow> (case index d '':'' of None \<Rightarrow> d | Some i \<Rightarrow> take i d)))"

definition lookup_addr :: "(string \<Rightarrow> string list option) \<Rightarrow> time \<Rightarrow> string \<Rightarrow> (string, string) ttl_map \<Rightarrow>
    string \<times> (string, string) ttl_map" where
  \<comment> \<open>\<open>lookupHostname\<close> of tls-proxy, which takes an address with or without a port\<close>
  "lookup_addr dns now addr cache = lookupHostname dns now (bareHost addr) cache"

definition connection_user :: "PeerIdentity \<Rightarrow> string \<Rightarrow> string \<Rightarrow> string \<times> string" where
  \<comment> \<open>the certificate, else the host name, else the proxy user, whose source has no name\<close>
  "connection_user peer hostname proxyUser =
     (if HasUser peer then (pi_UserHost peer, ''mtls-cert'')
      else if hostname \<noteq> [] then (hostname, ''reverse-dns'')
      else if proxyUser \<noteq> [] then (proxyUser, [])
      else ([], ''ip-only''))"

subsection \<open>Routing\<close>

datatype route =
    Forward_plain                             \<comment> \<open>not a CONNECT\<close>
  | Intercept string string                    \<comment> \<open>host and port, proxy user\<close>
  | Tunnel string                             \<comment> \<open>what is written to the upstream proxy\<close>

definition connect_header :: "string \<Rightarrow> string \<Rightarrow> string" where
  \<comment> \<open>of \<open>tunnelToUpstream\<close>\<close>
  "connect_header hostPort proxyAuth =
     ''CONNECT '' @ hostPort @ '' HTTP/1.1'' @ crlf @ ''Host: '' @ hostPort @ crlf
     @ ''Proxy-Connection: keep-alive'' @ crlf
     @ (if proxyAuth \<noteq> [] then ''Proxy-Authorization: '' @ proxyAuth @ crlf else []) @ crlf"

definition handleConn :: "string set \<Rightarrow> http_request \<Rightarrow> route" where
  "handleConn targets req =
     (if hr_Method req \<noteq> ''CONNECT'' then Forward_plain
      else
        (let proxyAuth = header_get (hr_Header req) ''Proxy-Authorization'' in
         if to_lower (bareHost (hr_Host req)) \<in> targets then Intercept (hr_Host req) (extractProxyUser proxyAuth)
         else Tunnel (connect_header (hr_Host req) proxyAuth)))"

definition tunnel_reply :: "bool \<Rightarrow> int option \<Rightarrow> string \<times> bool" where
  \<comment> \<open>whether the upstream proxy answers the dial, and the status of its response; the answer to the client and whether the
     two connections are joined\<close>
  "tunnel_reply dialled status =
     (if \<not> dialled then (''HTTP/1.1 502 Bad Gateway'' @ crlf @ crlf, False)
      else if status = Some 200 then (''HTTP/1.1 200 Connection established'' @ crlf @ crlf, True)
      else (''HTTP/1.1 '' @ itoa (case status of None \<Rightarrow> 502 | Some n \<Rightarrow> n) @ '' Bad Gateway'' @ crlf @ crlf, False))"

datatype intercept_start = Dropped | Raw_tunnel string | Inspected

definition raw_connect :: "string \<Rightarrow> string" where
  \<comment> \<open>of \<open>tunnelToUpstreamRaw\<close>\<close>
  "raw_connect hostPort =
     ''CONNECT '' @ hostPort @ '' HTTP/1.1'' @ crlf @ ''Host: '' @ hostPort @ crlf @ ''Proxy-Connection: keep-alive'' @ crlf @ crlf"

definition start_intercept :: "bool \<Rightarrow> bool \<Rightarrow> int option \<Rightarrow> string \<Rightarrow> string \<times> intercept_start" where
  \<comment> \<open>the answer to the CONNECT, before anything is known: whether a certificate can be issued, whether the client completes
     the handshake, and what the upstream proxy answers when it does not\<close>
  "start_intercept cert_ok handshake_ok up hostPort =
     (''HTTP/1.1 200 Connection established'' @ crlf @ crlf,
      if \<not> cert_ok then Dropped
      else if handshake_ok then Inspected
      else if up = Some 200 then Raw_tunnel (raw_connect hostPort)
      else Dropped)"

subsection \<open>Inspection\<close>

record client_msg =
  cm_req :: http_request
  cm_Body :: "string option"   \<comment> \<open>\<open>None\<close>: it cannot be read\<close>
  cm_Close :: bool

record outbound =
  ob_Method :: string
  ob_URL :: string
  ob_Header :: "(string \<times> string list) list"
  ob_Body :: string            \<comment> \<open>its length is the content length\<close>

record proxy_env =
  pe_detect :: env
  pe_now :: time
  pe_open_ok :: bool
  pe_short :: "nat option"
  pe_date :: string
  pe_request_ok :: "string \<Rightarrow> string \<Rightarrow> bool"                    \<comment> \<open>\<open>http.NewRequest\<close> of a method and URL\<close>
  pe_origin :: "outbound \<Rightarrow> (string \<times> bool) option"
     \<comment> \<open>the response as written and whether it closes the connection, \<open>None\<close> an error\<close>
  pe_write_ok :: bool

record proxy_state =
  px_rules :: "alertRule list"
  px_policy :: "config option"
  px_logger :: logger
  px_notifier :: Notifier
  px_deliveries :: "delivery list"

record session =
  se_host :: string
  se_user :: "string \<times> string"
  se_remote :: string

definition inspectRequest ::
  "proxy_env \<Rightarrow> session \<Rightarrow> http_request \<Rightarrow> string \<Rightarrow> alertRule list \<Rightarrow> (Result \<times> LogEntry) option outcome" where
  "inspectRequest E se hr body active =
     (if body = [] then Ret None
      else
        out_bind (Detect (pe_detect E) active (se_host se) (hr_Path hr) (hr_Method hr) body) (\<lambda>det.
          Ret (map_option (\<lambda>r. (r,
            \<lparr>le_Timestamp = pe_now E, le_Service = res_Service r, le_Host = se_host se, le_Path = hr_Path hr,
             le_Prompt = res_Prompt r, le_Triggered = res_Triggered r, le_Severity = res_Severity r,
             le_RuleIDs = map (\<lambda>m. rm_RuleID m @ '':'' @ rm_Description m) (res_RuleMatches r),
             le_ClientIP = se_remote se, le_UserID = fst (se_user se), le_IdentitySource = snd (se_user se),
             le_Action = []\<rparr>)) det)))"

definition proxy_mode :: "proxy_state \<Rightarrow> Result \<Rightarrow> mode" where
  "proxy_mode w r =
     (let mode = (case px_policy w of None \<Rightarrow> ModeWarn | Some c \<Rightarrow> GetMode c (res_Service r)) in
      if res_IsFileUpload r \<and> res_Triggered r \<and> mode = ModeMask then ModeBlock else mode)"

definition forbidden :: string where
  \<open>forbidden = ''HTTP/1.1 403 Forbidden'' @ crlf @ ''Content-Type: application/json'' @ crlf @ ''Content-Length: 51'' @ crlf @ crlf
     @ ''{"error":"Request blocked by AI governance policy"}''\<close>

definition bad_gateway :: string where
  "bad_gateway = ''HTTP/1.1 502 Bad Gateway'' @ crlf @ ''Content-Length: 0'' @ crlf @ crlf"

definition apply_policy ::
  "proxy_env \<Rightarrow> session \<Rightarrow> http_request \<Rightarrow> string \<Rightarrow> proxy_state \<Rightarrow> (string option \<times> proxy_state) outcome" where
  \<comment> \<open>the body to forward, \<open>None\<close> when the request is blocked\<close>
  "apply_policy E se hr body w =
     out_bind (inspectRequest E se hr body (px_rules w)) (\<lambda>ins.
       case ins of
         None \<Rightarrow> Ret (Some body, w)
       | Some (r, e0) \<Rightarrow>
           (let mode = proxy_mode w r; e = e0\<lparr>le_Action := action_of (res_Triggered r) mode\<rparr>;
                w' = w\<lparr>px_logger := snd (Write_log (pe_open_ok E) (pe_short E) (pe_now E) e (px_logger w))\<rparr>
            in if \<not> res_Triggered r then Ret (Some body, w')
               else if mode = ModeBlock then Ret (None, w')
               else if mode = ModeMask then
                 Ret (Some (MaskSensitiveForService (pe_detect E) (px_rules w') body (se_host se) (hr_Path hr)), w')
               else if mode = ModeMonitor then Ret (Some body, w')
               else out_bind (Send_alert (pe_date E) (px_notifier w') e) (\<lambda>ds.
                      Ret (Some body, w'\<lparr>px_deliveries := px_deliveries w' @ ds\<rparr>))))"

definition forward :: "proxy_env \<Rightarrow> session \<Rightarrow> client_msg \<Rightarrow> string \<Rightarrow> outbound option \<times> string \<times> bool" where
  \<comment> \<open>what is sent to the origin, what the client gets, and whether the connection goes on\<close>
  "forward E se m body =
     (let hr = cm_req m; url = ''https://'' @ se_host se @ hr_RequestURI hr in
      if \<not> pe_request_ok E (hr_Method hr) url then (None, bad_gateway, False)
      else
        (let out = \<lparr>ob_Method = hr_Method hr, ob_URL = url, ob_Header = hr_Header hr, ob_Body = body\<rparr> in
         case pe_origin E out of
           None \<Rightarrow> (Some out, bad_gateway, False)
         | Some (resp, close) \<Rightarrow> (Some out, resp, pe_write_ok E \<and> \<not> close \<and> \<not> cm_Close m)))"

definition proxy_step ::
  "proxy_env \<Rightarrow> session \<Rightarrow> client_msg \<Rightarrow> proxy_state \<Rightarrow> ((outbound option \<times> string \<times> bool) \<times> proxy_state) outcome" where
  \<comment> \<open>one turn of the loop of \<open>interceptTLS\<close>\<close>
  "proxy_step E se m w =
     (case cm_Body m of
        None \<Rightarrow> Ret ((None, [], False), w)
      | Some body \<Rightarrow>
          out_bind (apply_policy E se (cm_req m) body w) (\<lambda>(fw, w').
            case fw of
              None \<Rightarrow> Ret ((None, forbidden, False), w')
            | Some body' \<Rightarrow> Ret (forward E se m body', w')))"

fun interceptTLS ::
  "(nat \<Rightarrow> proxy_env) \<Rightarrow> nat \<Rightarrow> session \<Rightarrow> client_msg list \<Rightarrow> proxy_state \<Rightarrow>
     ((client_msg \<times> outbound option \<times> string) list \<times> proxy_state) outcome" where
  \<comment> \<open>the requests of a connection, until one ends it: for each, what reached the origin and what the client got\<close>
  "interceptTLS E k se [] w = Ret ([], w)"
| "interceptTLS E k se (m # ms) w =
     out_bind (proxy_step (E k) se m w) (\<lambda>((out, reply, continue), w').
       if \<not> continue then Ret ([(m, out, reply)], w')
       else out_bind (interceptTLS E (Suc k) se ms w') (\<lambda>(xs, w''). Ret ((m, out, reply) # xs, w'')))"

definition open_session ::
  "(string \<Rightarrow> string list option) \<Rightarrow> time \<Rightarrow> conn \<Rightarrow> string \<Rightarrow> string \<Rightarrow> string \<Rightarrow> (string, string) ttl_map \<Rightarrow>
     session \<times> (string, string) ttl_map" where
  \<comment> \<open>the identity is resolved once per connection; without a certificate the address is looked up\<close>
  "open_session dns now c hostPort proxyUser remote names =
     (let peer = peerIdentityFromConn c;
          (hostname, names') = (if HasUser peer then ([], names) else lookup_addr dns now remote names)
      in (\<lparr>se_host = bareHost hostPort, se_user = connection_user peer hostname proxyUser, se_remote = remote\<rparr>, names'))"

subsection \<open>What reaches the origin\<close>

definition may_forward :: "proxy_env \<Rightarrow> session \<Rightarrow> proxy_state \<Rightarrow> client_msg \<Rightarrow> string \<Rightarrow> bool" where
  \<comment> \<open>whether the policy lets this body go out for that request\<close>
  "may_forward E se w m b =
     (case cm_Body m of
        None \<Rightarrow> False
      | Some body \<Rightarrow>
          (if body = [] then b = body
           else (case Detect (pe_detect E) (px_rules w) (se_host se) (hr_Path (cm_req m)) (hr_Method (cm_req m)) body of
                   Panic \<Rightarrow> False
                 | Ret None \<Rightarrow> b = body
                 | Ret (Some r) \<Rightarrow>
                     if \<not> res_Triggered r then b = body
                     else if proxy_mode w r = ModeBlock then False
                     else if proxy_mode w r = ModeMask
                     then b = MaskSensitiveForService (pe_detect E) (px_rules w) body (se_host se) (hr_Path (cm_req m))
                     else b = body)))"

definition must_block :: "proxy_env \<Rightarrow> session \<Rightarrow> proxy_state \<Rightarrow> client_msg \<Rightarrow> bool" where
  "must_block E se w m =
     (case cm_Body m of
        None \<Rightarrow> False
      | Some body \<Rightarrow>
          body \<noteq> [] \<and>
          (case Detect (pe_detect E) (px_rules w) (se_host se) (hr_Path (cm_req m)) (hr_Method (cm_req m)) body of
             Ret (Some r) \<Rightarrow> res_Triggered r \<and> proxy_mode w r = ModeBlock
           | _ \<Rightarrow> False))"

definition same_engine :: "proxy_state \<Rightarrow> proxy_state \<Rightarrow> bool" where
  "same_engine w w' \<longleftrightarrow> px_rules w' = px_rules w \<and> px_policy w' = px_policy w"

lemma same_engine_mode: "same_engine w w' \<Longrightarrow> proxy_mode w' = proxy_mode w"
  by (rule ext) (simp add: same_engine_def proxy_mode_def)

lemma may_forward_same:
  assumes "same_engine w w'"
  shows "may_forward E se w' m b = may_forward E se w m b" "must_block E se w' m = must_block E se w m"
  using assms by (simp_all add: may_forward_def must_block_def same_engine_mode [OF assms] same_engine_def
      cong: option.case_cong outcome.case_cong)

lemma apply_policy_result:
  assumes "apply_policy E se (cm_req m) body w = Ret (fw, w')" and "cm_Body m = Some body"
  shows "same_engine w w' \<and> (case fw of None \<Rightarrow> must_block E se w m | Some b \<Rightarrow> may_forward E se w m b \<and> \<not> must_block E se w m)"
proof (cases "body = []")
  case True
  then have "fw = Some []" "w' = w"
    using assms by (auto simp: apply_policy_def inspectRequest_def)
  then show ?thesis
    using assms(2) True by (simp add: may_forward_def must_block_def same_engine_def)
next
  case False
  obtain det where det: "Detect (pe_detect E) (px_rules w) (se_host se) (hr_Path (cm_req m)) (hr_Method (cm_req m)) body = Ret det"
    using assms(1) False by (auto simp: apply_policy_def inspectRequest_def dest!: out_bind_RetD)
  note decide = may_forward_def [of E se w m, unfolded assms(2) option.case] must_block_def [of E se w m, unfolded assms(2) option.case]
  show ?thesis
    using assms(1) False det
    by (auto simp: decide apply_policy_def inspectRequest_def same_engine_def Let_def mode_names
        split: option.splits if_splits dest!: out_bind_RetD)
qed

lemma forward_body: "forward E se m b = (Some out, reply, continue) \<Longrightarrow> ob_Body out = b"
  by (auto simp: forward_def Let_def split: if_splits option.splits)

lemma proxy_step_result:
  assumes "proxy_step E se m w = Ret ((sent, reply, continue), w')"
  shows "same_engine w w'
     \<and> (case sent of None \<Rightarrow> True | Some out \<Rightarrow> may_forward E se w m (ob_Body out))
     \<and> (must_block E se w m \<longrightarrow> sent = None \<and> reply = forbidden \<and> \<not> continue)"
proof (cases "cm_Body m")
  case None
  then show ?thesis using assms by (simp add: proxy_step_def same_engine_def must_block_def)
next
  case (Some body)
  obtain fw w1 where ap: "apply_policy E se (cm_req m) body w = Ret (fw, w1)"
    and r: "(case fw of None \<Rightarrow> Ret ((None, forbidden, False), w1) | Some b \<Rightarrow> Ret (forward E se m b, w1))
              = Ret ((sent, reply, continue), w')"
    using assms Some by (auto simp: proxy_step_def dest!: out_bind_RetD)
  note res = apply_policy_result [OF ap Some]
  show ?thesis
  proof (cases fw)
    case None
    then show ?thesis using r res by auto
  next
    case (Some b)
    then have f: "forward E se m b = (sent, reply, continue)" and "w' = w1" using r by auto
    then show ?thesis using res Some by (auto dest: forward_body split: option.splits)
  qed
qed

lemma interceptTLS_prefix:
  "interceptTLS E k se ms w = Ret (xs, w') \<Longrightarrow> map fst xs = take (length xs) ms"
proof (induction E k se ms w arbitrary: xs w' rule: interceptTLS.induct)
  case (2 E k se m ms w)
  then show ?case by (fastforce dest!: out_bind_RetD split: if_splits prod.splits)
qed simp

fun exchanges_ok :: "(nat \<Rightarrow> proxy_env) \<Rightarrow> nat \<Rightarrow> session \<Rightarrow> proxy_state \<Rightarrow> (client_msg \<times> outbound option \<times> string) list \<Rightarrow> bool" where
  \<comment> \<open>every body sent is allowed, and a request to block is answered 403, sends nothing and is the last one\<close>
  "exchanges_ok E k se w [] = True"
| "exchanges_ok E k se w ((m, sent, reply) # xs) =
     ((case sent of None \<Rightarrow> True | Some out \<Rightarrow> may_forward (E k) se w m (ob_Body out))
      \<and> (must_block (E k) se w m \<longrightarrow> sent = None \<and> reply = forbidden \<and> xs = [])
      \<and> exchanges_ok E (Suc k) se w xs)"

lemma exchanges_ok_same: "same_engine w w' \<Longrightarrow> exchanges_ok E k se w' xs = exchanges_ok E k se w xs"
  by (induction E k se w xs rule: exchanges_ok.induct)
    (simp_all add: may_forward_same split: option.splits)

text \<open>
  C1: the policy holds on the wire. Over a whole intercepted connection, whatever its requests and whatever the origin
  answers: a body that reaches the origin is the one the client sent when nothing sensitive was found or the mode
  is to monitor or warn, and its masked form when the mode is to mask; a request whose findings are to be blocked, uploads
  under masking included, is answered with the 403, sends nothing, and ends the connection.
\<close>
theorem intercepted_bodies_follow_policy:
  assumes "interceptTLS E k se ms w = Ret (xs, w')"
  shows "map fst xs = take (length xs) ms \<and> exchanges_ok E k se w xs"
proof
  show "map fst xs = take (length xs) ms" using assms by (rule interceptTLS_prefix)
  show "exchanges_ok E k se w xs" using assms
  proof (induction E k se ms w arbitrary: xs w' rule: interceptTLS.induct)
    case (2 E k se m ms w)
    obtain sent reply continue w1 where st: "proxy_step (E k) se m w = Ret ((sent, reply, continue), w1)"
      using 2(2) by (auto dest!: out_bind_RetD)
    note r = proxy_step_result [OF st]
    show ?case
    proof (cases continue)
      case False
      then show ?thesis using 2(2) st r by auto
    next
      case True
      then obtain ys where ys: "interceptTLS E (Suc k) se ms w1 = Ret (ys, w')" and xs: "xs = (m, sent, reply) # ys"
        using 2(2) st by (auto dest!: out_bind_RetD)
      have "exchanges_ok E (Suc k) se w1 ys"
        using 2(1) ys True by blast
      then show ?thesis using r True xs exchanges_ok_same [of w w1] by simp
    qed
  qed simp
qed

subsection \<open>Certificates and routes\<close>

definition cert_cache_ok :: "cert_cache \<Rightarrow> bool" where
  "cert_cache_ok cache \<longleftrightarrow>
     list_all (\<lambda>(h, c, expires). sv_DNSNames c = [h] \<and> sv_NotAfter c = expires + 12 * hour) cache"

lemma set_set_key: "set (set_key k v m) \<subseteq> insert (k, v) (set m)"
proof -
  have "set (update_first fst k (\<lambda>_. (k, v)) m) \<subseteq> insert (k, v) (set m)" by (induction m) auto
  then show ?thesis by (auto simp: set_key_def)
qed

lemma cert_get_ok:
  assumes "cert_cache_ok cache" and "cert_get ok now host cache = (res, cache')"
  shows "cert_cache_ok cache'"
    and "case res of None \<Rightarrow> True | Some c \<Rightarrow> sv_DNSNames c = [host] \<and> now + 12 * hour < sv_NotAfter c"
proof -
  have "cert_cache_ok (ttl_put (now + 12 * hour) host c cache)"
    if "issueCert ok now host = Some c" for c
    using assms(1) that set_set_key [of host "(c, now + 12 * hour)" cache]
    by (auto simp: cert_cache_ok_def list_all_iff ttl_put_def issueCert_def split: if_splits)
  then show "cert_cache_ok cache'"
    using assms by (auto simp: cert_get_def split: option.splits)
  show "case res of None \<Rightarrow> True | Some c \<Rightarrow> sv_DNSNames c = [host] \<and> now + 12 * hour < sv_NotAfter c"
    using assms find_by_SomeD [of fst host cache]
    by (fastforce simp: cert_get_def ttl_get_def issueCert_def cert_cache_ok_def list_all_iff
        split: option.splits if_splits prod.splits)
qed

fun cert_gets :: "(bool \<times> time \<times> string) list \<Rightarrow> cert_cache \<Rightarrow> (time \<times> string \<times> server_cert option) list" where
  "cert_gets [] cache = []"
| "cert_gets ((ok, now, host) # qs) cache =
     (case cert_get ok now host cache of (res, cache') \<Rightarrow> (now, host, res) # cert_gets qs cache')"

lemma cert_gets_ok:
  "cert_cache_ok cache \<Longrightarrow>
     list_all (\<lambda>(now, host, res). case res of
         None \<Rightarrow> True | Some c \<Rightarrow> sv_DNSNames c = [host] \<and> now + 12 * hour < sv_NotAfter c) (cert_gets qs cache)"
proof (induction qs cache rule: cert_gets.induct)
  case (2 ok now host qs cache)
  then show ?case
    using cert_get_ok [of cache ok now host] by (auto split: prod.splits)
qed simp

text \<open>
  A terminated connection gets a certificate that fits: whatever hosts were asked for before, a certificate taken from the
  cache or issued is for the host asked for and stays valid for more than twelve hours.
\<close>
theorem cached_certificates_fresh:
  "list_all (\<lambda>(now, host, res). case res of
      None \<Rightarrow> True | Some c \<Rightarrow> sv_DNSNames c = [host] \<and> now + 12 * hour < sv_NotAfter c) (cert_gets qs [])"
  by (rule cert_gets_ok) (simp add: cert_cache_ok_def)

text \<open>
  No configured host escapes by its port or its letters: a CONNECT to a host that some configured name equals up to
  case, with any port or none, is intercepted, and every other CONNECT is tunnelled with the proxy
  credentials it came with.
\<close>
theorem configured_hosts_are_intercepted:
  assumes "hr_Method req = ''CONNECT''" and "hr_Host req = host @ '':'' @ port"
    and "set host \<inter> {CHR '':'', CHR ''['', CHR '']''} = {}" and "set port \<inter> {CHR '':'', CHR ''['', CHR '']''} = {}"
  shows "handleConn (intercept_set env) req =
     (if \<exists>h \<in> set (getEnvSlice env ''INTERCEPT_HOSTS'' defaultInterceptHosts). to_lower h = to_lower host
      then Intercept (hr_Host req) (extractProxyUser (header_get (hr_Header req) ''Proxy-Authorization''))
      else Tunnel (connect_header (hr_Host req) (header_get (hr_Header req) ''Proxy-Authorization'')))"
proof -
  have "bareHost (hr_Host req) = host" using assms by (simp only: bareHost_plain)
  then show ?thesis using assms(1) by (auto simp: handleConn_def intercept_set_def Let_def image_iff)
qed

subsection \<open>Samples\<close>

definition sample_proxy :: proxy_state where
  "sample_proxy = \<lparr>px_rules = [aws_rule], px_policy = st_policy sample_state, px_logger = sample_logger,
     px_notifier = NewNotifier [] None, px_deliveries = []\<rparr>"

definition sample_proxy_env :: proxy_env where
  "sample_proxy_env = \<lparr>pe_detect = pem_env, pe_now = 0, pe_open_ok = True, pe_short = None, pe_date = [],
     pe_request_ok = (\<lambda>_ _. True), pe_origin = (\<lambda>_. Some (''HTTP/1.1 200 OK'', False)), pe_write_ok = True\<rparr>"

definition sample_session :: session where
  "sample_session = \<lparr>se_host = ''files.openai.com'', se_user = (''bob'', ''mtls-cert''), se_remote = ''10.0.0.9:5''\<rparr>"

definition sample_msg :: "string \<Rightarrow> client_msg" where
  "sample_msg body = \<lparr>cm_req = \<lparr>hr_Method = ''POST'', hr_Host = ''files.openai.com'', hr_Path = ''/up'',
     hr_RequestURI = ''/up'', hr_Header = []\<rparr>, cm_Body = Some body, cm_Close = False\<rparr>"

lemma sample_session_runs:
  "\<exists>w'. interceptTLS (\<lambda>_. sample_proxy_env) 0 sample_session [sample_msg [], sample_msg upload_body, sample_msg []] sample_proxy
     = Ret ([(sample_msg [], Some \<lparr>ob_Method = ''POST'', ob_URL = ''https://files.openai.com/up'', ob_Header = [],
                                  ob_Body = []\<rparr>, ''HTTP/1.1 200 OK''),
            (sample_msg upload_body, None, forbidden)], w')"
proof -
  have "(case Detect pem_env [aws_rule] ''files.openai.com'' ''/up'' ''POST'' upload_body of
           Ret (Some r) \<Rightarrow> res_Triggered r \<and> res_IsFileUpload r | _ \<Rightarrow> False)"
    by code_simp
  then obtain r where d: "Detect pem_env [aws_rule] ''files.openai.com'' ''/up'' ''POST'' upload_body = Ret (Some r)"
    and r: "res_Triggered r" "res_IsFileUpload r" by (auto split: outcome.splits option.splits)
  have m: "proxy_mode sample_proxy r = ModeBlock"
    using r by (simp add: proxy_mode_def sample_proxy_def sample_state_def GetMode_def)
  have ne: "upload_body \<noteq> []" by code_simp
  have first: "proxy_step sample_proxy_env sample_session (sample_msg []) sample_proxy
      = Ret ((Some \<lparr>ob_Method = ''POST'', ob_URL = ''https://files.openai.com/up'', ob_Header = [], ob_Body = []\<rparr>,
              ''HTTP/1.1 200 OK'', True), sample_proxy)"
    by (simp add: proxy_step_def apply_policy_def inspectRequest_def forward_def sample_msg_def sample_session_def
        sample_proxy_env_def)
  obtain w' where "proxy_step sample_proxy_env sample_session (sample_msg upload_body) sample_proxy
      = Ret ((None, forbidden, False), w')"
    using d r ne m
    by (simp add: proxy_step_def apply_policy_def inspectRequest_def sample_msg_def sample_session_def
        sample_proxy_env_def) (simp add: sample_proxy_def)
  then show ?thesis using first by simp
qed

lemma intercepted_bodies_follow_policy_witness:
  "\<exists>xs w'. interceptTLS (\<lambda>_. sample_proxy_env) 0 sample_session [sample_msg [], sample_msg upload_body, sample_msg []]
       sample_proxy = Ret (xs, w')
     \<and> exchanges_ok (\<lambda>_. sample_proxy_env) 0 sample_session sample_proxy xs \<and> length xs = 2"
proof -
  obtain w' where run: "interceptTLS (\<lambda>_. sample_proxy_env) 0 sample_session
      [sample_msg [], sample_msg upload_body, sample_msg []] sample_proxy
     = Ret ([(sample_msg [], Some \<lparr>ob_Method = ''POST'', ob_URL = ''https://files.openai.com/up'', ob_Header = [],
                                  ob_Body = []\<rparr>, ''HTTP/1.1 200 OK''),
            (sample_msg upload_body, None, forbidden)], w')"
    using sample_session_runs by blast
  from intercepted_bodies_follow_policy [OF run] run show ?thesis by (auto simp del: exchanges_ok.simps)
qed

lemma configured_hosts_are_intercepted_witness:
  "handleConn (intercept_set (\<lambda>_. []))
     \<lparr>hr_Method = ''CONNECT'', hr_Host = ''API.Anthropic.com:443'', hr_Path = [], hr_RequestURI = [], hr_Header = []\<rparr>
   = Intercept ''API.Anthropic.com:443'' []"
proof -
  have eq: "to_lower ''api.anthropic.com'' = to_lower ''API.Anthropic.com''" by code_simp
  have no_user: "extractProxyUser [] = []" by code_simp
  have "handleConn (intercept_set (\<lambda>_. []))
     \<lparr>hr_Method = ''CONNECT'', hr_Host = ''API.Anthropic.com:443'', hr_Path = [], hr_RequestURI = [], hr_Header = []\<rparr>
   = (if \<exists>h \<in> set (getEnvSlice (\<lambda>_. []) ''INTERCEPT_HOSTS'' defaultInterceptHosts). to_lower h = to_lower ''API.Anthropic.com''
      then Intercept ''API.Anthropic.com:443'' (extractProxyUser (header_get [] ''Proxy-Authorization''))
      else Tunnel (connect_header ''API.Anthropic.com:443'' (header_get [] ''Proxy-Authorization'')))"
    by (subst configured_hosts_are_intercepted [of _ "''API.Anthropic.com''" "''443''"]) simp_all
  then show ?thesis
    using eq no_user by (simp add: getEnvSlice_def defaultInterceptHosts_def header_get_def)
qed

end
