(* ===== verification/Webui.thy ===== *)
theory Webui
  imports Webui_Config Webui_Logs Org_CA Auth Settings Tls_Proxy
begin

text \<open>
  The HTTP interface of the web UI (\<open>webui/handler.go\<close>, \<open>webui/main.go\<close>): the routes, the two middlewares that check a
  session, and the handlers over the stores of \<open>Auth\<close>, \<open>Settings\<close>, \<open>Enroll_Tokens\<close>, \<open>Devices\<close>, \<open>Crl\<close>, \<open>Org_CA\<close>,
  \<open>Webui_Config\<close> and \<open>Webui_Logs\<close>.

  \<^item> Everything the server keeps is the record \<open>web_state\<close>; what the outside answers during one request is \<open>web_env\<close>.
  \<^item> Requests are served one after the other: the interleaving of two handlers between two locked operations is not
    modelled. Paths are as \<open>http.ServeMux\<close> hands them on, cleaned.
\<close>

record web_env =
  ve_now :: time
  ve_bcrypt :: bcrypt_lib
  ve_write :: overwrite             \<comment> \<open>the write in place, where the handler has one\<close>
  ve_rename :: bool                 \<comment> \<open>the write through a rename succeeds\<close>
  ve_crl_rename :: bool
  ve_lock :: flock_result
  ve_hash :: "string \<Rightarrow> 8 word list"
  ve_secret :: "8 word list"
  ve_ident :: "8 word list"
  ve_sort :: "web_log list \<Rightarrow> web_log list"
  ve_parse_time :: "string \<Rightarrow> time option"
  ve_logs :: "(string \<times> log_file) list option"
  ve_view :: "cert \<Rightarrow> cert_view"
  ve_sha256 :: "string \<Rightarrow> 8 word list"
  ve_static :: reply                \<comment> \<open>of the file server\<close>

record web_state =
  vs_users :: UserStore
  vs_sessions :: SessionStore
  vs_limiter :: rateLimiter
  vs_retention :: LogSettingsStore
  vs_notification :: NotificationSettingsStore
  vs_tokens :: EnrollTokenStore
  vs_registry :: registry
  vs_policy :: json_file
  vs_rules :: json_file
  vs_org_ca :: org_ca

definition error_text :: "store_error \<Rightarrow> string" where
  "error_text e =
     (case e of Invalid m \<Rightarrow> m | NotFound \<Rightarrow> ''not found'' | Duplicate \<Rightarrow> ''already exists''
      | LockTimeout \<Rightarrow> ''flock: timeout'' | LockFailed \<Rightarrow> ''flock'' | ReadFailed \<Rightarrow> ''read'' | WriteFailed \<Rightarrow> ''write'')"

subsection \<open>Logging in and out\<close>

record login_request =
  lq_Username :: string
  lq_Password :: string

definition login_body :: "string \<Rightarrow> login_request option" where
  "login_body body = decode_body
     (dec_struct [fld ''username'' dec_string lq_Username lq_Username_update,
                  fld ''password'' dec_string lq_Password lq_Password_update])
     \<lparr>lq_Username = [], lq_Password = []\<rparr> body"

definition user_json :: "string \<Rightarrow> string \<Rightarrow> role \<Rightarrow> json" where
  "user_json k name r = JObj [(''id'', JStr k), (''username'', JStr name), (''role'', JStr r)]"

definition login_failed :: "web_env \<Rightarrow> string \<Rightarrow> web_state \<Rightarrow> reply \<times> web_state" where
  \<comment> \<open>the same answer for every reason\<close>
  "login_failed E ip s =
     (http_fail 401 ''invalid credentials'', s\<lparr>vs_limiter := RecordFailure (ve_now E) ip (vs_limiter s)\<rparr>)"

definition handleLogin :: "web_env \<Rightarrow> web_request \<Rightarrow> web_state \<Rightarrow> reply \<times> web_state" where
  "handleLogin E req s =
     (if wq_Method req \<noteq> ''POST'' then (bad_verb, s)
      else
        (let ip = clientIP req; (allowed, rl) = Allow (ve_now E) ip (vs_limiter s); s1 = s\<lparr>vs_limiter := rl\<rparr> in
         if \<not> allowed then (http_fail 429 ''too many requests'', s1)
         else
           (case login_body (wq_Body req) of
              None \<Rightarrow> (http_fail 400 ''invalid JSON'', s1)
            | Some l \<Rightarrow>
                if lq_Username l = [] \<or> lq_Password l = [] then login_failed E ip s1
                else
                  (case Authenticate (ve_bcrypt E) (ve_now E) (lq_Username l) (lq_Password l) (vs_users s1) of
                     (Inl _, us) \<Rightarrow> login_failed E ip (s1\<lparr>vs_users := us\<rparr>)
                   | (Inr u, us) \<Rightarrow>
                       (let (token, ss) = Create_session (ve_now E) (ve_secret E) u (vs_sessions s1) in
                        ((json_reply 200 (user_json (us_ID u) (us_Username u) (us_Role u)))\<lparr>wr_Cookie := Some token\<rparr>,
                         s1\<lparr>vs_users := us, vs_sessions := ss, vs_limiter := RecordSuccess ip (vs_limiter s1)\<rparr>))))))"

definition handleLogout :: "web_request \<Rightarrow> Session \<Rightarrow> web_state \<Rightarrow> reply \<times> web_state" where
  "handleLogout req sess s =
     (if wq_Method req \<noteq> ''POST'' then (bad_verb, s)
      else ((status_only 204)\<lparr>wr_Cookie := Some []\<rparr>, s\<lparr>vs_sessions := Delete_session (sn_Token sess) (vs_sessions s)\<rparr>))"

definition handleMe :: "web_request \<Rightarrow> Session \<Rightarrow> web_state \<Rightarrow> reply \<times> web_state" where
  "handleMe req sess s =
     (if wq_Method req \<noteq> ''GET'' then (bad_verb, s)
      else (json_reply 200 (user_json (sn_UserID sess) (sn_Username sess) (sn_Role sess)), s))"

definition handleRateLimits :: "web_request \<Rightarrow> web_state \<Rightarrow> reply \<times> web_state" where
  "handleRateLimits req s =
     (if wq_Method req \<noteq> ''DELETE'' then (bad_verb, s)
      else (status_only 204, s\<lparr>vs_limiter := ClearAll (vs_limiter s)\<rparr>))"

subsection \<open>Accounts\<close>

definition enc_UserInfo :: "UserInfo \<Rightarrow> json" where
  "enc_UserInfo u = JObj
     [(''id'', JStr (ui_ID u)), (''username'', JStr (ui_Username u)), (''role'', JStr (ui_Role u)),
      (''created_at'', JTime (ui_CreatedAt u))]"

record user_request =
  uq_Username :: string
  uq_Password :: string
  uq_Role :: role

definition user_body :: "string \<Rightarrow> user_request option" where
  "user_body body = decode_body
     (dec_struct [fld ''username'' dec_string uq_Username uq_Username_update,
                  fld ''password'' dec_string uq_Password uq_Password_update,
                  fld ''role'' dec_string uq_Role uq_Role_update])
     \<lparr>uq_Username = [], uq_Password = [], uq_Role = []\<rparr> body"

definition string_body :: "string \<Rightarrow> string \<Rightarrow> string option" where
  \<comment> \<open>a request with one member that is read\<close>
  "string_body name body = decode_body (dec_struct [fld name dec_string id (\<lambda>f. f)]) [] body"

definition handleUsers :: "web_env \<Rightarrow> web_request \<Rightarrow> web_state \<Rightarrow> reply \<times> web_state" where
  "handleUsers E req s =
     (if wq_Method req = ''GET'' then (json_reply 200 (JArr (map enc_UserInfo (GetAll (vs_users s)))), s)
      else if wq_Method req = ''POST'' then
        (case user_body (wq_Body req) of
           None \<Rightarrow> (http_fail 400 ''invalid JSON'', s)
         | Some q \<Rightarrow>
             if uq_Username q = [] then (http_fail 400 ''username required'', s)
             else
               (case Create_user (ve_bcrypt E) (ve_write E) (ve_now E) (ve_ident E) (uq_Username q) (uq_Password q)
                       (uq_Role q) (vs_users s) of
                  (Inl e, us) \<Rightarrow> (http_fail 400 (error_text e), s\<lparr>vs_users := us\<rparr>)
                | (Inr u, us) \<Rightarrow> (json_reply 201 (enc_UserInfo (user_info u)), s\<lparr>vs_users := us\<rparr>)))
      else (bad_verb, s))"

definition change_account ::
  "int \<Rightarrow> string \<Rightarrow> (store_error + unit) \<times> UserStore \<Rightarrow> web_state \<Rightarrow> reply \<times> web_state" where
  \<comment> \<open>the end of three branches of \<open>handleUserByID\<close>: on success the sessions of the user are ended\<close>
  "change_account failure k r s =
     (case r of
        (Inl e, us) \<Rightarrow> (http_fail failure (error_text e), s\<lparr>vs_users := us\<rparr>)
      | (Inr _, us) \<Rightarrow> (status_only 204, s\<lparr>vs_users := us, vs_sessions := DeleteByUserID k (vs_sessions s)\<rparr>))"

definition handleUserByID :: "web_env \<Rightarrow> web_request \<Rightarrow> Session \<Rightarrow> web_state \<Rightarrow> reply \<times> web_state" where
  "handleUserByID E req actor s =
     (let (k, sub) = split_sub (trim_prefix (wq_Path req) ''/api/users/''); verb = wq_Method req in
      if k = [] then (http_fail 400 ''missing user id'', s)
      else if sub = ''unlock'' \<and> verb = ''POST'' then
        (case UnlockUser k (vs_users s) of
           (Inl e, us) \<Rightarrow> (http_fail 404 (error_text e), s\<lparr>vs_users := us\<rparr>)
         | (Inr _, us) \<Rightarrow> (status_only 204, s\<lparr>vs_users := us\<rparr>))
      else if sub = ''password'' \<and> verb = ''PUT'' then
        (if sn_Role actor \<noteq> RoleAdmin \<and> sn_UserID actor \<noteq> k then (http_fail 403 ''forbidden'', s)
         else
           (case string_body ''password'' (wq_Body req) of
              None \<Rightarrow> (http_fail 400 ''invalid JSON'', s)
            | Some p \<Rightarrow> change_account 400 k (UpdatePassword (ve_bcrypt E) (ve_write E) (ve_now E) k p (vs_users s)) s))
      else if sub = [] \<and> verb = ''PUT'' then
        (case string_body ''role'' (wq_Body req) of
           None \<Rightarrow> (http_fail 400 ''invalid JSON'', s)
         | Some r \<Rightarrow>
             if sn_UserID actor = k \<and> r \<noteq> RoleAdmin then (http_fail 400 ''cannot demote your own account'', s)
             else change_account 400 k (UpdateRole (ve_write E) (ve_now E) k r (vs_users s)) s)
      else if sub = [] \<and> verb = ''DELETE'' then
        (if sn_UserID actor = k then (http_fail 400 ''cannot delete your own account'', s)
         else if (case GetByID_user k (vs_users s) of None \<Rightarrow> False | Some u \<Rightarrow> us_Role u = RoleAdmin)
                 \<and> AdminCount (vs_users s) \<le> 1
         then (http_fail 400 ''cannot delete the last admin account'', s)
         else change_account 404 k (Delete_user (ve_write E) k (vs_users s)) s)
      else (bad_verb, s))"

subsection \<open>Settings\<close>

definition handleLogSettings :: "web_env \<Rightarrow> web_request \<Rightarrow> web_state \<Rightarrow> reply \<times> web_state" where
  "handleLogSettings E req s =
     (if wq_Method req = ''GET'' then (json_reply 200 (enc_LogSettings (ls_RetentionDays (vs_retention s))), s)
      else if wq_Method req = ''PUT'' then
        (case decode_body dec_LogSettings 0 (wq_Body req) of
           None \<Rightarrow> (http_fail 400 ''invalid JSON'', s)
         | Some n \<Rightarrow>
             (case Set_retention (ve_write E) n (vs_retention s) of
                (Inl _, st) \<Rightarrow> (http_fail 500 ''failed to save settings'', s\<lparr>vs_retention := st\<rparr>)
              | (Inr _, st) \<Rightarrow> (status_only 204, s\<lparr>vs_retention := st\<rparr>)))
      else (bad_verb, s))"

definition zero_settings :: NotificationSettings where
  "zero_settings = initial_settings\<lparr>ns_SMTPPort := []\<rparr>"

definition handleNotificationSettings :: "web_env \<Rightarrow> web_request \<Rightarrow> web_state \<Rightarrow> reply \<times> web_state" where
  "handleNotificationSettings E req s =
     (if wq_Method req = ''GET'' then (json_reply 200 (enc_NotificationSettings (GetMasked (vs_notification s))), s)
      else if wq_Method req = ''PUT'' then
        (case decode_body (dec_struct NotificationSettings_fields) zero_settings (wq_Body req) of
           None \<Rightarrow> (http_fail 400 ''invalid JSON'', s)
         | Some n \<Rightarrow>
             (case Set_notification (ve_write E) n (vs_notification s) of
                (Inl _, st) \<Rightarrow> (http_fail 500 ''failed to save settings'', s\<lparr>vs_notification := st\<rparr>)
              | (Inr _, st) \<Rightarrow> (status_only 204, s\<lparr>vs_notification := st\<rparr>)))
      else (bad_verb, s))"

subsection \<open>Enrollment, devices and revocations\<close>

definition handleOrgCACert :: "web_env \<Rightarrow> web_request \<Rightarrow> web_state \<Rightarrow> reply \<times> web_state" where
  "handleOrgCACert E req s =
     (if wq_Method req \<noteq> ''GET'' then (bad_verb, s)
      else (json_reply 200 (org_ca_json (ve_view E) (ve_sha256 E) (vs_org_ca s)), s))"

record token_request =
  tq_Description :: string
  tq_ExpiresInHours :: int
  tq_MaxUses :: int

definition token_body :: "string \<Rightarrow> token_request option" where
  "token_body body = decode_body
     (dec_struct [fld ''description'' dec_string tq_Description tq_Description_update,
                  fld ''expires_in_hours'' dec_int tq_ExpiresInHours tq_ExpiresInHours_update,
                  fld ''max_uses'' dec_int tq_MaxUses tq_MaxUses_update])
     \<lparr>tq_Description = [], tq_ExpiresInHours = 0, tq_MaxUses = 0\<rparr> body"

definition handleEnrollTokens :: "web_env \<Rightarrow> web_request \<Rightarrow> Session \<Rightarrow> web_state \<Rightarrow> reply \<times> web_state" where
  "handleEnrollTokens E req actor s =
     (if wq_Method req = ''GET'' then
        (let ts = snd (Reload_tokens (ve_lock E) (vs_tokens s)) in
         (json_reply 200 (enc_EnrollTokens (ts_tokens ts)), s\<lparr>vs_tokens := ts\<rparr>))
      else if wq_Method req = ''POST'' then
        (case token_body (wq_Body req) of
           None \<Rightarrow> (http_fail 400 ''invalid JSON'', s)
         | Some q \<Rightarrow>
             (case Create_token (ve_lock E) (ve_rename E) (ve_now E) (ve_hash E) (ve_secret E) (ve_ident E)
                     \<lparr>co_Description = tq_Description q, co_ExpiresInHours = tq_ExpiresInHours q,
                      co_MaxUses = tq_MaxUses q, co_CreatedBy = sn_Username actor\<rparr> (vs_tokens s) of
                (Inl e, ts) \<Rightarrow> (http_fail 400 (error_text e), s\<lparr>vs_tokens := ts\<rparr>)
              | (Inr (tok, plaintext), ts) \<Rightarrow>
                  (json_reply 201 (JObj
                     [(''id'', JStr (et_ID tok)), (''description'', JStr (et_Description tok)),
                      (''token'', JStr plaintext), (''expires_at'', JTime (et_ExpiresAt tok)),
                      (''max_uses'', enc_int (et_MaxUses tok)), (''created_at'', JTime (et_CreatedAt tok)),
                      (''url'', JStr ((if wq_TLS req then ''https'' else ''http'') @ ''://'' @ wq_Host req @ ''/enroll''))]),
                   s\<lparr>vs_tokens := ts\<rparr>)))
      else (bad_verb, s))"

definition handleEnrollTokenByID :: "web_env \<Rightarrow> web_request \<Rightarrow> web_state \<Rightarrow> reply \<times> web_state" where
  "handleEnrollTokenByID E req s =
     (let k = trim_prefix (wq_Path req) ''/api/enroll-tokens/'' in
      if k = [] \<or> contains k ''/'' then (http_fail 400 ''missing or invalid token id'', s)
      else if wq_Method req = ''DELETE'' then
        (case Revoke_token (ve_lock E) (ve_rename E) (ve_now E) k (vs_tokens s) of
           (Inl e, ts) \<Rightarrow>
             (if e = NotFound then http_fail 404 ''not found'' else http_fail 500 (error_text e), s\<lparr>vs_tokens := ts\<rparr>)
         | (Inr _, ts) \<Rightarrow> (status_only 204, s\<lparr>vs_tokens := ts\<rparr>))
      else (bad_verb, s))"

definition set_devices :: "DeviceStore \<Rightarrow> web_state \<Rightarrow> web_state" where
  "set_devices ds s = s\<lparr>vs_registry := (vs_registry s)\<lparr>rg_devices := ds\<rparr>\<rparr>"

definition handleDevices :: "web_request \<Rightarrow> web_state \<Rightarrow> reply \<times> web_state" where
  \<comment> \<open>errors of the reload are ignored\<close>
  "handleDevices req s =
     (if wq_Method req \<noteq> ''GET'' then (bad_verb, s)
      else
        (let ds = snd (load_devices (rg_devices (vs_registry s))) in
         (json_reply 200 (enc_devices (ds_devices ds)), set_devices ds s)))"

definition handleDeviceByID :: "web_env \<Rightarrow> web_request \<Rightarrow> web_state \<Rightarrow> reply \<times> web_state" where
  "handleDeviceByID E req s =
     (let (k, sub) = split_sub (trim_prefix (wq_Path req) ''/api/devices/'') in
      if k = [] then (http_fail 400 ''missing device id'', s)
      else if sub = [] \<and> wq_Method req = ''GET'' then
        (let ds = snd (load_devices (rg_devices (vs_registry s))) in
         (case GetByID_device k ds of
            None \<Rightarrow> http_fail 404 ''not found'' | Some d \<Rightarrow> json_reply 200 (enc_Device d), set_devices ds s))
      else if sub = ''revoke'' \<and> wq_Method req = ''POST'' then
        (case Revoke_device (ve_rename E) (ve_crl_rename E) (ve_now E) k (vs_registry s) of
           (Inl e, rg) \<Rightarrow>
             (if e = NotFound then http_fail 404 ''not found'' else http_fail 500 (error_text e), s\<lparr>vs_registry := rg\<rparr>)
         | (Inr _, rg) \<Rightarrow> (status_only 204, s\<lparr>vs_registry := rg\<rparr>))
      else (bad_verb, s))"

definition handleRevoked :: "web_request \<Rightarrow> web_state \<Rightarrow> reply \<times> web_state" where
  \<comment> \<open>the registry has the list since \<open>SetCRL\<close> in \<open>main\<close>\<close>
  "handleRevoked req s =
     (if wq_Method req \<noteq> ''GET'' then (bad_verb, s)
      else
        (case rg_crl (vs_registry s) of
           None \<Rightarrow> (json_reply 200 (JArr []), s)
         | Some c \<Rightarrow>
             (let c' = snd (Reload_crl c) in
              (json_reply 200 (JArr (map enc_RevokedEntry (cr_entries c'))),
               s\<lparr>vs_registry := SetCRL c' (vs_registry s)\<rparr>))))"

subsection \<open>Routes\<close>

datatype endpoint = Login | Logout | Me | Users | UserByID | Settings_api | Notification | RateLimits | Logs | Policy_api
  | Rules_api | OrgCACert | EnrollTokens | EnrollTokenByID | Devices_api | DeviceByID | Revoked_api | Static

definition endpoint_of :: "string \<Rightarrow> endpoint" where
  \<comment> \<open>the patterns of \<open>registerHandlers\<close>: exact paths first, then those that end in a slash\<close>
  "endpoint_of p =
     (if p = ''/api/auth/login'' then Login
      else if p = ''/api/auth/logout'' then Logout
      else if p = ''/api/auth/me'' then Me
      else if p = ''/api/users'' then Users
      else if p = ''/api/settings'' then Settings_api
      else if p = ''/api/notification'' then Notification
      else if p = ''/api/auth/rate-limits'' then RateLimits
      else if p = ''/api/logs'' then Logs
      else if p = ''/api/policy'' then Policy_api
      else if p = ''/api/rules'' \<or> has_prefix p ''/api/rules/'' then Rules_api
      else if p = ''/api/org-ca/cert'' then OrgCACert
      else if p = ''/api/enroll-tokens'' then EnrollTokens
      else if p = ''/api/devices'' then Devices_api
      else if p = ''/api/revoked'' then Revoked_api
      else if has_prefix p ''/api/users/'' then UserByID
      else if has_prefix p ''/api/enroll-tokens/'' then EnrollTokenByID
      else if has_prefix p ''/api/devices/'' then DeviceByID
      else Static)"

definition requireAuth ::
  "web_env \<Rightarrow> web_request \<Rightarrow> (Session \<Rightarrow> web_state \<Rightarrow> reply \<times> web_state) \<Rightarrow> web_state \<Rightarrow> reply \<times> web_state" where
  "requireAuth E req continue s =
     (case wq_Cookie req of
        None \<Rightarrow> (http_fail 401 ''unauthorized'', s)
      | Some token \<Rightarrow>
          (case Get_session (ve_now E) token (vs_sessions s) of
             (None, ss) \<Rightarrow> (http_fail 401 ''session expired'', s\<lparr>vs_sessions := ss\<rparr>)
           | (Some sess, ss) \<Rightarrow> continue sess (s\<lparr>vs_sessions := ss\<rparr>)))"

definition requireAdmin ::
  "web_env \<Rightarrow> web_request \<Rightarrow> (Session \<Rightarrow> web_state \<Rightarrow> reply \<times> web_state) \<Rightarrow> web_state \<Rightarrow> reply \<times> web_state" where
  "requireAdmin E req continue =
     requireAuth E req (\<lambda>sess s. if sn_Role sess \<noteq> RoleAdmin then (http_fail 403 ''forbidden'', s) else continue sess s)"

definition serve_web :: "web_env \<Rightarrow> web_request \<Rightarrow> web_state \<Rightarrow> reply \<times> web_state" where
  "serve_web E req s =
     (case endpoint_of (wq_Path req) of
        Login \<Rightarrow> handleLogin E req s
      | Static \<Rightarrow> (ve_static E, s)
      | Logout \<Rightarrow> requireAuth E req (handleLogout req) s
      | Me \<Rightarrow> requireAuth E req (handleMe req) s
      | Logs \<Rightarrow> requireAuth E req (\<lambda>_ s. (handleLogs (ve_sort E) (ve_parse_time E) req (ve_logs E), s)) s
      | Policy_api \<Rightarrow> requireAuth E req (\<lambda>_ s. case handlePolicy (ve_write E) (ve_now E) req (vs_policy s) of
            (rp, f) \<Rightarrow> (rp, s\<lparr>vs_policy := f\<rparr>)) s
      | Rules_api \<Rightarrow> requireAuth E req (\<lambda>_ s. case serve_rules (ve_write E) req (vs_rules s) of
            (rp, f) \<Rightarrow> (rp, s\<lparr>vs_rules := f\<rparr>)) s
      | Users \<Rightarrow> requireAdmin E req (\<lambda>_. handleUsers E req) s
      | UserByID \<Rightarrow> requireAdmin E req (handleUserByID E req) s
      | Settings_api \<Rightarrow> requireAdmin E req (\<lambda>_. handleLogSettings E req) s
      | Notification \<Rightarrow> requireAdmin E req (\<lambda>_. handleNotificationSettings E req) s
      | RateLimits \<Rightarrow> requireAdmin E req (\<lambda>_. handleRateLimits req) s
      | OrgCACert \<Rightarrow> requireAdmin E req (\<lambda>_. handleOrgCACert E req) s
      | EnrollTokens \<Rightarrow> requireAdmin E req (handleEnrollTokens E req) s
      | EnrollTokenByID \<Rightarrow> requireAdmin E req (\<lambda>_. handleEnrollTokenByID E req) s
      | Devices_api \<Rightarrow> requireAdmin E req (\<lambda>_. handleDevices req) s
      | DeviceByID \<Rightarrow> requireAdmin E req (\<lambda>_. handleDeviceByID E req) s
      | Revoked_api \<Rightarrow> requireAdmin E req (\<lambda>_. handleRevoked req) s)"

definition securityHeaders :: "(string \<times> string) list" where
  \<open>securityHeaders =
     [(''X-Content-Type-Options'', ''nosniff''), (''X-Frame-Options'', ''DENY''), (''Referrer-Policy'', ''no-referrer''),
      (''Content-Security-Policy'', ''default-src '' @ [CHR 0x27] @ ''none'' @ [CHR 0x27] @ ''; script-src '' @ [CHR 0x27] @ ''self''
         @ [CHR 0x27] @ ''; style-src '' @ [CHR 0x27] @ ''self'' @ [CHR 0x27] @ '' '' @ [CHR 0x27] @ ''unsafe-inline'' @ [CHR 0x27]
         @ ''; img-src '' @ [CHR 0x27] @ ''self'' @ [CHR 0x27] @ '' data:; connect-src '' @ [CHR 0x27] @ ''self'' @ [CHR 0x27]
         @ ''; font-src '' @ [CHR 0x27] @ ''self'' @ [CHR 0x27])]\<close>

definition WithSecurityHeaders :: "web_env \<Rightarrow> web_request \<Rightarrow> web_state \<Rightarrow> ((string \<times> string) list \<times> reply) \<times> web_state" where
  \<comment> \<open>the headers are set before the handler runs\<close>
  "WithSecurityHeaders E req s = (case serve_web E req s of (rp, s') \<Rightarrow> ((securityHeaders, rp), s'))"

subsection \<open>The start\<close>

definition validateDir :: "(string \<Rightarrow> string option) \<Rightarrow> string \<Rightarrow> bool" where
  \<comment> \<open>\<open>validateLogDir\<close> and \<open>validateConfigDir\<close>: what \<open>filepath.EvalSymlinks\<close> gives is an argument\<close>
  "validateDir resolve d \<longleftrightarrow> has_prefix d ''/'' \<and> resolve d = Some d"

record config_files =
  wf_users :: json_file
  wf_settings :: json_file
  wf_notification :: json_file
  wf_org_ca :: ca_files
  wf_tokens :: json_file
  wf_devices :: json_file
  wf_revoked :: json_file
  wf_policy :: json_file
  wf_rules :: json_file

record start_env =
  sv_env :: "string \<Rightarrow> string"
  sv_resolve :: "string \<Rightarrow> string option"
  sv_bcrypt :: bcrypt_lib
  sv_write :: overwrite              \<comment> \<open>of \<open>users.json\<close>\<close>
  sv_now :: time
  sv_password :: "8 word list"
  sv_ident :: "8 word list"
  sv_x509 :: x509_lib
  sv_ca_lib :: ca_lib
  sv_ca_env :: ca_env

definition start_webui :: "start_env \<Rightarrow> config_files \<Rightarrow> web_state option" where
  \<comment> \<open>\<open>main\<close> up to the listener; \<open>None\<close>: it ends with a message\<close>
  "start_webui E fs =
     (if \<not> validateDir (sv_resolve E) (getEnv (sv_env E) ''LOG_DIR'' ''/logs'') then None
      else if \<not> validateDir (sv_resolve E) (getEnv (sv_env E) ''CONFIG_DIR'' ''/config'') then None
      else
        (case newUserStore (sv_bcrypt E) (sv_write E) (sv_now E) (sv_password E) (sv_ident E) (wf_users fs) of
           None \<Rightarrow> None
         | Some us \<Rightarrow>
        (case newLogSettingsStore (wf_settings fs) of
           None \<Rightarrow> None
         | Some ls \<Rightarrow>
        (case newNotificationSettingsStore (wf_notification fs) of
           None \<Rightarrow> None
         | Some ns \<Rightarrow>
        (case newOrgCA (sv_x509 E) (sv_ca_lib E) (sv_ca_env E) (sv_env E ''ORG_NAME'') (wf_org_ca fs) of
           (Inl _, _) \<Rightarrow> None
         | (Inr ca, _) \<Rightarrow>
        (case newEnrollTokenStore (wf_tokens fs) of
           None \<Rightarrow> None
         | Some ts \<Rightarrow>
        (case newDeviceStore (wf_devices fs) of
           None \<Rightarrow> None
         | Some ds \<Rightarrow>
        (case newCRLStore (wf_revoked fs) of
           None \<Rightarrow> None
         | Some c \<Rightarrow>
             Some \<lparr>vs_users = us, vs_sessions = [], vs_limiter = [], vs_retention = ls, vs_notification = ns,
                   vs_tokens = ts, vs_registry = SetCRL c \<lparr>rg_devices = ds, rg_crl = None\<rparr>,
                   vs_policy = wf_policy fs, vs_rules = wf_rules fs, vs_org_ca = ca\<rparr>))))))))"

end
