(* ===== verification/Webui_Access.thy ===== *)
theory Webui_Access
  imports Webui
begin

text \<open>
  Who may do what in the web UI: no endpoint but the login works without a session, the administrator's endpoints need an
  administrator's session, sessions carry the role the account has now, and an administrator always remains.
\<close>

subsection \<open>The middlewares\<close>

definition admin_only :: "endpoint set" where
  "admin_only = {Users, UserByID, Settings_api, Notification, RateLimits, OrgCACert, EnrollTokens, EnrollTokenByID,
     Devices_api, DeviceByID, Revoked_api}"

definition session_of :: "time \<Rightarrow> web_request \<Rightarrow> web_state \<Rightarrow> Session option" where
  \<comment> \<open>the session the request's cookie names, if it has not expired\<close>
  "session_of now req s =
     (case wq_Cookie req of None \<Rightarrow> None | Some token \<Rightarrow> fst (Get_session now token (vs_sessions s)))"

lemma Get_session_cases:
  "(\<exists>sn. Get_session now t ss = (Some sn, ss) \<and> (t, sn) \<in> set ss \<and> now \<le> sn_ExpiresAt sn)
   \<or> Get_session now t ss = (None, ss) \<or> Get_session now t ss = (None, Delete_session t ss)"
  by (auto simp: Get_session_def dest!: find_by_SomeD split: option.splits)

lemma requireAuth_None:
  assumes "session_of (ve_now E) req s = None"
  shows "wr_Status (fst (requireAuth E req h s)) = 401"
    and "\<exists>ss. snd (requireAuth E req h s) = s\<lparr>vs_sessions := ss\<rparr> \<and> set ss \<subseteq> set (vs_sessions s)"
proof -
  consider "wq_Cookie req = None" | t where "wq_Cookie req = Some t" "Get_session (ve_now E) t (vs_sessions s) = (None, vs_sessions s)"
    | t where "wq_Cookie req = Some t" "Get_session (ve_now E) t (vs_sessions s) = (None, Delete_session t (vs_sessions s))"
    using assms Get_session_cases [of "ve_now E" _ "vs_sessions s"]
    by (cases "wq_Cookie req") (auto simp: session_of_def, metis fst_conv option.distinct(1))
  then show "wr_Status (fst (requireAuth E req h s)) = 401"
    and "\<exists>ss. snd (requireAuth E req h s) = s\<lparr>vs_sessions := ss\<rparr> \<and> set ss \<subseteq> set (vs_sessions s)"
    by (cases; force simp: requireAuth_def Delete_session_def)+
qed

lemma requireAuth_Some:
  "session_of (ve_now E) req s = Some sn \<Longrightarrow> requireAuth E req h s = h sn s"
  using Get_session_cases [of "ve_now E" "the (wq_Cookie req)" "vs_sessions s"]
  by (auto simp: session_of_def requireAuth_def split: option.splits)


subsection \<open>Roles\<close>

definition roles :: "UserStore \<Rightarrow> (string \<times> role) list" where
  "roles us = map (\<lambda>u. (us_ID u, us_Role u)) (st_users us)"

lemma roles_same: "(\<And>u. us_ID (f u) = us_ID u \<and> us_Role (f u) = us_Role u) \<Longrightarrow>
    map (\<lambda>u. (us_ID u, us_Role u)) (update_first key k f us) = map (\<lambda>u. (us_ID u, us_Role u)) us"
  by (induction us) auto

lemma roles_Authenticate:
  "roles (snd (Authenticate B now username password us)) = roles us"
  by (auto simp: Authenticate_def roles_def roles_same split: option.splits)

lemma Authenticate_role:
  "Authenticate B now username password us = (Inr u, us') \<Longrightarrow> (us_ID u, us_Role u) \<in> set (roles us)"
  by (auto simp: Authenticate_def roles_def dest!: find_by_SomeD split: option.splits if_splits)

lemma roles_UnlockUser: "roles (snd (UnlockUser k us)) = roles us"
  by (auto simp: UnlockUser_def roles_def roles_same fresh_lockout_def)

lemma roles_save: "roles (snd (save_users w us)) = roles us"
  by (simp add: save_users_def roles_def)

lemma roles_UpdatePassword: "roles (snd (UpdatePassword B w now k p us)) = roles us"
  using roles_save
  by (auto simp: UpdatePassword_def change_user_def split: option.splits) (simp add: roles_def roles_same)

lemma roles_UpdateRole:
  "case UpdateRole Written now k r us of
     (Inl _, us') \<Rightarrow> us' = us
   | (Inr _, us') \<Rightarrow> roles us' = update_first fst k (\<lambda>_. (k, r)) (roles us)"
proof -
  have "map (\<lambda>u. (us_ID u, us_Role u)) (update_first us_ID k (\<lambda>u. u\<lparr>us_Role := r, us_UpdatedAt := now\<rparr>) us)
      = update_first fst k (\<lambda>_. (k, r)) (map (\<lambda>u. (us_ID u, us_Role u)) us)" for us
    by (induction us) auto
  then show ?thesis by (auto simp: UpdateRole_def change_user_def save_users_def roles_def)
qed

lemma roles_Delete_user:
  "case Delete_user Written k us of
     (Inl _, us') \<Rightarrow> us' = us
   | (Inr _, us') \<Rightarrow> roles us' = remove_first fst k (roles us)"
proof -
  have "map (\<lambda>u. (us_ID u, us_Role u)) (remove_first us_ID k us) = remove_first fst k (map (\<lambda>u. (us_ID u, us_Role u)) us)" for us
    by (induction us) auto
  then show ?thesis by (auto simp: Delete_user_def save_users_def roles_def)
qed

lemma roles_Create_user:
  "generateToken ident \<notin> fst ` set (roles us) \<Longrightarrow>
     roles (snd (Create_user B w now ident username password r us)) \<in> {roles us, roles us @ [(generateToken ident, r)]}"
  by (auto simp: Create_user_def roles_def put_user_def save_users_def find_by_None_iff image_image Let_def
      split: option.splits)

subsection \<open>Sessions and accounts\<close>

definition accounts_ok :: "(string \<times> role) list \<Rightarrow> SessionStore \<Rightarrow> bool" where
  \<comment> \<open>identifiers are unique, there is an administrator, and every session is one of an account with its role\<close>
  "accounts_ok rs ss \<longleftrightarrow>
     distinct (map fst rs) \<and> RoleAdmin \<in> snd ` set rs \<and> (\<forall>(t, sn) \<in> set ss. (sn_UserID sn, sn_Role sn) \<in> set rs)"

lemma accounts_ok_subset: "accounts_ok rs ss \<Longrightarrow> set ss' \<subseteq> set ss \<Longrightarrow> accounts_ok rs ss'"
  by (auto simp: accounts_ok_def)

lemma accounts_ok_login:
  "accounts_ok rs ss \<Longrightarrow> (us_ID u, us_Role u) \<in> set rs \<Longrightarrow> accounts_ok rs (snd (Create_session now r u ss))"
  using set_set_key
  by (fastforce simp: accounts_ok_def Create_session_def Let_def)

lemma accounts_ok_create:
  "accounts_ok rs ss \<Longrightarrow> k \<notin> fst ` set rs \<Longrightarrow> accounts_ok (rs @ [(k, r)]) ss"
  by (auto simp: accounts_ok_def)

lemma set_update_role:
  "set (update_first fst k (\<lambda>_. (k, r)) rs) \<subseteq> insert (k, r) (set rs)"
  by (induction rs) auto

lemma in_update_role: "(j, x) \<in> set rs \<Longrightarrow> j \<noteq> k \<Longrightarrow> (j, x) \<in> set (update_first fst k (\<lambda>_. (k, r)) rs)"
  by (induction rs) auto

lemma update_role_new: "k \<in> fst ` set rs \<Longrightarrow> (k, r) \<in> set (update_first fst k (\<lambda>_. (k, r)) rs)"
  by (induction rs) auto

lemma in_remove_role: "(j, x) \<in> set rs \<Longrightarrow> j \<noteq> k \<Longrightarrow> (j, x) \<in> set (remove_first fst k rs)"
  by (induction rs) auto

lemma other_sessions: "(t, sn) \<in> set (DeleteByUserID k ss) \<Longrightarrow> (t, sn) \<in> set ss \<and> sn_UserID sn \<noteq> k"
  by (auto simp: DeleteByUserID_def)

text \<open>
  The actor of a change is an administrator by its session. The role of another account, or of its own account to
  administrator, can change, and another account can go: the actor's account stays and stays an administrator's.
\<close>

lemma accounts_ok_change:
  assumes ok: "accounts_ok rs ss" and actor: "(t, sn) \<in> set ss" "sn_Role sn = RoleAdmin"
  shows "sn_UserID sn \<noteq> k \<or> r = RoleAdmin \<Longrightarrow>
           accounts_ok (update_first fst k (\<lambda>_. (k, r)) rs) (DeleteByUserID k ss)"
    and "sn_UserID sn \<noteq> k \<Longrightarrow> accounts_ok (remove_first fst k rs) (DeleteByUserID k ss)"
proof -
  have me: "(sn_UserID sn, RoleAdmin) \<in> set rs" using ok actor by (auto simp: accounts_ok_def)
  have keys: "map fst (update_first fst k (\<lambda>_. (k, r)) rs) = map fst rs" by (induction rs) auto
  have others: "\<forall>(t, sn) \<in> set (DeleteByUserID k ss). (sn_UserID sn, sn_Role sn) \<in> set rs \<and> sn_UserID sn \<noteq> k"
    using ok by (auto simp: accounts_ok_def dest!: other_sessions)
  show "accounts_ok (update_first fst k (\<lambda>_. (k, r)) rs) (DeleteByUserID k ss)"
    if "sn_UserID sn \<noteq> k \<or> r = RoleAdmin"
  proof -
    have "\<exists>j. (j, RoleAdmin) \<in> set (update_first fst k (\<lambda>_. (k, r)) rs)"
    proof (cases "sn_UserID sn = k")
      case True
      then have "k \<in> fst ` set rs" using me by force
      then show ?thesis using that True update_role_new [of k rs r] by auto
    next
      case False
      then show ?thesis using in_update_role [OF me False] by auto
    qed
    then have "RoleAdmin \<in> snd ` set (update_first fst k (\<lambda>_. (k, r)) rs)" by force
    moreover have "(sn_UserID (snd p), sn_Role (snd p)) \<in> set (update_first fst k (\<lambda>_. (k, r)) rs)"
      if "p \<in> set (DeleteByUserID k ss)" for p
      using others that by (intro in_update_role) auto
    ultimately show ?thesis using ok keys unfolding accounts_ok_def by (simp add: split_beta)
  qed
  show "accounts_ok (remove_first fst k rs) (DeleteByUserID k ss)" if "sn_UserID sn \<noteq> k"
  proof -
    have "RoleAdmin \<in> snd ` set (remove_first fst k rs)"
      using in_remove_role [OF me that] by force
    moreover have "(sn_UserID (snd p), sn_Role (snd p)) \<in> set (remove_first fst k rs)"
      if "p \<in> set (DeleteByUserID k ss)" for p
      using others that by (intro in_remove_role) auto
    ultimately show ?thesis
      using ok distinct_remove_first [of fst rs k] unfolding accounts_ok_def by (simp add: split_beta)
  qed
qed

definition web_ok :: "web_state \<Rightarrow> bool" where
  "web_ok s \<longleftrightarrow> accounts_ok (roles (vs_users s)) (vs_sessions s)"

lemma session_of_in: "session_of now req s = Some sn \<Longrightarrow> \<exists>t. (t, sn) \<in> set (vs_sessions s)"
  using Get_session_cases [of now "the (wq_Cookie req)" "vs_sessions s"]
  by (auto simp: session_of_def split: option.splits)

lemma web_ok_login: "web_ok s \<Longrightarrow> web_ok (snd (handleLogin E req s))"
  using roles_Authenticate [of "ve_bcrypt E" "ve_now E"]
  by (auto simp: web_ok_def handleLogin_def login_failed_def Let_def split_beta
      intro!: accounts_ok_login dest: Authenticate_role split: option.splits sum.splits)
    (metis Authenticate_role accounts_ok_login prod.collapse snd_conv)+

lemma web_ok_change_account:
  assumes "web_ok s" and "case r of
       (Inl _, us) \<Rightarrow> roles us = roles (vs_users s)
     | (Inr _, us) \<Rightarrow> accounts_ok (roles us) (DeleteByUserID k (vs_sessions s))"
  shows "web_ok (snd (change_account n k r s))"
  using assms by (auto simp: change_account_def web_ok_def split: prod.splits sum.splits)

lemma web_ok_users:
  assumes ok: "web_ok s" and "ve_write E = Written" and fresh: "generateToken (ve_ident E) \<notin> fst ` set (roles (vs_users s))"
  shows "web_ok (snd (handleUsers E req s))"
proof -
  note created = roles_Create_user [OF fresh, where B = "ve_bcrypt E" and w = "ve_write E" and now = "ve_now E"]
  have "accounts_ok (roles us) (vs_sessions s)"
    if "Create_user (ve_bcrypt E) (ve_write E) (ve_now E) (ve_ident E) u p r (vs_users s) = (x, us)" for u p r x us
    using created [of u p r] that ok accounts_ok_create [OF _ fresh] by (auto simp: web_ok_def)
  then show ?thesis
    using ok by (auto simp: handleUsers_def web_ok_def split: option.splits sum.splits prod.splits)
qed

lemma web_ok_user_by_id:
  assumes ok: "web_ok s" and w: "ve_write E = Written"
    and actor: "(t, actor) \<in> set (vs_sessions s)" "sn_Role actor = RoleAdmin"
  shows "web_ok (snd (handleUserByID E req actor s))"
proof -
  note accounts = ok [unfolded web_ok_def]
  have sessions: "accounts_ok (roles (vs_users s)) (DeleteByUserID k (vs_sessions s))" for k
    using accounts by (rule accounts_ok_subset) (auto simp: DeleteByUserID_def)
  have unlock: "web_ok (s\<lparr>vs_users := snd (UnlockUser k (vs_users s))\<rparr>)" for k
    using accounts by (simp add: web_ok_def roles_UnlockUser)
  have password: "web_ok (snd (change_account n k (UpdatePassword B (ve_write E) now k p (vs_users s)) s))" for n B now k p
    using roles_UpdatePassword [of B "ve_write E" now k p "vs_users s"] sessions [of k]
    by (intro web_ok_change_account [OF ok]) (auto split: prod.splits sum.splits)
  have role: "web_ok (snd (change_account n k (UpdateRole (ve_write E) now k r (vs_users s)) s))"
    if "sn_UserID actor \<noteq> k \<or> r = RoleAdmin" for n now k r
    using roles_UpdateRole [where now = now and k = k and r = r and us = "vs_users s"] accounts_ok_change(1) [OF accounts actor that]
    by (intro web_ok_change_account [OF ok]) (auto simp: w split: prod.splits sum.splits)
  have delete: "web_ok (snd (change_account n k (Delete_user (ve_write E) k (vs_users s)) s))"
    if "sn_UserID actor \<noteq> k" for n k
    using roles_Delete_user [where k = k and us = "vs_users s"] accounts_ok_change(2) [OF accounts actor that]
    by (intro web_ok_change_account [OF ok]) (auto simp: w split: prod.splits sum.splits)
  have ifs: "(b \<Longrightarrow> web_ok (snd x)) \<Longrightarrow> (\<not> b \<Longrightarrow> web_ok (snd y)) \<Longrightarrow> web_ok (snd (if b then x else y))"
    for b and x y :: "reply \<times> web_state" by simp
  have body: "(\<And>x. web_ok (snd (g x))) \<Longrightarrow> web_ok (snd (case q of None \<Rightarrow> (http_fail n m, s) | Some x \<Rightarrow> g x))"
    for q :: "string option" and g n m using ok by (cases q) auto
  obtain k sub where sp: "split_sub (trim_prefix (wq_Path req) ''/api/users/'') = (k, sub)" by fastforce
  have unlocked: "web_ok (snd (case UnlockUser k (vs_users s) of
           (Inl e, us) \<Rightarrow> (http_fail 404 (error_text e), s\<lparr>vs_users := us\<rparr>)
         | (Inr _, us) \<Rightarrow> (status_only 204, s\<lparr>vs_users := us\<rparr>)))"
    using unlock [of k] by (auto split: prod.splits sum.splits)
  show ?thesis
    unfolding handleUserByID_def Let_def sp prod.case
    by (intro ifs body unlocked password role delete) (auto simp: ok)
qed

lemma web_ok_require:
  assumes "web_ok s" and "\<And>sn t. session_of (ve_now E) req s = Some sn \<Longrightarrow> web_ok (snd (h sn s))"
  shows "web_ok (snd (requireAuth E req h s))"
proof (cases "session_of (ve_now E) req s")
  case None
  then show ?thesis
    using requireAuth_None(2) [OF None, of h] assms(1) by (auto simp: web_ok_def intro: accounts_ok_subset)
qed (use requireAuth_Some [of E req s] assms in simp)

lemma web_ok_keep:
  "web_ok s \<Longrightarrow> vs_users s' = vs_users s \<Longrightarrow> vs_sessions s' = vs_sessions s \<Longrightarrow> web_ok s'"
  by (simp add: web_ok_def)

lemma handlers_keep:
  "vs_users (snd (handleLogSettings E req s)) = vs_users s" "vs_sessions (snd (handleLogSettings E req s)) = vs_sessions s"
  "vs_users (snd (handleNotificationSettings E req s)) = vs_users s"
  "vs_sessions (snd (handleNotificationSettings E req s)) = vs_sessions s"
  "vs_users (snd (handleRateLimits req s)) = vs_users s" "vs_sessions (snd (handleRateLimits req s)) = vs_sessions s"
  "vs_users (snd (handleOrgCACert E req s)) = vs_users s" "vs_sessions (snd (handleOrgCACert E req s)) = vs_sessions s"
  "vs_users (snd (handleEnrollTokens E req sn s)) = vs_users s"
  "vs_sessions (snd (handleEnrollTokens E req sn s)) = vs_sessions s"
  "vs_users (snd (handleEnrollTokenByID E req s)) = vs_users s"
  "vs_sessions (snd (handleEnrollTokenByID E req s)) = vs_sessions s"
  "vs_users (snd (handleDevices req s)) = vs_users s" "vs_sessions (snd (handleDevices req s)) = vs_sessions s"
  "vs_users (snd (handleDeviceByID E req s)) = vs_users s" "vs_sessions (snd (handleDeviceByID E req s)) = vs_sessions s"
  "vs_users (snd (handleRevoked req s)) = vs_users s" "vs_sessions (snd (handleRevoked req s)) = vs_sessions s"
  "vs_users (snd (handleMe req sn s)) = vs_users s" "vs_sessions (snd (handleMe req sn s)) = vs_sessions s"
  by (simp_all add: handleLogSettings_def handleNotificationSettings_def handleRateLimits_def handleOrgCACert_def
      handleEnrollTokens_def handleEnrollTokenByID_def handleDevices_def handleDeviceByID_def handleRevoked_def handleMe_def
      set_devices_def Let_def split: option.split sum.split prod.split)

lemma web_ok_serve:
  assumes ok: "web_ok s" and "ve_write E = Written" and "generateToken (ve_ident E) \<notin> fst ` set (roles (vs_users s))"
  shows "web_ok (snd (serve_web E req s))"
proof -
  have logout: "web_ok (snd (handleLogout req sn s))" for sn
    using ok by (auto simp: handleLogout_def web_ok_def Delete_session_def intro: accounts_ok_subset)
  have by_id: "web_ok (snd (handleUserByID E req sn s))"
    if "session_of (ve_now E) req s = Some sn" "sn_Role sn = RoleAdmin" for sn
    using web_ok_user_by_id [OF ok assms(2)] session_of_in [OF that(1)] that(2) by blast
  show ?thesis
    using web_ok_login [OF ok] web_ok_users [OF assms] logout by_id ok
    by (cases "endpoint_of (wq_Path req)")
      (auto simp: serve_web_def requireAdmin_def handlers_keep split_beta intro!: web_ok_require intro: web_ok_keep [OF ok])
qed

inductive web_reach :: "web_state \<Rightarrow> bool" where
  \<comment> \<open>the states of a server whose user file has an administrator, while its writes succeed and new accounts get new identifiers\<close>
  web_started: "start_webui E fs = Some s \<Longrightarrow> 0 < AdminCount (vs_users s) \<Longrightarrow> web_reach s"
| web_served: "web_reach s \<Longrightarrow> ve_write E = Written \<Longrightarrow>
     generateToken (ve_ident E) \<notin> us_ID ` set (st_users (vs_users s)) \<Longrightarrow> web_reach (snd (serve_web E req s))"

inductive_cases web_reachE: "web_reach s"

lemma distinct_put_user: "distinct (map us_ID us) \<Longrightarrow> distinct (map us_ID (put_user u us))"
proof -
  have "map us_ID (update_first us_ID (us_ID u) (\<lambda>_. u) us) = map us_ID us" by (induction us) auto
  then show "distinct (map us_ID us) \<Longrightarrow> distinct (map us_ID (put_user u us))"
    by (auto simp: put_user_def find_by_None_iff)
qed

lemma distinct_fold_put: "distinct (map us_ID us) \<Longrightarrow> distinct (map us_ID (fold put_user vs us))"
  by (induction vs arbitrary: us) (simp_all add: distinct_put_user)

lemma newUserStore_distinct:
  "newUserStore B w now pw ident f = Some us \<Longrightarrow> distinct (map us_ID (st_users us))"
  by (auto simp: newUserStore_def load_users_def createDefaultAdmin_def save_users_def Let_def
      intro!: distinct_fold_put distinct_put_user
      split: json_file.splits option.splits sum.splits store_error.splits if_splits)

lemma start_webui_users:
  "start_webui E fs = Some s \<Longrightarrow> vs_sessions s = [] \<and>
     newUserStore (sv_bcrypt E) (sv_write E) (sv_now E) (sv_password E) (sv_ident E) (wf_users fs) = Some (vs_users s)"
  by (auto simp: start_webui_def split: if_splits option.splits sum.splits prod.splits)

lemma roles_ids: "fst ` set (roles us) = us_ID ` set (st_users us)"
  by (auto simp: roles_def image_image)

lemma admin_count_roles: "0 < AdminCount us \<longleftrightarrow> RoleAdmin \<in> snd ` set (roles us)"
  by (force simp: AdminCount_def roles_def filter_empty_conv image_iff)

lemma web_reach_ok: "web_reach s \<Longrightarrow> web_ok s"
proof (induction rule: web_reach.induct)
  case (web_started E fs s)
  then have "vs_sessions s = []" "distinct (map us_ID (st_users (vs_users s)))"
    using newUserStore_distinct start_webui_users [OF web_started(1)] by blast+
  then show ?case
    using web_started(2) by (simp add: web_ok_def accounts_ok_def admin_count_roles) (simp add: roles_def comp_def)
next
  case (web_served s E req)
  then show ?case by (intro web_ok_serve) (simp_all add: roles_ids)
qed

text \<open>
  C5: Privileges are current, and the web UI cannot be locked. In every state a server reaches from a user file with an
  administrator by any requests, as long as its writes to the user file succeed: there is an administrator, and every
  session belongs to an account that exists and has the role this account has now; a role that was changed or
  an account that was deleted leaves no session behind.
\<close>
theorem sessions_are_current:
  assumes "web_reach s"
  shows "1 \<le> AdminCount (vs_users s)
     \<and> (\<forall>(t, sn) \<in> set (vs_sessions s).
          \<exists>u \<in> set (st_users (vs_users s)). us_ID u = sn_UserID sn \<and> us_Role u = sn_Role sn)"
proof -
  have ok: "accounts_ok (roles (vs_users s)) (vs_sessions s)" using web_reach_ok [OF assms] by (simp add: web_ok_def)
  then have "0 < AdminCount (vs_users s)" by (simp add: admin_count_roles accounts_ok_def)
  moreover have "\<exists>u \<in> set (st_users (vs_users s)). us_ID u = sn_UserID sn \<and> us_Role u = sn_Role sn"
    if "(t, sn) \<in> set (vs_sessions s)" for t sn
    using ok that by (force simp: accounts_ok_def roles_def)
  ultimately show ?thesis by auto
qed

subsection \<open>Samples\<close>

definition sample_bcrypt :: bcrypt_lib where
  "sample_bcrypt = \<lparr>bc_generate = (\<lambda>p. Some (''#'' @ p)), bc_compare = (\<lambda>h p. h = ''#'' @ p)\<rparr>"

definition sample_start :: start_env where
  "sample_start = \<lparr>sv_env = (\<lambda>_. []), sv_resolve = Some, sv_bcrypt = sample_bcrypt, sv_write = Written, sv_now = 5,
     sv_password = [18], sv_ident = [1], sv_x509 = sample_x509, sv_ca_lib = sample_ca_lib, sv_ca_env = sample_ca_env\<rparr>"

definition sample_files :: config_files where
  "sample_files = \<lparr>wf_users = Missing, wf_settings = Missing, wf_notification = Missing,
     wf_org_ca = \<lparr>cf_cert_file = No_file, cf_key_file = No_file\<rparr>, wf_tokens = Missing, wf_devices = Missing,
     wf_revoked = Missing, wf_policy = Missing, wf_rules = Missing\<rparr>"

definition sample_web_env :: web_env where
  "sample_web_env = \<lparr>ve_now = 9, ve_bcrypt = sample_bcrypt, ve_write = Written, ve_rename = True, ve_crl_rename = True,
     ve_lock = FlockHeld, ve_hash = (\<lambda>_. []), ve_secret = [171], ve_ident = [2], ve_sort = (\<lambda>es. es),
     ve_parse_time = (\<lambda>_. None), ve_logs = Some [], ve_view = (\<lambda>_. \<lparr>cv_Subject = [], cv_NotAfter = 0, cv_Raw = []\<rparr>),
     ve_sha256 = (\<lambda>_. []), ve_static = status_only 200\<rparr>"

definition sample_login :: web_request where
  \<open>sample_login = sample_web_request\<lparr>wq_Method := ''POST'', wq_Path := ''/api/auth/login'',
     wq_Body := ''{"username":"admin","password":"12"}''\<rparr>\<close>

definition sample_web_state :: web_state where
  \<comment> \<open>a first start, then the administrator logs in\<close>
  "sample_web_state = snd (serve_web sample_web_env sample_login (the (start_webui sample_start sample_files)))"

lemma sample_started: "start_webui sample_start sample_files \<noteq> None"
  by code_simp

lemma sample_web_reach: "web_reach sample_web_state"
proof -
  obtain s where s: "start_webui sample_start sample_files = Some s" using sample_started by auto
  have "0 < AdminCount (vs_users (the (start_webui sample_start sample_files)))"
    "generateToken (ve_ident sample_web_env) \<notin> us_ID ` set (st_users (vs_users (the (start_webui sample_start sample_files))))"
    by code_simp+
  then have "web_reach s" and "generateToken (ve_ident sample_web_env) \<notin> us_ID ` set (st_users (vs_users s))"
    using s by (auto intro: web_started)
  then have "web_reach (snd (serve_web sample_web_env sample_login s))"
    by (intro web_served) (simp_all add: sample_web_env_def)
  then show ?thesis using s by (simp add: sample_web_state_def)
qed

lemma sessions_are_current_witness:
  "vs_sessions sample_web_state \<noteq> [] \<and> 1 \<le> AdminCount (vs_users sample_web_state)
   \<and> list_all (\<lambda>(t, sn). list_ex (\<lambda>u. us_ID u = sn_UserID sn \<and> us_Role u = sn_Role sn) (st_users (vs_users sample_web_state)))
        (vs_sessions sample_web_state)"
proof -
  have "vs_sessions sample_web_state \<noteq> []" by code_simp
  then show ?thesis using sessions_are_current [OF sample_web_reach] by (auto simp: list_all_iff list_ex_iff)
qed

definition sample_visit :: web_request where
  \<comment> \<open>the accounts, asked for with the cookie of a user who is not an administrator\<close>
  "sample_visit = sample_web_request\<lparr>wq_Path := ''/api/users'', wq_Cookie := Some ''t''\<rparr>"


end
