(* ===== verification/Webui_Login.thy ===== *)
theory Webui_Login
  imports Webui_Access
begin

text \<open>
  How fast passwords can be guessed through the login of the web UI, and what it costs: the limiter counts the failures of
  an address in windows of fifteen minutes.
\<close>

subsection \<open>One login\<close>

definition bucket :: "string \<Rightarrow> web_state \<Rightarrow> rateBucket option" where
  "bucket ip s = map_option snd (find_by fst ip (vs_limiter s))"

lemma bucket_set_key:
  "bucket ip (s\<lparr>vs_limiter := set_key ip' b rl\<rparr>) = (if ip = ip' then Some b else bucket ip (s\<lparr>vs_limiter := rl\<rparr>))"
  by (simp add: bucket_def find_by_set_key)

lemma find_by_filter_other:
  "j \<noteq> k \<Longrightarrow> find_by fst j (filter (\<lambda>p. fst p \<noteq> k) m) = find_by fst j m"
  by (induction m) auto

lemma live_bucket_eq:
  "live_bucket now ip (vs_limiter s) = (case bucket ip s of None \<Rightarrow> None | Some b \<Rightarrow> if now > rb_resetAt b then None else Some b)"
  by (auto simp: live_bucket_def bucket_def split: option.splits)

lemma bucket_simps [simp]:
  "bucket ip (s\<lparr>vs_users := us\<rparr>) = bucket ip s" "bucket ip (s\<lparr>vs_sessions := ss\<rparr>) = bucket ip s"
  by (simp_all add: bucket_def)

lemma login_other_address:
  assumes "clientIP req \<noteq> ip"
  shows "bucket ip (snd (handleLogin E req s)) = bucket ip s"
proof -
  have set: "find_by fst ip (set_key (clientIP req) b rl) = find_by fst ip rl" for b and rl :: rateLimiter
    using assms by (simp add: find_by_set_key)
  have allow: "find_by fst ip (snd (Allow now (clientIP req) rl)) = find_by fst ip rl" for now rl
    by (simp add: Allow_def set split: option.split)
  have failure: "find_by fst ip (RecordFailure now (clientIP req) rl) = find_by fst ip rl" for now rl
    by (simp add: RecordFailure_def set split: option.split)
  have success: "find_by fst ip (RecordSuccess (clientIP req) rl) = find_by fst ip rl" for rl
    using assms by (simp add: RecordSuccess_def find_by_filter_other)
  show ?thesis
    using allow [of "ve_now E" "vs_limiter s"]
    by (simp add: handleLogin_def login_failed_def bucket_def Let_def failure success Create_session_def split_beta
        split: option.split sum.split)
qed

text \<open>The answers of a login, by what they leave of the bucket of the address.\<close>

lemma login_cases:
  assumes "handleLogin E req s = (rp, s')" and "wr_Status rp \<noteq> 200" and ip: "clientIP req = ip"
  obtains (wrong_verb) "wr_Status rp = 405" and "bucket ip s' = bucket ip s"
  | (refused) b where "wr_Status rp \<noteq> 401" and "live_bucket (ve_now E) ip (vs_limiter s) = Some b" and "bucket ip s' = bucket ip s"
  | (unread) "wr_Status rp \<noteq> 401" and "live_bucket (ve_now E) ip (vs_limiter s) = None"
      and "bucket ip s' = Some \<lparr>rb_failures = 0, rb_resetAt = ve_now E + rateLimitWindow\<rparr>"
  | (failed) b where "wr_Status rp = 401" and "live_bucket (ve_now E) ip (vs_limiter s) = Some b"
      and "rb_failures b < rateLimitMaxTries" and "bucket ip s' = Some (b\<lparr>rb_failures := rb_failures b + 1\<rparr>)"
  | (first_failed) "wr_Status rp = 401" and "live_bucket (ve_now E) ip (vs_limiter s) = None"
      and "bucket ip s' = Some \<lparr>rb_failures = 1, rb_resetAt = ve_now E + rateLimitWindow\<rparr>"
proof (cases "wq_Method req = ''POST''")
  case False
  then show thesis using assms wrong_verb by (simp add: handleLogin_def)
next
  case True
  let ?t = "ve_now E"
  have pos: "0 \<le> rateLimitWindow" by (simp add: rateLimitWindow_def minute_def second_def)
  define s1 where "s1 = s\<lparr>vs_limiter := snd (Allow ?t ip (vs_limiter s))\<rparr>"
  have run: "if \<not> fst (Allow ?t ip (vs_limiter s)) then (rp, s') = (http_fail 429 ''too many requests'', s1)
      else (rp, s') = (http_fail 400 ''invalid JSON'', s1) \<or> (\<exists>us. (rp, s') = login_failed E ip (s1\<lparr>vs_users := us\<rparr>))"
  proof -
    have same: "\<exists>us. login_failed E ip s1 = login_failed E ip (s1\<lparr>vs_users := us\<rparr>)"
      by (rule exI [of _ "vs_users s1"]) simp
    have "(rp, s') = handleLogin E req s" using assms(1) by simp
    then show ?thesis
      using True ip assms(2) same
      by (simp add: handleLogin_def s1_def [symmetric] Let_def split_beta split: option.splits sum.splits if_splits) auto
  qed
  show thesis
  proof (cases "live_bucket ?t ip (vs_limiter s)")
    case None
    let ?b = "\<lparr>rb_failures = 0, rb_resetAt = ?t + rateLimitWindow\<rparr>"
    have a: "fst (Allow ?t ip (vs_limiter s))" "bucket ip s1 = Some ?b"
      using None by (simp_all add: Allow_def s1_def bucket_set_key)
    have "live_bucket ?t ip (vs_limiter (s1\<lparr>vs_users := us\<rparr>)) = Some ?b" for us
      using a(2) pos by (simp add: live_bucket_eq)
    then show thesis
      using run a None unread first_failed
      by (auto simp: login_failed_def RecordFailure_def bucket_set_key)
  next
    case (Some b)
    have s1: "s1 = s" "fst (Allow ?t ip (vs_limiter s)) \<longleftrightarrow> rb_failures b < rateLimitMaxTries"
      using Some by (simp_all add: Allow_def s1_def)
    show thesis
      using run s1 Some refused [of b] failed [of b]
      by (auto simp: login_failed_def RecordFailure_def bucket_set_key split: if_splits)
  qed
qed

subsection \<open>Series of logins\<close>

fun failed_logins :: "string \<Rightarrow> (web_env \<times> web_request) list \<Rightarrow> web_state \<Rightarrow> time list" where
  \<comment> \<open>when, in a series of requests to \<open>/api/auth/login\<close>, a password from the address was refused\<close>
  "failed_logins ip [] s = []"
| "failed_logins ip (v # es) s =
     (let (rp, s') = handleLogin (fst v) (snd v) s; ts = failed_logins ip es s' in
      if clientIP (snd v) = ip \<and> wr_Status rp = 401 then ve_now (fst v) # ts else ts)"

fun never_logged_in :: "string \<Rightarrow> (web_env \<times> web_request) list \<Rightarrow> web_state \<Rightarrow> bool" where
  "never_logged_in ip [] s \<longleftrightarrow> True"
| "never_logged_in ip (v # es) s \<longleftrightarrow>
     (let (rp, s') = handleLogin (fst v) (snd v) s in
      \<not> (clientIP (snd v) = ip \<and> wr_Status rp = 200) \<and> never_logged_in ip es s')"

lemma failed_logins_times: "set (failed_logins ip es s) \<subseteq> (\<lambda>v. ve_now (fst v)) ` set es"
proof (induction es arbitrary: s)
  case (Cons v es)
  then show ?case using Cons.IH [of "snd (handleLogin (fst v) (snd v) s)"]
    by (auto simp: Let_def split_beta)
qed simp

text \<open>What a bucket allows of the failures to come.\<close>

definition within_bucket :: "rateBucket option \<Rightarrow> time list \<Rightarrow> bool" where
  "within_bucket b ts \<longleftrightarrow>
     (case b of
        None \<Rightarrow> True
      | Some b \<Rightarrow>
          (\<forall>j < length ts. rateLimitMaxTries \<le> rb_failures b + int j \<longrightarrow> rb_resetAt b < ts ! j)
          \<and> (\<forall>j < length ts. 2 * rateLimitMaxTries \<le> rb_failures b + int j \<longrightarrow> rb_resetAt b + rateLimitWindow < ts ! j))"

definition spaced :: "time list \<Rightarrow> bool" where
  "spaced ts \<longleftrightarrow> (\<forall>i. i + 10 < length ts \<longrightarrow> ts ! i + rateLimitWindow < ts ! (i + 10))"

lemma spaced_Cons: "spaced (t # ts) \<longleftrightarrow> (9 < length ts \<longrightarrow> t + rateLimitWindow < ts ! 9) \<and> spaced ts"
proof
  assume "spaced (t # ts)"
  then have a: "i + 10 < Suc (length ts) \<Longrightarrow> (t # ts) ! i + rateLimitWindow < (t # ts) ! (i + 10)" for i
    by (simp add: spaced_def)
  show "(9 < length ts \<longrightarrow> t + rateLimitWindow < ts ! 9) \<and> spaced ts"
  proof
    have "i + 10 < length ts \<Longrightarrow> ts ! i + rateLimitWindow < ts ! (i + 10)" for i
      using a [of "Suc i"] by (simp add: add.commute)
    then show "spaced ts" by (simp add: spaced_def)
    show "9 < length ts \<longrightarrow> t + rateLimitWindow < ts ! 9" using a [of 0] by simp
  qed
next
  assume "(9 < length ts \<longrightarrow> t + rateLimitWindow < ts ! 9) \<and> spaced ts"
  then have "i + 10 < Suc (length ts) \<Longrightarrow> (t # ts) ! i + rateLimitWindow < (t # ts) ! (i + 10)" for i
    by (cases i) (auto simp: spaced_def add.commute)
  then show "spaced (t # ts)" by (simp add: spaced_def)
qed

text \<open>The steps of a bucket, backwards: from the times that follow to the times from now on.\<close>

definition bucket_ok :: "rateBucket option \<Rightarrow> bool" where
  "bucket_ok b \<longleftrightarrow> (case b of None \<Rightarrow> True | Some b \<Rightarrow> 0 \<le> rb_failures b \<and> rb_failures b \<le> rateLimitMaxTries)"

lemma within_failed:
  assumes w: "within_bucket (Some (b\<lparr>rb_failures := rb_failures b + 1\<rparr>)) ts" and "t \<le> rb_resetAt b"
    and "0 \<le> rb_failures b" and "rb_failures b < rateLimitMaxTries"
  shows "within_bucket (Some b) (t # ts)" and "9 < length ts \<Longrightarrow> t + rateLimitWindow < ts ! 9"
proof -
  have a: "rateLimitMaxTries \<le> rb_failures b + 1 + int j \<Longrightarrow> j < length ts \<Longrightarrow> rb_resetAt b < ts ! j"
    and c: "2 * rateLimitMaxTries \<le> rb_failures b + 1 + int j \<Longrightarrow> j < length ts \<Longrightarrow> rb_resetAt b + rateLimitWindow < ts ! j" for j
    using w by (simp_all add: within_bucket_def)
  have "rateLimitMaxTries \<le> rb_failures b + int j \<Longrightarrow> j < length (t # ts) \<Longrightarrow> rb_resetAt b < (t # ts) ! j"
    and "2 * rateLimitMaxTries \<le> rb_failures b + int j \<Longrightarrow> j < length (t # ts) \<Longrightarrow> rb_resetAt b + rateLimitWindow < (t # ts) ! j" for j
    using a [of "j - 1"] c [of "j - 1"] assms(4) by (cases j; simp add: rateLimitMaxTries_def)+
  then show "within_bucket (Some b) (t # ts)" by (simp add: within_bucket_def)
  show "9 < length ts \<Longrightarrow> t + rateLimitWindow < ts ! 9"
    using c [of 9] assms(2,3) by (simp add: rateLimitMaxTries_def)
qed

lemma within_fresh:
  assumes later: "\<forall>x \<in> set ts. t \<le> x" and "bucket_ok b" and "case b of None \<Rightarrow> True | Some b \<Rightarrow> rb_resetAt b < t"
    and w: "within_bucket (Some \<lparr>rb_failures = 0, rb_resetAt = t + rateLimitWindow\<rparr>) ts"
  shows "within_bucket b ts"
proof (cases b)
  case (Some c)
  have r: "rb_resetAt c < t" and f: "rb_failures c \<le> rateLimitMaxTries"
    using assms(2,3) Some by (simp_all add: bucket_ok_def)
  have "rb_resetAt c < ts ! j" if "j < length ts" for j
    using r later nth_mem [OF that] by fastforce
  moreover have "rb_resetAt c + rateLimitWindow < ts ! j"
    if "j < length ts" and "2 * rateLimitMaxTries \<le> rb_failures c + int j" for j
  proof -
    have "rateLimitMaxTries \<le> int j" using that(2) f by simp
    then have "t + rateLimitWindow < ts ! j" using w that(1) by (simp add: within_bucket_def)
    then show ?thesis using r by simp
  qed
  ultimately show ?thesis using Some by (simp add: within_bucket_def)
qed (simp add: within_bucket_def)

lemma login_series:
  assumes "sorted (map (\<lambda>v. ve_now (fst v)) es)" and "never_logged_in ip es s" and "bucket_ok (bucket ip s)"
  shows "within_bucket (bucket ip s) (failed_logins ip es s) \<and> spaced (failed_logins ip es s)"
  using assms
proof (induction es arbitrary: s)
  case Nil
  then show ?case by (simp add: within_bucket_def spaced_def split: option.split)
next
  case (Cons v es)
  obtain rp s' where h: "handleLogin (fst v) (snd v) s = (rp, s')" by force
  let ?t = "ve_now (fst v)" and ?ts = "failed_logins ip es s'"
  have later: "\<forall>x \<in> set ?ts. ?t \<le> x"
    using failed_logins_times [of ip es s'] Cons.prems(1) by auto
  have IH: "bucket_ok (bucket ip s') \<Longrightarrow> within_bucket (bucket ip s') ?ts \<and> spaced ?ts"
    using Cons h by simp
  have dead: "case bucket ip s of None \<Rightarrow> True | Some b \<Rightarrow> rb_resetAt b < ?t" if "live_bucket ?t ip (vs_limiter s) = None"
    using that by (auto simp: live_bucket_eq split: option.splits if_splits)
  have live: "bucket ip s = Some b" "?t \<le> rb_resetAt b" if "live_bucket ?t ip (vs_limiter s) = Some b" for b
    using that by (auto simp: live_bucket_eq split: option.splits if_splits)
  have tries: "0 \<le> rateLimitMaxTries" by (simp add: rateLimitMaxTries_def)
  show ?case
  proof (cases "clientIP (snd v) = ip")
    case False
    then show ?thesis using login_other_address [OF False, of "fst v" s] IH Cons.prems(3) h by simp
  next
    case True
    then have no: "wr_Status rp \<noteq> 200" using Cons.prems(2) h by simp
    from h no True show ?thesis
    proof (cases rule: login_cases)
      case wrong_verb
      then show ?thesis using IH Cons.prems(3) h by simp
    next
      case refused
      then show ?thesis using IH Cons.prems(3) h by simp
    next
      case unread
      then show ?thesis
        using IH h within_fresh [OF later Cons.prems(3) dead] tries by (simp add: bucket_ok_def)
    next
      case (failed b)
      have "bucket_ok (bucket ip s')"
        using Cons.prems(3) failed live [of b] by (simp add: bucket_ok_def)
      then show ?thesis
        using IH h True failed live [of b] Cons.prems(3) within_failed [of b ?ts ?t]
        by (simp add: spaced_Cons bucket_ok_def)
    next
      case first_failed
      let ?b = "\<lparr>rb_failures = 0, rb_resetAt = ?t + rateLimitWindow\<rparr>"
      have "within_bucket (Some (?b\<lparr>rb_failures := rb_failures ?b + 1\<rparr>)) ?ts \<and> spaced ?ts"
        using IH first_failed by (simp add: bucket_ok_def rateLimitMaxTries_def)
      then have "within_bucket (Some ?b) (?t # ?ts)" and "spaced (?t # ?ts)"
        using within_failed [of ?b ?ts ?t]
        by (simp_all add: spaced_Cons rateLimitMaxTries_def rateLimitWindow_def minute_def second_def)
      then show ?thesis
        using h True first_failed within_fresh [OF _ Cons.prems(3) dead, of "?t # ?ts"] later by simp
    qed
  qed
qed

text \<open>
  C25: How fast passwords can be guessed. In any series of logins, from whatever addresses, an address that never logs in
  gets no eleven refused passwords within fifteen minutes of each other: between one and the tenth after it the window
  passes. (Ten, not five: the count starts again with a new window, which may begin right after five late failures of the
  old one.)
\<close>
theorem guesses_per_address:
  assumes "sorted (map (\<lambda>v. ve_now (fst v)) es)" and "never_logged_in ip es s"
    and "find_by fst ip (vs_limiter s) = None" and "i + 10 < length (failed_logins ip es s)"
  shows "failed_logins ip es s ! i + 15 * minute < failed_logins ip es s ! (i + 10)"
  using login_series [of es ip s] assms by (simp add: bucket_ok_def bucket_def spaced_def rateLimitWindow_def)

definition sample_guess :: "time \<Rightarrow> web_env \<times> web_request" where
  \<open>sample_guess t = (sample_web_env\<lparr>ve_now := t\<rparr>, sample_web_request\<lparr>wq_Method := ''POST'', wq_Body := ''{}''\<rparr>)\<close>

definition sample_guesses :: "(web_env \<times> web_request) list" where
  "sample_guesses = replicate 5 (sample_guess 9) @ replicate 5 (sample_guess (10 + 15 * minute)) @ [sample_guess (11 + 30 * minute)]"

lemma sample_guess_simps:
  "ve_now (fst (sample_guess t)) = t" "clientIP (snd (sample_guess t)) = ''10.0.0.9''"
  by (simp_all add: sample_guess_def) code_simp

lemma sample_guess_answers:
  "handleLogin (fst (sample_guess t)) (snd (sample_guess t)) (s\<lparr>vs_limiter := []\<rparr>) =
     (http_fail 401 ''invalid credentials'',
      s\<lparr>vs_limiter := [(''10.0.0.9'', \<lparr>rb_failures = 1, rb_resetAt = t + rateLimitWindow\<rparr>)]\<rparr>)"
  "r < t \<Longrightarrow> handleLogin (fst (sample_guess t)) (snd (sample_guess t))
       (s\<lparr>vs_limiter := [(''10.0.0.9'', \<lparr>rb_failures = f, rb_resetAt = r\<rparr>)]\<rparr>) =
     (http_fail 401 ''invalid credentials'',
      s\<lparr>vs_limiter := [(''10.0.0.9'', \<lparr>rb_failures = 1, rb_resetAt = t + rateLimitWindow\<rparr>)]\<rparr>)"
  "t \<le> r \<Longrightarrow> f < rateLimitMaxTries \<Longrightarrow> handleLogin (fst (sample_guess t)) (snd (sample_guess t))
       (s\<lparr>vs_limiter := [(''10.0.0.9'', \<lparr>rb_failures = f, rb_resetAt = r\<rparr>)]\<rparr>) =
     (http_fail 401 ''invalid credentials'',
      s\<lparr>vs_limiter := [(''10.0.0.9'', \<lparr>rb_failures = f + 1, rb_resetAt = r\<rparr>)]\<rparr>)"
proof -
  have body: "login_body (wq_Body (snd (sample_guess t))) = Some \<lparr>lq_Username = [], lq_Password = []\<rparr>"
    by (simp add: sample_guess_def) code_simp
  have post: "wq_Method (snd (sample_guess t)) = ''POST''" by (simp add: sample_guess_def)
  have pos: "0 < rateLimitWindow" by (simp add: rateLimitWindow_def)
  note run = handleLogin_def post body sample_guess_simps login_failed_def Let_def split_beta Allow_def RecordFailure_def
    live_bucket_def set_key_def
  show "handleLogin (fst (sample_guess t)) (snd (sample_guess t)) (s\<lparr>vs_limiter := []\<rparr>) =
     (http_fail 401 ''invalid credentials'',
      s\<lparr>vs_limiter := [(''10.0.0.9'', \<lparr>rb_failures = 1, rb_resetAt = t + rateLimitWindow\<rparr>)]\<rparr>)"
    using pos by (simp add: run)
  show "r < t \<Longrightarrow> handleLogin (fst (sample_guess t)) (snd (sample_guess t))
       (s\<lparr>vs_limiter := [(''10.0.0.9'', \<lparr>rb_failures = f, rb_resetAt = r\<rparr>)]\<rparr>) =
     (http_fail 401 ''invalid credentials'',
      s\<lparr>vs_limiter := [(''10.0.0.9'', \<lparr>rb_failures = 1, rb_resetAt = t + rateLimitWindow\<rparr>)]\<rparr>)"
    using pos by (simp add: run)
  show "t \<le> r \<Longrightarrow> f < rateLimitMaxTries \<Longrightarrow> handleLogin (fst (sample_guess t)) (snd (sample_guess t))
       (s\<lparr>vs_limiter := [(''10.0.0.9'', \<lparr>rb_failures = f, rb_resetAt = r\<rparr>)]\<rparr>) =
     (http_fail 401 ''invalid credentials'',
      s\<lparr>vs_limiter := [(''10.0.0.9'', \<lparr>rb_failures = f + 1, rb_resetAt = r\<rparr>)]\<rparr>)"
    by (simp add: run)
qed

lemma guesses_per_address_witness:
  "(let s = sample_web_state\<lparr>vs_limiter := []\<rparr>; ts = failed_logins ''10.0.0.9'' sample_guesses s in
    length ts = 11 \<and> ts ! 0 + 15 * minute < ts ! 10)"
proof -
  let ?s = "sample_web_state\<lparr>vs_limiter := []\<rparr>" and ?ip = "''10.0.0.9''"
  have W: "rateLimitWindow = 15 * minute" by (simp add: rateLimitWindow_def)
  note run = sample_guess_simps sample_guess_answers Let_def http_fail_def status_only_def W rateLimitMaxTries_def minute_def second_def
  have "length (failed_logins ?ip sample_guesses ?s) = 11"
    by (simp add: sample_guesses_def numeral_eq_Suc run)
  moreover have "never_logged_in ?ip sample_guesses ?s"
    by (simp add: sample_guesses_def numeral_eq_Suc run)
  moreover have "sorted (map (\<lambda>v. ve_now (fst v)) sample_guesses)"
    by (simp add: sample_guesses_def sample_guess_simps minute_def second_def sorted_append)
  ultimately show ?thesis
    using guesses_per_address [of sample_guesses ?ip ?s 0] by (simp add: Let_def)
qed

end
