(* ===== verification/Rc_Block.thy ===== *)
theory Rc_Block
  imports Encode
begin

text \<open>
  The variables ai-scan-connect manages (\<open>connect/envvars/envvars.go\<close>, \<open>markers.go\<close>) and how it keeps them on Unix, in a
  marked block of the shell's rc files (\<open>unix.go\<close>).

  \<^item> An rc file is absent, there but unreadable, or text. A write goes through a temporary file and a rename, so it puts
    the whole text or leaves the file as it was; whether it succeeds is an argument. The leftovers of a failed write of
    the temporary file, and the mode and the owner a rename gives the file, are not modelled.
  \<^item> The regular expression of the block is a leftmost search for the start marker, then the first end marker after it,
    then an optional newline.
\<close>

subsection \<open>The variables\<close>

record Vars =
  va_HTTPSProxy :: string
  va_HTTPProxy :: string
  va_NodeExtraCACerts :: string
  va_RequestsCABundle :: string
  va_SSLCertFile :: string

abbreviation newline :: string where "newline \<equiv> [CHR 0x0A]"

definition MarkerStart :: string where
  "MarkerStart = ''# >>> ai-scan-connect managed block (DO NOT EDIT) v1 >>>''"

definition MarkerEnd :: string where
  "MarkerEnd = ''# <<< ai-scan-connect managed block <<<''"

definition shellQuote :: "string \<Rightarrow> string" where
  "shellQuote s = [CHR 0x27] @ replace_all s [CHR 0x27] [CHR 0x27, CHR 0x5C, CHR 0x27, CHR 0x27] @ [CHR 0x27]"

definition export_line :: "string \<Rightarrow> string \<Rightarrow> string" where
  "export_line name v = ''export '' @ name @ ''='' @ shellQuote v @ newline"

definition gen_line :: "time \<Rightarrow> string" where
  \<comment> \<open>the layout \<open>time.RFC3339\<close> has no fraction\<close>
  "gen_line now = ''# generated: '' @ rfc3339 (now - now mod second) @ newline"

definition exports :: "Vars \<Rightarrow> string list" where
  "exports v =
     (if va_HTTPSProxy v = [] then []
      else [export_line ''HTTPS_PROXY'' (va_HTTPSProxy v), export_line ''https_proxy'' (va_HTTPSProxy v)])
     @ (if va_HTTPProxy v = [] then []
        else [export_line ''HTTP_PROXY'' (va_HTTPProxy v), export_line ''http_proxy'' (va_HTTPProxy v)])
     @ (if va_NodeExtraCACerts v = [] then [] else [export_line ''NODE_EXTRA_CA_CERTS'' (va_NodeExtraCACerts v)])
     @ (if va_RequestsCABundle v = [] then [] else [export_line ''REQUESTS_CA_BUNDLE'' (va_RequestsCABundle v)])
     @ (if va_SSLCertFile v = [] then [] else [export_line ''SSL_CERT_FILE'' (va_SSLCertFile v)])"

definition renderBlock :: "Vars \<Rightarrow> time \<Rightarrow> string" where
  "renderBlock v now = MarkerStart @ newline @ gen_line now @ concat (exports v) @ MarkerEnd @ newline"

subsection \<open>The block in a text\<close>

definition find_block :: "string \<Rightarrow> (string \<times> string \<times> string) option" where
  \<comment> \<open>\<open>blockRegexp\<close>: what is before the first block, the block, what is after it\<close>
  "find_block s =
     (case index s MarkerStart of
        None \<Rightarrow> None
      | Some i \<Rightarrow>
          (let r = drop (i + length MarkerStart) s in
           case index r MarkerEnd of
             None \<Rightarrow> None
           | Some j \<Rightarrow>
               (let m = MarkerStart @ take (j + length MarkerEnd) r; c = drop (j + length MarkerEnd) r in
                if has_prefix c newline then Some (take i s, m @ newline, drop 1 c) else Some (take i s, m, c))))"

lemma find_block_SomeD:
  assumes "find_block s = Some (a, b, c)"
  shows "s = a @ b @ c" and "b \<noteq> []"
proof -
  obtain i where i: "index s MarkerStart = Some i" using assms by (auto simp: find_block_def split: option.splits)
  define r where "r = drop (i + length MarkerStart) s"
  obtain j where j: "index r MarkerEnd = Some j"
    using assms i by (auto simp: find_block_def r_def Let_def split: option.splits)
  define m u where "m = MarkerStart @ take (j + length MarkerEnd) r" and "u = drop (j + length MarkerEnd) r"
  have s: "s = take i s @ m @ u"
    using index_Some_split [OF i] by (simp only: m_def u_def r_def [symmetric] append.assoc append_take_drop_id)
  have abc: "(a, b, c) = (if has_prefix u newline then (take i s, m @ newline, drop 1 u) else (take i s, m, u))"
    using assms i j by (auto simp: find_block_def r_def [symmetric] Let_def m_def u_def split: if_splits)
  have "u = newline @ drop 1 u" if "has_prefix u newline"
    using that by (cases u) (simp_all add: has_prefix_def)
  then show "s = a @ b @ c" using s abc by (auto split: if_splits)
  show "b \<noteq> []" using abc by (auto simp: m_def MarkerStart_def split: if_splits)
qed

function stripBlock :: "string \<Rightarrow> string" where
  \<comment> \<open>\<open>ReplaceAllString\<close> goes on behind each block\<close>
  "stripBlock s = (case find_block s of None \<Rightarrow> s | Some (a, b, c) \<Rightarrow> a @ stripBlock c)"
  by pat_completeness auto
termination
proof (relation "measure length")
  fix s x a y b c
  assume "find_block s = Some x" "(a, y) = x" "(b, c) = y"
  then show "(c, s) \<in> measure length" using find_block_SomeD [of s a b c] by auto
qed simp

declare stripBlock.simps [simp del]

fun line_chunks :: "string \<Rightarrow> string list" where
  \<comment> \<open>the lines, each with its newline\<close>
  "line_chunks [] = []"
| "line_chunks (c # s) =
     (if c = CHR 0x0A then [c] # line_chunks s
      else (case line_chunks s of [] \<Rightarrow> [[c]] | l # ls \<Rightarrow> (c # l) # ls))"

definition stripGenLine :: "string \<Rightarrow> string" where
  "stripGenLine s =
     concat (filter (\<lambda>l. \<not> (has_prefix l ''# generated: '' \<and> has_suffix l newline)) (line_chunks s))"

subsection \<open>The files\<close>

datatype rc_file = Absent | Opaque | Text string

definition next_text :: "string \<Rightarrow> string \<Rightarrow> string" where
  "next_text newBlock orig =
     (let stripped = stripBlock orig in
      if newBlock = [] then stripped
      else (if stripped \<noteq> [] \<and> \<not> has_suffix stripped newline then stripped @ newline else stripped) @ newline @ newBlock)"

definition rewriteFile :: "bool \<Rightarrow> string \<Rightarrow> bool \<Rightarrow> rc_file \<Rightarrow> (unit + bool) \<times> rc_file" where
  \<comment> \<open>whether the write succeeds, the block, whether the file must exist\<close>
  "rewriteFile ok newBlock mustExist f =
     (case f of
        Absent \<Rightarrow> (if mustExist then Inl () else Inr False, f)
      | Opaque \<Rightarrow> (Inl (), f)
      | Text orig \<Rightarrow>
          if next_text newBlock orig = orig then (Inr False, f)
          else if ok then (Inr True, Text (next_text newBlock orig)) else (Inl (), f))"

type_synonym rc_files = "string \<Rightarrow> rc_file"

definition rc_names :: "string list" where
  "rc_names = [''.bashrc'', ''.zshrc'', ''.profile'']"

definition resolveHome :: "(string \<Rightarrow> string) \<Rightarrow> (string \<Rightarrow> string option) \<Rightarrow> string option \<Rightarrow> string option" where
  \<comment> \<open>the environment, the home directories of \<open>user.Lookup\<close> and of \<open>user.Current\<close>\<close>
  "resolveHome env lookup current =
     (let su = env ''SUDO_USER'' in
      case (if su = [] then None else lookup su) of
        Some (c # h) \<Rightarrow> Some (c # h)
      | _ \<Rightarrow>
          if env ''HOME'' \<noteq> [] then Some (env ''HOME'')
          else (case current of Some (c # h) \<Rightarrow> Some (c # h) | _ \<Rightarrow> None))"

definition rcCandidates :: "(string \<Rightarrow> string) \<Rightarrow> (string \<Rightarrow> string option) \<Rightarrow> string option \<Rightarrow> string list option" where
  \<comment> \<open>the home directory is a clean path\<close>
  "rcCandidates env lookup current =
     map_option (\<lambda>h. map (\<lambda>n. h @ ''/'' @ n) rc_names) (resolveHome env lookup current)"

record rc_report =
  rr_Touched :: "string list"
  rr_Errors :: "string list"

fun rewrite_all :: "(string \<Rightarrow> bool) \<Rightarrow> string \<Rightarrow> string list \<Rightarrow> rc_files \<Rightarrow> rc_report \<times> rc_files" where
  \<comment> \<open>the loop over the candidates: a file that is not there is skipped, an error does not end it\<close>
  "rewrite_all ok b [] fs = (\<lparr>rr_Touched = [], rr_Errors = []\<rparr>, fs)"
| "rewrite_all ok b (p # ps) fs =
     (if fs p = Absent then rewrite_all ok b ps fs
      else
        (case rewriteFile (ok p) b True (fs p) of
           (res, f) \<Rightarrow>
             (case rewrite_all ok b ps (fs(p := f)) of
                (rp, fs') \<Rightarrow>
                  (case res of
                     Inl _ \<Rightarrow> rp\<lparr>rr_Errors := p # rr_Errors rp\<rparr>
                   | Inr changed \<Rightarrow> if changed then rp\<lparr>rr_Touched := p # rr_Touched rp\<rparr> else rp, fs'))))"

definition drifted :: "time \<Rightarrow> Vars \<Rightarrow> string \<Rightarrow> bool" where
  \<comment> \<open>one file in the loop of \<open>CheckIntegrity\<close>\<close>
  "drifted now v s =
     (case find_block s of
        None \<Rightarrow> True
      | Some (_, m, _) \<Rightarrow> stripGenLine m \<noteq> stripGenLine (renderBlock v now))"

fun check_files :: "time \<Rightarrow> Vars \<Rightarrow> string list \<Rightarrow> rc_files \<Rightarrow> string list option" where
  "check_files now v [] fs = Some []"
| "check_files now v (p # ps) fs =
     (case fs p of
        Absent \<Rightarrow> check_files now v ps fs
      | Opaque \<Rightarrow> None
      | Text s \<Rightarrow> map_option (\<lambda>drift. if drifted now v s then p # drift else drift) (check_files now v ps fs))"

record unix_env =
  ux_now :: time
  ux_candidates :: "string list option"     \<comment> \<open>\<open>rcCandidates\<close>\<close>
  ux_writes :: "string \<Rightarrow> bool"

definition no_home :: rc_report where
  "no_home = \<lparr>rr_Touched = [], rr_Errors = [''cannot resolve user home dir'']\<rparr>"

definition Apply_unix :: "unix_env \<Rightarrow> Vars \<Rightarrow> rc_files \<Rightarrow> rc_report \<times> rc_files" where
  "Apply_unix E v fs =
     (case ux_candidates E of None \<Rightarrow> (no_home, fs) | Some ps \<Rightarrow> rewrite_all (ux_writes E) (renderBlock v (ux_now E)) ps fs)"

definition Remove_unix :: "unix_env \<Rightarrow> rc_files \<Rightarrow> rc_report \<times> rc_files" where
  "Remove_unix E fs =
     (case ux_candidates E of None \<Rightarrow> (no_home, fs) | Some ps \<Rightarrow> rewrite_all (ux_writes E) [] ps fs)"

definition CheckIntegrity_unix :: "unix_env \<Rightarrow> Vars \<Rightarrow> rc_files \<Rightarrow> string list option" where
  \<comment> \<open>\<open>None\<close>: an error\<close>
  "CheckIntegrity_unix E v fs =
     (case ux_candidates E of None \<Rightarrow> None | Some ps \<Rightarrow> check_files (ux_now E) v ps fs)"

subsection \<open>Lines and markers\<close>

lemma has_prefix_sep: "c \<notin> set sub \<Longrightarrow> has_prefix (w @ c # t) sub \<longleftrightarrow> has_prefix w sub"
  by (cases "length sub \<le> length w") (auto simp: has_prefix_def take_Cons' split: if_splits,
    metis in_set_conv_decomp)

lemma index_sep:
  assumes "c \<notin> set sub" and "sub \<noteq> []" and "index w sub = None"
  shows "index (w @ c # t) sub = map_option (\<lambda>i. i + (length w + 1)) (index t sub)"
  using assms(3)
proof (induction w)
  case Nil
  then show ?case using assms(1,2) by (cases sub) (auto simp: option.map_comp comp_def)
next
  case (Cons x w)
  then have "\<not> has_prefix (x # w) sub" and "index w sub = None" by (auto split: if_splits)
  then show ?case
    using Cons.IH has_prefix_sep [OF assms(1), of "x # w" t] by (simp add: option.map_comp comp_def)
qed

lemma index_sep_None:
  assumes "c \<notin> set sub" and "sub \<noteq> []"
  shows "index w sub = None \<Longrightarrow> index t sub = None \<Longrightarrow> index (w @ c # t) sub = None"
  by (simp add: index_sep [OF assms])

lemma index_self [simp]: "index (s @ t) s = Some 0"
  using has_prefix_append [of s t] by (cases "s @ t") (simp_all del: has_prefix_append)

lemma newline_not_in [simp]: "CHR 0x0A \<notin> set MarkerStart" "CHR 0x0A \<notin> set MarkerEnd"
  and marker_not_Nil [simp]: "MarkerStart \<noteq> []" "MarkerEnd \<noteq> []"
  and bracket_in: "CHR ''<'' \<in> set MarkerEnd"
  by (simp_all add: MarkerStart_def MarkerEnd_def)

definition is_line :: "string \<Rightarrow> bool" where
  "is_line l \<longleftrightarrow> (\<exists>s. l = s @ newline \<and> CHR 0x0A \<notin> set s)"

lemma line_chunks_line: "CHR 0x0A \<notin> set s \<Longrightarrow> line_chunks (s @ CHR 0x0A # t) = (s @ newline) # line_chunks t"
  by (induction s) auto

lemma line_chunks_concat: "list_all is_line ls \<Longrightarrow> line_chunks (concat ls) = ls"
  by (induction ls) (auto simp: is_line_def line_chunks_line)

lemma last_lines: "list_all is_line ls \<Longrightarrow> ls \<noteq> [] \<Longrightarrow> concat ls \<noteq> [] \<and> last (concat ls) = CHR 0x0A"
proof (induction ls)
  case (Cons l ls)
  then show ?case by (cases ls) (auto simp: is_line_def)
qed simp

text \<open>Values for which the block is what it looks like: without line breaks and angle brackets.\<close>

definition plain_vars :: "Vars \<Rightarrow> bool" where
  "plain_vars v \<longleftrightarrow> {CHR 0x0A, CHR ''<''} \<inter> (set (va_HTTPSProxy v) \<union> set (va_HTTPProxy v) \<union> set (va_NodeExtraCACerts v)
     \<union> set (va_RequestsCABundle v) \<union> set (va_SSLCertFile v)) = {}"

lemma join_step: "xs \<noteq> [] \<Longrightarrow> join (x # xs) sep = x @ sep @ join xs sep"
  by (cases xs) simp_all

lemma split_single:
  "length s \<le> n \<Longrightarrow> join (split_n (Suc n) s [q]) new = concat (map (\<lambda>c. if c = q then new else [c]) s)"
proof (induction s arbitrary: n)
  case Nil
  then show ?case by (cases n) simp_all
next
  case (Cons c s)
  obtain m where n: "n = Suc m" and m: "length s \<le> m" using Cons.prems by (cases n) auto
  have ne: "split_n (Suc k) t [q] \<noteq> []" for k t by (cases k) (auto split: option.split)
  show ?case
  proof (cases "c = q")
    case True
    then show ?thesis using Cons.IH [OF m] ne [of m s] by (simp add: n join_step)
  next
    case False
    have "join (split_n (Suc (Suc m)) s [q]) new = concat (map (\<lambda>c. if c = q then new else [c]) s)"
      using Cons.IH [of "Suc m"] m by simp
    then show ?thesis
      using False ne by (cases "index s [q]") (simp_all add: n join_step)
  qed
qed

lemma shellQuote_eq:
  "shellQuote s = [CHR 0x27] @ concat (map (\<lambda>c. if c = CHR 0x27 then [CHR 0x27, CHR 0x5C, CHR 0x27, CHR 0x27] else [c]) s)
     @ [CHR 0x27]"
  using split_single [of s "length s"] by (simp add: shellQuote_def replace_all_def split_def)

lemma set_shellQuote: "set (shellQuote s) \<subseteq> set s \<union> {CHR 0x27, CHR 0x5C}"
  by (auto simp: shellQuote_eq)

lemma exports_lines:
  assumes "plain_vars v"
  shows "list_all (\<lambda>l. is_line l \<and> CHR ''<'' \<notin> set l \<and> \<not> has_prefix l ''# generated: '') (exports v)"
proof -
  have "is_line (export_line n x) \<and> CHR ''<'' \<notin> set (export_line n x) \<and> \<not> has_prefix (export_line n x) ''# generated: ''"
    if "{CHR 0x0A, CHR ''<''} \<inter> (set n \<union> set x) = {}" for n x
  proof -
    let ?l = "''export '' @ n @ ''='' @ shellQuote x"
    have "CHR 0x0A \<notin> set ?l" and "CHR ''<'' \<notin> set ?l" using that set_shellQuote [of x] by auto
    then show ?thesis unfolding is_line_def by (simp add: export_line_def)
  qed
  then show ?thesis using assms by (simp add: exports_def plain_vars_def Int_Un_distrib)
qed

lemma line_chunks_Nil_iff [simp]: "line_chunks s = [] \<longleftrightarrow> s = []"
  by (cases s) (auto split: list.split)

lemma line_chunks_append: "line_chunks (s @ CHR 0x0A # t) = line_chunks (s @ newline) @ line_chunks t"
  by (induction s) (auto split: list.split)

lemma stripGenLine_append: "stripGenLine (s @ CHR 0x0A # t) = stripGenLine (s @ newline) @ stripGenLine t"
  by (simp add: stripGenLine_def line_chunks_append [of s t])

lemma gen_line_line:
  "is_line (gen_line t)" "CHR ''<'' \<notin> set (gen_line t)" "has_prefix (gen_line t) ''# generated: ''" "has_suffix (gen_line t) newline"
proof -
  have "set (padded k n) \<subseteq> set ''0123456789''" for k n
  proof (induction k arbitrary: n)
    case (Suc k)
    have "list_all (\<lambda>n. char_byte (48 + n) \<in> set ''0123456789'') [0..9]" by code_simp
    then have "dec_digit n \<in> set ''0123456789''" by (auto simp: list_all_iff dec_digit_def)
    then show ?case using Suc by simp
  qed simp
  moreover have "set (rev (dropWhile p (rev s))) \<subseteq> set s" for p and s :: string
    using set_dropWhileD [of _ p "rev s"] by auto
  ultimately have "set (rfc3339 u) \<subseteq> set ''0123456789-T:.Z''" for u
    unfolding rfc3339_def Let_def split_beta by (fastforce split: if_splits)
  then have "CHR 0x0A \<notin> set (rfc3339 u)" "CHR ''<'' \<notin> set (rfc3339 u)" for u
    by force+
  then show "is_line (gen_line t)" "CHR ''<'' \<notin> set (gen_line t)"
    unfolding is_line_def by (simp_all add: gen_line_def)
  show "has_prefix (gen_line t) ''# generated: ''" by (simp add: gen_line_def)
  show "has_suffix (gen_line t) newline" unfolding has_suffix_iff gen_line_def by auto
qed

lemma stripGenLine_block:
  assumes "plain_vars v"
  shows "stripGenLine (renderBlock v t) = MarkerStart @ newline @ concat (exports v) @ MarkerEnd @ newline"
proof -
  let ?ls = "[MarkerStart @ newline, gen_line t] @ exports v @ [MarkerEnd @ newline]"
  have "list_all is_line ?ls"
    using exports_lines [OF assms] gen_line_line(1) [of t] by (auto simp: list_all_iff) (simp_all add: is_line_def)
  then have "line_chunks (renderBlock v t) = ?ls"
    using line_chunks_concat [of ?ls] by (simp add: renderBlock_def)
  moreover have "\<not> has_prefix (MarkerStart @ newline) ''# generated: ''" "\<not> has_prefix (MarkerEnd @ newline) ''# generated: ''"
    by (simp_all add: MarkerStart_def MarkerEnd_def)
  moreover have "filter (\<lambda>l. \<not> (has_prefix l ''# generated: '' \<and> has_suffix l newline)) (exports v) = exports v"
    using exports_lines [OF assms] by (auto simp: filter_id_conv list_all_iff)
  ultimately show ?thesis using gen_line_line(3,4) [of t] by (simp add: stripGenLine_def)
qed

lemma index_bracket:
  assumes "CHR ''<'' \<notin> set w"
  shows "index (w @ CHR 0x0A # MarkerEnd @ t) MarkerEnd = Some (length w + 1)"
  using index_absent_char [OF bracket_in assms] by (simp add: index_sep)

lemma index_body:
  assumes "plain_vars v"
  shows "index (gen_line t @ concat (exports v) @ MarkerEnd @ rest) MarkerEnd = Some (length (gen_line t @ concat (exports v)))"
proof -
  let ?body = "concat (gen_line t # exports v)"
  have "list_all is_line (gen_line t # exports v)"
    using exports_lines [OF assms] gen_line_line(1) by (auto simp: list_all_iff)
  then have "?body \<noteq> [] \<and> last ?body = CHR 0x0A" by (rule last_lines) simp
  then obtain w where w: "?body = w @ [CHR 0x0A]" by (metis append_butlast_last_id)
  have "CHR ''<'' \<notin> set ?body"
    using exports_lines [OF assms] gen_line_line(2) [of t] by (auto simp: list_all_iff)
  then have "CHR ''<'' \<notin> set w" unfolding w by simp
  then have "index (?body @ MarkerEnd @ rest) MarkerEnd = Some (length ?body)"
    using index_bracket [of w rest] unfolding w by simp
  then show ?thesis by simp
qed

lemma find_block_at:
  assumes "index (a @ MarkerStart @ x @ MarkerEnd @ newline @ c) MarkerStart = Some (length a)"
    and "index (x @ MarkerEnd @ newline @ c) MarkerEnd = Some (length x)"
  shows "find_block (a @ MarkerStart @ x @ MarkerEnd @ newline @ c) = Some (a, MarkerStart @ x @ MarkerEnd @ newline, c)"
  using assms by (simp add: find_block_def Let_def del: index.simps)

lemma find_block_here:
  assumes "plain_vars v" and "index u MarkerStart = None"
  shows "find_block (u @ CHR 0x0A # renderBlock v t @ rest) = Some (u @ newline, renderBlock v t, rest)"
proof -
  have "index (CHR 0x0A # gen_line t @ concat (exports v) @ MarkerEnd @ newline @ rest) MarkerEnd
      = Some (Suc (length (gen_line t @ concat (exports v))))"
    using index_sep [of "CHR 0x0A" MarkerEnd "[]"] index_body [OF assms(1)] by simp
  moreover have "index (u @ CHR 0x0A # renderBlock v t @ rest) MarkerStart = Some (length u + 1)"
    using assms(2) by (simp add: index_sep renderBlock_def)
  ultimately show ?thesis
    by (simp add: find_block_def renderBlock_def Let_def)
qed

subsection \<open>What applying and removing do\<close>

definition ended :: "string \<Rightarrow> string" where
  "ended s = (if s \<noteq> [] \<and> \<not> has_suffix s newline then s @ newline else s)"

lemma next_text_eq: "b \<noteq> [] \<Longrightarrow> next_text b s = ended (stripBlock s) @ newline @ b"
  by (simp add: next_text_def ended_def Let_def)

lemma rewriteFile_Text: "snd (rewriteFile True b m (Text s)) = Text (next_text b s)"
  by (simp add: rewriteFile_def)

lemma renderBlock_not_Nil [simp]: "renderBlock v t \<noteq> []"
  by (simp add: renderBlock_def)

lemma unmarked_ended: "index s MarkerStart = None \<Longrightarrow> index (ended s) MarkerStart = None"
  using index_sep_None [of "CHR 0x0A" MarkerStart s "[]"] by (simp add: ended_def)

lemma unmarked_newline: "index s MarkerStart = None \<Longrightarrow> index (s @ newline) MarkerStart = None"
  using index_sep_None [of "CHR 0x0A" MarkerStart s "[]"] by simp

lemma stripBlock_unmarked: "index s MarkerStart = None \<Longrightarrow> stripBlock s = s"
  by (subst stripBlock.simps) (simp add: find_block_def)

lemma stripBlock_here:
  "plain_vars v \<Longrightarrow> index u MarkerStart = None \<Longrightarrow>
     stripBlock (u @ CHR 0x0A # renderBlock v t @ rest) = u @ CHR 0x0A # stripBlock rest"
  by (subst stripBlock.simps) (simp add: find_block_here)

lemma stripBlock_Nil [simp]: "stripBlock [] = []"
  by (rule stripBlock_unmarked) simp

lemma drifted_here: "plain_vars v \<Longrightarrow> index u MarkerStart = None \<Longrightarrow> \<not> drifted now v (u @ CHR 0x0A # renderBlock v t @ rest)"
  by (simp add: drifted_def find_block_here stripGenLine_block)

lemma ended_newline [simp]: "ended (s @ newline) = s @ newline"
  using has_suffix_iff [of "s @ newline" newline] by (auto simp: ended_def)

definition applied :: "(Vars \<times> time) list \<Rightarrow> rc_file \<Rightarrow> rc_file" where
  \<comment> \<open>an rc file after \<open>Apply\<close> was run a number of times\<close>
  "applied us f = fold (\<lambda>(v, t) f. snd (rewriteFile True (renderBlock v t) True f)) us f"

definition sample_vars :: Vars where
  "sample_vars = \<lparr>va_HTTPSProxy = ''http://proxy:3128'', va_HTTPProxy = [], va_NodeExtraCACerts = ''/etc/ca.pem'',
     va_RequestsCABundle = [], va_SSLCertFile = []\<rparr>"

lemma sample_plain: "plain_vars sample_vars"
  by (simp add: plain_vars_def sample_vars_def)

lemma sample_text: "index ''alias ls=exa'' MarkerStart = None" "index ''export A=1'' MarkerEnd = None"
  by (rule index_absent_char [of "CHR ''#''"]; simp add: MarkerStart_def MarkerEnd_def)+

text \<open>
  C32: what applying leaves of an rc file. The shell settings of the user are kept: after any number of applications
  the file is the user's text, then a block with the values of the last application and no other block, and removing it
  gives the user's text back. But each application leaves one more blank line behind, in the file and after the removal:
  the trailing newline the regular expression consumes is the one behind the block, the one that grows is before it.
\<close>
theorem applications_keep_user_text:
  assumes "index s MarkerStart = None" and "list_all plain_vars (map fst (us @ [(v, t)]))"
  shows "applied (us @ [(v, t)]) (Text s)
       = Text (ended s @ replicate (length us) (CHR 0x0A) @ newline @ renderBlock v t)
     \<and> snd (rewriteFile True [] True (applied (us @ [(v, t)]) (Text s)))
       = Text (ended s @ replicate (Suc (length us)) (CHR 0x0A))"
proof -
  have pad: "index (ended s @ replicate k (CHR 0x0A)) MarkerStart = None" for k
  proof (induction k)
    case (Suc k)
    then show ?case using unmarked_newline [of "ended s @ replicate k (CHR 0x0A)"] by (simp add: replicate_append_same [symmetric])
  qed (simp add: unmarked_ended assms(1))
  have step: "applied (us @ [(v, t)]) (Text s) = Text (ended s @ replicate (length us) (CHR 0x0A) @ newline @ renderBlock v t)"
    if "list_all plain_vars (map fst (us @ [(v, t)]))" for us v t
    using that
  proof (induction us arbitrary: v t rule: rev_induct)
    case Nil
    then show ?case by (simp add: applied_def rewriteFile_Text next_text_eq stripBlock_unmarked assms(1))
  next
    case (snoc x us)
    obtain w r where x: "x = (w, r)" by force
    let ?u = "ended s @ replicate (length us) (CHR 0x0A)"
    have "applied (us @ [x]) (Text s) = Text (?u @ newline @ renderBlock w r)"
      using snoc x by simp
    moreover have "stripBlock (?u @ newline @ renderBlock w r) = ?u @ newline"
      using stripBlock_here [of w ?u r "[]"] snoc.prems x pad by simp
    ultimately show ?case
      using ended_newline [of ?u]
      by (simp add: applied_def rewriteFile_Text next_text_eq x replicate_append_same [symmetric])
  qed
  let ?u = "ended s @ replicate (length us) (CHR 0x0A)"
  have "stripBlock (?u @ newline @ renderBlock v t) = ?u @ newline"
    using stripBlock_here [of v ?u t "[]"] assms(2) pad by simp
  then show ?thesis
    using step [OF assms(2)] by (simp add: rewriteFile_Text next_text_def replicate_append_same [symmetric])
qed

theorem applications_keep_user_text_witness:
  "snd (rewriteFile True [] True (applied [(sample_vars, 0), (sample_vars, 60)] (Text ''alias ls=exa'')))
     = Text (''alias ls=exa'' @ [CHR 0x0A, CHR 0x0A, CHR 0x0A])"
  using applications_keep_user_text [of "''alias ls=exa''" "[(sample_vars, 0)]" sample_vars 60] sample_text(1) sample_plain
  by (simp add: ended_def has_suffix_def eval_nat_numeral del: index.simps) (auto simp del: index.simps)

text \<open>
  A block that lost its end marker takes the text behind it along. When a user deleted the end marker, the next
  application appends a second block, the check still reports a drift, and the application that is to repair it deletes
  everything from the old start marker on.
\<close>
theorem unclosed_block_eats_text:
  assumes "plain_vars v" and "index u MarkerStart = None" and "index w MarkerEnd = None"
    and "s = u @ newline @ MarkerStart @ newline @ w @ newline"
  shows "(case applied [(v, t)] (Text s) of Text s1 \<Rightarrow> s1 = s @ newline @ renderBlock v t \<and> drifted now v s1 | _ \<Rightarrow> False)
     \<and> applied [(v, t), (v, t2)] (Text s) = Text (u @ newline @ newline @ renderBlock v t2)"
proof -
  have none: "index MarkerStart MarkerEnd = None"
    using index_absent_char [OF bracket_in, of MarkerStart] by (simp add: MarkerStart_def)
  let ?head = "CHR 0x0A # w @ CHR 0x0A # CHR 0x0A # MarkerStart" and ?m = "MarkerStart @ CHR 0x0A # w @ newline @ newline"
  note sep = index_sep_None [of "CHR 0x0A" MarkerEnd]
  have head: "index ?head MarkerEnd = None"
    using sep [of "[]"] sep [of w] sep [of "[]" MarkerStart] assms(3) none by simp
  have start: "index (u @ CHR 0x0A # MarkerStart @ r) MarkerStart = Some (length u + 1)" for r
    using assms(2) by (simp add: index_sep)
  have tail: "index (CHR 0x0A # w @ newline) MarkerEnd = None"
    using sep [of "[]"] sep [of w "[]"] assms(3) by simp
  have "find_block s = None"
    using start [of "CHR 0x0A # w @ newline"] tail by (simp add: assms(4) find_block_def Let_def)
  then have s: "stripBlock s = s" by (subst stripBlock.simps) simp
  have "ended s = s" using ended_newline [of "u @ newline @ MarkerStart @ newline @ w"] by (simp add: assms(4))
  then have one: "applied [(v, t)] (Text s) = Text (s @ newline @ renderBlock v t)"
    by (simp add: applied_def rewriteFile_Text next_text_eq s)
  have "index (?head @ CHR 0x0A # gen_line t @ concat (exports v) @ MarkerEnd @ newline) MarkerEnd
      = Some (length (gen_line t @ concat (exports v)) + (length ?head + 1))"
    using index_sep [OF _ _ head] index_body [OF assms(1), of t newline] by (simp del: index.simps)
  then have find: "find_block (s @ newline @ renderBlock v t) = Some (u @ newline, ?m @ renderBlock v t, [])"
    using start [of "?head @ CHR 0x0A # gen_line t @ concat (exports v) @ MarkerEnd @ newline"]
      find_block_at [of "u @ newline" "?head @ CHR 0x0A # gen_line t @ concat (exports v)" "[]"]
    by (simp add: assms(4) renderBlock_def del: index.simps)
  have "stripGenLine (?m @ renderBlock v t) = stripGenLine ?m @ stripGenLine (renderBlock v t)"
    using stripGenLine_append [of "MarkerStart @ CHR 0x0A # w @ newline" "renderBlock v t"] by simp
  moreover have "stripGenLine ?m \<noteq> []"
    by (simp add: stripGenLine_def line_chunks_line) (simp add: MarkerStart_def)
  ultimately have "drifted now v (s @ newline @ renderBlock v t)"
    using stripGenLine_block [OF assms(1)] find by (simp add: drifted_def)
  moreover have "stripBlock (s @ newline @ renderBlock v t) = u @ newline"
    using find by (subst stripBlock.simps) simp
  then have "applied [(v, t), (v, t2)] (Text s) = Text (u @ newline @ newline @ renderBlock v t2)"
    using one by (simp add: applied_def rewriteFile_Text next_text_eq)
  ultimately show ?thesis using one by simp
qed

theorem unclosed_block_eats_text_witness:
  "applied [(sample_vars, 0), (sample_vars, 60)]
      (Text (''alias ls=exa'' @ newline @ MarkerStart @ newline @ ''export A=1'' @ newline))
    = Text (''alias ls=exa'' @ newline @ newline @ renderBlock sample_vars 60)"
  using unclosed_block_eats_text [OF sample_plain sample_text refl, of 0 60] by simp

subsection \<open>What a shell makes of a line\<close>

function sh_word :: "string \<Rightarrow> string option" where
  \<comment> \<open>the value of a word by the quoting rules of POSIX: single quotes keep everything, a backslash keeps the next
     character; what would end the word or expand in it is \<open>None\<close>\<close>
  "sh_word s =
     (case s of
        [] \<Rightarrow> Some []
      | c # r \<Rightarrow>
          if c = CHR 0x27 then
            (case index r [CHR 0x27] of
               None \<Rightarrow> None | Some i \<Rightarrow> map_option ((@) (take i r)) (sh_word (drop (i + 1) r)))
          else if c = CHR 0x5C then (case r of [] \<Rightarrow> None | d # r' \<Rightarrow> map_option ((#) d) (sh_word r'))
          else if c \<in> set [CHR 0x20, CHR 0x09, CHR 0x0A, CHR 0x22, CHR ''$'', CHR 0x60, CHR '';'', CHR ''&'', CHR ''|'',
              CHR ''<'', CHR ''>'', CHR ''('', CHR '')'', CHR ''*'', CHR ''?'', CHR ''['', CHR ''#'', CHR ''~'']
          then None
          else map_option ((#) c) (sh_word r))"
  by pat_completeness auto
termination
  by (relation "measure length") auto

declare sh_word.simps [simp del]

lemma index_first: "c \<notin> set a \<Longrightarrow> index (a @ c # b) [c] = Some (length a)"
  by (induction a) auto

lemma sh_word_quote: "sh_word (shellQuote s) = Some s"
proof (induction s rule: length_induct)
  case (1 s)
  let ?q = "CHR 0x27" and ?f = "\<lambda>c. if c = CHR 0x27 then [CHR 0x27, CHR 0x5C, CHR 0x27, CHR 0x27] else [c]"
  have plain: "concat (map ?f a) = a" if "?q \<notin> set a" for a
    using that by (induction a) auto
  show ?case
  proof (cases "?q \<in> set s")
    case False
    then show ?thesis using index_first [OF False, of "[]"]
      by (simp add: shellQuote_eq plain, subst sh_word.simps) (simp add: sh_word.simps [of "[]"])
  next
    case True
    then obtain a b where s: "s = a @ ?q # b" and a: "?q \<notin> set a" by (metis split_list_first)
    let ?rest = "[CHR 0x5C, ?q] @ shellQuote b"
    have "shellQuote s = ?q # a @ ?q # ?rest" using a by (simp add: s shellQuote_eq plain)
    moreover have "sh_word ?rest = Some (?q # b)"
      using 1 s by (subst sh_word.simps) simp
    ultimately show ?thesis
      using index_first [OF a, of ?rest] by (subst sh_word.simps) (simp add: s)
  qed
qed

text \<open>
  The block sets exactly the configured values. Each of its lines is an assignment whose right-hand side a shell reads
  back as the value, whatever characters it has: no value can end its quotes, expand or start another command.
\<close>
theorem shell_reads_values_back:
  "\<exists>q. export_line name v = ''export '' @ name @ ''='' @ q @ newline \<and> sh_word q = Some v"
  using sh_word_quote by (auto simp: export_line_def)

subsection \<open>Applying to all files\<close>

definition strippable :: "rc_file \<Rightarrow> bool" where
  \<comment> \<open>readable, and without a start marker that no end marker follows\<close>
  "strippable f \<longleftrightarrow> (case f of Absent \<Rightarrow> True | Opaque \<Rightarrow> False | Text s \<Rightarrow> index (stripBlock s) MarkerStart = None)"

lemma rewrite_all_files:
  "distinct ps \<Longrightarrow> snd (rewrite_all ok b ps fs) =
     (\<lambda>p. if p \<in> set ps \<and> fs p \<noteq> Absent then snd (rewriteFile (ok p) b True (fs p)) else fs p)"
proof (induction ps arbitrary: fs)
  case (Cons p ps)
  let ?f = "snd (rewriteFile (ok p) b True (fs p))"
  have eq: "snd (rewrite_all ok b (p # ps) fs) = (if fs p = Absent then snd (rewrite_all ok b ps fs) else snd (rewrite_all ok b ps (fs(p := ?f))))"
    by (simp add: split_beta)
  show ?case
    unfolding eq using Cons.prems by (intro ext) (simp add: Cons.IH del: rewrite_all.simps)
qed simp

lemma check_files_eq:
  "list_all (\<lambda>p. fs p \<noteq> Opaque) ps \<Longrightarrow>
     check_files now v ps fs = Some (filter (\<lambda>p. case fs p of Text s \<Rightarrow> drifted now v s | _ \<Rightarrow> False) ps)"
  by (induction now v ps fs rule: check_files.induct) (auto split: rc_file.split)

lemma applied_settled:
  assumes "plain_vars v" and "strippable f" and "f \<noteq> Absent"
  obtains s where "snd (rewriteFile True (renderBlock v t) True f) = Text s" and "\<not> drifted now v s" and "strippable (Text s)"
proof -
  obtain s where f: "f = Text s" and u: "index (ended (stripBlock s)) MarkerStart = None"
    using assms(2,3) unmarked_ended by (cases f) (auto simp: strippable_def)
  let ?s = "ended (stripBlock s) @ newline @ renderBlock v t"
  have "\<not> drifted now v ?s" using drifted_here [OF assms(1) u, of now t "[]"] by simp
  moreover have "stripBlock ?s = ended (stripBlock s) @ newline" using stripBlock_here [OF assms(1) u, of t "[]"] by simp
  then have "strippable (Text ?s)" using unmarked_newline [OF u] by (simp add: strippable_def)
  ultimately show thesis using that [of ?s] by (simp add: f rewriteFile_Text next_text_eq)
qed

lemma drifted_time: "plain_vars v \<Longrightarrow> drifted now v s = drifted now' v s"
  by (simp only: drifted_def stripGenLine_block)

end
