(* ===== verification/Env_Managers.thy ===== *)
theory Env_Managers
  imports Rc_Block
begin

text \<open>
  The managers of the environment as an interface (\<open>connect/envvars/envvars.go\<close>) with its two implementations: the
  marked blocks of \<open>Rc_Block\<close>, and the registry of Windows (\<open>windows.go\<close>, \<open>windows_helpers.go\<close>). What the clients rely
  on is the locale \<open>env_manager\<close>.

  \<^item> A manager is a record of its operations, as the Go interface is. What it relies on of the outside during one call is
    an argument of the operation.
  \<^item> The registry keys are maps; \<open>WM_SETTINGCHANGE\<close>, which tells running programs, is left out. The order in which
    \<open>varsToEnvPairs\<close> is ranged over is that of \<open>managedEnvNames\<close>.
\<close>

subsection \<open>Windows\<close>

datatype Scope = ScopeSystem | ScopeUser

definition env_key :: "Scope \<Rightarrow> string" where
  \<comment> \<open>the path \<open>openEnvKey\<close> reports\<close>
  "env_key sc =
     (case sc of
        ScopeSystem \<Rightarrow> raw ''HKLM~System~CurrentControlSet~Control~Session Manager~Environment''
      | ScopeUser \<Rightarrow> raw ''HKCU~Environment'')"

definition inet_key :: string where
  "inet_key = raw ''HKCU~Software~Microsoft~Windows~CurrentVersion~Internet Settings''"

record windowsManager =
  wm_Scope :: Scope
  wm_WriteWinINet :: bool
  wm_WriteWinHTTP :: bool

definition newManager_windows :: windowsManager where
  "newManager_windows = \<lparr>wm_Scope = ScopeSystem, wm_WriteWinINet = True, wm_WriteWinHTTP = True\<rparr>"

record registry_state =
  wn_env :: "Scope \<Rightarrow> string \<Rightarrow> string option"
  wn_ProxyEnable :: bool
  wn_ProxyServer :: "string option"
  wn_winhttp :: "string option"

record windows_env =
  wi_open :: bool
  wi_set :: "string \<Rightarrow> bool"
  wi_delete :: "string \<Rightarrow> bool"
  wi_inet_open :: bool
  wi_inet_enable :: bool
  wi_inet_server :: bool
  wi_netsh :: bool

definition stripURLScheme :: "string \<Rightarrow> string" where
  "stripURLScheme u =
     trim_right_set
       (if has_prefix u ''http://'' then drop 7 u else if has_prefix u ''https://'' then drop 8 u else u) ''/''"

definition managedEnvNames :: "string list" where
  "managedEnvNames = [''HTTPS_PROXY'', ''HTTP_PROXY'', ''NODE_EXTRA_CA_CERTS'', ''REQUESTS_CA_BUNDLE'', ''SSL_CERT_FILE'']"

definition varsToEnvPairs :: "Vars \<Rightarrow> (string \<times> string) list" where
  "varsToEnvPairs v = filter (\<lambda>nv. snd nv \<noteq> [])
     [(''HTTPS_PROXY'', va_HTTPSProxy v), (''HTTP_PROXY'', va_HTTPProxy v), (''NODE_EXTRA_CA_CERTS'', va_NodeExtraCACerts v),
      (''REQUESTS_CA_BUNDLE'', va_RequestsCABundle v), (''SSL_CERT_FILE'', va_SSLCertFile v)]"

definition set_env :: "Scope \<Rightarrow> string \<Rightarrow> string option \<Rightarrow> registry_state \<Rightarrow> registry_state" where
  "set_env sc n x r = r\<lparr>wn_env := (wn_env r)(sc := (wn_env r sc)(n := x))\<rparr>"

fun set_pairs :: "windows_env \<Rightarrow> Scope \<Rightarrow> (string \<times> string) list \<Rightarrow> registry_state \<Rightarrow> string list \<times> registry_state" where
  \<comment> \<open>the names that could not be set\<close>
  "set_pairs E sc [] r = ([], r)"
| "set_pairs E sc ((n, x) # nvs) r =
     (case set_pairs E sc nvs (if wi_set E n then set_env sc n (Some x) r else r) of
        (errs, r') \<Rightarrow> (if wi_set E n then errs else (''registry set '' @ n) # errs, r'))"

definition writeWinINetProxy :: "windows_env \<Rightarrow> string \<Rightarrow> registry_state \<Rightarrow> bool \<times> registry_state" where
  "writeWinINetProxy E addr r =
     (if \<not> wi_inet_open E \<or> \<not> wi_inet_enable E then (False, r)
      else if \<not> wi_inet_server E then (False, r\<lparr>wn_ProxyEnable := True\<rparr>)
      else (True, r\<lparr>wn_ProxyEnable := True, wn_ProxyServer := Some addr\<rparr>))"

definition clearWinINetProxy :: "windows_env \<Rightarrow> registry_state \<Rightarrow> registry_state" where
  "clearWinINetProxy E r =
     (if \<not> wi_inet_open E then r
      else
        (let r1 = (if wi_inet_enable E then r\<lparr>wn_ProxyEnable := False\<rparr> else r) in
         if wi_inet_server E then r1\<lparr>wn_ProxyServer := None\<rparr> else r1))"

definition setNetshWinHTTPProxy :: "windows_env \<Rightarrow> string option \<Rightarrow> registry_state \<Rightarrow> bool \<times> registry_state" where
  \<comment> \<open>\<open>netsh winhttp set proxy\<close>, or \<open>reset\<close>\<close>
  "setNetshWinHTTPProxy E addr r = (if wi_netsh E then (True, r\<lparr>wn_winhttp := addr\<rparr>) else (False, r))"

definition Apply_windows :: "windowsManager \<Rightarrow> windows_env \<Rightarrow> Vars \<Rightarrow> registry_state \<Rightarrow> rc_report \<times> registry_state" where
  "Apply_windows w E v r =
     (if varsToEnvPairs v = [] then (\<lparr>rr_Touched = [], rr_Errors = []\<rparr>, r)
      else if \<not> wi_open E then (\<lparr>rr_Touched = [], rr_Errors = [''open key'']\<rparr>, r)
      else
        (let (errs, r1) = set_pairs E (wm_Scope w) (varsToEnvPairs v) r;
             addr = stripURLScheme (va_HTTPSProxy v);
             inet = wm_WriteWinINet w \<and> va_HTTPSProxy v \<noteq> [];
             http = wm_WriteWinHTTP w \<and> va_HTTPSProxy v \<noteq> [];
             (ok1, r2) = (if inet then writeWinINetProxy E addr r1 else (True, r1));
             (ok2, r3) = (if http then setNetshWinHTTPProxy E (Some addr) r2 else (True, r2))
         in (\<lparr>rr_Touched = (if errs = [] then [env_key (wm_Scope w)] else []) @ (if inet \<and> ok1 then [inet_key] else [])
                @ (if http \<and> ok2 then [''netsh winhttp''] else []),
              rr_Errors = errs @ (if ok1 then [] else [''wininet'']) @ (if ok2 then [] else [''netsh winhttp''])\<rparr>, r3)))"

fun delete_names :: "windows_env \<Rightarrow> Scope \<Rightarrow> string list \<Rightarrow> registry_state \<Rightarrow> string list \<times> registry_state" where
  \<comment> \<open>a value that is not there is no error\<close>
  "delete_names E sc [] r = ([], r)"
| "delete_names E sc (n # ns) r =
     (let gone = (wn_env r sc n = None \<or> wi_delete E n) in
      case delete_names E sc ns (if gone then set_env sc n None r else r) of
        (errs, r') \<Rightarrow> (if gone then errs else (''registry del '' @ n) # errs, r'))"

definition Remove_windows :: "windowsManager \<Rightarrow> windows_env \<Rightarrow> registry_state \<Rightarrow> rc_report \<times> registry_state" where
  "Remove_windows w E r =
     (if \<not> wi_open E then (\<lparr>rr_Touched = [], rr_Errors = [''open key'']\<rparr>, r)
      else
        (let (errs, r1) = delete_names E (wm_Scope w) managedEnvNames r;
             r2 = (if wm_WriteWinINet w then clearWinINetProxy E r1 else r1);
             r3 = (if wm_WriteWinHTTP w then snd (setNetshWinHTTPProxy E None r2) else r2)
         in (\<lparr>rr_Touched = env_key (wm_Scope w) # (if wm_WriteWinINet w then [inet_key] else [])
                @ (if wm_WriteWinHTTP w then [''netsh winhttp''] else []),
              rr_Errors = errs\<rparr>, r3)))"

definition CheckIntegrity_windows :: "windowsManager \<Rightarrow> windows_env \<Rightarrow> Vars \<Rightarrow> registry_state \<Rightarrow> string list option" where
  "CheckIntegrity_windows w E v r =
     (if \<not> wi_open E then None
      else Some (map fst (filter (\<lambda>(n, want). wn_env r (wm_Scope w) n \<noteq> Some want) (varsToEnvPairs v))))"

subsection \<open>The interface\<close>

record ('e, 's) manager =
  mg_Apply :: "'e \<Rightarrow> Vars \<Rightarrow> 's \<Rightarrow> rc_report \<times> 's"
  mg_Remove :: "'e \<Rightarrow> 's \<Rightarrow> rc_report \<times> 's"
  mg_CheckIntegrity :: "'e \<Rightarrow> Vars \<Rightarrow> 's \<Rightarrow> string list option"     \<comment> \<open>\<open>None\<close>: an error\<close>

definition newManager_unix :: "(unix_env, rc_files) manager" where
  "newManager_unix = \<lparr>mg_Apply = Apply_unix, mg_Remove = Remove_unix, mg_CheckIntegrity = CheckIntegrity_unix\<rparr>"

definition registry_manager :: "windowsManager \<Rightarrow> (windows_env, registry_state) manager" where
  "registry_manager w =
     \<lparr>mg_Apply = Apply_windows w, mg_Remove = Remove_windows w, mg_CheckIntegrity = CheckIntegrity_windows w\<rparr>"

definition recover :: "('e, 's) manager \<Rightarrow> 'e \<Rightarrow> Vars \<Rightarrow> 's \<Rightarrow> (string list \<times> string list) \<times> 's" where
  \<comment> \<open>the first part of \<open>CheckAndRecover\<close>: the drift, the errors, and the state it leaves\<close>
  "recover m E v s =
     (let (drift, err) = (case mg_CheckIntegrity m E v s of None \<Rightarrow> ([], [''rc check'']) | Some d \<Rightarrow> (d, [])) in
      if drift = [] then ((drift, err), s)
      else
        (case mg_Apply m E v s of
           (rp, s') \<Rightarrow> ((drift, err @ (if rr_Errors rp = [] then [] else [''rc recover''])), s')))"

text \<open>
  What a manager promises when the outside works: after \<open>Apply\<close> the check finds nothing, now and later, and finds the same
  at every time.
\<close>

locale env_manager =
  fixes m :: "('e, 's) manager" and works :: "'e \<Rightarrow> bool" and good :: "Vars \<Rightarrow> 's \<Rightarrow> bool"
  assumes settles: "works E \<Longrightarrow> works E' \<Longrightarrow> good v s \<Longrightarrow> mg_CheckIntegrity m E' v (snd (mg_Apply m E v s)) = Some []"
    and keeps: "works E \<Longrightarrow> good v s \<Longrightarrow> good v (snd (mg_Apply m E v s))"
    and stable: "works E \<Longrightarrow> works E' \<Longrightarrow> good v s \<Longrightarrow> mg_CheckIntegrity m E v s = mg_CheckIntegrity m E' v s"
    and checks: "works E \<Longrightarrow> good v s \<Longrightarrow> mg_CheckIntegrity m E v s \<noteq> None"
begin

lemma recover_idle: "mg_CheckIntegrity m E v s = Some [] \<Longrightarrow> recover m E v s = (([], []), s)"
  by (simp add: recover_def)

lemma recover_settles:
  assumes "works E" and "works E'" and "good v s"
  shows "mg_CheckIntegrity m E' v (snd (recover m E v s)) = Some [] \<and> good v (snd (recover m E v s))"
proof -
  obtain d where d: "mg_CheckIntegrity m E v s = Some d" using checks [OF assms(1,3)] by blast
  show ?thesis
  proof (cases "d = []")
    case True
    then show ?thesis using d stable [OF assms] assms(3) by (simp add: recover_idle)
  next
    case False
    then have "snd (recover m E v s) = snd (mg_Apply m E v s)" using d by (simp add: recover_def split_beta)
    then show ?thesis using settles [OF assms] keeps [OF assms(1,3)] by simp
  qed
qed

lemma recover_once:
  assumes "works E" and "works E'" and "good v s"
  shows "recover m E' v (snd (recover m E v s)) = (([], []), snd (recover m E v s))"
  using recover_settles [OF assms] recover_idle by simp

end

subsection \<open>Both implementations keep the contract\<close>

definition unix_works :: "string list \<Rightarrow> unix_env \<Rightarrow> bool" where
  \<comment> \<open>the home directory is found, and the writes succeed\<close>
  "unix_works ps E \<longleftrightarrow> ux_candidates E = Some ps \<and> list_all (ux_writes E) ps"

definition unix_good :: "string list \<Rightarrow> Vars \<Rightarrow> rc_files \<Rightarrow> bool" where
  "unix_good ps v fs \<longleftrightarrow> distinct ps \<and> plain_vars v \<and> list_all (\<lambda>p. strippable (fs p)) ps"

lemma unix_check:
  assumes "unix_works ps E" and "unix_good ps v fs"
  shows "CheckIntegrity_unix E v fs = Some (filter (\<lambda>p. case fs p of Text s \<Rightarrow> drifted (ux_now E) v s | _ \<Rightarrow> False) ps)"
proof -
  have "list_all (\<lambda>p. fs p \<noteq> Opaque) ps" using assms(2) by (auto simp: unix_good_def list_all_iff strippable_def)
  then show ?thesis using assms(1) by (simp add: CheckIntegrity_unix_def unix_works_def check_files_eq)
qed

lemma unix_apply:
  assumes "unix_works ps E" and "unix_good ps v fs" and "p \<in> set ps"
  shows "case snd (Apply_unix E v fs) p of Text s \<Rightarrow> \<not> drifted now v s | _ \<Rightarrow> True"
    and "strippable (snd (Apply_unix E v fs) p)"
proof -
  let ?f = "snd (Apply_unix E v fs) p"
  have f: "?f = (if fs p = Absent then Absent else snd (rewriteFile True (renderBlock v (ux_now E)) True (fs p)))"
    using assms by (auto simp: Apply_unix_def unix_works_def unix_good_def rewrite_all_files list_all_iff)
  have "plain_vars v" and "strippable (fs p)" using assms(2,3) by (auto simp: unix_good_def list_all_iff)
  then have "(case ?f of Text s \<Rightarrow> \<not> drifted now v s | _ \<Rightarrow> True) \<and> strippable ?f"
  proof (cases "fs p = Absent")
    case True
    then show ?thesis by (simp add: f strippable_def)
  next
    case False
    obtain s where "snd (rewriteFile True (renderBlock v (ux_now E)) True (fs p)) = Text s"
      and "\<not> drifted now v s" and "strippable (Text s)"
      by (rule applied_settled [OF \<open>plain_vars v\<close> \<open>strippable (fs p)\<close> False])
    then show ?thesis using False by (simp add: f)
  qed
  then show "case ?f of Text s \<Rightarrow> \<not> drifted now v s | _ \<Rightarrow> True" and "strippable ?f" by simp_all
qed

lemma unix_settled:
  assumes "unix_works ps E" and "unix_good ps v fs" and "p \<in> set ps" and "snd (Apply_unix E v fs) p = Text s"
  shows "\<not> drifted now v s"
  using unix_apply(1) [OF assms(1-3), of now] assms(4) by simp

interpretation unix: env_manager newManager_unix "unix_works ps" "unix_good ps"
proof unfold_locales
  fix E E' v fs
  assume w: "unix_works ps E" and g: "unix_good ps v fs"
  let ?fs = "snd (mg_Apply newManager_unix E v fs)"
  have a: "?fs = snd (Apply_unix E v fs)" by (simp add: newManager_unix_def)
  show g': "unix_good ps v ?fs"
    using g unix_apply(2) [OF w g] by (auto simp: a unix_good_def list_all_iff)
  show "mg_CheckIntegrity newManager_unix E v fs \<noteq> None"
    using unix_check [OF w g] by (simp add: newManager_unix_def)
  assume w': "unix_works ps E'"
  have eq: "drifted (ux_now E) v = drifted (ux_now E') v"
    using g drifted_time by (intro ext) (simp add: unix_good_def)
  show "mg_CheckIntegrity newManager_unix E v fs = mg_CheckIntegrity newManager_unix E' v fs"
    unfolding newManager_unix_def manager.simps unix_check [OF w g] unix_check [OF w' g] eq ..
  show "mg_CheckIntegrity newManager_unix E' v ?fs = Some []"
    using unix_check [OF w' g'] unix_settled [OF w g]
    by (auto simp: newManager_unix_def a filter_empty_conv split: rc_file.splits)
qed

definition windows_works :: "windows_env \<Rightarrow> bool" where
  "windows_works E \<longleftrightarrow> wi_open E \<and> wi_set E = (\<lambda>_. True)"

lemma set_pairs_env:
  "wi_set E = (\<lambda>_. True) \<Longrightarrow> distinct (map fst nvs) \<Longrightarrow>
     wn_env (snd (set_pairs E sc nvs r)) sc = (\<lambda>n. case map_of nvs n of Some x \<Rightarrow> Some x | None \<Rightarrow> wn_env r sc n)"
proof (induction nvs arbitrary: r)
  case (Cons nv nvs)
  obtain n x where nv: "nv = (n, x)" by force
  have "snd (set_pairs E sc (nv # nvs) r) = snd (set_pairs E sc nvs (set_env sc n (Some x) r))"
    using Cons.prems(1) by (simp add: nv split_beta)
  moreover have "map_of nvs n = None" using Cons.prems(2) by (simp add: nv map_of_eq_None_iff)
  ultimately show ?case
    using Cons.prems by (intro ext) (simp add: Cons.IH set_env_def nv split: option.split)
qed simp

lemma inet_env [simp]:
  "wn_env (snd (writeWinINetProxy E addr r)) = wn_env r" "wn_env (snd (setNetshWinHTTPProxy E addr' r)) = wn_env r"
  "wn_env (clearWinINetProxy E r) = wn_env r"
  by (simp_all add: writeWinINetProxy_def setNetshWinHTTPProxy_def clearWinINetProxy_def Let_def)

lemma pairs_distinct: "distinct (map fst (varsToEnvPairs v))"
  by (simp add: varsToEnvPairs_def)

lemma Apply_windows_env:
  assumes "windows_works E"
  shows "wn_env (snd (Apply_windows w E v r)) (wm_Scope w)
    = (\<lambda>n. case map_of (varsToEnvPairs v) n of Some x \<Rightarrow> Some x | None \<Rightarrow> wn_env r (wm_Scope w) n)"
  using assms set_pairs_env [OF _ pairs_distinct, of E "wm_Scope w" v r]
  by (auto simp: Apply_windows_def windows_works_def split_beta Let_def)

interpretation windows: env_manager "registry_manager w" windows_works "\<lambda>_ _. True"
proof unfold_locales
  fix E E' v r
  assume w: "windows_works E" "windows_works E'"
  have "map_of (varsToEnvPairs v) n = Some x" if "(n, x) \<in> set (varsToEnvPairs v)" for n x
    using that pairs_distinct by simp
  then show "mg_CheckIntegrity (registry_manager w) E' v (snd (mg_Apply (registry_manager w) E v r)) = Some []"
    using w by (auto simp: registry_manager_def CheckIntegrity_windows_def Apply_windows_env windows_works_def filter_empty_conv)
qed (simp_all add: registry_manager_def CheckIntegrity_windows_def windows_works_def)

subsection \<open>What the clients get\<close>

lemma set_env_env: "wn_env (set_env sc n x r) = (wn_env r)(sc := (wn_env r sc)(n := x))"
  by (simp add: set_env_def)

lemma delete_names_env:
  "wi_delete E = (\<lambda>_. True) \<Longrightarrow>
     fst (delete_names E sc ns r) = []
     \<and> wn_env (snd (delete_names E sc ns r)) = (wn_env r)(sc := (\<lambda>n. if n \<in> set ns then None else wn_env r sc n))"
proof (induction ns arbitrary: r)
  case (Cons n ns)
  have "snd (delete_names E sc (n # ns) r) = snd (delete_names E sc ns (set_env sc n None r))"
    and "fst (delete_names E sc (n # ns) r) = fst (delete_names E sc ns (set_env sc n None r))"
    using Cons.prems by (simp_all add: split_beta Let_def)
  then show ?case using Cons.IH [OF Cons.prems, of "set_env sc n None r"] by (auto simp: set_env_env fun_eq_iff simp del: delete_names.simps)
qed simp

text \<open>
  On Windows an uninstallation clears the managed names, whoever set them. It leaves every other variable as it was, and
  switches the proxy of the user off; but it does not restore what was there: the state before the installation only
  matters outside the managed names.
\<close>
theorem removal_forgets_previous_values:
  assumes "windows_works E" and "wi_delete E = (\<lambda>_. True)" and "wi_inet_open E \<and> wi_inet_enable E \<and> wi_inet_server E \<and> wi_netsh E"
  shows "let s = snd (Remove_windows newManager_windows E (snd (Apply_windows newManager_windows E v r)))
     in wn_env s ScopeSystem = (\<lambda>n. if n \<in> set managedEnvNames then None else wn_env r ScopeSystem n)
      \<and> wn_env s ScopeUser = wn_env r ScopeUser
      \<and> \<not> wn_ProxyEnable s \<and> wn_ProxyServer s = None \<and> wn_winhttp s = None"
proof -
  have other: "n \<notin> set managedEnvNames \<Longrightarrow> map_of (varsToEnvPairs v) n = None" for n
    by (auto simp: varsToEnvPairs_def managedEnvNames_def)
  have user: "wn_env (snd (set_pairs E ScopeSystem nvs r)) ScopeUser = wn_env r ScopeUser" for nvs r
    by (induction nvs arbitrary: r) (auto simp: split_beta set_env_env)
  let ?r = "snd (Apply_windows newManager_windows E v r)"
  have "wn_env ?r ScopeUser = wn_env r ScopeUser"
    using assms(1) by (simp add: Apply_windows_def windows_works_def newManager_windows_def split_beta Let_def user)
  moreover have "wn_env ?r ScopeSystem n = wn_env r ScopeSystem n" if "n \<notin> set managedEnvNames" for n
    using Apply_windows_env [OF assms(1), of newManager_windows v r] other [OF that] by (simp add: newManager_windows_def)
  ultimately show ?thesis
    using assms delete_names_env [OF assms(2), of ScopeSystem managedEnvNames ?r]
    by (auto simp: Remove_windows_def windows_works_def newManager_windows_def split_beta Let_def
        clearWinINetProxy_def setNetshWinHTTPProxy_def)
qed

theorem removal_forgets_previous_values_witness:
  "let E = \<lparr>wi_open = True, wi_set = (\<lambda>_. True), wi_delete = (\<lambda>_. True), wi_inet_open = True, wi_inet_enable = True,
            wi_inet_server = True, wi_netsh = True\<rparr>;
       r = \<lparr>wn_env = (\<lambda>_ _. Some ''http://mine''), wn_ProxyEnable = True, wn_ProxyServer = Some ''mine'', wn_winhttp = None\<rparr>;
       s = snd (Remove_windows newManager_windows E (snd (Apply_windows newManager_windows E sample_vars r)))
   in wn_env s ScopeSystem ''HTTPS_PROXY'' = None \<and> wn_env s ScopeSystem ''PATH'' = Some ''http://mine''
    \<and> \<not> wn_ProxyEnable s \<and> wn_ProxyServer s = None"
  unfolding Let_def
  by (subst removal_forgets_previous_values [unfolded Let_def], simp_all add: windows_works_def managedEnvNames_def)+

end
