(* ===== verification/Connect_Config.thy ===== *)
theory Connect_Config
  imports Rc_Block Json_Text Files
begin

text \<open>
  The configuration of ai-scan-connect (\<open>connect/config/config.go\<close>): where its files are, how it is read and written.

  \<^item> The environment is a function to the value of a variable, empty when it is not set. The operating system a build is
    for is an argument. Directories named by the environment are clean paths.
  \<^item> \<open>raw\<close> stands \<open>~\<close> for a backslash.
\<close>

datatype goos = Linux | Darwin | Windows

subsection \<open>Paths\<close>

definition programData :: "(string \<Rightarrow> string) \<Rightarrow> string" where
  "programData env = (if env ''PROGRAMDATA'' = [] then raw ''C:~ProgramData'' else env ''PROGRAMDATA'')"

definition DefaultConfigPath :: "goos \<Rightarrow> (string \<Rightarrow> string) \<Rightarrow> string" where
  "DefaultConfigPath os env =
     (if os = Windows then programData env @ raw ''~AIScanConnect~config.json'' else ''/etc/ai-scan-connect/config.json'')"

definition DefaultStateDir :: "goos \<Rightarrow> (string \<Rightarrow> string) \<Rightarrow> string" where
  "DefaultStateDir os env =
     (let v = env ''AISCANCONNECT_STATE_DIR'' in
      if v \<noteq> [] then v
      else if os = Windows then programData env @ raw ''~AIScanConnect''
      else ''/var/lib/ai-scan-connect'')"

definition DefaultCAInstallPath :: "goos \<Rightarrow> (string \<Rightarrow> string) \<Rightarrow> string" where
  "DefaultCAInstallPath os env =
     (let v = env ''AISCANCONNECT_CA_PATH'' in
      if v \<noteq> [] then v
      else if os = Windows then DefaultStateDir os env @ raw ''~aiscan.pem''
      else ''/etc/ssl/certs/aiscan.pem'')"

definition DefaultLogPath :: "goos \<Rightarrow> (string \<Rightarrow> string) \<Rightarrow> string" where
  "DefaultLogPath os env =
     (if os = Windows then DefaultStateDir os env @ raw ''~ai-scan-connect.log'' else ''/var/log/ai-scan-connect.log'')"

subsection \<open>The configuration\<close>

record Config =
  cf_InterceptorURL :: string
  cf_EnrollURL :: string
  cf_OrgCAPEM :: string
  cf_EnrollmentToken :: string
  cf_LocalListen :: string
  cf_FailClose :: bool
  cf_Org :: string

definition zero_Config :: Config where
  "zero_Config = \<lparr>cf_InterceptorURL = [], cf_EnrollURL = [], cf_OrgCAPEM = [], cf_EnrollmentToken = [], cf_LocalListen = [],
     cf_FailClose = False, cf_Org = []\<rparr>"

definition Config_fields :: "Config fields" where
  "Config_fields =
     [fld ''interceptor_url'' dec_string cf_InterceptorURL cf_InterceptorURL_update,
      fld ''enroll_url'' dec_string cf_EnrollURL cf_EnrollURL_update,
      fld ''org_ca_pem'' dec_string cf_OrgCAPEM cf_OrgCAPEM_update,
      fld ''enrollment_token'' dec_string cf_EnrollmentToken cf_EnrollmentToken_update,
      fld ''local_listen'' dec_string cf_LocalListen cf_LocalListen_update,
      fld ''fail_close'' dec_bool cf_FailClose cf_FailClose_update,
      fld ''org'' dec_string cf_Org cf_Org_update]"

definition enc_Config :: "Config \<Rightarrow> json" where
  "enc_Config c = JObj
     [(''interceptor_url'', JStr (cf_InterceptorURL c)), (''enroll_url'', JStr (cf_EnrollURL c)),
      (''org_ca_pem'', JStr (cf_OrgCAPEM c)), (''enrollment_token'', JStr (cf_EnrollmentToken c)),
      (''local_listen'', JStr (cf_LocalListen c)), (''fail_close'', JBool (cf_FailClose c)), (''org'', JStr (cf_Org c))]"

definition applyDefaults :: "Config \<Rightarrow> Config" where
  "applyDefaults c = (if cf_LocalListen c = [] then c\<lparr>cf_LocalListen := ''127.0.0.1:8443''\<rparr> else c)"

definition validate_config :: "Config \<Rightarrow> string option" where
  "validate_config c =
     (if cf_InterceptorURL c = [] then Some ''config: interceptor_url is required''
      else if cf_EnrollURL c = [] then Some ''config: enroll_url is required''
      else if cf_OrgCAPEM c = [] then Some ''config: org_ca_pem is required''
      else None)"

definition Load_Config :: "json_file \<Rightarrow> string + Config" where
  "Load_Config f =
     (case f of
        Missing \<Rightarrow> Inl ''read config''
      | Unreadable \<Rightarrow> Inl ''read config''
      | Blank \<Rightarrow> Inl ''parse config''
      | Malformed \<Rightarrow> Inl ''parse config''
      | Doc j \<Rightarrow>
          (case dec_struct Config_fields zero_Config j of
             None \<Rightarrow> Inl ''parse config''
           | Some c \<Rightarrow>
               let c' = applyDefaults c in
               case validate_config c' of Some e \<Rightarrow> Inl e | None \<Rightarrow> Inr c'))"

definition Save_Config :: "bool \<Rightarrow> overwrite \<Rightarrow> Config \<Rightarrow> json_file \<Rightarrow> bool \<times> json_file" where
  \<comment> \<open>whether the directory can be made, the outcome of the write; what the file holds is what a reader parses of it\<close>
  "Save_Config mkdir w c f =
     (if mkdir then (w = Written, overwrite_doc w (as_read (enc_Config c)) f) else (False, f))"

subsection \<open>What is read\<close>

definition sanitized :: "Config \<Rightarrow> Config" where
  "sanitized c = c\<lparr>cf_InterceptorURL := sanitize (cf_InterceptorURL c), cf_EnrollURL := sanitize (cf_EnrollURL c),
     cf_OrgCAPEM := sanitize (cf_OrgCAPEM c), cf_EnrollmentToken := sanitize (cf_EnrollmentToken c),
     cf_LocalListen := sanitize (cf_LocalListen c), cf_Org := sanitize (cf_Org c)\<rparr>"

interpretation config_view: json_view "\<lambda>c. as_read (enc_Config c)" "dec_struct Config_fields" zero_Config sanitized
proof
  fix c
  show "dec_struct Config_fields zero_Config (as_read (enc_Config c)) = Some (sanitized c)"
    by (cases c) (simp add: codec_simps enc_Config_def Config_fields_def zero_Config_def sanitized_def sanitize_ascii)
qed

lemma Load_valid: "Load_Config f = Inr c \<Longrightarrow> validate_config c = None \<and> cf_LocalListen c \<noteq> []"
  by (auto simp: Load_Config_def Let_def applyDefaults_def validate_config_def
      split: json_file.splits option.splits if_splits)

lemma Load_Save_Config:
  "validate_config (applyDefaults (sanitized c)) = None \<Longrightarrow>
     Load_Config (snd (Save_Config True Written c f)) = Inr (applyDefaults (sanitized c))"
  by (simp add: Load_Config_def Save_Config_def overwrite_doc_def config_view.view_enc Let_def)

end
