(* ===== verification/Connect_Enroll.thy ===== *)
theory Connect_Enroll
  imports Connect_Config Enroll
begin

text \<open>
  Enrollment on the side of the client (\<open>connect/enroll/enroll.go\<close>): the key, the request, the certificate. The server is
  the model of tls-proxy in \<open>Enroll\<close>; that the two programs are written by the same project but do not agree on the names
  of the fields is what the last section shows.

  \<^item> The key and the request are what \<open>crypto/x509\<close> makes of them, arguments in the record \<open>client_lib\<close>; a key is the text
    its parser returns.
  \<^item> A file is absent, unreadable, or its bytes. \<open>os.WriteFile\<close> truncates: a write that fails may leave a part.
\<close>

subsection \<open>Files\<close>

datatype put = Put | Not_opened | Cut nat

definition put_bytes :: "bool \<Rightarrow> put \<Rightarrow> string \<Rightarrow> rc_file \<Rightarrow> bool \<times> rc_file" where
  \<comment> \<open>\<open>writeFile0600\<close>: whether the directory can be made, the outcome of the write\<close>
  "put_bytes mkdir w data f =
     (if \<not> mkdir then (False, f)
      else (case w of Put \<Rightarrow> (True, Text data) | Not_opened \<Rightarrow> (False, f) | Cut n \<Rightarrow> (False, Text (take n data))))"

subsection \<open>Key and request\<close>

record client_lib =
  cl_x509 :: x509_lib
  cl_key_pem :: "string \<Rightarrow> string"                                \<comment> \<open>PKCS 8, in PEM\<close>
  cl_csr_pem :: "string \<Rightarrow> string \<Rightarrow> string list \<Rightarrow> string option"   \<comment> \<open>key, common name, organizations\<close>
  cl_trusts :: "string \<Rightarrow> bool"                                  \<comment> \<open>the PEM has a certificate for the pool\<close>
  cl_url_ok :: "string \<Rightarrow> bool"                                  \<comment> \<open>\<open>http.NewRequest\<close> takes the URL\<close>

definition EnsureKey :: "client_lib \<Rightarrow> string option \<Rightarrow> bool \<Rightarrow> put \<Rightarrow> rc_file \<Rightarrow> (string + string) \<times> rc_file" where
  \<comment> \<open>the key the generator draws, and the outcomes of the write\<close>
  "EnsureKey L gen mkdir w f =
     (case f of
        Text s \<Rightarrow>
          (case xl_pem (cl_x509 L) s of
             None \<Rightarrow> Inl ''not PEM''
           | Some (_, b) \<Rightarrow>
               (case xl_pkcs8 (cl_x509 L) b of
                  Some (Some k) \<Rightarrow> Inr k
                | Some None \<Rightarrow> Inl ''stored key is not RSA''
                | None \<Rightarrow> (case xl_pkcs1 (cl_x509 L) b of Some k \<Rightarrow> Inr k | None \<Rightarrow> Inl ''cannot parse key'')), f)
      | Opaque \<Rightarrow> (Inl ''read key'', f)
      | Absent \<Rightarrow>
          (case gen of
             None \<Rightarrow> (Inl ''rsa keygen'', f)
           | Some k \<Rightarrow>
               (case put_bytes mkdir w (cl_key_pem L k) f of (ok, f') \<Rightarrow> (if ok then Inr k else Inl ''write key'', f'))))"

record SubjectInfo =
  su_OSUser :: string
  su_Hostname :: string
  su_Org :: string

definition CurrentSubject :: "string option \<Rightarrow> string option \<Rightarrow> string \<Rightarrow> SubjectInfo option" where
  "CurrentSubject user host org =
     (case (user, host) of
        (Some u, Some h) \<Rightarrow> Some \<lparr>su_OSUser = u, su_Hostname = h, su_Org = org\<rparr> | _ \<Rightarrow> None)"

definition nonEmptyOrgs :: "string \<Rightarrow> string list" where
  "nonEmptyOrgs org = (if org = [] then [] else [org])"

definition BuildCSR :: "client_lib \<Rightarrow> string \<Rightarrow> SubjectInfo \<Rightarrow> string option" where
  "BuildCSR L key sub = cl_csr_pem L key (su_OSUser sub @ ''@'' @ su_Hostname sub) (nonEmptyOrgs (su_Org sub))"

subsection \<open>The exchange\<close>

record EnrollRequest =
  rq_Token :: string
  rq_CSR :: string
  rq_Host :: string
  rq_OSUser :: string

definition enc_EnrollRequest :: "EnrollRequest \<Rightarrow> json" where
  "enc_EnrollRequest r = JObj
     ([(''token'', JStr (rq_Token r)), (''csr'', JStr (rq_CSR r))]
      @ (if rq_Host r = [] then [] else [(''hostname'', JStr (rq_Host r))])
      @ (if rq_OSUser r = [] then [] else [(''os_user'', JStr (rq_OSUser r))]))"

definition dec_CertPEM :: "json \<Rightarrow> string option" where
  \<comment> \<open>into an \<open>EnrollResponse\<close>\<close>
  "dec_CertPEM = dec_struct [fld ''cert_pem'' dec_string id id] []"

record paths =
  pt_StateDir :: string
  pt_KeyPath :: string
  pt_CertPath :: string

definition DefaultPaths :: "goos \<Rightarrow> (string \<Rightarrow> string) \<Rightarrow> paths" where
  "DefaultPaths os env =
     (let dir = DefaultStateDir os env; sep = (if os = Windows then raw ''~'' else ''/'') in
      \<lparr>pt_StateDir = dir, pt_KeyPath = dir @ sep @ ''client.key'', pt_CertPath = dir @ sep @ ''cert.pem''\<rparr>)"

record client_files =
  fi_key :: rc_file
  fi_csr :: rc_file
  fi_cert :: rc_file

record client_env =
  en_gen :: "string option"
  en_mkdir :: bool
  en_key_put :: put
  en_user :: "string option"
  en_host :: "string option"
  en_csr_put :: put
  en_cert_put :: put

definition Enroll_request :: "client_lib \<Rightarrow> Config \<Rightarrow> client_env \<Rightarrow> client_files \<Rightarrow> (string + string) \<times> client_files" where
  \<comment> \<open>the first half of \<open>Enroll\<close>: the body it posts\<close>
  "Enroll_request L cfg E fs =
     (case EnsureKey L (en_gen E) (en_mkdir E) (en_key_put E) (fi_key fs) of
        (Inl e, k) \<Rightarrow> (Inl e, fs\<lparr>fi_key := k\<rparr>)
      | (Inr key, k) \<Rightarrow>
          (let fs1 = fs\<lparr>fi_key := k\<rparr> in
           case CurrentSubject (en_user E) (en_host E) (cf_Org cfg) of
             None \<Rightarrow> (Inl ''subject'', fs1)
           | Some sub \<Rightarrow>
               (case BuildCSR L key sub of
                  None \<Rightarrow> (Inl ''CreateCertificateRequest'', fs1)
                | Some csr \<Rightarrow>
                    (let fs2 = fs1\<lparr>fi_csr := snd (put_bytes (en_mkdir E) (en_csr_put E) csr (fi_csr fs1))\<rparr> in
                     if \<not> cl_trusts L (cf_OrgCAPEM cfg) then (Inl ''invalid org_ca_pem'', fs2)
                     else if \<not> cl_url_ok L (cf_EnrollURL cfg) then (Inl ''bad enroll URL'', fs2)
                     else
                       (Inr (encode_json True (enc_EnrollRequest
                          \<lparr>rq_Token = cf_EnrollmentToken cfg, rq_CSR = csr, rq_Host = su_Hostname sub,
                           rq_OSUser = su_OSUser sub\<rparr>)), fs2)))))"

definition Enroll_reply :: "bool \<Rightarrow> put \<Rightarrow> (int \<times> string) option \<Rightarrow> rc_file \<Rightarrow> (string + unit) \<times> rc_file" where
  \<comment> \<open>the second half: the status and the body of the response, none when the request failed; the certificate file\<close>
  "Enroll_reply mkdir w resp f =
     (case resp of
        None \<Rightarrow> (Inl ''POST'', f)
      | Some (status, body) \<Rightarrow>
          if status div 100 \<noteq> 2 then (Inl ''server returned an error'', f)
          else
            (case unmarshal_any body of
               None \<Rightarrow> (Inl ''bad response'', f)
             | Some j \<Rightarrow>
                 (case dec_CertPEM j of
                    None \<Rightarrow> (Inl ''bad response'', f)
                  | Some c \<Rightarrow>
                      if c = [] then (Inl ''empty cert_pem in response'', f)
                      else (case put_bytes mkdir w c f of (ok, f') \<Rightarrow> (if ok then Inr () else Inl ''write cert'', f')))))"

definition Enroll_client ::
  "client_lib \<Rightarrow> Config \<Rightarrow> client_env \<Rightarrow> (string \<Rightarrow> 's \<Rightarrow> (int \<times> string) option \<times> 's) \<Rightarrow> client_files \<Rightarrow> 's
     \<Rightarrow> (string + unit) \<times> client_files \<times> 's" where
  \<comment> \<open>\<open>Enroll\<close> against a server that answers a body and changes its state\<close>
  "Enroll_client L cfg E server fs s =
     (case Enroll_request L cfg E fs of
        (Inl e, fs1) \<Rightarrow> (Inl e, fs1, s)
      | (Inr body, fs1) \<Rightarrow>
          (case server body s of
             (resp, s') \<Rightarrow>
               (case Enroll_reply (en_mkdir E) (en_cert_put E) resp (fi_cert fs1) of
                  (res, c) \<Rightarrow> (res, fs1\<lparr>fi_cert := c\<rparr>, s'))))"

subsection \<open>The certificate\<close>

record validity =
  vl_CommonName :: string
  vl_NotBefore :: time
  vl_NotAfter :: time

definition LoadCert :: "x509_lib \<Rightarrow> (string \<Rightarrow> validity option) \<Rightarrow> rc_file \<Rightarrow> validity option" where
  \<comment> \<open>what the client reads of a parsed certificate\<close>
  "LoadCert X parse f =
     (case f of
        Text s \<Rightarrow> (case xl_pem X s of None \<Rightarrow> None | Some (_, b) \<Rightarrow> parse b)
      | _ \<Rightarrow> None)"

definition time_sub :: "time \<Rightarrow> time \<Rightarrow> int" where
  \<comment> \<open>\<open>Time.Sub\<close> saturates\<close>
  "time_sub a b = max min_int64 (min max_int64 (a - b))"

definition ShouldRenew :: "validity \<Rightarrow> time \<Rightarrow> bool" where
  "ShouldRenew c now =
     (let total = time_sub (vl_NotAfter c) (vl_NotBefore c) in
      total \<le> 0 \<or> now > vl_NotBefore c + total div 2)"

subsection \<open>What the two programs make of each other\<close>

definition enc_enrollResponse :: "enrollResponse \<Rightarrow> json" where
  "enc_enrollResponse r = JObj
     [(''cert'', JStr (es_Cert r)), (''ca_chain'', JStr (es_CAChain r)), (''expires_at'', JStr (es_ExpiresAt r))]"

definition tls_server ::
  "x509_lib \<Rightarrow> enrollConfig \<Rightarrow> enroll_env \<Rightarrow> string \<Rightarrow> string \<Rightarrow> enroll_files \<Rightarrow> (int \<times> string) option \<times> enroll_files" where
  \<comment> \<open>tls-proxy's answer to a POST on the wire; the text of an error is an argument\<close>
  "tls_server X sc se msg body fs =
     (case handleEnroll X sc se ''POST'' body fs of
        (rp, fs') \<Rightarrow>
          (Some (rp_Status rp,
             case rp_Body rp of None \<Rightarrow> msg | Some r \<Rightarrow> encode_json True (enc_enrollResponse r) @ newline), fs'))"

lemma read_request:
  "dec_enrollRequest (as_read (enc_EnrollRequest r)) = Some \<lparr>er_CSR = sanitize (rq_CSR r), er_EnrollmentToken = []\<rparr>"
  by (simp add: dec_enrollRequest_def enc_EnrollRequest_def codec_simps sanitize_ascii)

lemma request_refused:
  assumes "length (encode_json True (enc_EnrollRequest r)) \<le> 64 * 1024"
  shows "handleEnroll X sc se ''POST'' (encode_json True (enc_EnrollRequest r)) fs = (http_error 400, fs)"
proof -
  have "no_numbers (enc_EnrollRequest r)" by (simp add: enc_EnrollRequest_def)
  then have "decode_first (take (64 * 1024) (encode_json True (enc_EnrollRequest r))) = Some (as_read (enc_EnrollRequest r), [])"
    using decode_first_encode [of "enc_EnrollRequest r" True "[]"] assms by simp
  moreover have "trim_space [] = []" by code_simp
  ultimately show ?thesis by (simp add: handleEnroll_def read_request)
qed

lemma read_response: "dec_CertPEM (as_read (enc_enrollResponse r)) = Some []"
proof -
  have "lower_char CHR ''t'' \<noteq> lower_char CHR ''c''" by code_simp
  then show ?thesis by (simp add: dec_CertPEM_def enc_enrollResponse_def codec_simps sanitize_ascii)
qed

lemma unmarshal_line: "no_numbers j \<Longrightarrow> unmarshal_any (encode_json html j @ newline) = Some (as_read j)"
  using decode_first_encode [of j html newline] by (simp add: unmarshal_any_def skip_ws_def json_space_def)

lemma response_unusable:
  "Enroll_reply mkdir w (Some (200, encode_json True (enc_enrollResponse r) @ newline)) f
     = (Inl ''empty cert_pem in response'', f)"
proof -
  have "no_numbers (enc_enrollResponse r)" by (simp add: enc_enrollResponse_def)
  then show ?thesis by (simp add: Enroll_reply_def unmarshal_line read_response)
qed

lemma server_reply:
  "snd (handleEnroll X sc se verb body fs) = fs' \<Longrightarrow>
     (case handleEnroll X sc se verb body fs of
        (rp, _) \<Rightarrow> (if rp_Body rp = None then rp_Status rp div 100 \<noteq> 2 else rp_Status rp = 200))"
  by (auto simp: handleEnroll_def issue_def http_error_def busy_def Let_def split_beta
      split: option.split sum.split store_error.split)

lemma enrollment_fails:
  "case Enroll_client L cfg E (tls_server X sc se msg) fs s of
     (res, fs', s') \<Rightarrow> res \<noteq> Inr () \<and> fi_cert fs' = fi_cert fs"
proof -
  have cert: "fi_cert (snd (Enroll_request L cfg E fs)) = fi_cert fs"
    by (simp add: Enroll_request_def Let_def split: prod.split sum.split option.split)
  have reply: "Enroll_reply mkdir w (fst (tls_server X sc se msg body s)) f = (Inl e, f)
      \<Longrightarrow> fst (Enroll_reply mkdir w (fst (tls_server X sc se msg body s)) f) \<noteq> Inr ()
        \<and> snd (Enroll_reply mkdir w (fst (tls_server X sc se msg body s)) f) = f" for mkdir w body f e
    by simp
  have "\<exists>e. Enroll_reply mkdir w (fst (tls_server X sc se msg body s)) f = (Inl e, f)" for mkdir w body f
  proof (cases "rp_Body (fst (handleEnroll X sc se ''POST'' body s))")
    case None
    then show ?thesis
      using server_reply [OF refl, of X sc se "''POST''" body s]
      by (auto simp: tls_server_def Enroll_reply_def split_beta)
  next
    case (Some r)
    then show ?thesis
      using server_reply [OF refl, of X sc se "''POST''" body s] response_unusable [of mkdir w r f]
      by (auto simp: tls_server_def split_beta)
  qed
  then show ?thesis
    using cert reply by (auto simp: Enroll_client_def split_beta split: sum.split) (metis fst_conv snd_conv sum.distinct(1))+
qed

text \<open>
  C18: ai-scan-connect cannot enroll with tls-proxy. Whatever the token, the registers and the outcomes of the system calls,
  an enrollment of the client against the endpoint ends in an error and leaves the certificate file as it was: what
  the endpoint calls \<open>enrollment_token\<close> and \<open>cert\<close>, the client calls \<open>token\<close> and \<open>cert_pem\<close>.
\<close>
theorem client_cannot_enroll:
  "case Enroll_client L cfg E (tls_server X sc se msg) fs s of
     (res, fs', s') \<Rightarrow> res \<noteq> Inr () \<and> fi_cert fs' = fi_cert fs"
  by (rule enrollment_fails)

text \<open>The endpoint refuses the request before it looks at the token: neither the tokens nor the register change.\<close>

lemma refused_before_token_is_read:
  assumes "Enroll_request L cfg E fs = (Inr body, fs1)" and "length body \<le> 64 * 1024"
  shows "Enroll_client L cfg E (tls_server X sc se msg) fs s = (Inl ''server returned an error'', fs1, s)"
proof -
  obtain r where "body = encode_json True (enc_EnrollRequest r)"
    using assms(1) by (auto simp: Enroll_request_def Let_def split: prod.splits sum.splits option.splits if_splits)
  then have "tls_server X sc se msg body s = (Some (400, msg), s)"
    using request_refused assms(2) by (simp add: tls_server_def http_error_def)
  moreover have "fs1\<lparr>fi_cert := fi_cert fs1\<rparr> = fs1" by simp
  ultimately show ?thesis using assms(1) by (simp add: Enroll_client_def Enroll_reply_def)
qed

subsection \<open>Against a server that understands the client\<close>

definition key_lib :: "client_lib \<Rightarrow> bool" where
  \<comment> \<open>a key that was marshalled and put in PEM parses to itself\<close>
  "key_lib L \<longleftrightarrow> (\<forall>k. case xl_pem (cl_x509 L) (cl_key_pem L k) of
      None \<Rightarrow> False | Some (_, b) \<Rightarrow> xl_pkcs8 (cl_x509 L) b = Some (Some k))"

lemma EnsureKey_stored: "key_lib L \<Longrightarrow> EnsureKey L gen mkdir w (Text (cl_key_pem L k)) = (Inr k, Text (cl_key_pem L k))"
  unfolding key_lib_def by (drule spec [of _ k]) (auto simp: EnsureKey_def split: option.splits)

lemma EnsureKey_again:
  "key_lib L \<Longrightarrow> EnsureKey L gen mkdir w f = (Inr k, f') \<Longrightarrow> EnsureKey L gen' mkdir' w' f' = (Inr k, f')"
  using EnsureKey_stored [of L gen' mkdir' w' k]
  by (cases f) (auto simp: EnsureKey_def put_bytes_def split: option.splits prod.splits put.splits if_splits)

lemma Enroll_request_cases:
  assumes "Enroll_request L cfg E fs = (Inr body, fs1)"
  obtains key sub csr where "EnsureKey L (en_gen E) (en_mkdir E) (en_key_put E) (fi_key fs) = (Inr key, fi_key fs1)"
    and "CurrentSubject (en_user E) (en_host E) (cf_Org cfg) = Some sub" and "BuildCSR L key sub = Some csr"
    and "body = encode_json True (enc_EnrollRequest \<lparr>rq_Token = cf_EnrollmentToken cfg, rq_CSR = csr,
           rq_Host = su_Hostname sub, rq_OSUser = su_OSUser sub\<rparr>)"
  using assms by (auto simp: Enroll_request_def Let_def split: prod.splits sum.splits option.splits if_splits)

lemma Enroll_reply_stored:
  assumes "Enroll_reply mkdir w resp f = (Inr (), f')"
  obtains status body j c where "resp = Some (status, body)" "status div 100 = 2" "unmarshal_any body = Some j"
    "dec_CertPEM j = Some c" "c \<noteq> []" "f' = Text c"
  using assms
  by (auto simp: Enroll_reply_def put_bytes_def split: option.splits prod.splits put.splits if_splits)


definition sample_client_lib :: client_lib where
  "sample_client_lib = \<lparr>cl_x509 = sample_x509\<lparr>xl_pkcs8 := (\<lambda>b. Some (Some b))\<rparr>, cl_key_pem = id,
     cl_csr_pem = (\<lambda>k cn orgs. Some (cn @ k)), cl_trusts = (\<lambda>_. True), cl_url_ok = (\<lambda>_. True)\<rparr>"

definition sample_client_env :: client_env where
  "sample_client_env = \<lparr>en_gen = Some ''key'', en_mkdir = True, en_key_put = Put, en_user = Some ''alice'',
     en_host = Some ''mbp'', en_csr_put = Put, en_cert_put = Put\<rparr>"

definition no_client_files :: client_files where
  "no_client_files = \<lparr>fi_key = Absent, fi_csr = Absent, fi_cert = Absent\<rparr>"

lemma sample_key_lib: "key_lib sample_client_lib"
  by (simp add: key_lib_def sample_client_lib_def sample_x509_def)


text \<open>
  An interrupted first run cannot be repaired by running again. When the write of a new key stops short of a whole PEM
  block, that run fails, and every later one fails as well, whatever it could generate and write: the truncated file is
  taken for a key.
\<close>
theorem cut_key_blocks_enrollment:
  assumes "en_gen E = Some k" and "en_mkdir E" and "en_key_put E = Cut n" and "fi_key fs = Absent"
    and "xl_pem (cl_x509 L) (take n (cl_key_pem L k)) = None"
  shows "case Enroll_client L cfg E server fs s of
     (res, fs1, s1) \<Rightarrow> res = Inl ''write key'' \<and> Enroll_client L cfg2 E2 server fs1 s1 = (Inl ''not PEM'', fs1, s1)"
  using assms by (simp add: Enroll_client_def Enroll_request_def EnsureKey_def put_bytes_def)

theorem cut_key_blocks_enrollment_witness:
  "let L = sample_client_lib\<lparr>cl_x509 := sample_x509\<lparr>xl_pem := (\<lambda>s. if length s < 3 then None else Some (''PRIVATE KEY'', s))\<rparr>\<rparr>;
       server = (\<lambda>_ n :: nat. (None, n))
   in case Enroll_client L zero_Config (sample_client_env\<lparr>en_key_put := Cut 2\<rparr>) server no_client_files 0 of
     (res, fs1, s1) \<Rightarrow> res = Inl ''write key''
       \<and> Enroll_client L zero_Config sample_client_env server fs1 s1 = (Inl ''not PEM'', fs1, s1)"
  unfolding Let_def
  by (rule cut_key_blocks_enrollment [where k = "''key''" and n = 2])
    (simp_all add: sample_client_env_def no_client_files_def sample_client_lib_def)

subsection \<open>When a certificate is due\<close>

lemma ShouldRenew_half:
  "even (vl_NotAfter c - vl_NotBefore c) \<Longrightarrow> vl_NotAfter c - vl_NotBefore c \<le> max_int64 \<Longrightarrow>
     ShouldRenew c now \<longleftrightarrow> vl_NotAfter c \<le> vl_NotBefore c \<or> vl_NotBefore c + vl_NotAfter c < 2 * now"
  by (auto simp: ShouldRenew_def time_sub_def Let_def min_int64_def elim!: evenE)

end
