(* ===== verification/Connect_Monitor.thy ===== *)
theory Connect_Monitor
  imports Env_Managers Connect_Enroll
begin

text \<open>
  The integrity check of ai-scan-connect (\<open>connect/monitor/monitor.go\<close>): one pass, and the loop that repeats it.

  \<^item> \<open>u.Host\<close> of \<open>url.Parse\<close> is an argument, \<open>None\<close> when the URL does not parse; so are the clock, the certificate
    file and the outcome of dialling an address. The passes of a run are the list of what the outside shows to them.
\<close>

definition managed_vars :: "goos \<Rightarrow> (string \<Rightarrow> string) \<Rightarrow> Config \<Rightarrow> Vars" where
  "managed_vars os env cfg =
     \<lparr>va_HTTPSProxy = ''http://'' @ cf_LocalListen cfg, va_HTTPProxy = ''http://'' @ cf_LocalListen cfg,
      va_NodeExtraCACerts = DefaultCAInstallPath os env, va_RequestsCABundle = DefaultCAInstallPath os env,
      va_SSLCertFile = DefaultCAInstallPath os env\<rparr>"

record Report =
  re_RCDrift :: "string list"
  re_CertExpired :: bool
  re_CertNeedsRenew :: bool
  re_UpstreamReachable :: bool
  re_Err :: "string list"

definition probe_addr :: "string \<Rightarrow> string" where
  "probe_addr host = (if contains host '':'' then host else host @ '':3128'')"

definition probeTCP :: "(string \<Rightarrow> string option) \<Rightarrow> (string \<Rightarrow> bool) \<Rightarrow> string \<Rightarrow> bool" where
  "probeTCP url_host dials url = (case url_host url of None \<Rightarrow> False | Some host \<Rightarrow> dials (probe_addr host))"

definition cert_state :: "validity option \<Rightarrow> time \<Rightarrow> bool \<times> bool" where
  \<comment> \<open>expired, needs renewal\<close>
  "cert_state cert now =
     (case cert of
        None \<Rightarrow> (False, True)
      | Some c \<Rightarrow> if now > vl_NotAfter c then (True, True) else (False, ShouldRenew c now))"

record 'e pass =
  ps_env :: 'e
  ps_cert :: "validity option"       \<comment> \<open>\<open>LoadCert\<close>\<close>
  ps_now :: time
  ps_dials :: "string \<Rightarrow> bool"

definition CheckAndRecover ::
  "(string \<Rightarrow> string option) \<Rightarrow> ('e, 's) manager \<Rightarrow> Vars \<Rightarrow> Config \<Rightarrow> 'e pass \<Rightarrow> 's \<Rightarrow> Report \<times> 's" where
  "CheckAndRecover url_host m v cfg p s =
     (case recover m (ps_env p) v s of
        ((drift, errs), s') \<Rightarrow>
          (case cert_state (ps_cert p) (ps_now p) of
             (expired, renew) \<Rightarrow>
               (\<lparr>re_RCDrift = drift, re_CertExpired = expired, re_CertNeedsRenew = renew,
                 re_UpstreamReachable = probeTCP url_host (ps_dials p) (cf_InterceptorURL cfg), re_Err = errs\<rparr>, s')))"

fun Run ::
  "(string \<Rightarrow> string option) \<Rightarrow> ('e, 's) manager \<Rightarrow> Vars \<Rightarrow> Config \<Rightarrow> (('s \<Rightarrow> 's) \<times> 'e pass) list \<Rightarrow> 's \<Rightarrow> Report list \<times> 's" where
  \<comment> \<open>the first pass is immediate, the others follow the ticker until the context is done; before each of them, others may
     have changed the settings\<close>
  "Run url_host m v cfg [] s = ([], s)"
| "Run url_host m v cfg ((change, p) # ps) s =
     (case CheckAndRecover url_host m v cfg p (change s) of
        (r, s1) \<Rightarrow> (case Run url_host m v cfg ps s1 of (rs, s2) \<Rightarrow> (r # rs, s2)))"

definition run_interval :: "int \<Rightarrow> int" where
  "run_interval interval = (if interval \<le> 0 then 60 * second else interval)"

lemma CheckAndRecover_state: "snd (CheckAndRecover url_host m v cfg p s) = snd (recover m (ps_env p) v s)"
  and CheckAndRecover_drift: "re_RCDrift (fst (CheckAndRecover url_host m v cfg p s)) = fst (fst (recover m (ps_env p) v s))"
  and CheckAndRecover_err: "re_Err (fst (CheckAndRecover url_host m v cfg p s)) = snd (fst (recover m (ps_env p) v s))"
  by (simp_all add: CheckAndRecover_def split_beta)

text \<open>
  What a pass reports of the certificate. A certificate that is missing or expired needs renewal, an expired one has
  always been due before; one that is neither due nor expired is valid now.
\<close>
theorem certificate_report:
  "case cert_state cert now of
     (expired, renew) \<Rightarrow>
       (cert = None \<longrightarrow> renew) \<and> (expired \<longrightarrow> renew) \<and> (expired \<longleftrightarrow> (\<exists>c. cert = Some c \<and> vl_NotAfter c < now))
     \<and> (\<not> renew \<longrightarrow> (\<exists>c. cert = Some c \<and> vl_NotBefore c < vl_NotAfter c \<and> now < vl_NotAfter c))"
proof (cases cert)
  case (Some c)
  let ?t = "time_sub (vl_NotAfter c) (vl_NotBefore c)"
  have "?t \<le> 0 \<longleftrightarrow> vl_NotAfter c \<le> vl_NotBefore c" by (simp add: time_sub_def min_int64_def max_int64_def) linarith
  moreover have "?t \<le> vl_NotAfter c - vl_NotBefore c \<or> ?t \<le> 0" by (simp add: time_sub_def min_int64_def max_int64_def) linarith
  moreover have "0 < ?t \<Longrightarrow> ?t div 2 < ?t" by simp
  ultimately show ?thesis
    using Some by (auto simp: cert_state_def ShouldRenew_def Let_def)
qed (simp add: cert_state_def)

subsection \<open>A run\<close>

definition harmless ::
  "('e \<Rightarrow> bool) \<Rightarrow> (Vars \<Rightarrow> 's \<Rightarrow> bool) \<Rightarrow> Vars \<Rightarrow> (('s \<Rightarrow> 's) \<times> 'e pass) list \<Rightarrow> bool" where
  \<comment> \<open>the outside works in every pass, and what others do keeps the settings such that a manager can repair them\<close>
  "harmless works good v steps \<longleftrightarrow>
     list_all (\<lambda>(change, p). works (ps_env p) \<and> (\<forall>s. good v s \<longrightarrow> good v (change s))) steps"

context env_manager
begin

lemma Run_settles:
  assumes "works E"
  shows "harmless works good v steps \<Longrightarrow> good v s \<Longrightarrow> steps \<noteq> [] \<Longrightarrow>
     mg_CheckIntegrity m E v (snd (Run u m v cfg steps s)) = Some [] \<and> good v (snd (Run u m v cfg steps s))"
proof (induction steps arbitrary: s)
  case (Cons st steps)
  obtain change p where st: "st = (change, p)" by force
  let ?s1 = "snd (recover m (ps_env p) v (change s))"
  have p: "works (ps_env p)" "good v (change s)" "harmless works good v steps"
    using Cons.prems by (simp_all add: st harmless_def)
  note one = recover_settles [OF p(1) assms p(2)]
  have "snd (Run u m v cfg (st # steps) s) = snd (Run u m v cfg steps ?s1)"
    by (simp add: st split_beta CheckAndRecover_state)
  then show ?case using one Cons.IH [OF p(3), of ?s1] by (cases "steps = []") simp_all
qed simp

lemma Run_quiet:
  "list_all (\<lambda>p. works (ps_env p)) ps \<Longrightarrow> good v s \<Longrightarrow> (\<And>E. works E \<Longrightarrow> mg_CheckIntegrity m E v s = Some []) \<Longrightarrow>
     list_all (\<lambda>r. re_RCDrift r = [] \<and> re_Err r = []) (fst (Run u m v cfg (map (Pair id) ps) s))
     \<and> snd (Run u m v cfg (map (Pair id) ps) s) = s"
proof (induction ps)
  case (Cons p ps)
  then have "recover m (ps_env p) v s = (([], []), s)" by (simp add: recover_idle)
  then show ?case
    using Cons by (simp add: split_beta CheckAndRecover_state CheckAndRecover_drift CheckAndRecover_err)
qed simp

lemma run_contract:
  assumes "harmless works good v steps" and "works E" and "good v s" and "steps \<noteq> []" and "list_all (\<lambda>p. works (ps_env p)) ps"
  shows "mg_CheckIntegrity m E v (snd (Run u m v cfg steps s)) = Some []
     \<and> list_all (\<lambda>r. re_RCDrift r = [] \<and> re_Err r = []) (fst (Run u m v cfg (map (Pair id) ps) (snd (Run u m v cfg steps s))))"
  using Run_settles [OF _ assms(1,3,4)] Run_quiet [OF assms(5)] assms(2) by blast

end



end
