(* ===== verification/Connect_Forward.thy ===== *)
theory Connect_Forward
  imports Connect_Monitor Tls_Proxy
begin

text \<open>
  The local proxy of ai-scan-connect (\<open>connect/proxy/forwarder.go\<close>): it takes CONNECT requests and joins them to a tunnel
  through the interceptor, or, when that fails and the configuration allows it, to the origin.

  \<^item> \<open>http.ReadRequest\<close> gives the request or nothing; what dialling, the handshake and the interceptor answer is the record
    \<open>dial_env\<close>. The accept loop and the bytes that follow the
    first request are in \<open>Tunnels\<close>.
  \<^item> A connection is the sequence of texts its reads return.
\<close>

subsection \<open>The forwarder\<close>

record Forwarder =
  fw_ListenAddr :: string
  fw_InterceptorHostPort :: string
  fw_ClientCert :: "string option"
  fw_RootCAs :: string
  fw_FailClose :: bool

definition hostPortFromURL :: "(string \<Rightarrow> string option) \<Rightarrow> string \<Rightarrow> string + string" where
  "hostPortFromURL url_host url =
     (case url_host url of
        None \<Rightarrow> Inl ''parse''
      | Some host \<Rightarrow>
          if host = [] then Inl ''no host''
          else Inr (if contains host '':'' then host else host @ '':3128''))"

definition NewFromConfig ::
  "(string \<Rightarrow> string option) \<Rightarrow> (string \<Rightarrow> bool) \<Rightarrow> Config \<Rightarrow> string \<Rightarrow> string \<Rightarrow> string option \<Rightarrow> string + Forwarder" where
  \<comment> \<open>whether a text has certificates for the pool; the two paths, and the pair \<open>LoadX509KeyPair\<close> loads from them\<close>
  "NewFromConfig url_host trusts cfg certPath keyPath pair =
     (case hostPortFromURL url_host (cf_InterceptorURL cfg) of
        Inl e \<Rightarrow> Inl e
      | Inr hp \<Rightarrow>
          if \<not> trusts (cf_OrgCAPEM cfg) then Inl ''invalid org_ca_pem''
          else Inr \<lparr>fw_ListenAddr = cf_LocalListen cfg, fw_InterceptorHostPort = hp,
                    fw_ClientCert = (if certPath \<noteq> [] \<and> keyPath \<noteq> [] then pair else None),
                    fw_RootCAs = cf_OrgCAPEM cfg, fw_FailClose = cf_FailClose cfg\<rparr>)"

definition serverNameOf :: "string \<Rightarrow> string" where
  "serverNameOf hostPort = (case split_host_port hostPort of None \<Rightarrow> hostPort | Some (h, _) \<Rightarrow> h)"

definition probe_server_name :: "string \<Rightarrow> string" where
  \<comment> \<open>the name \<open>ProbeMTLS\<close> verifies\<close>
  "probe_server_name host = hd (split_n 2 (probe_addr host) '':'')"

subsection \<open>One connection\<close>

record dial_env =
  di_dial :: bool
  di_handshake :: "string \<Rightarrow> string option \<Rightarrow> bool"     \<comment> \<open>server name, client certificate\<close>
  di_send :: bool
  di_reply :: "string \<Rightarrow> int option"                     \<comment> \<open>the status answered to a text, none when nothing readable comes\<close>
  di_direct :: "string \<Rightarrow> bool"
  di_answer :: bool                                   \<comment> \<open>the client still takes the answer\<close>

definition ProbeMTLS ::
  "(string \<Rightarrow> string option) \<Rightarrow> (string \<Rightarrow> bool) \<Rightarrow> Config \<Rightarrow> string option \<Rightarrow> dial_env \<Rightarrow> string option" where
  \<comment> \<open>the error; the pair \<open>LoadX509KeyPair\<close> loads\<close>
  "ProbeMTLS url_host trusts cfg pair E =
     (case pair of
        None \<Rightarrow> Some ''load client cert''
      | Some cert \<Rightarrow>
          if \<not> trusts (cf_OrgCAPEM cfg) then Some ''invalid org_ca_pem''
          else (case url_host (cf_InterceptorURL cfg) of
                  None \<Rightarrow> Some ''parse''
                | Some host \<Rightarrow>
                    if di_dial E \<and> di_handshake E (probe_server_name host) (Some cert) then None else Some ''dial''))"

definition inner_connect :: "string \<Rightarrow> string" where
  "inner_connect target =
     ''CONNECT '' @ target @ '' HTTP/1.1'' @ crlf @ ''Host: '' @ target @ crlf @ ''User-Agent: ai-scan-connect/0.1'' @ crlf @ crlf"

definition dialUpstream :: "Forwarder \<Rightarrow> dial_env \<Rightarrow> string \<Rightarrow> string option" where
  \<comment> \<open>the error, \<open>None\<close> for a joined connection\<close>
  "dialUpstream F E target =
     (if \<not> di_dial E then Some ''dial''
      else if \<not> di_handshake E (serverNameOf (fw_InterceptorHostPort F)) (fw_ClientCert F) then Some ''mTLS handshake''
      else if \<not> di_send E then Some ''write''
      else (case di_reply E (inner_connect target) of
              None \<Rightarrow> Some ''read response''
            | Some n \<Rightarrow> if n \<noteq> 200 then Some ''upstream CONNECT'' else None))"

definition writeStatus :: "int \<Rightarrow> string \<Rightarrow> string" where
  \<comment> \<open>the status and its text\<close>
  "writeStatus code status_text =
     ''HTTP/1.1 '' @ itoa code @ '' '' @ status_text @ crlf @ ''Content-Length: 0'' @ crlf @ ''Connection: close'' @ crlf @ crlf"

definition established :: string where
  "established = ''HTTP/1.1 200 Connection Established'' @ crlf @ crlf"

datatype link = No_link | Via_interceptor | Direct string

definition handle_client :: "Forwarder \<Rightarrow> dial_env \<Rightarrow> http_request option \<Rightarrow> string \<times> link" where
  \<comment> \<open>what the client is answered and what its connection is joined to\<close>
  "handle_client F E request =
     (case request of
        None \<Rightarrow> ([], No_link)
      | Some req \<Rightarrow>
          if hr_Method req \<noteq> ''CONNECT'' then (writeStatus 405 ''Method Not Allowed'', No_link)
          else
            (let target = hr_Host req;
                 up = (case dialUpstream F E target of
                         None \<Rightarrow> Inr Via_interceptor
                       | Some e \<Rightarrow>
                           if fw_FailClose F then Inl (writeStatus 503 ''Service Unavailable'')
                           else if \<not> di_direct E target then Inl (writeStatus 502 ''Bad Gateway'')
                           else Inr (Direct target))
             in case up of
                  Inl answer \<Rightarrow> (answer, No_link)
                | Inr l \<Rightarrow> if di_answer E then (established, l) else ([], No_link)))"

subsection \<open>The bytes behind the request\<close>

fun head_length :: "string list \<Rightarrow> nat option" where
  \<comment> \<open>the lines up to the first empty one; a line ends with a newline, and a carriage return before it does not count\<close>
  "head_length [] = None"
| "head_length (l # ls) =
     (if l = newline \<or> l = crlf then Some (length l)
      else if has_suffix l newline then map_option ((+) (length l)) (head_length ls)
      else None)"

fun read_head :: "string \<Rightarrow> string list \<Rightarrow> (string \<times> string \<times> string list) option" where
  \<comment> \<open>what a \<open>bufio.Reader\<close> has read when the head is complete: the head, what the reader holds beyond it, the reads that
     are still to come\<close>
  "read_head buf reads =
     (case head_length (line_chunks buf) of
        Some n \<Rightarrow> Some (take n buf, drop n buf, reads)
      | None \<Rightarrow> (case reads of [] \<Rightarrow> None | r # rs \<Rightarrow> read_head (buf @ r) rs))"

declare read_head.simps [simp del]

definition spliced :: "string list \<Rightarrow> string option" where
  \<comment> \<open>what \<open>splice\<close> copies: it reads the connection, not the reader of the head\<close>
  "spliced reads = map_option (\<lambda>(_, _, rest). concat rest) (read_head [] reads)"

definition rewound :: "string list \<Rightarrow> string option" where
  \<comment> \<open>what \<open>connWithReader\<close> of tls-proxy hands on: the reader first, then the connection\<close>
  "rewound reads = map_option (\<lambda>(_, extra, rest). extra @ concat rest) (read_head [] reads)"

lemma read_head_split: "read_head buf reads = Some (h, extra, rest) \<Longrightarrow> buf @ concat reads = h @ extra @ concat rest"
proof (induction buf reads rule: read_head.induct)
  case (1 buf reads)
  then show ?case
    by (subst (asm) read_head.simps) (auto split: option.splits list.splits)
qed

text \<open>
  What a client sends right behind its CONNECT request is lost. The bytes that arrived in the same read as the end of
  the request stay in a buffer nobody reads: the upstream gets the rest of the stream without them. tls-proxy, which
  reads the same requests, hands those bytes on.
\<close>
theorem early_bytes_are_dropped:
  assumes "read_head [] reads = Some (h, extra, rest)"
  shows "concat reads = h @ extra @ concat rest \<and> spliced reads = Some (concat rest) \<and> rewound reads = Some (extra @ concat rest)
     \<and> (spliced reads = rewound reads \<longleftrightarrow> extra = [])"
  using read_head_split [OF assms] by (simp add: assms spliced_def rewound_def)

theorem early_bytes_are_dropped_witness:
  "let h = ''CONNECT a:443 HTTP/1.1'' @ crlf @ crlf in
     spliced [h @ ''hello'', ''world''] = Some ''world'' \<and> rewound [h @ ''hello'', ''world''] = Some ''helloworld''"
proof -
  let ?h = "''CONNECT a:443 HTTP/1.1'' @ crlf @ crlf"
  have "read_head [] [?h @ ''hello'', ''world''] = Some (?h, ''hello'', [''world''])"
    by (simp add: read_head.simps crlf_def has_suffix_def)
  from early_bytes_are_dropped [OF this] show ?thesis by (simp add: Let_def)
qed

subsection \<open>Through the interceptor\<close>

definition interceptor_status ::
  "(string \<Rightarrow> http_request option) \<Rightarrow> (string \<Rightarrow> cert option) \<Rightarrow> RevokedStore option \<Rightarrow> string list \<Rightarrow> cert list list
     \<Rightarrow> cert list \<Rightarrow> string set \<Rightarrow> bool \<Rightarrow> int option \<Rightarrow> string \<Rightarrow> int option" where
  \<comment> \<open>what tls-proxy answers on its mTLS listener to a CONNECT: nothing when the certificate is not admitted, a success for
     the hosts it intercepts, what its own upstream proxy says for the others\<close>
  "interceptor_status parse_request parse store rawCerts paths peers targets dialled status msg =
     (case handleMTLSConn parse store rawCerts paths peers of
        None \<Rightarrow> None
      | Some _ \<Rightarrow>
          (case parse_request msg of
             None \<Rightarrow> None
           | Some req \<Rightarrow>
               (case handleConn targets req of
                  Forward_plain \<Rightarrow> None
                | Intercept _ _ \<Rightarrow> Some 200
                | Tunnel _ \<Rightarrow> Some (if dialled then (case status of None \<Rightarrow> 502 | Some n \<Rightarrow> n) else 502))))"

text \<open>
  C13: revoking a device ends the inspection, not the traffic. For a host the interceptor inspects, the connection of a device
  with a valid certificate goes through the interceptor. Once the certificate is on the interceptor's list, the client
  configured with \<open>fail_close\<close> refuses the connection; with the default the same request is joined directly to the
  origin, past every check.
\<close>
theorem revoked_device_escapes_inspection:
  assumes "hr_Method req = ''CONNECT''" and "to_lower (bareHost (hr_Host req)) \<in> targets"
    and "parse_request (inner_connect (hr_Host req)) = Some r" and "hr_Method r = ''CONNECT''" and "hr_Host r = hr_Host req"
    and "di_reply E = interceptor_status parse_request parse (Some store) rawCerts ((crt # ch) # ps) [crt] targets dialled status"
    and "HasUser (identityFromCert (Some crt))"
    and "di_dial E" and "di_handshake E = (\<lambda>_ _. True)" and "di_send E" and "di_direct E (hr_Host req)" and "di_answer E"
  shows "handle_client F E (Some req)
     = (if \<not> IsRevoked (crt_SerialNumber crt) (Some store) then (established, Via_interceptor)
        else if fw_FailClose F then (writeStatus 503 ''Service Unavailable'', No_link)
        else (established, Direct (hr_Host req)))"
proof -
  have "di_reply E (inner_connect (hr_Host req)) = (if IsRevoked (crt_SerialNumber crt) (Some store) then None else Some 200)"
    using assms(2-5,7)
    by (simp add: assms(6) interceptor_status_def handleMTLSConn_def makeRevocationVerifier_def verify_peer_def
        extractPeerIdentity_def handleConn_def)
  then show ?thesis using assms(1,8-12) by (simp add: handle_client_def dialUpstream_def Let_def)
qed

definition sample_connect :: http_request where
  "sample_connect = \<lparr>hr_Method = ''CONNECT'', hr_Host = ''claude.ai:443'', hr_Path = [], hr_RequestURI = ''claude.ai:443'',
     hr_Header = []\<rparr>"

definition sample_dial :: "nat set \<Rightarrow> dial_env" where
  \<comment> \<open>everything answers; the interceptor has revoked some serial numbers, the client's is 123\<close>
  "sample_dial serials =
     (let crt = \<lparr>crt_CommonName = ''alice@mbp'', crt_Organization = [''acme''], crt_SerialNumber = Some 123\<rparr> in
      \<lparr>di_dial = True, di_handshake = (\<lambda>_ _. True), di_send = True,
       di_reply = interceptor_status (\<lambda>_. Some sample_connect) (\<lambda>_. None)
         (Some (NewEmptyRevokedStore\<lparr>rk_serials := (\<lambda>n. normalizeSerialHex (serial_text n)) ` serials\<rparr>)) [] [[crt]] [crt]
         {''claude.ai''} False None,
       di_direct = (\<lambda>_. True), di_answer = True\<rparr>)"

theorem revoked_device_escapes_inspection_witness:
  "let F = \<lparr>fw_ListenAddr = [], fw_InterceptorHostPort = ''i:3128'', fw_ClientCert = None, fw_RootCAs = [], fw_FailClose = False\<rparr>
   in handle_client F (sample_dial {}) (Some sample_connect) = (established, Via_interceptor)
    \<and> handle_client F (sample_dial {123}) (Some sample_connect) = (established, Direct ''claude.ai:443'')
    \<and> snd (handle_client (F\<lparr>fw_FailClose := True\<rparr>) (sample_dial {123}) (Some sample_connect)) = No_link"
proof -
  have host: "to_lower (bareHost (hr_Host sample_connect)) \<in> {''claude.ai''}" by (simp add: sample_connect_def, code_simp)
  let ?crt = "\<lparr>crt_CommonName = ''alice@mbp'', crt_Organization = [''acme''], crt_SerialNumber = Some (123 :: nat)\<rparr>"
  have user: "HasUser (identityFromCert (Some ?crt))"
    by (simp add: HasUser_def identityFromCert_def, code_simp)
  let ?store = "\<lambda>S. NewEmptyRevokedStore\<lparr>rk_serials := (\<lambda>n. normalizeSerialHex (serial_text n)) ` S\<rparr>"
  have "handle_client F (sample_dial S) (Some sample_connect)
     = (if \<not> IsRevoked (crt_SerialNumber ?crt) (Some (?store S)) then (established, Via_interceptor)
        else if fw_FailClose F then (writeStatus 503 ''Service Unavailable'', No_link)
        else (established, Direct (hr_Host sample_connect)))" for F S
    by (rule revoked_device_escapes_inspection [OF _ host, where r = sample_connect and parse_request = "\<lambda>_. Some sample_connect"
          and parse = "\<lambda>_. None" and rawCerts = "[]" and ch = "[]" and ps = "[]" and dialled = False and status = None])
      (simp_all add: sample_dial_def sample_connect_def user Let_def)
  then show ?thesis by (simp add: IsRevoked_def Let_def) (simp add: sample_connect_def)
qed

text \<open>
  A refusal of the interceptor's own upstream, for a host it does not inspect, is bypassed in the same way.
\<close>

lemma refused_tunnel_goes_direct:
  assumes "hr_Method req = ''CONNECT''" and "di_reply E (inner_connect (hr_Host req)) = Some n" and "n \<noteq> 200"
    and "di_direct E (hr_Host req)" and "di_answer E" and "\<not> fw_FailClose F"
  shows "handle_client F E (Some req) = (established, Direct (hr_Host req))"
  using assms by (simp add: handle_client_def dialUpstream_def Let_def)

lemma fail_close_never_direct: "fw_FailClose F \<Longrightarrow> snd (handle_client F E request) \<noteq> Direct h"
  by (auto simp: handle_client_def Let_def split: option.split)

text \<open>The name the two checks of the interceptor's certificate use is the same but for IPv6 addresses.\<close>

lemma names_differ_on_ipv6: "serverNameOf ''[::1]:3128'' = ''::1''" "probe_server_name ''[::1]:3128'' = ''[''"
  by code_simp+

lemma contains_char: "contains s [c] \<longleftrightarrow> c \<in> set s"
  by (simp add: contains_iff in_set_conv_decomp)

lemma same_names:
  assumes "set h \<inter> {CHR '':'', CHR ''['', CHR '']''} = {}" and "set port \<inter> {CHR '':'', CHR ''['', CHR '']''} = {}"
    and "host = h \<or> host = h @ '':'' @ port"
  shows "probe_server_name host = h" and "serverNameOf (probe_addr host) = h"
proof -
  have p: "CHR '':'' \<notin> set h" "set ''3128'' \<inter> {CHR '':'', CHR ''['', CHR '']''} = {}" using assms(1) by auto
  have "probe_addr host = h @ '':'' @ (if host = h then ''3128'' else port)"
  proof (cases "host = h")
    case True
    then show ?thesis using contains_char [of h "CHR '':''"] p(1) by (simp add: probe_addr_def)
  next
    case False
    then have "host = h @ '':'' @ port" using assms(3) by simp
    moreover have "contains (h @ '':'' @ port) '':''" by (simp add: contains_char)
    ultimately show ?thesis using False by (simp add: probe_addr_def)
  qed
  moreover have "set (if host = h then ''3128'' else port) \<inter> {CHR '':'', CHR ''['', CHR '']''} = {}" using assms(2) p(2) by simp
  ultimately show "probe_server_name host = h" and "serverNameOf (probe_addr host) = h"
    using split_n_two [OF p(1)] split_host_port_plain [OF assms(1)] by (simp_all add: probe_server_name_def serverNameOf_def)
qed

lemma probe_announces_tunnels:
  assumes "ProbeMTLS url_host trusts cfg pair E = None" and "url_host (cf_InterceptorURL cfg) = Some host" and "host \<noteq> []"
    and "set h \<inter> {CHR '':'', CHR ''['', CHR '']''} = {}" and "set port \<inter> {CHR '':'', CHR ''['', CHR '']''} = {}"
    and "host = h \<or> host = h @ '':'' @ port" and "certPath \<noteq> []" and "keyPath \<noteq> []"
  shows "\<exists>F. NewFromConfig url_host trusts cfg certPath keyPath pair = Inr F
     \<and> dialUpstream F E target \<notin> {Some ''dial'', Some ''mTLS handshake''}"
  using assms same_names [OF assms(4-6)]
  by (auto simp: ProbeMTLS_def NewFromConfig_def hostPortFromURL_def probe_addr_def dialUpstream_def
           split: option.splits if_splits)

end
