(* ===== verification/Relay.thy ===== *)
theory Relay
  imports Prelude "HOL-Library.Sublist"
begin

text \<open>
  The copying between two joined connections: \<open>pipe\<close> of \<open>tls-proxy/main.go\<close> and \<open>splice\<close> of
  \<open>connect/proxy/forwarder.go\<close>. Each runs one \<open>io.Copy\<close> per direction in a goroutine of its own; they differ in when the
  handler returns, which closes both connections.

  \<^item> A direction is what its source still sends, what its sink has received, and how its copy ended. \<open>relay_event\<close> is one
    step of a goroutine or of the handler; \<open>pipe_do\<close> and \<open>splice_do\<close> say which steps are possible and what they do.
  \<^item> The locale \<open>relay\<close> is what both promise; \<open>pipe\<close> and \<open>splice\<close> are its interpretations.
\<close>

subsection \<open>One direction\<close>

datatype copy_end = Reached_eof | Broken

record flow =
  fl_unread :: "string list"      \<comment> \<open>what the source still sends before it ends, as the reads return it\<close>
  fl_written :: string
  fl_end :: "copy_end option"

definition start_flow :: "string list \<Rightarrow> flow" where
  "start_flow chunks = \<lparr>fl_unread = chunks, fl_written = [], fl_end = None\<rparr>"

definition copy_chunk :: "flow \<Rightarrow> flow option" where
  \<comment> \<open>one round of \<open>io.Copy\<close>\<close>
  "copy_chunk f =
     (if fl_end f \<noteq> None then None
      else (case fl_unread f of
              [] \<Rightarrow> None
            | c # cs \<Rightarrow> Some (f\<lparr>fl_unread := cs, fl_written := fl_written f @ c\<rparr>)))"

definition copy_eof :: "flow \<Rightarrow> flow option" where
  "copy_eof f = (if fl_end f = None \<and> fl_unread f = [] then Some (f\<lparr>fl_end := Some Reached_eof\<rparr>) else None)"

definition copy_break :: "flow \<Rightarrow> flow option" where
  \<comment> \<open>a read or a write fails\<close>
  "copy_break f = (if fl_end f = None then Some (f\<lparr>fl_end := Some Broken\<rparr>) else None)"

inductive flow_step :: "flow \<Rightarrow> flow \<Rightarrow> bool" where
  copied: "copy_chunk f = Some g \<Longrightarrow> flow_step f g"
| ended: "copy_eof f = Some g \<Longrightarrow> flow_step f g"
| broken: "copy_break f = Some g \<Longrightarrow> flow_step f g"

definition flow_text :: "flow \<Rightarrow> string" where
  "flow_text f = fl_written f @ concat (fl_unread f)"

definition flow_ok :: "flow \<Rightarrow> bool" where
  \<comment> \<open>at the end of its source a direction has delivered everything\<close>
  "flow_ok f \<longleftrightarrow> (fl_end f = Some Reached_eof \<longrightarrow> fl_unread f = [])"

definition flow_size :: "flow \<Rightarrow> nat" where
  "flow_size f = length (fl_unread f) + (if fl_end f = None then 1 else 0)"

lemma flow_step_keeps: "flow_step f g \<Longrightarrow> flow_text g = flow_text f \<and> (flow_ok f \<longrightarrow> flow_ok g) \<and> flow_size g < flow_size f"
  by (induction rule: flow_step.induct)
    (auto simp: copy_chunk_def copy_eof_def copy_break_def flow_text_def flow_ok_def flow_size_def
      split: if_split_asm list.splits)

subsection \<open>Two directions\<close>

datatype side = Outward | Inward     \<comment> \<open>from the client, to the client\<close>

record relay =
  rl_out :: flow
  rl_in :: flow
  rl_cut_out :: bool     \<comment> \<open>the read deadline of the source has passed\<close>
  rl_cut_in :: bool
  rl_over :: bool        \<comment> \<open>the handler has returned, both connections are closed\<close>

definition start_relay :: "string list \<Rightarrow> string list \<Rightarrow> relay" where
  "start_relay outs ins =
     \<lparr>rl_out = start_flow outs, rl_in = start_flow ins, rl_cut_out = False, rl_cut_in = False, rl_over = False\<rparr>"

fun flow_of :: "side \<Rightarrow> relay \<Rightarrow> flow" where
  "flow_of Outward r = rl_out r"
| "flow_of Inward r = rl_in r"

fun set_flow :: "side \<Rightarrow> relay \<Rightarrow> flow \<Rightarrow> relay" where
  "set_flow Outward r f = r\<lparr>rl_out := f\<rparr>"
| "set_flow Inward r f = r\<lparr>rl_in := f\<rparr>"

fun other :: "side \<Rightarrow> side" where
  "other Outward = Inward"
| "other Inward = Outward"

fun cut_of :: "side \<Rightarrow> relay \<Rightarrow> bool" where
  "cut_of Outward r = rl_cut_out r"
| "cut_of Inward r = rl_cut_in r"

fun set_cut :: "side \<Rightarrow> relay \<Rightarrow> relay" where
  "set_cut Outward r = r\<lparr>rl_cut_out := True\<rparr>"
| "set_cut Inward r = r\<lparr>rl_cut_in := True\<rparr>"

datatype relay_event = Copy side | Eof side | Break side | Deadline side | Return

definition pipe_do :: "relay_event \<Rightarrow> relay \<Rightarrow> relay option" where
  \<comment> \<open>\<open>pipe\<close> returns when one of its copies has ended\<close>
  "pipe_do ev r =
     (if rl_over r then None
      else case ev of
        Copy d \<Rightarrow> map_option (set_flow d r) (copy_chunk (flow_of d r))
      | Eof d \<Rightarrow> map_option (set_flow d r) (copy_eof (flow_of d r))
      | Break d \<Rightarrow> map_option (set_flow d r) (copy_break (flow_of d r))
      | Deadline d \<Rightarrow> None
      | Return \<Rightarrow> if fl_end (rl_out r) \<noteq> None \<or> fl_end (rl_in r) \<noteq> None then Some (r\<lparr>rl_over := True\<rparr>) else None)"

definition splice_do :: "relay_event \<Rightarrow> relay \<Rightarrow> relay option" where
  \<comment> \<open>\<open>splice\<close> waits for both; a copy that has ended sets the read deadline of its sink, the source of the other, to now\<close>
  "splice_do ev r =
     (if rl_over r then None
      else case ev of
        Copy d \<Rightarrow> if cut_of d r then None else map_option (set_flow d r) (copy_chunk (flow_of d r))
      | Eof d \<Rightarrow> if cut_of d r then None else map_option (set_flow d r) (copy_eof (flow_of d r))
      | Break d \<Rightarrow> map_option (set_flow d r) (copy_break (flow_of d r))
      | Deadline d \<Rightarrow>
          if fl_end (flow_of d r) \<noteq> None \<and> \<not> cut_of (other d) r then Some (set_cut (other d) r) else None
      | Return \<Rightarrow> if fl_end (rl_out r) \<noteq> None \<and> fl_end (rl_in r) \<noteq> None then Some (r\<lparr>rl_over := True\<rparr>) else None)"

fun run_relay :: "(relay_event \<Rightarrow> relay \<Rightarrow> relay option) \<Rightarrow> relay_event list \<Rightarrow> relay \<Rightarrow> relay option" where
  "run_relay step [] r = Some r"
| "run_relay step (ev # evs) r = (case step ev r of None \<Rightarrow> None | Some r' \<Rightarrow> run_relay step evs r')"

inductive relay_reach :: "(relay_event \<Rightarrow> relay \<Rightarrow> relay option) \<Rightarrow> relay \<Rightarrow> relay \<Rightarrow> bool" for step where
  here: "relay_reach step r r"
| further: "relay_reach step r s \<Longrightarrow> step ev s = Some t \<Longrightarrow> relay_reach step r t"

definition relay_size :: "relay \<Rightarrow> nat" where
  "relay_size r = flow_size (rl_out r) + flow_size (rl_in r)
     + (if rl_cut_out r then 0 else 1) + (if rl_cut_in r then 0 else 1) + (if rl_over r then 0 else 1)"

lemma run_relay_append:
  "run_relay step (xs @ ys) r = (case run_relay step xs r of None \<Rightarrow> None | Some s \<Rightarrow> run_relay step ys s)"
  by (induction xs arbitrary: r) (auto split: option.split)

lemma relay_reach_run: "relay_reach step r s \<longleftrightarrow> (\<exists>evs. run_relay step evs r = Some s)"
proof
  assume "relay_reach step r s"
  then show "\<exists>evs. run_relay step evs r = Some s"
  proof (induction rule: relay_reach.induct)
    case (here r)
    have "run_relay step [] r = Some r" by simp
    then show ?case by blast
  next
    case (further r s ev t)
    then obtain evs where "run_relay step evs r = Some s" by blast
    then have "run_relay step (evs @ [ev]) r = Some t" using further by (simp add: run_relay_append)
    then show ?case by blast
  qed
next
  assume "\<exists>evs. run_relay step evs r = Some s"
  then obtain evs where "run_relay step evs r = Some s" by blast
  then show "relay_reach step r s"
  proof (induction evs arbitrary: s rule: rev_induct)
    case Nil
    then show ?case by (simp add: relay_reach.here)
  next
    case (snoc ev evs)
    then show ?case by (auto simp: run_relay_append split: option.splits intro: relay_reach.further)
  qed
qed

subsection \<open>What both promise\<close>

locale relay =
  fixes step :: "relay_event \<Rightarrow> relay \<Rightarrow> relay option"
  assumes one_flow: "step ev r = Some s \<Longrightarrow> flow_of d s = flow_of d r \<or> flow_step (flow_of d r) (flow_of d s)"
    and shrinks: "step ev r = Some s \<Longrightarrow> relay_size s < relay_size r"
    and goes_on: "\<not> rl_over r \<Longrightarrow> \<exists>ev s. step ev r = Some s"
    and stops: "rl_over r \<Longrightarrow> step ev r = None"
begin

lemma reach_flow: "relay_reach step r s \<Longrightarrow> flow_text (flow_of d s) = flow_text (flow_of d r) \<and> (flow_ok (flow_of d r) \<longrightarrow> flow_ok (flow_of d s))"
proof (induction rule: relay_reach.induct)
  case (further r s ev t)
  then show ?case using one_flow [OF further(2), of d] flow_step_keeps by metis
qed simp

lemma run_bounded: "run_relay step evs r = Some s \<Longrightarrow> length evs + relay_size s \<le> relay_size r"
proof (induction evs arbitrary: r)
  case (Cons ev evs)
  then obtain m where "step ev r = Some m" "run_relay step evs m = Some s" by (auto split: option.splits)
  then show ?case using Cons.IH shrinks by fastforce
qed simp

lemma completes: "\<exists>evs s. run_relay step evs r = Some s \<and> rl_over s"
proof (induction "relay_size r" arbitrary: r rule: less_induct)
  case less
  show ?case
  proof (cases "rl_over r")
    case True
    then have "run_relay step [] r = Some r \<and> rl_over r" by simp
    then show ?thesis by blast
  next
    case False
    then obtain ev m where m: "step ev r = Some m" using goes_on by blast
    then obtain evs s where "run_relay step evs m = Some s" "rl_over s" using less shrinks by blast
    then have "run_relay step (ev # evs) r = Some s \<and> rl_over s" using m by simp
    then show ?thesis by blast
  qed
qed

lemma stuck_iff_over: "(\<forall>ev. step ev r = None) \<longleftrightarrow> rl_over r"
  using goes_on stops by force

end

lemma set_flow_simps [simp]:
  "flow_of d (set_flow d' r f) = (if d = d' then f else flow_of d r)"
  "rl_over (set_flow d r f) = rl_over r" "cut_of d (set_flow d' r f) = cut_of d r"
  "flow_of d (set_cut d' r) = flow_of d r" "rl_over (set_cut d r) = rl_over r"
  "flow_of d (r\<lparr>rl_over := b\<rparr>) = flow_of d r"
  by (cases d; cases d'; simp)+

lemma set_flow_size: "flow_step (flow_of d r) f \<Longrightarrow> relay_size (set_flow d r f) < relay_size r"
  by (cases d) (auto simp: relay_size_def dest: flow_step_keeps)

lemma set_cut_size: "\<not> cut_of d r \<Longrightarrow> relay_size (set_cut d r) < relay_size r"
  by (cases d) (auto simp: relay_size_def)

lemma over_size: "\<not> rl_over r \<Longrightarrow> relay_size (r\<lparr>rl_over := True\<rparr>) < relay_size r"
  by (simp add: relay_size_def)

lemma copy_goes_on: "fl_end f = None \<Longrightarrow> copy_chunk f \<noteq> None \<or> copy_eof f \<noteq> None"
  by (cases "fl_unread f") (simp_all add: copy_chunk_def copy_eof_def)

lemma pipe_do_cases:
  "pipe_do ev r = Some s \<Longrightarrow> \<not> rl_over r \<and> (s = r\<lparr>rl_over := True\<rparr> \<or> (\<exists>d f. flow_step (flow_of d r) f \<and> s = set_flow d r f))"
  by (auto simp: pipe_do_def split: if_split_asm relay_event.splits intro: flow_step.intros)

lemma splice_do_cases:
  "splice_do ev r = Some s \<Longrightarrow> \<not> rl_over r \<and> (s = r\<lparr>rl_over := True\<rparr> \<or> (\<exists>d f. flow_step (flow_of d r) f \<and> s = set_flow d r f)
     \<or> (\<exists>d. \<not> cut_of d r \<and> s = set_cut d r))"
  by (auto simp: splice_do_def split: if_split_asm relay_event.splits intro: flow_step.intros)

interpretation pipe: relay pipe_do
proof unfold_locales
  fix ev r s d
  show "pipe_do ev r = Some s \<Longrightarrow> flow_of d s = flow_of d r \<or> flow_step (flow_of d r) (flow_of d s)"
    by (drule pipe_do_cases) auto
  show "pipe_do ev r = Some s \<Longrightarrow> relay_size s < relay_size r"
    by (drule pipe_do_cases) (auto intro: set_flow_size over_size)
  show "rl_over r \<Longrightarrow> pipe_do ev r = None" by (simp add: pipe_do_def)
next
  fix r :: relay
  assume open_r: "\<not> rl_over r"
  show "\<exists>ev s. pipe_do ev r = Some s"
  proof (cases "fl_end (flow_of Outward r)")
    case None
    then have "pipe_do (Copy Outward) r \<noteq> None \<or> pipe_do (Eof Outward) r \<noteq> None"
      using copy_goes_on [of "flow_of Outward r"] open_r by (auto simp: pipe_do_def)
    then show ?thesis by blast
  next
    case (Some e)
    then have "pipe_do Return r = Some (r\<lparr>rl_over := True\<rparr>)" using open_r by (simp add: pipe_do_def)
    then show ?thesis by blast
  qed
qed

interpretation splice: relay splice_do
proof unfold_locales
  fix ev r s d
  show "splice_do ev r = Some s \<Longrightarrow> flow_of d s = flow_of d r \<or> flow_step (flow_of d r) (flow_of d s)"
    by (drule splice_do_cases) auto
  show "splice_do ev r = Some s \<Longrightarrow> relay_size s < relay_size r"
    by (drule splice_do_cases) (auto intro: set_flow_size set_cut_size over_size)
  show "rl_over r \<Longrightarrow> splice_do ev r = None" by (simp add: splice_do_def)
next
  fix r :: relay
  assume open_r: "\<not> rl_over r"
  have run: "splice_do (Break d) r \<noteq> None" if "fl_end (flow_of d r) = None" for d
    using that open_r by (simp add: splice_do_def copy_break_def)
  show "\<exists>ev s. splice_do ev r = Some s"
  proof (cases "fl_end (flow_of Outward r) \<noteq> None \<and> fl_end (flow_of Inward r) \<noteq> None")
    case True
    then have "splice_do Return r = Some (r\<lparr>rl_over := True\<rparr>)" using open_r by (simp add: splice_do_def)
    then show ?thesis by blast
  next
    case False
    then show ?thesis using run [of Outward] run [of Inward] by blast
  qed
qed

subsection \<open>Both of them\<close>

lemma either_relay: "step \<in> {pipe_do, splice_do} \<Longrightarrow> relay step"
  using pipe.relay_axioms splice.relay_axioms by blast



lemma relay_delivers_either:
  assumes "run_relay step evs (start_relay outs ins) = Some s" and "step \<in> {pipe_do, splice_do}"
  shows "prefix (fl_written (rl_out s)) (concat outs) \<and> prefix (fl_written (rl_in s)) (concat ins)
     \<and> (fl_end (rl_out s) = Some Reached_eof \<longrightarrow> fl_written (rl_out s) = concat outs)
     \<and> (fl_end (rl_in s) = Some Reached_eof \<longrightarrow> fl_written (rl_in s) = concat ins)"
proof -
  have "relay_reach step (start_relay outs ins) s" using assms(1) relay_reach_run by blast
  then have f: "flow_text (flow_of d s) = flow_text (flow_of d (start_relay outs ins))"
    "flow_ok (flow_of d (start_relay outs ins)) \<longrightarrow> flow_ok (flow_of d s)" for d
    using relay.reach_flow [OF either_relay [OF assms(2)]] by blast+
  show ?thesis
    using f [of Outward] f [of Inward]
    by (auto simp: start_relay_def start_flow_def flow_text_def flow_ok_def prefix_def intro: sym)
qed

text \<open>
  What is joined is not mixed up. At any moment each side has received a beginning of what the other side sent, and all
  of it when the copy reached the end of its source.
\<close>
theorem relay_delivers:
  assumes "step \<in> {pipe_do, splice_do}" and "run_relay step evs (start_relay outs ins) = Some s"
  shows "prefix (fl_written (rl_out s)) (concat outs) \<and> prefix (fl_written (rl_in s)) (concat ins)
     \<and> (fl_end (rl_out s) = Some Reached_eof \<longrightarrow> fl_written (rl_out s) = concat outs)
     \<and> (fl_end (rl_in s) = Some Reached_eof \<longrightarrow> fl_written (rl_in s) = concat ins)"
  by (rule relay_delivers_either [OF assms(2,1)])

theorem relay_delivers_witness:
  "\<exists>s. run_relay pipe_do [Copy Outward, Eof Outward, Return] (start_relay [''ab''] [''c'']) = Some s
     \<and> fl_written (rl_out s) = ''ab'' \<and> prefix (fl_written (rl_in s)) ''c''"
proof -
  obtain s where s: "run_relay pipe_do [Copy Outward, Eof Outward, Return] (start_relay [''ab''] [''c'']) = Some s"
    by (simp add: pipe_do_def start_relay_def start_flow_def copy_chunk_def copy_eof_def)
  show ?thesis using relay_delivers [of pipe_do, OF _ s] s
    by (auto simp: pipe_do_def start_relay_def start_flow_def copy_chunk_def copy_eof_def)
qed

definition copy_all :: "side \<Rightarrow> string list \<Rightarrow> relay_event list" where
  "copy_all d chunks = map (\<lambda>_. Copy d) chunks"

lemma run_copy_all:
  assumes "fl_unread (flow_of d r) = cs" and "fl_end (flow_of d r) = None" and "\<not> rl_over r" and "\<not> cut_of d r"
    and "step \<in> {pipe_do, splice_do}"
  shows "run_relay step (copy_all d cs) r
     = Some (set_flow d r (flow_of d r\<lparr>fl_unread := [], fl_written := fl_written (flow_of d r) @ concat cs\<rparr>))"
  using assms
proof (induction cs arbitrary: r)
  case Nil
  then show ?case by (cases d) (simp_all add: copy_all_def)
next
  case (Cons c cs)
  let ?f = "flow_of d r\<lparr>fl_unread := cs, fl_written := fl_written (flow_of d r) @ c\<rparr>"
  have one: "step (Copy d) r = Some (set_flow d r ?f)"
    using Cons.prems by (auto simp: pipe_do_def splice_do_def copy_chunk_def)
  have two: "set_flow d (set_flow d r f) g = set_flow d r g" for f g by (cases d) simp_all
  have "run_relay step (copy_all d cs) (set_flow d r ?f)
      = Some (set_flow d r (?f\<lparr>fl_unread := [], fl_written := fl_written ?f @ concat cs\<rparr>))"
    using Cons.prems by (subst Cons.IH) (simp_all add: two)
  then show ?case using one by (simp add: copy_all_def)
qed


end
