(* ===== verification/Tunnels.thy ===== *)
theory Tunnels
  imports Connect_Forward Relay
begin

text \<open>
  What the two proxies do with a connection after its first request: the tunnels of \<open>tls-proxy/main.go\<close> and of
  \<open>connect/proxy/forwarder.go\<close> over the copying of \<open>Relay\<close>, the requests that are not CONNECT, and the accept loops
  that start the handlers.

  \<^item> The client and the upstream are the texts their reads return, from the first byte on; \<open>read_head\<close> is the reader both
    programs parse a request or a response with, and what it holds beyond the head is its second result.
\<close>

subsection \<open>Tunnels of tls-proxy\<close>

definition tunnelToUpstream :: "bool \<Rightarrow> int option \<Rightarrow> string list \<Rightarrow> string list \<Rightarrow> string \<times> relay option" where
  \<comment> \<open>the reader of the request is handed to \<open>pipe\<close>, the reader of the response is not\<close>
  "tunnelToUpstream dialled status reads ups =
     (case tunnel_reply dialled status of
        (answer, joined) \<Rightarrow>
          (answer,
           if joined then
             (case (read_head [] reads, read_head [] ups) of
                (Some (_, extra, rest), Some (_, _, rest')) \<Rightarrow> Some (start_relay (extra # rest) rest')
              | _ \<Rightarrow> None)
           else None))"

definition tunnelToUpstreamRaw :: "bool \<Rightarrow> int option \<Rightarrow> nat \<Rightarrow> string list \<Rightarrow> string list \<Rightarrow> relay option" where
  \<comment> \<open>the handshake that failed has taken some of the reads\<close>
  "tunnelToUpstreamRaw dialled status taken reads ups =
     (if dialled \<and> status = Some 200 then
        (case read_head [] ups of None \<Rightarrow> None | Some (_, _, rest') \<Rightarrow> Some (start_relay (drop taken reads) rest'))
      else None)"

definition plain_request_line :: "http_request \<Rightarrow> string" where
  \<comment> \<open>\<open>Request.Write\<close> writes the path, where \<open>WriteProxy\<close> would write the whole URL\<close>
  "plain_request_line req = hr_Method req @ '' '' @ hr_RequestURI req @ '' HTTP/1.1'' @ crlf"

definition forwardPlainHTTP :: "(string \<Rightarrow> string option) option \<Rightarrow> http_request \<Rightarrow> string" where
  \<comment> \<open>what the client gets; the upstream proxy, when it can be dialled, answers a request line with a response or nothing
     that can be read\<close>
  "forwardPlainHTTP upstream req =
     (case upstream of
        None \<Rightarrow> ''HTTP/1.1 502 Bad Gateway'' @ crlf @ crlf
      | Some answer \<Rightarrow> (case answer (plain_request_line req) of None \<Rightarrow> [] | Some resp \<Rightarrow> resp))"

subsection \<open>The tunnel of the local proxy\<close>

definition forwarder_relay :: "link \<Rightarrow> string list \<Rightarrow> string list \<Rightarrow> relay option" where
  \<comment> \<open>neither reader is handed to \<open>splice\<close>; a direct connection has no response to read\<close>
  "forwarder_relay l reads ups =
     (case read_head [] reads of
        None \<Rightarrow> None
      | Some (_, _, rest) \<Rightarrow>
          (case l of
             No_link \<Rightarrow> None
           | Via_interceptor \<Rightarrow> (case read_head [] ups of None \<Rightarrow> None | Some (_, _, rest') \<Rightarrow> Some (start_relay rest rest'))
           | Direct _ \<Rightarrow> Some (start_relay rest ups)))"



text \<open>The tunnel of the local proxy carries neither: both readers are left behind.\<close>

theorem forwarder_streams:
  assumes "forwarder_relay Via_interceptor reads ups = Some r" and "run_relay splice_do evs r = Some s"
    and "fl_end (rl_out s) = Some Reached_eof" and "fl_end (rl_in s) = Some Reached_eof"
  shows "spliced reads = Some (fl_written (rl_out s)) \<and> spliced ups = Some (fl_written (rl_in s))"
proof -
  obtain h extra rest h' held rest' where
    split: "read_head [] reads = Some (h, extra, rest)" "read_head [] ups = Some (h', held, rest')" "r = start_relay rest rest'"
    using assms(1) by (auto simp: forwarder_relay_def split: option.splits)
  show ?thesis
    using relay_delivers_either [OF assms(2) [unfolded split(3)]] assms(3,4) split by (simp add: spliced_def)
qed

subsection \<open>Accept loops\<close>

datatype 'c accept_event = Accepted_conn 'c | Accept_failed | Cancelled

fun Serve :: "'c accept_event list \<Rightarrow> 'c list \<times> bool" where
  \<comment> \<open>the ICAP server: the connections a handler is started for, and whether it has returned with the error\<close>
  "Serve [] = ([], False)"
| "Serve (Accepted_conn c # es) = apfst ((#) c) (Serve es)"
| "Serve (Accept_failed # es) = ([], True)"
| "Serve (Cancelled # es) = Serve es"

fun accept_forever :: "'c accept_event list \<Rightarrow> 'c list" where
  \<comment> \<open>both listeners of tls-proxy\<close>
  "accept_forever [] = []"
| "accept_forever (Accepted_conn c # es) = c # accept_forever es"
| "accept_forever (e # es) = accept_forever es"

fun fw_ListenAndServe :: "bool \<Rightarrow> 'c accept_event list \<Rightarrow> 'c list \<times> bool" where
  \<comment> \<open>the local proxy: a failure ends the loop when the context was cancelled before\<close>
  "fw_ListenAndServe cancelled [] = ([], False)"
| "fw_ListenAndServe cancelled (Accepted_conn c # es) = apfst ((#) c) (fw_ListenAndServe cancelled es)"
| "fw_ListenAndServe cancelled (Cancelled # es) = fw_ListenAndServe True es"
| "fw_ListenAndServe cancelled (Accept_failed # es) = (if cancelled then ([], True) else fw_ListenAndServe cancelled es)"

text \<open>
  One failed accept ends the ICAP server, and with it the process. The two listeners of tls-proxy and the local proxy go
  on with the connections that follow; the local proxy stops with the first failure after its cancellation.
\<close>
theorem failed_accept_ends_icap:
  "Serve (map Accepted_conn cs @ Accept_failed # es) = (cs, True)
   \<and> accept_forever (map Accepted_conn cs @ Accept_failed # es) = cs @ accept_forever es
   \<and> fw_ListenAndServe False (map Accepted_conn cs @ Accept_failed # es) = apfst ((@) cs) (fw_ListenAndServe False es)
   \<and> fw_ListenAndServe False (map Accepted_conn cs @ Cancelled # map Accepted_conn ds @ Accept_failed # es) = (cs @ ds, True)"
proof -
  have "Serve (map Accepted_conn cs @ Accept_failed # es) = (cs, True)" by (induction cs) simp_all
  moreover have "accept_forever (map Accepted_conn cs @ Accept_failed # es) = cs @ accept_forever es" by (induction cs) simp_all
  moreover have run: "fw_ListenAndServe b (map Accepted_conn xs @ fs) = apfst ((@) xs) (fw_ListenAndServe b fs)" for b xs fs
    by (induction xs) (simp_all add: apfst_def map_prod_def split: prod.split)
  ultimately show ?thesis by (simp add: run)
qed

end
