(* ===== verification/Connect_Trust.thy ===== *)
theory Connect_Trust
  imports Connect_Enroll
begin

text \<open>
  How ai-scan-connect installs the CA of the organization (\<open>connect/certstore\<close>): the canonical bundle, the anchor
  directories of Linux (\<open>linux.go\<close>), the root store of Windows (\<open>windows.go\<close>, \<open>windows_helpers.go\<close>) and the keychain of
  macOS (\<open>darwin.go\<close>, \<open>darwin_helpers.go\<close>).

  \<^item> \<open>certutil\<close>, \<open>security\<close> and the commands that rebuild the store of Linux are arguments. What a theorem needs of
    \<open>certutil\<close> is its documented behaviour, a predicate.
  \<^item> A file is absent, unreadable, or its text, as in \<open>Connect_Enroll\<close>.
\<close>

definition MaterializeCAFile :: "bool \<Rightarrow> put \<Rightarrow> string \<Rightarrow> string \<Rightarrow> rc_files \<Rightarrow> bool \<times> rc_files" where
  \<comment> \<open>whether the directory can be made, the outcome of the write, the path of the bundle\<close>
  "MaterializeCAFile mkdir w dst pem fs = (case put_bytes mkdir w pem (fs dst) of (ok, f) \<Rightarrow> (ok, fs(dst := f)))"

subsection \<open>Linux\<close>

definition linuxAnchorDirs :: "string list" where
  "linuxAnchorDirs =
     [''/usr/local/share/ca-certificates'', ''/etc/pki/ca-trust/source/anchors'', ''/etc/ca-certificates/trust-source/anchors'']"

definition anchor_path :: "string \<Rightarrow> string \<Rightarrow> string" where
  "anchor_path dir ext = dir @ ''/ai-scan-connect-org-ca'' @ ext"

record linux_env =
  le_mkdir :: bool
  le_bundle_put :: put
  le_is_dir :: "string \<Rightarrow> bool"
  le_anchor_put :: put
  le_remove :: "string \<Rightarrow> bool"
  le_ca_certificates :: "bool option"     \<comment> \<open>\<open>update-ca-certificates\<close>: not there, or whether it succeeds\<close>
  le_ca_trust :: "bool option"            \<comment> \<open>\<open>update-ca-trust extract\<close>\<close>

definition pickAnchorDir :: "linux_env \<Rightarrow> string option" where
  "pickAnchorDir E = find (le_is_dir E) linuxAnchorDirs"

definition refreshLinuxTrust :: "linux_env \<Rightarrow> bool" where
  "refreshLinuxTrust E =
     (case le_ca_certificates E of
        Some ok \<Rightarrow> ok
      | None \<Rightarrow> (case le_ca_trust E of Some ok \<Rightarrow> ok | None \<Rightarrow> True))"

definition Install_linux :: "linux_env \<Rightarrow> string \<Rightarrow> string \<Rightarrow> rc_files \<Rightarrow> (string + string) \<times> rc_files" where
  "Install_linux E bundle pem fs =
     (case MaterializeCAFile (le_mkdir E) (le_bundle_put E) bundle pem fs of
        (False, fs1) \<Rightarrow> (Inl ''write bundle'', fs1)
      | (True, fs1) \<Rightarrow>
          (case pickAnchorDir E of
             None \<Rightarrow> (Inr [], fs1)
           | Some dir \<Rightarrow>
               (let dst = anchor_path dir (if dir = ''/usr/local/share/ca-certificates'' then ''.crt'' else ''.pem'') in
                case put_bytes True (le_anchor_put E) pem (fs1 dst) of
                  (False, f) \<Rightarrow> (Inl ''write anchor'', fs1(dst := f))
                | (True, f) \<Rightarrow>
                    if refreshLinuxTrust E then (Inr dst, fs1(dst := f))
                    else (Inl ''refresh'', fs1(dst := (if le_remove E dst then Absent else f))))))"

definition anchor_paths :: "string list" where
  "anchor_paths = concat (map (\<lambda>d. map (anchor_path d) [''.pem'', ''.crt'']) linuxAnchorDirs)"

fun remove_all :: "(string \<Rightarrow> bool) \<Rightarrow> string list \<Rightarrow> rc_files \<Rightarrow> nat \<times> rc_files" where
  \<comment> \<open>the number of files that could not be removed\<close>
  "remove_all can [] fs = (0, fs)"
| "remove_all can (p # ps) fs =
     (if fs p = Absent then remove_all can ps fs
      else if can p then remove_all can ps (fs(p := Absent))
      else (case remove_all can ps fs of (n, fs') \<Rightarrow> (Suc n, fs')))"

definition Uninstall_linux :: "linux_env \<Rightarrow> rc_files \<Rightarrow> nat \<times> rc_files" where
  \<comment> \<open>the number of errors\<close>
  "Uninstall_linux E fs =
     (case remove_all (le_remove E) anchor_paths fs of (n, fs') \<Rightarrow> (if refreshLinuxTrust E then n else Suc n, fs'))"

lemma remove_all_files:
  "remove_all (\<lambda>_. True) ps fs = (0, \<lambda>p. if p \<in> set ps then Absent else fs p)"
  by (induction ps arbitrary: fs) (auto simp: fun_eq_iff)

lemma installed_anchor:
  assumes "Install_linux E bundle pem fs = (Inr dst, fs')"
  shows "fs' = (if dst = [] then fs(bundle := Text pem) else fs(bundle := Text pem, dst := Text pem))"
    and "dst \<noteq> [] \<Longrightarrow> dst \<in> set anchor_paths"
proof -
  have dir: "d \<in> set linuxAnchorDirs" if "pickAnchorDir E = Some d" for d
    using that by (auto simp: pickAnchorDir_def find_Some_iff)
  show "fs' = (if dst = [] then fs(bundle := Text pem) else fs(bundle := Text pem, dst := Text pem))"
    using assms
    by (auto simp: Install_linux_def MaterializeCAFile_def put_bytes_def anchor_path_def Let_def
        split: prod.splits bool.splits option.splits put.splits if_splits)
  show "dst \<noteq> [] \<Longrightarrow> dst \<in> set anchor_paths"
    using assms dir
    by (auto simp: Install_linux_def anchor_paths_def Let_def split: prod.splits bool.splits option.splits if_splits)
qed

text \<open>
  An uninstallation takes back the anchors and leaves the bundle. After an installation and an uninstallation on Linux
  that both succeed, no anchor of the agent is left in any directory, whichever was picked, every other file is as it was,
  but the bundle the interface promises to remove is still there.
\<close>
theorem uninstall_leaves_bundle:
  assumes "Install_linux E bundle pem fs = (Inr dst, fs1)" and "le_remove E2 = (\<lambda>_. True)" and "refreshLinuxTrust E2"
    and "bundle \<notin> set anchor_paths"
  shows "Uninstall_linux E2 fs1 = (0, \<lambda>p. if p \<in> set anchor_paths then Absent else if p = bundle then Text pem else fs p)"
proof -
  have u: "Uninstall_linux E2 fs1 = (0, \<lambda>p. if p \<in> set anchor_paths then Absent else fs1 p)"
    by (simp add: Uninstall_linux_def assms(2,3) remove_all_files)
  show ?thesis
    unfolding u using installed_anchor(2) [OF assms(1)] assms(4)
    by (auto simp: fun_eq_iff installed_anchor(1) [OF assms(1)])
qed

lemma failed_refresh_removes_old_anchor:
  "Install_linux E bundle pem fs = (Inl ''refresh'', fs') \<Longrightarrow> le_remove E = (\<lambda>_. True) \<Longrightarrow> pickAnchorDir E = Some dir \<Longrightarrow>
     fs' (anchor_path dir (if dir = ''/usr/local/share/ca-certificates'' then ''.crt'' else ''.pem'')) = Absent"
  by (auto simp: Install_linux_def Let_def split: prod.splits bool.splits option.splits if_splits)

theorem uninstall_leaves_bundle_witness:
  "let E = \<lparr>le_mkdir = True, le_bundle_put = Put, le_is_dir = (\<lambda>d. d = ''/usr/local/share/ca-certificates''), le_anchor_put = Put,
            le_remove = (\<lambda>_. True), le_ca_certificates = Some True, le_ca_trust = None\<rparr>;
       b = ''/etc/ssl/certs/aiscan.pem'';
       fs1 = snd (Install_linux E b ''ca'' (\<lambda>_. Absent));
       fs2 = snd (Uninstall_linux E fs1)
   in fs1 ''/usr/local/share/ca-certificates/ai-scan-connect-org-ca.crt'' = Text ''ca''
    \<and> fs2 ''/usr/local/share/ca-certificates/ai-scan-connect-org-ca.crt'' = Absent \<and> fs2 b = Text ''ca''"
proof -
  let ?E = "\<lparr>le_mkdir = True, le_bundle_put = Put, le_is_dir = (\<lambda>d. d = ''/usr/local/share/ca-certificates''), le_anchor_put = Put,
      le_remove = (\<lambda>_ :: string. True), le_ca_certificates = Some True, le_ca_trust = None\<rparr>"
  let ?b = "''/etc/ssl/certs/aiscan.pem''" and ?a = "''/usr/local/share/ca-certificates/ai-scan-connect-org-ca.crt''"
  have i: "Install_linux ?E ?b ''ca'' (\<lambda>_. Absent) = (Inr ?a, (\<lambda>_. Absent)(?b := Text ''ca'', ?a := Text ''ca''))"
    by (simp add: Install_linux_def MaterializeCAFile_def put_bytes_def pickAnchorDir_def linuxAnchorDirs_def anchor_path_def
        refreshLinuxTrust_def Let_def)
  have "?b \<notin> set anchor_paths" and a: "?a \<in> set anchor_paths" by (simp_all add: anchor_paths_def linuxAnchorDirs_def anchor_path_def)
  then show ?thesis
    using uninstall_leaves_bundle [OF i, of ?E] by (simp add: i refreshLinuxTrust_def)
qed

subsection \<open>Certificates and stores\<close>

fun pemFirstCert :: "(string \<Rightarrow> 'c option) \<Rightarrow> (string \<times> string) list \<Rightarrow> 'c option" where
  \<comment> \<open>over the blocks \<open>pem.Decode\<close> finds one after the other, type and bytes\<close>
  "pemFirstCert parse [] = None"
| "pemFirstCert parse ((t, b) # bs) = (if t = ''CERTIFICATE'' then parse b else pemFirstCert parse bs)"

record ca_cert =
  ca_CommonName :: string
  ca_Raw :: string

definition sha1Hex :: "(string \<Rightarrow> 8 word list) \<Rightarrow> string \<Rightarrow> string" where
  "sha1Hex sha1 bytes = map upper_char (hex_bytes (sha1 bytes))"

record pem_lib =
  pm_blocks :: "string \<Rightarrow> (string \<times> string) list"
  pm_parse :: "string \<Rightarrow> ca_cert option"
  pm_sha1 :: "string \<Rightarrow> 8 word list"

definition bundle_cert :: "pem_lib \<Rightarrow> string \<Rightarrow> ca_cert option" where
  "bundle_cert P pem = pemFirstCert (pm_parse P) (pm_blocks P pem)"

definition certutilAddArgs :: "string \<Rightarrow> string list" where
  "certutilAddArgs pemPath = [''-addstore'', ''-f'', ''Root'', pemPath]"

definition certutilDelArgs :: "string \<Rightarrow> string list" where
  "certutilDelArgs thumb = [''-delstore'', ''Root'', thumb]"

definition certutilStoreArgs :: "string \<Rightarrow> string list" where
  "certutilStoreArgs thumb = [''-store'', ''Root'', thumb]"

definition SystemKeychain :: string where
  "SystemKeychain = ''/Library/Keychains/System.keychain''"

definition securityAddTrustedArgs :: "string \<Rightarrow> string \<Rightarrow> string list" where
  "securityAddTrustedArgs keychain pemPath = [''add-trusted-cert'', ''-d'', ''-r'', ''trustRoot'', ''-k'', keychain, pemPath]"

definition securityDeleteByCNArgs :: "string \<Rightarrow> string \<Rightarrow> string list" where
  "securityDeleteByCNArgs keychain cn = [''delete-certificate'', ''-c'', cn, keychain]"

definition securityFindByCNArgs :: "string \<Rightarrow> string \<Rightarrow> string list" where
  "securityFindByCNArgs keychain cn = [''find-certificate'', ''-a'', ''-c'', cn, ''-Z'', keychain]"

type_synonym 's tool = "string list \<Rightarrow> rc_files \<Rightarrow> 's \<Rightarrow> (bool \<times> string) \<times> 's"
  \<comment> \<open>arguments, files, the store; whether the exit status is 0, and the output\<close>

definition writeTempPEM :: "string option \<Rightarrow> string \<Rightarrow> rc_files \<Rightarrow> (string \<times> rc_files) option" where
  \<comment> \<open>the fresh name, \<open>None\<close> when it cannot be created, written or closed; what a failed close leaves is not modelled\<close>
  "writeTempPEM tmp pem fs = map_option (\<lambda>p. (p, fs(p := Text pem))) tmp"

record store_env =
  se_mkdir :: bool
  se_bundle_put :: put
  se_tmp :: "string option"
  se_remove :: "string \<Rightarrow> bool"

definition unlink :: "store_env \<Rightarrow> string \<Rightarrow> rc_files \<Rightarrow> rc_files" where
  "unlink E p fs = (if se_remove E p then fs(p := Absent) else fs)"

definition alreadyInRootStore :: "'s tool \<Rightarrow> string \<Rightarrow> rc_files \<Rightarrow> 's \<Rightarrow> bool \<times> 's" where
  "alreadyInRootStore run thumb fs s =
     (case run (certutilStoreArgs thumb) fs s of ((ok, out), s') \<Rightarrow> (ok \<and> contains (map upper_char out) thumb, s'))"

definition Install_windows ::
  "pem_lib \<Rightarrow> 's tool \<Rightarrow> store_env \<Rightarrow> string \<Rightarrow> string \<Rightarrow> rc_files \<Rightarrow> 's \<Rightarrow> (string + string) \<times> rc_files \<times> 's" where
  "Install_windows P run E bundle pem fs s =
     (case MaterializeCAFile (se_mkdir E) (se_bundle_put E) bundle pem fs of
        (False, fs1) \<Rightarrow> (Inl ''write bundle'', fs1, s)
      | (True, fs1) \<Rightarrow>
          (case bundle_cert P pem of
             None \<Rightarrow> (Inl ''no certificate'', fs1, s)
           | Some c \<Rightarrow>
               (let thumb = sha1Hex (pm_sha1 P) (ca_Raw c) in
                case alreadyInRootStore run thumb fs1 s of
                  (True, s1) \<Rightarrow> (Inr (raw ''Root~'' @ thumb), fs1, s1)
                | (False, s1) \<Rightarrow>
                    (case writeTempPEM (se_tmp E) pem fs1 of
                       None \<Rightarrow> (Inl ''temp file'', fs1, s1)
                     | Some (tmp, fs2) \<Rightarrow>
                         (case run (certutilAddArgs tmp) fs2 s1 of
                            ((ok, _), s2) \<Rightarrow>
                              (if ok then Inr (raw ''Root~'' @ thumb) else Inl ''certutil -addstore'', unlink E tmp fs2, s2))))))"

definition Uninstall_windows :: "pem_lib \<Rightarrow> 's tool \<Rightarrow> store_env \<Rightarrow> string \<Rightarrow> rc_files \<Rightarrow> 's \<Rightarrow> (string + unit) \<times> rc_files \<times> 's" where
  "Uninstall_windows P run E bundle fs s =
     (case fs bundle of
        Absent \<Rightarrow> (Inr (), fs, s)
      | Opaque \<Rightarrow> (Inl ''read bundle'', fs, s)
      | Text pem \<Rightarrow>
          (case bundle_cert P pem of
             None \<Rightarrow> (Inl ''no certificate'', fs, s)
           | Some c \<Rightarrow>
               (let thumb = sha1Hex (pm_sha1 P) (ca_Raw c) in
                case alreadyInRootStore run thumb fs s of
                  (False, s1) \<Rightarrow> (Inr (), unlink E bundle fs, s1)
                | (True, s1) \<Rightarrow>
                    (case run (certutilDelArgs thumb) fs s1 of
                       ((ok, _), s2) \<Rightarrow> if ok then (Inr (), unlink E bundle fs, s2) else (Inl ''certutil -delstore'', fs, s2)))))"

definition alreadyInSystemKeychain :: "'s tool \<Rightarrow> string \<Rightarrow> string \<Rightarrow> rc_files \<Rightarrow> 's \<Rightarrow> bool \<times> 's" where
  "alreadyInSystemKeychain run cn thumb fs s =
     (if cn = [] then (False, s)
      else (case run (securityFindByCNArgs SystemKeychain cn) fs s of
              ((ok, out), s') \<Rightarrow> (ok \<and> contains (map upper_char out) thumb, s')))"

definition Install_darwin ::
  "pem_lib \<Rightarrow> 's tool \<Rightarrow> store_env \<Rightarrow> string \<Rightarrow> string \<Rightarrow> rc_files \<Rightarrow> 's \<Rightarrow> (string + string) \<times> rc_files \<times> 's" where
  "Install_darwin P run E bundle pem fs s =
     (case MaterializeCAFile (se_mkdir E) (se_bundle_put E) bundle pem fs of
        (False, fs1) \<Rightarrow> (Inl ''write bundle'', fs1, s)
      | (True, fs1) \<Rightarrow>
          (case bundle_cert P pem of
             None \<Rightarrow> (Inl ''no certificate'', fs1, s)
           | Some c \<Rightarrow>
               (let thumb = sha1Hex (pm_sha1 P) (ca_Raw c) in
                case alreadyInSystemKeychain run (ca_CommonName c) thumb fs1 s of
                  (True, s1) \<Rightarrow> (Inr (SystemKeychain @ '':'' @ thumb), fs1, s1)
                | (False, s1) \<Rightarrow>
                    (case writeTempPEM (se_tmp E) pem fs1 of
                       None \<Rightarrow> (Inl ''temp file'', fs1, s1)
                     | Some (tmp, fs2) \<Rightarrow>
                         (case run (securityAddTrustedArgs SystemKeychain tmp) fs2 s1 of
                            ((ok, _), s2) \<Rightarrow>
                              (if ok then Inr (SystemKeychain @ '':'' @ thumb) else Inl ''security add-trusted-cert'',
                               unlink E tmp fs2, s2))))))"

definition Uninstall_darwin :: "pem_lib \<Rightarrow> 's tool \<Rightarrow> store_env \<Rightarrow> string \<Rightarrow> rc_files \<Rightarrow> 's \<Rightarrow> (string + unit) \<times> rc_files \<times> 's" where
  "Uninstall_darwin P run E bundle fs s =
     (case fs bundle of
        Absent \<Rightarrow> (Inr (), fs, s)
      | Opaque \<Rightarrow> (Inl ''read bundle'', fs, s)
      | Text pem \<Rightarrow>
          (case bundle_cert P pem of
             None \<Rightarrow> (Inl ''no certificate'', fs, s)
           | Some c \<Rightarrow>
               if ca_CommonName c = [] then (Inl ''empty CN'', fs, s)
               else
                 (case run (securityDeleteByCNArgs SystemKeychain (ca_CommonName c)) fs s of
                    ((ok, out), s1) \<Rightarrow>
                      if ok \<or> contains (to_lower out) ''could not be found'' then (Inr (), unlink E bundle fs, s1)
                      else (Inl ''security delete-certificate'', fs, s1))))"

subsection \<open>Changing the CA on Windows\<close>

definition certutil_ok :: "pem_lib \<Rightarrow> 's tool \<Rightarrow> ('s \<Rightarrow> string set) \<Rightarrow> bool" where
  \<comment> \<open>what is documented of \<open>certutil\<close>: a lookup succeeds and shows the thumbprint exactly for a certificate in the store, which
     it leaves alone; the certificate of a file is added; one that is there is deleted\<close>
  "certutil_ok P run has \<longleftrightarrow>
     (\<forall>b fs s. let t = sha1Hex (pm_sha1 P) b; ((ok, out), s') = run (certutilStoreArgs t) fs s in
        s' = s \<and> (ok \<and> contains (map upper_char out) t \<longleftrightarrow> t \<in> has s))
   \<and> (\<forall>p fs s pem c. fs p = Text pem \<and> bundle_cert P pem = Some c \<longrightarrow>
        (let ((ok, out), s') = run (certutilAddArgs p) fs s in ok \<and> has s' = insert (sha1Hex (pm_sha1 P) (ca_Raw c)) (has s)))
   \<and> (\<forall>b fs s. let t = sha1Hex (pm_sha1 P) b; ((ok, out), s') = run (certutilDelArgs t) fs s in
        t \<in> has s \<longrightarrow> ok \<and> has s' = has s - {t})"

definition writes_work :: "store_env \<Rightarrow> string \<Rightarrow> bool" where
  "writes_work E bundle \<longleftrightarrow> se_mkdir E \<and> se_bundle_put E = Put \<and> se_remove E = (\<lambda>_. True)
     \<and> (case se_tmp E of None \<Rightarrow> False | Some tmp \<Rightarrow> tmp \<noteq> bundle)"

lemma certutil_lookup:
  assumes "certutil_ok P run has"
  shows "alreadyInRootStore run (sha1Hex (pm_sha1 P) b) fs s = (sha1Hex (pm_sha1 P) b \<in> has s, s)"
proof -
  let ?t = "sha1Hex (pm_sha1 P) b"
  obtain ok out s' where r: "run (certutilStoreArgs ?t) fs s = ((ok, out), s')" by (metis surj_pair)
  have "let ((ok, out), s') = run (certutilStoreArgs ?t) fs s in
      s' = s \<and> (ok \<and> contains (map upper_char out) ?t \<longleftrightarrow> ?t \<in> has s)"
    using assms unfolding certutil_ok_def by meson
  then show ?thesis by (simp add: r alreadyInRootStore_def)
qed

lemma Install_windows_ok:
  assumes "certutil_ok P run has" and "writes_work E bundle" and "bundle_cert P pem = Some c"
  obtains fs' s' where "Install_windows P run E bundle pem fs s = (Inr (raw ''Root~'' @ sha1Hex (pm_sha1 P) (ca_Raw c)), fs', s')"
    and "fs' bundle = Text pem" and "has s' = insert (sha1Hex (pm_sha1 P) (ca_Raw c)) (has s)"
proof -
  obtain tmp where tmp: "se_tmp E = Some tmp" "tmp \<noteq> bundle" using assms(2) by (auto simp: writes_work_def split: option.splits)
  let ?fs1 = "fs(bundle := Text pem)" and ?t = "sha1Hex (pm_sha1 P) (ca_Raw c)"
  let ?fs2 = "?fs1(tmp := Text pem)"
  obtain ok out s2 where r: "run (certutilAddArgs tmp) ?fs2 s = ((ok, out), s2)" by (metis surj_pair)
  have "let ((ok, out), s') = run (certutilAddArgs tmp) ?fs2 s in ok \<and> has s' = insert ?t (has s)"
    using assms(1,3) unfolding certutil_ok_def by (metis fun_upd_same)
  then have add: "ok" "has s2 = insert ?t (has s)" by (simp_all add: r)
  have m: "MaterializeCAFile (se_mkdir E) (se_bundle_put E) bundle pem fs = (True, ?fs1)"
    using assms(2) by (simp add: MaterializeCAFile_def put_bytes_def writes_work_def)
  show thesis
  proof (cases "?t \<in> has s")
    case True
    then show thesis
      by (intro that [of ?fs1 s]) (auto simp: Install_windows_def m assms(3) certutil_lookup [OF assms(1)])
  next
    case False
    then show thesis
      using tmp add by (intro that [of "unlink E tmp ?fs2" s2])
        (auto simp: Install_windows_def m assms(3) certutil_lookup [OF assms(1)] writeTempPEM_def r unlink_def)
  qed
qed

lemma Uninstall_windows_ok:
  assumes "certutil_ok P run has" and "bundle_cert P pem = Some c" and "fs bundle = Text pem"
  obtains fs' s' where "Uninstall_windows P run E bundle fs s = (Inr (), fs', s')"
    and "has s' = has s - {sha1Hex (pm_sha1 P) (ca_Raw c)}"
proof -
  let ?t = "sha1Hex (pm_sha1 P) (ca_Raw c)"
  obtain ok out s2 where r: "run (certutilDelArgs ?t) fs s = ((ok, out), s2)" by (metis surj_pair)
  have "let ((ok, out), s') = run (certutilDelArgs ?t) fs s in ?t \<in> has s \<longrightarrow> ok \<and> has s' = has s - {?t}"
    using assms(1) unfolding certutil_ok_def by meson
  then have del: "?t \<in> has s \<Longrightarrow> ok \<and> has s2 = has s - {?t}" by (simp add: r)
  show thesis
  proof (cases "?t \<in> has s")
    case True
    then show thesis
      using del by (intro that [of "unlink E bundle fs" s2])
        (auto simp: Uninstall_windows_def assms(2,3) certutil_lookup [OF assms(1)] r)
  next
    case False
    then show thesis
      by (intro that [of "unlink E bundle fs" s])
        (auto simp: Uninstall_windows_def assms(2,3) certutil_lookup [OF assms(1)])
  qed
qed

text \<open>
  A CA that was replaced stays trusted. On Windows an installation followed by an uninstallation removes the certificate of
  the organization from the root store. But when the CA was changed in between, by installing again with a new
  configuration, the uninstallation finds only the new one in the bundle: the old root stays in the store.
\<close>
theorem replaced_ca_stays_trusted:
  assumes "certutil_ok P run has" and "writes_work E bundle" and "bundle_cert P old = Some c" and "bundle_cert P new = Some d"
  shows "let t = sha1Hex (pm_sha1 P); install = (\<lambda>pem (fs, s). snd (Install_windows P run E bundle pem fs s));
           uninstall = (\<lambda>(fs, s). snd (Uninstall_windows P run E bundle fs s))
     in has (snd (uninstall (install old (fs, s)))) = has s - {t (ca_Raw c)}
      \<and> has (snd (uninstall (install new (install old (fs, s))))) = insert (t (ca_Raw c)) (has s) - {t (ca_Raw d)}"
proof -
  let ?t = "sha1Hex (pm_sha1 P)"
  obtain fs1 s1 x where one: "Install_windows P run E bundle old fs s = (x, fs1, s1)" "fs1 bundle = Text old"
    "has s1 = insert (?t (ca_Raw c)) (has s)" by (metis Install_windows_ok [OF assms(1,2,3)])
  obtain fs2 s2 y where two: "Install_windows P run E bundle new fs1 s1 = (y, fs2, s2)" "fs2 bundle = Text new"
    "has s2 = insert (?t (ca_Raw d)) (has s1)" by (metis Install_windows_ok [OF assms(1,2,4)])
  obtain fs3 s3 where three: "Uninstall_windows P run E bundle fs1 s1 = (Inr (), fs3, s3)" "has s3 = has s1 - {?t (ca_Raw c)}"
    by (rule Uninstall_windows_ok [where fs = fs1 and s = s1, OF assms(1,3) one(2)])
  obtain fs4 s4 where four: "Uninstall_windows P run E bundle fs2 s2 = (Inr (), fs4, s4)" "has s4 = has s2 - {?t (ca_Raw d)}"
    by (rule Uninstall_windows_ok [where fs = fs2 and s = s2, OF assms(1,4) two(2)])
  show ?thesis using one two three four by (auto simp: Let_def)
qed

definition sample_pem_lib :: pem_lib where
  "sample_pem_lib = \<lparr>pm_blocks = (\<lambda>s. [(''CERTIFICATE'', s)]), pm_parse = (\<lambda>b. Some \<lparr>ca_CommonName = b, ca_Raw = b\<rparr>),
     pm_sha1 = (\<lambda>b. [of_nat (length b)])\<rparr>"

definition sample_certutil :: "string list tool" where
  \<comment> \<open>the store is the list of the thumbprints\<close>
  "sample_certutil args fs s =
     (if hd args = ''-store'' then ((args ! 2 \<in> set s, args ! 2), s)
      else if hd args = ''-delstore'' then ((True, []), removeAll (args ! 2) s)
      else (case fs (args ! 3) of
              Text pem \<Rightarrow> ((True, []), sha1Hex (pm_sha1 sample_pem_lib) pem # s)
            | _ \<Rightarrow> ((False, []), s)))"

lemma upper_char_again: "upper_char (upper_char c) = upper_char c"
  by (simp add: upper_char_def split: char.split)

lemma sample_certutil_ok: "certutil_ok sample_pem_lib sample_certutil set"
proof -
  have "map upper_char (sha1Hex f b) = sha1Hex f b" for f b by (simp add: sha1Hex_def upper_char_again)
  moreover have "contains t t" for t :: string using contains_iff [of t t] by (metis append_Nil append_Nil2)
  ultimately show ?thesis
    by (auto simp: certutil_ok_def sample_certutil_def certutilStoreArgs_def certutilAddArgs_def certutilDelArgs_def
        bundle_cert_def Let_def) (auto simp: sample_pem_lib_def)
qed

theorem replaced_ca_stays_trusted_witness:
  "let E = \<lparr>se_mkdir = True, se_bundle_put = Put, se_tmp = Some ''tmp'', se_remove = (\<lambda>_. True)\<rparr>;
       install = (\<lambda>pem (fs, s). snd (Install_windows sample_pem_lib sample_certutil E ''bundle'' pem fs s));
       uninstall = (\<lambda>(fs, s). snd (Uninstall_windows sample_pem_lib sample_certutil E ''bundle'' fs s))
   in set (snd (uninstall (install ''a'' (\<lambda>_. Absent, [])))) = {}
    \<and> set (snd (uninstall (install ''ab'' (install ''a'' (\<lambda>_. Absent, []))))) = {''01''}"
proof -
  let ?E = "\<lparr>se_mkdir = True, se_bundle_put = Put, se_tmp = Some ''tmp'', se_remove = (\<lambda>_ :: string. True)\<rparr>"
  have w: "writes_work ?E ''bundle''" by (simp add: writes_work_def)
  have b: "bundle_cert sample_pem_lib x = Some \<lparr>ca_CommonName = x, ca_Raw = x\<rparr>" for x
    by (simp add: bundle_cert_def sample_pem_lib_def)
  have t: "sha1Hex (pm_sha1 sample_pem_lib) ''a'' = ''01''" "sha1Hex (pm_sha1 sample_pem_lib) ''ab'' = ''02''" by code_simp+
  show ?thesis
    using replaced_ca_stays_trusted [OF sample_certutil_ok w b b,
        where fs = "\<lambda>_. Absent" and s = "[]" and old = "''a''" and new = "''ab''"]
    by (simp add: Let_def t)
qed

end
