(* ===== verification/Connect_Cmd.thy ===== *)
theory Connect_Cmd
  imports Tunnels Connect_Trust
begin

text \<open>
  The subcommands of ai-scan-connect on Linux (\<open>connect/cmd\<close>, \<open>main.go\<close>): how they put the parts together. A host is its
  files and those of the client; \<open>forward\<close> and \<open>monitor\<close> run until a signal cancels them, which ends the list of what
  they are shown.
\<close>

record host =
  ho_files :: rc_files
  ho_client :: client_files

record install_env =
  ie_linux :: linux_env
  ie_unix :: unix_env
  ie_key :: client_env          \<comment> \<open>of the first \<open>EnsureKey\<close>\<close>
  ie_enroll :: client_env

definition first_key :: "client_lib \<Rightarrow> client_env \<Rightarrow> client_files \<Rightarrow> (string + string) \<times> client_files" where
  "first_key L E fs =
     (case EnsureKey L (en_gen E) (en_mkdir E) (en_key_put E) (fi_key fs) of (r, k) \<Rightarrow> (r, fs\<lparr>fi_key := k\<rparr>))"

definition Install ::
  "client_lib \<Rightarrow> (string \<Rightarrow> string) \<Rightarrow> install_env \<Rightarrow> bool \<Rightarrow> json_file \<Rightarrow> (string \<Rightarrow> 's \<Rightarrow> (int \<times> string) option \<times> 's)
     \<Rightarrow> host \<Rightarrow> 's \<Rightarrow> (string + string) \<times> host \<times> 's" where
  \<comment> \<open>the flag is \<open>--skip-enroll\<close>; what the trust store and the variables report is only printed\<close>
  "Install L env E skip config server h s =
     (case Load_Config config of
        Inl e \<Rightarrow> (Inl e, h, s)
      | Inr cfg \<Rightarrow>
          (let fs1 = snd (Install_linux (ie_linux E) (DefaultCAInstallPath Linux env) (cf_OrgCAPEM cfg) (ho_files h));
               fs2 = snd (Apply_unix (ie_unix E) (managed_vars Linux env cfg) fs1) in
           case first_key L (ie_key E) (ho_client h) of
             (Inl _, c) \<Rightarrow> (Inl ''ensure key'', \<lparr>ho_files = fs2, ho_client = c\<rparr>, s)
           | (Inr _, c) \<Rightarrow>
               if skip then (Inr ''skipped'', \<lparr>ho_files = fs2, ho_client = c\<rparr>, s)
               else if cf_EnrollmentToken cfg = [] then (Inr ''no enrollment_token'', \<lparr>ho_files = fs2, ho_client = c\<rparr>, s)
               else
                 (case Enroll_client L cfg (ie_enroll E) server c s of
                    (Inl _, c', s') \<Rightarrow> (Inl ''enroll'', \<lparr>ho_files = fs2, ho_client = c'\<rparr>, s')
                  | (Inr _, c', s') \<Rightarrow> (Inr ''saved'', \<lparr>ho_files = fs2, ho_client = c'\<rparr>, s'))))"

definition Enroll_cmd ::
  "client_lib \<Rightarrow> client_env \<Rightarrow> client_env \<Rightarrow> json_file \<Rightarrow> (string \<Rightarrow> 's \<Rightarrow> (int \<times> string) option \<times> 's)
     \<Rightarrow> client_files \<Rightarrow> 's \<Rightarrow> (string + unit) \<times> client_files \<times> 's" where
  "Enroll_cmd L E1 E config server c s =
     (case Load_Config config of
        Inl e \<Rightarrow> (Inl e, c, s)
      | Inr cfg \<Rightarrow>
          (case first_key L E1 c of
             (Inl e, c') \<Rightarrow> (Inl e, c', s)
           | (Inr _, c') \<Rightarrow> Enroll_client L cfg E server c' s))"

definition Uninstall :: "unix_env \<Rightarrow> linux_env \<Rightarrow> bool \<Rightarrow> host \<Rightarrow> host" where
  \<comment> \<open>the flag is \<open>--purge\<close>, which is not implemented; no error is returned\<close>
  "Uninstall U E purge h = h\<lparr>ho_files := snd (Uninstall_linux E (snd (Remove_unix U (ho_files h))))\<rparr>"

definition Status ::
  "(string \<Rightarrow> string option) \<Rightarrow> (string \<Rightarrow> string) \<Rightarrow> json_file \<Rightarrow> unix_env pass \<Rightarrow> host \<Rightarrow> (string + Report) \<times> host" where
  "Status url_host env config p h =
     (case Load_Config config of
        Inl e \<Rightarrow> (Inl e, h)
      | Inr cfg \<Rightarrow>
          (case CheckAndRecover url_host newManager_unix (managed_vars Linux env cfg) cfg p (ho_files h) of
             (r, fs) \<Rightarrow> (Inr r, h\<lparr>ho_files := fs\<rparr>)))"

definition Forward_cmd ::
  "goos \<Rightarrow> (string \<Rightarrow> string) \<Rightarrow> (string \<Rightarrow> string option) \<Rightarrow> (string \<Rightarrow> bool) \<Rightarrow> (string \<Rightarrow> string \<Rightarrow> string option)
     \<Rightarrow> bool \<Rightarrow> json_file \<Rightarrow> bool \<Rightarrow> 'c accept_event list \<Rightarrow> string + Forwarder \<times> 'c list" where
  \<comment> \<open>whether the flags parse and the address can be bound; the error, or the proxy and the connections it handles\<close>
  "Forward_cmd os env url_host trusts load_pair flags config listens events =
     (if \<not> flags then Inl ''flags''
      else
        (case Load_Config config of
           Inl e \<Rightarrow> Inl e
         | Inr cfg \<Rightarrow>
             (let p = DefaultPaths os env in
              case NewFromConfig url_host trusts cfg (pt_CertPath p) (pt_KeyPath p) (load_pair (pt_CertPath p) (pt_KeyPath p)) of
                Inl e \<Rightarrow> Inl e
              | Inr F \<Rightarrow>
                  if \<not> listens then Inl ''forwarder: listen''
                  else Inr (F, fst (fw_ListenAndServe False events)))))"

definition Monitor_cmd ::
  "goos \<Rightarrow> (string \<Rightarrow> string) \<Rightarrow> (string \<Rightarrow> string option) \<Rightarrow> ('e, 's) manager \<Rightarrow> bool \<Rightarrow> int option \<Rightarrow> json_file
     \<Rightarrow> (('s \<Rightarrow> 's) \<times> 'e pass) list \<Rightarrow> 's \<Rightarrow> (string + int \<times> Report list) \<times> 's" where
  \<comment> \<open>whether the flags parse, and the duration of the interval; the time between two passes and what they report\<close>
  "Monitor_cmd os env url_host m flags interval config passes s =
     (if \<not> flags then (Inl ''flags'', s)
      else
        (case interval of
           None \<Rightarrow> (Inl ''duration'', s)
         | Some n \<Rightarrow>
             (case Load_Config config of
                Inl e \<Rightarrow> (Inl e, s)
              | Inr cfg \<Rightarrow>
                  (case Run url_host m (managed_vars os env cfg) cfg passes s of
                     (rs, s') \<Rightarrow> (Inr (run_interval n, rs), s')))))"

definition subcommands :: "string list" where
  "subcommands = [''install'', ''forward'', ''monitor'', ''enroll'', ''uninstall'', ''status'']"

definition main_exit :: "(string \<Rightarrow> string list \<Rightarrow> bool) \<Rightarrow> string list \<Rightarrow> int" where
  \<comment> \<open>whether a subcommand returns without an error, the arguments; the exit status\<close>
  "main_exit run args =
     (case args of
        [] \<Rightarrow> 2
      | sub # rest \<Rightarrow>
          if sub \<in> set subcommands then (if run sub rest then 0 else 1)
          else if sub \<in> set [''version'', ''-v'', ''--version'', ''help'', ''-h'', ''--help''] then 0
          else 2)"

subsection \<open>What the parts do to each other\<close>

lemma Install_linux_other:
  "p \<noteq> bundle \<Longrightarrow> p \<notin> set anchor_paths \<Longrightarrow> snd (Install_linux E bundle pem fs) p = fs p"
proof -
  assume p: "p \<noteq> bundle" "p \<notin> set anchor_paths"
  have "p \<noteq> anchor_path d (if d = ''/usr/local/share/ca-certificates'' then ''.crt'' else ''.pem'')"
    if "pickAnchorDir E = Some d" for d
  proof -
    have "d \<in> set linuxAnchorDirs" using that by (auto simp: pickAnchorDir_def find_Some_iff)
    then show ?thesis using p(2) by (auto simp: anchor_paths_def)
  qed
  note anchor = this
  show ?thesis
  proof (cases "pickAnchorDir E")
    case None
    then show ?thesis
      using p(1) by (simp add: Install_linux_def MaterializeCAFile_def split: prod.split bool.split)
  next
    case (Some d)
    define dst where "dst = anchor_path d (if d = ''/usr/local/share/ca-certificates'' then ''.crt'' else ''.pem'')"
    have "p \<noteq> dst" unfolding dst_def by (rule anchor [OF Some])
    then show ?thesis
      unfolding Install_linux_def Some option.case dst_def [symmetric] Let_def MaterializeCAFile_def
      using p(1) by (auto split: prod.split bool.split)
  qed
qed

lemma unix_good_cong: "(\<And>p. p \<in> set ps \<Longrightarrow> fs' p = fs p) \<Longrightarrow> unix_good ps v fs \<Longrightarrow> unix_good ps v fs'"
  by (auto simp: unix_good_def list_all_iff)

lemma removed_good:
  assumes "unix_works ps U" and "unix_good ps v fs"
  shows "unix_good ps v (snd (Remove_unix U fs))"
proof -
  have "strippable (snd (rewriteFile True [] True f))" if "strippable f" "f \<noteq> Absent" for f
    using that by (cases f) (auto simp: strippable_def rewriteFile_def next_text_def stripBlock_unmarked)
  then show ?thesis
    using assms by (auto simp: Remove_unix_def unix_works_def unix_good_def rewrite_all_files list_all_iff)
qed

text \<open>
  C38: a failed installation leaves the host redirected. With an enrollment token in the configuration an installation against
  tls-proxy always ends in an error, but by then it has pointed the shells at the local proxy: the settings are those
  of a complete installation, without a certificate that makes the proxy work.
\<close>
theorem failed_install_redirects:
  assumes "Load_Config config = Inr cfg" and "cf_EnrollmentToken cfg \<noteq> []"
    and "unix_works ps (ie_unix E)" and "unix_works ps U" and "unix_good ps (managed_vars Linux env cfg) (ho_files h)"
    and "set ps \<inter> insert (DefaultCAInstallPath Linux env) (set anchor_paths) = {}"
  shows "case Install L env E False config (tls_server X sc se msg) h s of
     (res, h', s') \<Rightarrow> (\<forall>x. res \<noteq> Inr x) \<and> CheckIntegrity_unix U (managed_vars Linux env cfg) (ho_files h') = Some []
       \<and> fi_cert (ho_client h') = fi_cert (ho_client h)"
proof -
  let ?v = "managed_vars Linux env cfg" and ?b = "DefaultCAInstallPath Linux env"
  let ?fs1 = "snd (Install_linux (ie_linux E) ?b (cf_OrgCAPEM cfg) (ho_files h))"
  have "unix_good ps ?v ?fs1"
    using assms(6) by (intro unix_good_cong [OF _ assms(5)] Install_linux_other) auto
  then have settled: "CheckIntegrity_unix U ?v (snd (Apply_unix (ie_unix E) ?v ?fs1)) = Some []"
    using unix.settles [OF assms(3,4)] by (simp add: newManager_unix_def)
  obtain r c where k: "first_key L (ie_key E) (ho_client h) = (r, c)" by force
  then have c: "fi_cert c = fi_cert (ho_client h)" by (auto simp: first_key_def split: prod.splits)
  obtain res c' s' where e: "Enroll_client L cfg (ie_enroll E) (tls_server X sc se msg) c s = (res, c', s')" by (metis prod_cases3)
  then have "res \<noteq> Inr ()" and "fi_cert c' = fi_cert c"
    using enrollment_fails [where L = L and cfg = cfg and E = "ie_enroll E" and fs = c and s = s and X = X and sc = sc
        and se = se and msg = msg] by simp_all
  then show ?thesis
    using settled c e k assms(1,2) by (auto simp: Install_def Let_def split: sum.splits)
qed

text \<open>
  C39: looking at the state undoes an uninstallation. \<open>status\<close>, which is to print a snapshot, repairs what it finds:
  on a host whose configuration is still there, running it after \<open>uninstall\<close> puts the block back into every rc file.
\<close>
theorem status_undoes_uninstall:
  assumes "Load_Config config = Inr cfg" and "unix_works ps U" and "unix_works ps (ps_env p)"
    and "unix_good ps (managed_vars Linux env cfg) (ho_files h)"
    and "set ps \<inter> set anchor_paths = {}" and "le_remove E = (\<lambda>_. True)"
  shows "CheckIntegrity_unix U (managed_vars Linux env cfg) (ho_files (snd (Status url_host env config p (Uninstall U E purge h))))
     = Some []"
proof -
  let ?v = "managed_vars Linux env cfg" and ?fs = "snd (Remove_unix U (ho_files h))"
  have "snd (Uninstall_linux E ?fs) q = ?fs q" if "q \<in> set ps" for q
    using that assms(5) by (auto simp: Uninstall_linux_def assms(6) remove_all_files)
  then have "unix_good ps ?v (ho_files (Uninstall U E purge h))"
    using unix_good_cong [OF _ removed_good [OF assms(2,4)]] by (simp add: Uninstall_def)
  then show ?thesis
    using unix.recover_settles [OF assms(3,2)] assms(1)
    by (simp add: Status_def split_beta CheckAndRecover_state newManager_unix_def)
qed

definition sample_config :: json_file where
  "sample_config = Doc (JObj [(''interceptor_url'', JStr ''https://i''), (''enroll_url'', JStr ''https://i:3131/enroll''),
     (''org_ca_pem'', JStr ''ca''), (''enrollment_token'', JStr ''secret'')])"

definition sample_loaded :: Config where
  "sample_loaded = \<lparr>cf_InterceptorURL = ''https://i'', cf_EnrollURL = ''https://i:3131/enroll'', cf_OrgCAPEM = ''ca'',
     cf_EnrollmentToken = ''secret'', cf_LocalListen = ''127.0.0.1:8443'', cf_FailClose = False, cf_Org = []\<rparr>"

definition sample_linux :: linux_env where
  "sample_linux = \<lparr>le_mkdir = True, le_bundle_put = Put, le_is_dir = (\<lambda>_. False), le_anchor_put = Put, le_remove = (\<lambda>_. True),
     le_ca_certificates = None, le_ca_trust = None\<rparr>"

definition sample_unix :: "time \<Rightarrow> unix_env" where
  "sample_unix t = \<lparr>ux_now = t, ux_candidates = Some [''/root/.bashrc''], ux_writes = (\<lambda>_. True)\<rparr>"

definition sample_host :: host where
  "sample_host = \<lparr>ho_files = (\<lambda>_. Text ''alias ls=exa''), ho_client = no_client_files\<rparr>"

lemma sample_host_facts:
  "Load_Config sample_config = Inr sample_loaded" "unix_works [''/root/.bashrc''] (sample_unix t)"
  "unix_good [''/root/.bashrc''] (managed_vars Linux (\<lambda>_. []) sample_loaded) (ho_files sample_host)"
  "set [''/root/.bashrc''] \<inter> insert (DefaultCAInstallPath Linux (\<lambda>_. [])) (set anchor_paths) = {}"
proof -
  show "Load_Config sample_config = Inr sample_loaded"
    by (simp add: Load_Config_def sample_config_def sample_loaded_def codec_simps Config_fields_def zero_Config_def
        applyDefaults_def validate_config_def)
  have "plain_vars (managed_vars Linux (\<lambda>_. []) sample_loaded)"
    by (simp add: plain_vars_def managed_vars_def sample_loaded_def DefaultCAInstallPath_def)
  then show "unix_good [''/root/.bashrc''] (managed_vars Linux (\<lambda>_. []) sample_loaded) (ho_files sample_host)"
    by (simp add: unix_good_def sample_host_def strippable_def stripBlock_unmarked sample_text del: index.simps)
qed (simp_all add: unix_works_def sample_unix_def DefaultCAInstallPath_def anchor_paths_def linuxAnchorDirs_def anchor_path_def)

theorem failed_install_redirects_witness:
  "let E = \<lparr>ie_linux = sample_linux, ie_unix = sample_unix 0, ie_key = sample_client_env, ie_enroll = sample_client_env\<rparr>
   in case Install sample_client_lib (\<lambda>_. []) E False sample_config
        (tls_server sample_x509 sample_enroll_config (sample_enroll_env FlockHeld) []) sample_host sample_enroll_files of
     (res, h', s') \<Rightarrow> (\<forall>x. res \<noteq> Inr x)
       \<and> CheckIntegrity_unix (sample_unix 9) (managed_vars Linux (\<lambda>_. []) sample_loaded) (ho_files h') = Some []
       \<and> fi_cert (ho_client h') = fi_cert (ho_client sample_host)"
  unfolding Let_def
  by (rule failed_install_redirects [OF sample_host_facts(1) _ _ sample_host_facts(2,3,4)])
    (simp_all add: sample_loaded_def sample_host_facts)

theorem status_undoes_uninstall_witness:
  "let p = \<lparr>ps_env = sample_unix 5, ps_cert = None, ps_now = 5, ps_dials = (\<lambda>_. False)\<rparr>
   in CheckIntegrity_unix (sample_unix 9) (managed_vars Linux (\<lambda>_. []) sample_loaded)
     (ho_files (snd (Status Some (\<lambda>_. []) sample_config p (Uninstall (sample_unix 9) sample_linux True sample_host)))) = Some []"
  unfolding Let_def
  by (rule status_undoes_uninstall [OF sample_host_facts(1,2) _ sample_host_facts(3)])
    (use sample_host_facts(2,4) in \<open>simp_all add: sample_linux_def\<close>)

text \<open>
  The configuration decides where connections may go. The proxy the forward command runs listens where the
  configuration says and trusts only its certificate authority, and with \<open>fail_close\<close> no connection it handles is ever
  joined directly to an origin, whatever the interceptor and the network do.
\<close>
theorem forward_respects_configuration:
  assumes "Forward_cmd os env url_host trusts load_pair flags config listens events = Inr (F, conns)"
    and "Load_Config config = Inr cfg"
  shows "fw_ListenAddr F = cf_LocalListen cfg \<and> fw_RootCAs F = cf_OrgCAPEM cfg \<and> trusts (fw_RootCAs F)
     \<and> (cf_FailClose cfg \<longrightarrow> (\<forall>E request h. snd (handle_client F E request) \<noteq> Direct h))"
proof -
  have "fw_ListenAddr F = cf_LocalListen cfg" "fw_RootCAs F = cf_OrgCAPEM cfg" "trusts (cf_OrgCAPEM cfg)"
    and "fw_FailClose F = cf_FailClose cfg"
    using assms by (auto simp: Forward_cmd_def NewFromConfig_def Let_def split: sum.splits if_split_asm)
  then show ?thesis using fail_close_never_direct [of F] by auto
qed

theorem forward_respects_configuration_witness:
  "\<exists>F. Forward_cmd Linux (\<lambda>_. []) (\<lambda>_. Some ''i:3130'') (\<lambda>_. True) (\<lambda>_ _. None) True sample_config True
       [Accepted_conn (7 :: nat), Accept_failed, Accepted_conn 8, Cancelled, Accept_failed, Accepted_conn 9] = Inr (F, [7, 8])
     \<and> fw_ListenAddr F = cf_LocalListen sample_loaded \<and> fw_RootCAs F = cf_OrgCAPEM sample_loaded"
proof -
  obtain F where F: "Forward_cmd Linux (\<lambda>_. []) (\<lambda>_. Some ''i:3130'') (\<lambda>_. True) (\<lambda>_ _. None) True sample_config True
      [Accepted_conn (7 :: nat), Accept_failed, Accepted_conn 8, Cancelled, Accept_failed, Accepted_conn 9] = Inr (F, [7, 8])"
    by (simp add: Forward_cmd_def sample_host_facts(1) NewFromConfig_def hostPortFromURL_def Let_def)
  with forward_respects_configuration [OF F sample_host_facts(1)] show ?thesis by blast
qed

end
