(* ===== verification/Connect_Wsl.thy ===== *)
theory Connect_Wsl
  imports Json_Text
begin

text \<open>
  What ai-scan-connect reads of the Linux distributions inside Windows (\<open>connect/certstore/wsl_helpers.go\<close>): the list
  \<open>wsl.exe\<close> prints in UTF-16, and the family an \<open>os-release\<close> file names. The shell script it sends into a distribution is
  in \<open>Wsl_Install\<close>.
\<close>

subsection \<open>UTF-16\<close>

fun units :: "string \<Rightarrow> int list" where
  \<comment> \<open>little endian\<close>
  "units (lo # hi # b) = (ibyte lo + 256 * ibyte hi) # units b"
| "units b = []"

fun utf16_decode :: "int list \<Rightarrow> rune list" where
  \<comment> \<open>\<open>utf16.Decode\<close>: a surrogate without its partner becomes U+FFFD\<close>
  "utf16_decode [] = []"
| "utf16_decode (u # us) =
     (if u < 0xD800 \<or> 0xE000 \<le> u then u # utf16_decode us
      else (case us of
              v # vs \<Rightarrow>
                if u < 0xDC00 \<and> 0xDC00 \<le> v \<and> v < 0xE000
                then (0x10000 + (u - 0xD800) * 0x400 + (v - 0xDC00)) # utf16_decode vs
                else 0xFFFD # utf16_decode us
            | [] \<Rightarrow> [0xFFFD]))"

definition decodeUTF16LE :: "string \<Rightarrow> string option" where
  "decodeUTF16LE b =
     (let b' = (if has_prefix b [CHR 0xFF, CHR 0xFE] then drop 2 b else b) in
      if odd (length b') then None else Some (concat (map utf8_enc (utf16_decode (units b')))))"

subsection \<open>The list of distributions\<close>

definition distro_line :: "string \<Rightarrow> string option" where
  \<comment> \<open>the body of the loop: the name a line is, if it is kept\<close>
  "distro_line line =
     (let l = trim_space (trim_right_set line [CHR 0x00]) in
      if l = [] \<or> CHR 0x00 \<in> set l \<or> l = ''docker-desktop'' \<or> l = ''docker-desktop-data'' then None else Some l)"

definition parseWslList :: "string \<Rightarrow> string list option" where
  "parseWslList bytes =
     map_option (\<lambda>s. List.map_filter distro_line
         (split (replace_all (replace_all s crlf [CHR 0x0A]) [CHR 0x0D] [CHR 0x0A]) [CHR 0x0A]))
       (decodeUTF16LE bytes)"

subsection \<open>The family\<close>

datatype DistroFamily = FamilyUnknown | FamilyDebian | FamilyRHEL

definition trim_quotes :: "string \<Rightarrow> string" where
  "trim_quotes s = trim_right_set (trim_left_set s [CHR 0x22]) [CHR 0x22]"

definition readOSReleaseID :: "string \<Rightarrow> string \<times> string" where
  "readOSReleaseID body =
     foldl (\<lambda>(ident, idLike) line.
         (let l = trim_space line in
          if has_prefix l ''ID='' then (trim_quotes (trim_prefix l ''ID=''), idLike)
          else if has_prefix l ''ID_LIKE='' then (ident, trim_quotes (trim_prefix l ''ID_LIKE=''))
          else (ident, idLike)))
       ([], []) (split body [CHR 0x0A])"

function words :: "string \<Rightarrow> string \<Rightarrow> string list" where
  \<comment> \<open>\<open>strings.Fields\<close>, with the word that is being read\<close>
  "words w s =
     (case s of
        [] \<Rightarrow> (if w = [] then [] else [w])
      | c # r \<Rightarrow>
          (let n = space_len wide_spaces s in
           if n = 0 then words (w @ [c]) r
           else (if w = [] then [] else [w]) @ words [] (drop n s)))"
  by pat_completeness auto
termination
  by (relation "measure (\<lambda>(w, s). length s)") auto

declare words.simps [simp del]

definition family_like :: "string \<Rightarrow> DistroFamily option" where
  "family_like x =
     (let t = trim_quotes x in
      if t \<in> set [''debian'', ''ubuntu''] then Some FamilyDebian
      else if t \<in> set [''rhel'', ''fedora'', ''centos''] then Some FamilyRHEL
      else None)"

definition classifyOSRelease :: "string \<Rightarrow> DistroFamily" where
  "classifyOSRelease body =
     (let (ident, idLike) = readOSReleaseID body in
      if ident \<in> set [''debian'', ''ubuntu'', ''linuxmint'', ''pop'', ''elementary'', ''kali'', ''raspbian''] then FamilyDebian
      else if ident \<in> set [''rhel'', ''centos'', ''fedora'', ''rocky'', ''almalinux'', ''ol''] then FamilyRHEL
      else (case List.map_filter family_like (words [] idLike) of [] \<Rightarrow> FamilyUnknown | f # _ \<Rightarrow> f))"

subsection \<open>What \<open>wsl.exe\<close> prints is read back\<close>

definition utf16_text :: "string \<Rightarrow> string" where
  \<comment> \<open>an ASCII text with a byte order mark\<close>
  "utf16_text s = [CHR 0xFF, CHR 0xFE] @ concat (map (\<lambda>c. [c, CHR 0x00]) s)"

lemma ibyte_zero [simp]: "ibyte (CHR 0x00) = 0"
  by code_simp

lemma units_ascii: "units (concat (map (\<lambda>c. [c, CHR 0x00]) s)) = map ibyte s"
  by (induction s) simp_all

lemma utf16_decode_ascii: "is_ascii s \<Longrightarrow> concat (map utf8_enc (utf16_decode (map ibyte s))) = s"
proof (induction s)
  case (Cons c s)
  have "ibyte c < 128" using Cons.prems by (simp add: ibyte_byte)
  then have "utf8_enc (ibyte c) = [c]" by (simp add: utf8_enc_def char_byte_ibyte)
  then show ?case using Cons \<open>ibyte c < 128\<close> by simp
qed simp

lemma decode_utf16_text: "is_ascii s \<Longrightarrow> decodeUTF16LE (utf16_text s) = Some s"
  by (simp add: decodeUTF16LE_def utf16_text_def units_ascii utf16_decode_ascii length_concat comp_def sum_list_triv)

lemma index_head: "c \<notin> set n \<Longrightarrow> index (n @ c # sep @ t) (c # sep) = Some (length n)"
proof (induction n)
  case Nil
  have "has_prefix (c # sep @ t) (c # sep)" using has_prefix_append [of "c # sep" t] by simp
  then show ?case by simp
next
  case (Cons x n)
  then show ?case by auto
qed

lemma split_lines:
  "list_all (\<lambda>n. c \<notin> set n) ns \<Longrightarrow> length ns \<le> k \<Longrightarrow>
     split_n (Suc k) (concat (map (\<lambda>n. n @ c # sep) ns)) (c # sep) = ns @ [[]]"
proof (induction ns arbitrary: k)
  case Nil
  then show ?case by (cases k) simp_all
next
  case (Cons n ns)
  obtain m where k: "k = Suc m" using Cons.prems(2) by (cases k) auto
  have "index (concat (map (\<lambda>n. n @ c # sep) (n # ns))) (c # sep) = Some (length n)"
    using index_head [of c n sep] Cons.prems(1) by simp
  moreover have "drop (length n + length (c # sep)) (concat (map (\<lambda>n. n @ c # sep) (n # ns))) = concat (map (\<lambda>n. n @ c # sep) ns)"
    by simp
  ultimately show ?case using Cons.IH [of m] Cons.prems by (simp add: k del: index.simps)
qed

lemma split_terminated:
  assumes "list_all (\<lambda>n. c \<notin> set n) ns"
  shows "split (concat (map (\<lambda>n. n @ c # sep) ns)) (c # sep) = ns @ [[]]"
proof -
  have "length ns \<le> length (concat (map (\<lambda>n. n @ c # sep) ns))" by (induction ns) simp_all
  then show ?thesis using split_lines [OF assms] by (simp add: split_def)
qed

lemma join_terminated: "join (ns @ [[]]) sep = concat (map (\<lambda>n. n @ sep) ns)"
proof (induction ns)
  case (Cons n ns)
  then show ?case by (cases ns) simp_all
qed simp

definition distro_name :: "string \<Rightarrow> bool" where
  "distro_name n \<longleftrightarrow> n \<noteq> [] \<and> is_ascii n \<and> plain_char (hd n) \<and> plain_char (last n)
     \<and> set n \<inter> {CHR 0x00, CHR 0x0A, CHR 0x0D} = {}"

lemma distro_line_name:
  "distro_name n \<Longrightarrow> distro_line n = (if n = ''docker-desktop'' \<or> n = ''docker-desktop-data'' then None else Some n)"
proof -
  assume n: "distro_name n"
  then have "last n \<noteq> CHR 0x00" using last_in_set [of n] by (metis IntI distro_name_def empty_iff insertI1)
  then have "trim_right_set n [CHR 0x00] = n"
    using n by (cases n rule: rev_cases) (simp_all add: trim_right_set_def trim_left_set_def)
  then show ?thesis using n by (auto simp: distro_line_def distro_name_def trim_space_plain Let_def)
qed

text \<open>
  The distributions are read back. What \<open>wsl.exe\<close> prints, a name per line in UTF-16, is parsed to the same names in the
  same order, without the two of Docker Desktop.
\<close>
theorem distributions_are_read_back:
  assumes "list_all distro_name ns"
  shows "parseWslList (utf16_text (concat (map (\<lambda>n. n @ crlf) ns)))
     = Some (filter (\<lambda>n. n \<noteq> ''docker-desktop'' \<and> n \<noteq> ''docker-desktop-data'') ns)"
proof -
  let ?s = "concat (map (\<lambda>n. n @ crlf) ns)" and ?t = "concat (map (\<lambda>n. n @ [CHR 0x0A]) ns)"
  have cr: "list_all (\<lambda>n. CHR 0x0D \<notin> set n) ns" and lf: "list_all (\<lambda>n. CHR 0x0A \<notin> set n) ns"
    using assms by (auto simp: list_all_iff distro_name_def)
  have "is_ascii ?s" using assms by (induction ns) (simp_all add: distro_name_def crlf_def)
  then have d: "decodeUTF16LE (utf16_text ?s) = Some ?s" by (rule decode_utf16_text)
  have one: "replace_all ?s crlf [CHR 0x0A] = ?t"
    using split_terminated [OF cr, of "[CHR 0x0A]"] by (simp add: replace_all_def join_terminated crlf_def)
  have "CHR 0x0D \<notin> set ?t" using cr by (auto simp: list_all_iff)
  then have "index ?t [CHR 0x0D] = None" by (intro index_absent_char) simp_all
  then have two: "replace_all ?t [CHR 0x0D] [CHR 0x0A] = ?t" by (cases ?t) (simp_all add: replace_all_def split_def)
  have "List.map_filter distro_line (ns @ [[]]) = filter (\<lambda>n. n \<noteq> ''docker-desktop'' \<and> n \<noteq> ''docker-desktop-data'') ns"
  proof -
    have "distro_line [] = None" by code_simp
    then show ?thesis using assms by (induction ns) (simp_all add: List.map_filter_def distro_line_name)
  qed
  then show ?thesis
    using split_terminated [OF lf, of "[]"] by (simp add: parseWslList_def d one two)
qed

theorem distributions_are_read_back_witness:
  "parseWslList (utf16_text (''Ubuntu-22.04'' @ crlf @ ''docker-desktop'' @ crlf @ ''Debian'' @ crlf))
     = Some [''Ubuntu-22.04'', ''Debian'']"
proof -
  have "list_all distro_name [''Ubuntu-22.04'', ''docker-desktop'', ''Debian'']" by code_simp
  from distributions_are_read_back [OF this] show ?thesis by simp
qed

end
