(* ===== verification/Wsl_Install.thy ===== *)
theory Wsl_Install
  imports Connect_Wsl Rc_Block
begin

text \<open>
  How ai-scan-connect on Windows sets up the Linux distributions inside it (\<open>connect/certstore/wsl.go\<close>,
  \<open>wsl_helpers.go\<close>, \<open>connect/cmd/wsl_windows.go\<close>): the shell script it sends into a distribution and the processes that
  run it.

  \<^item> The text of the script is \<open>BuildWSLInstallScript\<close>. What running it does is \<open>run_script\<close>: \<open>script_family\<close> is its
    \<open>case\<close>, \<open>awk_strip\<close> its awk program, \<open>wsl_rc\<close> the body of its inner loop. Which of its writes fail is part of the
    distribution; the modes and the owners of the files, and the commands that refresh the trust store, are left out.
  \<^item> \<open>wsl.exe\<close> is a function of its arguments, of what it reads and of a state.
\<close>

subsection \<open>The script\<close>

definition script_lines :: "string \<Rightarrow> string \<Rightarrow> string \<Rightarrow> string list" where
  \<open>script_lines listen ms me = [
    ''#!/bin/sh'',
    ''set -u'',
    [],
    ''if [ -z "${AISCAN_CA_PATH:-}" ] || [ ! -r "$AISCAN_CA_PATH" ]; then'',
    ''  echo "aiscan: AISCAN_CA_PATH not set or not readable" >&2'',
    ''  exit 2'',
    ''fi'',
    [],
    ''ID=""'',
    ''ID_LIKE=""'',
    ''if [ -r /etc/os-release ]; then'',
    ''  . /etc/os-release'',
    ''fi'',
    [],
    ''family=""'',
    ''case "$ID" in'',
    ''  debian|ubuntu|linuxmint|pop|elementary|kali|raspbian) family=debian ;;'',
    ''  rhel|centos|fedora|rocky|almalinux|ol) family=rhel ;;'',
    ''  *) for x in $ID_LIKE; do'',
    ''       case "$x" in'',
    ''         debian|ubuntu) family=debian ;;'',
    ''         rhel|fedora|centos) family=rhel ;;'',
    ''       esac'',
    ''     done ;;'',
    ''esac'',
    [],
    ''if [ -z "$family" ]; then'',
    ''  echo "aiscan: unsupported distro ID=$ID '' @ utf8 [0x2014] @ '' skipping CA install" >&2'',
    ''  exit 0'',
    ''fi'',
    [],
    ''if [ "$family" = "debian" ]; then'',
    ''  install -d -m 0755 /usr/local/share/ca-certificates'',
    ''  install -m 0644 "$AISCAN_CA_PATH" /usr/local/share/ca-certificates/aiscan.crt'',
    ''  update-ca-certificates >/dev/null 2>&1 || true'',
    ''elif [ "$family" = "rhel" ]; then'',
    ''  install -d -m 0755 /etc/pki/ca-trust/source/anchors'',
    ''  install -m 0644 "$AISCAN_CA_PATH" /etc/pki/ca-trust/source/anchors/aiscan.pem'',
    ''  update-ca-trust extract >/dev/null 2>&1 || true'',
    ''fi'',
    [],
    ''# /etc/profile.d/aiscan.sh '' @ utf8 [0x2014] @ '' applied to all login shells'',
    ''install -d -m 0755 /etc/profile.d'',
    ''cat > /etc/profile.d/aiscan.sh <<EOF'',
    ''export HTTPS_PROXY='http://'' @ listen @ [CHR 0x27],
    ''export https_proxy='http://'' @ listen @ [CHR 0x27],
    ''export HTTP_PROXY='http://'' @ listen @ [CHR 0x27],
    ''export http_proxy='http://'' @ listen @ [CHR 0x27],
    ''export NODE_EXTRA_CA_CERTS='/etc/ssl/certs/aiscan.pem'' @ [CHR 0x27],
    ''export REQUESTS_CA_BUNDLE='/etc/ssl/certs/aiscan.pem'' @ [CHR 0x27],
    ''export SSL_CERT_FILE='/etc/ssl/certs/aiscan.pem'' @ [CHR 0x27],
    ''EOF'',
    ''chmod 0644 /etc/profile.d/aiscan.sh'',
    [],
    ''# Also stage the bundle at /etc/ssl/certs/aiscan.pem regardless of family'',
    ''install -d -m 0755 /etc/ssl/certs'',
    ''install -m 0644 "$AISCAN_CA_PATH" /etc/ssl/certs/aiscan.pem'',
    [],
    ''# Per-user rc file managed block (UID >= 1000)'',
    ''getent passwd | awk -F: '$3 >= 1000 && $7 !~ /(false|nologin)/ { print $6 }' | while read -r home; do'',
    ''  [ -d "$home" ] || continue'',
    ''  for rc in .bashrc .zshrc .profile; do'',
    ''    f="$home/$rc"'',
    ''    [ -f "$f" ] || continue'',
    ''    # Strip any previous managed block (idempotent), then append.'',
    ''    awk -v s='' @ [CHR 0x27] @ ms @ [CHR 0x27] @ '' -v e='' @ [CHR 0x27] @ me @ [CHR 0x27] @ '' '' @ [CHR 0x27],
    ''      $0 == s { skip=1; next }'',
    ''      $0 == e { skip=0; next }'',
    ''      skip != 1 { print }'',
    ''    ' "$f" > "$f.aiscan.tmp" && mv "$f.aiscan.tmp" "$f"'',
    ''    {'',
    ''      echo ""'',
    ''      echo '' @ [CHR 0x27] @ ms @ [CHR 0x27],
    ''      echo "# generated by ai-scan-connect (WSL)"'',
    ''      echo "export HTTPS_PROXY='http://'' @ listen @ [CHR 0x27] @ ''"'',
    ''      echo "export https_proxy='http://'' @ listen @ [CHR 0x27] @ ''"'',
    ''      echo "export HTTP_PROXY='http://'' @ listen @ [CHR 0x27] @ ''"'',
    ''      echo "export http_proxy='http://'' @ listen @ [CHR 0x27] @ ''"'',
    ''      echo "export NODE_EXTRA_CA_CERTS='/etc/ssl/certs/aiscan.pem'"'',
    ''      echo "export REQUESTS_CA_BUNDLE='/etc/ssl/certs/aiscan.pem'"'',
    ''      echo "export SSL_CERT_FILE='/etc/ssl/certs/aiscan.pem'"'',
    ''      echo '' @ [CHR 0x27] @ me @ [CHR 0x27],
    ''    } >> "$f"'',
    ''    chown --reference="$home" "$f" 2>/dev/null || true'',
    ''  done'',
    ''done'',
    [],
    ''echo "aiscan: WSL install OK (family=$family)"'']\<close>

definition BuildWSLInstallScript :: "string \<Rightarrow> string \<Rightarrow> string \<Rightarrow> string" where
  "BuildWSLInstallScript listenAddr markerStart markerEnd =
     concat (map (\<lambda>l. l @ newline) (script_lines listenAddr markerStart markerEnd))"

subsection \<open>What it does\<close>

record distro =
  ws_ID :: string                              \<comment> \<open>of \<open>/etc/os-release\<close>, as the shell reads it\<close>
  ws_ID_LIKE :: string
  ws_users :: "(nat \<times> string \<times> string) list"    \<comment> \<open>user, home directory and shell\<close>
  ws_files :: rc_files
  ws_writes :: "string \<Rightarrow> bool"
  ws_strips :: "string \<Rightarrow> bool"                \<comment> \<open>whether the awk program and the rename work\<close>

definition shell_words :: "string \<Rightarrow> string list" where
  "shell_words s =
     filter (\<lambda>w. w \<noteq> []) (split (map (\<lambda>c. if c = CHR 0x09 \<or> c = CHR 0x0A then CHR '' '' else c) s) '' '')"

definition script_family :: "string \<Rightarrow> string \<Rightarrow> string" where
  \<comment> \<open>the loop over \<open>ID_LIKE\<close> has no break\<close>
  "script_family ident idLike =
     (if ident \<in> set [''debian'', ''ubuntu'', ''linuxmint'', ''pop'', ''elementary'', ''kali'', ''raspbian''] then ''debian''
      else if ident \<in> set [''rhel'', ''centos'', ''fedora'', ''rocky'', ''almalinux'', ''ol''] then ''rhel''
      else foldl (\<lambda>family x. if x \<in> set [''debian'', ''ubuntu''] then ''debian''
                   else if x \<in> set [''rhel'', ''fedora'', ''centos''] then ''rhel'' else family) [] (shell_words idLike))"

definition awk_records :: "string \<Rightarrow> string list" where
  "awk_records t = map (\<lambda>l. if has_suffix l newline then butlast l else l) (line_chunks t)"

fun awk_keep :: "string \<Rightarrow> string \<Rightarrow> bool \<Rightarrow> string list \<Rightarrow> string list" where
  "awk_keep s e skip [] = []"
| "awk_keep s e skip (l # ls) =
     (if l = s then awk_keep s e True ls
      else if l = e then awk_keep s e False ls
      else if \<not> skip then l # awk_keep s e skip ls
      else awk_keep s e skip ls)"

definition awk_strip :: "string \<Rightarrow> string \<Rightarrow> string \<Rightarrow> string" where
  "awk_strip s e t = concat (map (\<lambda>l. l @ newline) (awk_keep s e False (awk_records t)))"

definition wsl_exports :: "string \<Rightarrow> string list" where
  "wsl_exports listen =
     map (\<lambda>(n, v). ''export '' @ n @ ''='' @ [CHR 0x27] @ v @ [CHR 0x27])
       [(''HTTPS_PROXY'', ''http://'' @ listen), (''https_proxy'', ''http://'' @ listen),
        (''HTTP_PROXY'', ''http://'' @ listen), (''http_proxy'', ''http://'' @ listen),
        (''NODE_EXTRA_CA_CERTS'', ''/etc/ssl/certs/aiscan.pem''), (''REQUESTS_CA_BUNDLE'', ''/etc/ssl/certs/aiscan.pem''),
        (''SSL_CERT_FILE'', ''/etc/ssl/certs/aiscan.pem'')]"

definition wsl_block :: "string \<Rightarrow> string \<Rightarrow> string \<Rightarrow> string list" where
  \<comment> \<open>the lines appended to an rc file\<close>
  "wsl_block listen ms me = [[], ms, ''# generated by ai-scan-connect (WSL)''] @ wsl_exports listen @ [me]"

definition wsl_rc :: "bool \<Rightarrow> bool \<Rightarrow> string \<Rightarrow> string \<Rightarrow> string \<Rightarrow> rc_file \<Rightarrow> rc_file" where
  \<comment> \<open>when the strip fails, the block is appended all the same\<close>
  "wsl_rc strips appends listen ms me f =
     (case f of
        Text t \<Rightarrow>
          (let t1 = (if strips then awk_strip ms me t else t) in
           Text (if appends then t1 @ concat (map (\<lambda>l. l @ newline) (wsl_block listen ms me)) else t1))
      | _ \<Rightarrow> f)"

definition wsl_homes :: "(nat \<times> string \<times> string) list \<Rightarrow> string list" where
  "wsl_homes us =
     List.map_filter (\<lambda>(uid, home, sh). if 1000 \<le> uid \<and> \<not> contains sh ''false'' \<and> \<not> contains sh ''nologin'' then Some home else None) us"

definition put_text :: "(string \<Rightarrow> bool) \<Rightarrow> string \<Rightarrow> string \<Rightarrow> rc_files \<Rightarrow> rc_files" where
  "put_text ok p t fs = (if ok p then fs(p := Text t) else fs)"

definition profile_path :: string where "profile_path = ''/etc/profile.d/aiscan.sh''"
definition wsl_bundle :: string where "wsl_bundle = ''/etc/ssl/certs/aiscan.pem''"

definition wsl_anchor :: "string \<Rightarrow> string" where
  "wsl_anchor family =
     (if family = ''debian'' then ''/usr/local/share/ca-certificates/aiscan.crt''
      else ''/etc/pki/ca-trust/source/anchors/aiscan.pem'')"

definition run_script :: "string \<Rightarrow> string \<Rightarrow> string \<Rightarrow> string option \<Rightarrow> distro \<Rightarrow> int \<times> distro" where
  \<comment> \<open>the certificate at \<open>AISCAN_CA_PATH\<close>; the exit status\<close>
  "run_script listen ms me ca d =
     (case ca of
        None \<Rightarrow> (2, d)
      | Some pem \<Rightarrow>
          (let family = script_family (ws_ID d) (ws_ID_LIKE d) in
           if family = [] then (0, d)
           else
             (let put = put_text (ws_writes d);
                  fs1 = put (wsl_anchor family) pem (ws_files d);
                  fs2 = put profile_path (concat (map (\<lambda>l. l @ newline) (wsl_exports listen))) fs1;
                  fs3 = put wsl_bundle pem fs2;
                  fs4 = fold (\<lambda>p fs. fs(p := wsl_rc (ws_strips d p) (ws_writes d p) listen ms me (fs p)))
                          (concat (map (\<lambda>h. map (\<lambda>n. h @ ''/'' @ n) rc_names) (wsl_homes (ws_users d)))) fs3
              in (0, d\<lparr>ws_files := fs4\<rparr>))))"

subsection \<open>The processes\<close>

definition wsl_sh :: "string \<Rightarrow> string \<Rightarrow> string list" where
  "wsl_sh d command = [''-d'', d, ''-u'', ''root'', ''--'', ''/bin/sh'', ''-c'', command]"

definition stage_command :: string where "stage_command = ''umask 022; cat > /tmp/aiscan-ca.pem''"
definition script_command :: string where "script_command = ''AISCAN_CA_PATH=/tmp/aiscan-ca.pem /bin/sh -s''"
definition cleanup_command :: string where "cleanup_command = ''rm -f /tmp/aiscan-ca.pem''"

type_synonym 's wsl = "string list \<Rightarrow> string \<Rightarrow> 's \<Rightarrow> bool \<times> 's"

definition InstallInDistro :: "'s wsl \<Rightarrow> string \<Rightarrow> string \<Rightarrow> string \<Rightarrow> string \<Rightarrow> string \<Rightarrow> 's \<Rightarrow> string option \<times> 's" where
  \<comment> \<open>the error\<close>
  "InstallInDistro wsl d pem listen ms me s =
     (if d = [] then (Some ''empty distro name'', s)
      else
        (case wsl (wsl_sh d stage_command) pem s of
           (False, s1) \<Rightarrow> (Some ''stage CA'', s1)
         | (True, s1) \<Rightarrow>
             (case wsl (wsl_sh d script_command) (BuildWSLInstallScript listen ms me) s1 of
                (ok, s2) \<Rightarrow>
                  (case wsl (wsl_sh d cleanup_command) [] s2 of
                     (_, s3) \<Rightarrow> (if ok then None else Some ''install script'', s3)))))"

definition EnumerateDistros :: "string option \<Rightarrow> string list option" where
  \<comment> \<open>what \<open>wsl.exe -l -q\<close> prints, if it succeeds\<close>
  "EnumerateDistros out = (case out of None \<Rightarrow> None | Some b \<Rightarrow> parseWslList b)"

fun install_each :: "(string \<Rightarrow> 's \<Rightarrow> string option \<times> 's) \<Rightarrow> string list \<Rightarrow> 's \<Rightarrow> (string \<times> string option) list \<times> 's" where
  "install_each inst [] s = ([], s)"
| "install_each inst (d # ds) s =
     (case inst d s of (e, s1) \<Rightarrow> (case install_each inst ds s1 of (es, s2) \<Rightarrow> ((d, e) # es, s2)))"

definition installInWSLDistros :: "'s wsl \<Rightarrow> string option \<Rightarrow> string \<Rightarrow> string \<Rightarrow> 's \<Rightarrow> (string \<times> string option) list \<times> 's" where
  \<comment> \<open>what is printed of each distribution; the certificate and the address of the configuration\<close>
  "installInWSLDistros wsl out pem listen s =
     (case EnumerateDistros out of
        None \<Rightarrow> ([], s)
      | Some ds \<Rightarrow> install_each (\<lambda>d. InstallInDistro wsl d pem listen MarkerStart MarkerEnd) ds s)"

definition ListWSLDistros :: "string option \<Rightarrow> string list option" where
  "ListWSLDistros out = EnumerateDistros out"

definition InstallInWSL :: "'s wsl \<Rightarrow> string \<Rightarrow> string \<Rightarrow> 's \<Rightarrow> string option \<times> 's" where
  "InstallInWSL wsl d pem s =
     InstallInDistro wsl d pem ''127.0.0.1:8443''
       ''# >>> ai-scan-connect managed block (DO NOT EDIT) v1 >>>'' ''# <<< ai-scan-connect managed block <<<'' s"

subsection \<open>Repeated installations\<close>

definition unlines :: "string list \<Rightarrow> string" where
  "unlines ls = concat (map (\<lambda>l. l @ newline) ls)"

definition one_line :: "string \<Rightarrow> bool" where
  "one_line l \<longleftrightarrow> CHR 0x0A \<notin> set l"

lemma unlines_append [simp]: "unlines (xs @ ys) = unlines xs @ unlines ys"
  by (simp add: unlines_def)

lemma awk_records_unlines: "list_all one_line ls \<Longrightarrow> awk_records (unlines ls) = ls"
proof (induction ls)
  case (Cons l ls)
  then have "line_chunks (unlines (l # ls)) = (l @ newline) # line_chunks (unlines ls)"
    using line_chunks_line [of l "unlines ls"] by (simp add: unlines_def one_line_def)
  then show ?case using Cons by (simp add: awk_records_def has_suffix_def)
qed (simp add: awk_records_def unlines_def)

lemma awk_keep_lines:
  "s \<notin> set ls \<Longrightarrow> e \<notin> set ls \<Longrightarrow> awk_keep s e False (ls @ rest) = ls @ awk_keep s e False rest"
  "s \<notin> set ls \<Longrightarrow> e \<notin> set ls \<Longrightarrow> e \<noteq> s \<Longrightarrow> awk_keep s e True (ls @ e # rest) = awk_keep s e False rest"
  by (induction ls) auto

lemma wsl_block_lines:
  assumes "one_line listen"
  shows "list_all one_line (wsl_block listen MarkerStart MarkerEnd)"
    and "awk_keep MarkerStart MarkerEnd False (wsl_block listen MarkerStart MarkerEnd) = [[]]"
proof -
  define inner where "inner = ''# generated by ai-scan-connect (WSL)'' # wsl_exports listen"
  have "MarkerStart \<notin> set inner" "MarkerEnd \<notin> set inner" "MarkerEnd \<noteq> MarkerStart"
    by (simp_all add: inner_def wsl_exports_def MarkerStart_def MarkerEnd_def)
  then have "awk_keep MarkerStart MarkerEnd True (inner @ [MarkerEnd]) = []"
    using awk_keep_lines(2) [of MarkerStart inner MarkerEnd "[]"] by simp
  moreover have "wsl_block listen MarkerStart MarkerEnd = [] # MarkerStart # inner @ [MarkerEnd]"
    by (simp add: wsl_block_def inner_def)
  ultimately show "awk_keep MarkerStart MarkerEnd False (wsl_block listen MarkerStart MarkerEnd) = [[]]"
    by (simp add: marker_not_Nil [symmetric])
  show "list_all one_line (wsl_block listen MarkerStart MarkerEnd)"
    using assms by (simp add: wsl_block_def wsl_exports_def one_line_def)
qed

lemma awk_strip_installed:
  assumes "list_all one_line ls" and "MarkerStart \<notin> set ls" and "MarkerEnd \<notin> set ls" and "one_line listen"
  shows "awk_strip MarkerStart MarkerEnd (unlines (ls @ wsl_block listen MarkerStart MarkerEnd)) = unlines (ls @ [[]])"
  using wsl_block_lines [OF assms(4)] awk_records_unlines [of "ls @ wsl_block listen MarkerStart MarkerEnd"]
    awk_keep_lines(1) [OF assms(2,3)] assms(1)
  by (simp add: awk_strip_def unlines_def del: unlines_append)

lemma awk_strip_clean:
  "list_all one_line ls \<Longrightarrow> MarkerStart \<notin> set ls \<Longrightarrow> MarkerEnd \<notin> set ls \<Longrightarrow>
     awk_strip MarkerStart MarkerEnd (unlines ls) = unlines ls"
  using awk_keep_lines(1) [of MarkerStart ls MarkerEnd "[]"] awk_records_unlines [of ls]
  by (simp add: awk_strip_def) (simp add: unlines_def)

definition wsl_installed :: "string list \<Rightarrow> rc_file \<Rightarrow> rc_file" where
  \<comment> \<open>an rc file after installations with these addresses\<close>
  "wsl_installed listens f = fold (\<lambda>listen. wsl_rc True True listen MarkerStart MarkerEnd) listens f"

lemma marker_lines:
  "MarkerStart \<notin> set (ls @ replicate k []) \<longleftrightarrow> MarkerStart \<notin> set ls"
  "MarkerEnd \<notin> set (ls @ replicate k []) \<longleftrightarrow> MarkerEnd \<notin> set ls"
  "list_all one_line (ls @ replicate k []) \<longleftrightarrow> list_all one_line ls"
  by (auto simp: list_all_iff one_line_def MarkerStart_def MarkerEnd_def)

lemma wsl_installed_text:
  assumes "list_all one_line ls" and "MarkerStart \<notin> set ls" and "MarkerEnd \<notin> set ls"
  shows "list_all one_line (us @ [listen]) \<Longrightarrow> wsl_installed (us @ [listen]) (Text (unlines ls))
     = Text (unlines (ls @ replicate (length us) [] @ wsl_block listen MarkerStart MarkerEnd))"
proof (induction us arbitrary: listen rule: rev_induct)
  case Nil
  then show ?case using awk_strip_clean [OF assms] by (simp add: wsl_installed_def wsl_rc_def unlines_def)
next
  case (snoc u us)
  let ?p = "ls @ replicate (length us) []"
  have clean: "list_all one_line ?p" "MarkerStart \<notin> set ?p" "MarkerEnd \<notin> set ?p"
    using assms by (simp_all only: marker_lines) simp_all
  have "wsl_installed (us @ [u]) (Text (unlines ls)) = Text (unlines (?p @ wsl_block u MarkerStart MarkerEnd))"
    using snoc by simp
  moreover have "awk_strip MarkerStart MarkerEnd (unlines (?p @ wsl_block u MarkerStart MarkerEnd)) = unlines (?p @ [[]])"
    using snoc.prems by (intro awk_strip_installed clean) simp
  ultimately show ?case
    by (simp add: wsl_installed_def wsl_rc_def unlines_def replicate_append_same [symmetric])
qed

lemma find_wsl_block:
  assumes "index u MarkerStart = None" and "{CHR 0x0A, CHR ''<''} \<inter> set listen = {}"
  shows "stripBlock (u @ unlines (wsl_block listen MarkerStart MarkerEnd)) = u @ newline"
proof -
  let ?inner = "''# generated by ai-scan-connect (WSL)'' # wsl_exports listen"
  obtain w where w: "newline @ unlines ?inner = w @ newline"
    by (simp add: unlines_def wsl_exports_def)
  have "CHR ''<'' \<notin> set (newline @ unlines ?inner)" using assms(2) by (simp add: unlines_def wsl_exports_def)
  then have bracket: "CHR ''<'' \<notin> set w" unfolding w by simp
  let ?x = "newline @ unlines ?inner" and ?u = "u @ newline"
  have all: "u @ unlines (wsl_block listen MarkerStart MarkerEnd) = ?u @ MarkerStart @ ?x @ MarkerEnd @ newline @ []"
    by (simp add: wsl_block_def unlines_def)
  have "index (?u @ MarkerStart @ ?x @ MarkerEnd @ newline @ []) MarkerStart = Some (length ?u)"
    using assms(1) by (simp add: index_sep)
  moreover have "index (?x @ MarkerEnd @ newline @ []) MarkerEnd = Some (length ?x)"
    using index_bracket [OF bracket, of newline] unfolding w by simp
  ultimately have "find_block (u @ unlines (wsl_block listen MarkerStart MarkerEnd))
      = Some (?u, MarkerStart @ ?x @ MarkerEnd @ newline, [])"
    unfolding all by (rule find_block_at)
  then show ?thesis by (subst stripBlock.simps) simp
qed



subsection \<open>All distributions\<close>

type_synonym wsl_state = "string \<Rightarrow> (distro \<times> string option) option"   \<comment> \<open>a distribution and its staged certificate\<close>

definition wsl_runs :: "string \<Rightarrow> wsl_state wsl \<Rightarrow> bool" where
  \<comment> \<open>\<open>wsl.exe -d\<close> runs a command in a distribution that is there, and fails for another\<close>
  "wsl_runs listen wsl \<longleftrightarrow>
     (\<forall>s d stdin. case s d of
        None \<Rightarrow> (\<forall>c. wsl (wsl_sh d c) stdin s = (False, s))
      | Some (x, ca) \<Rightarrow>
          wsl (wsl_sh d stage_command) stdin s = (True, s(d \<mapsto> (x, Some stdin)))
          \<and> wsl (wsl_sh d script_command) (BuildWSLInstallScript listen MarkerStart MarkerEnd) s
              = (case run_script listen MarkerStart MarkerEnd ca x of (code, x') \<Rightarrow> (code = 0, s(d \<mapsto> (x', ca))))
          \<and> wsl (wsl_sh d cleanup_command) stdin s = (True, s(d \<mapsto> (x, None))))"

lemma InstallInDistro_runs:
  assumes "wsl_runs listen wsl" and "d \<noteq> []"
  shows "InstallInDistro wsl d pem listen MarkerStart MarkerEnd s
     = (case s d of None \<Rightarrow> (Some ''stage CA'', s)
        | Some (x, _) \<Rightarrow> (None, s(d \<mapsto> (snd (run_script listen MarkerStart MarkerEnd (Some pem) x), None))))"
proof (cases "s d")
  case None
  have "wsl (wsl_sh d c) stdin s = (False, s)" for c stdin
    using assms(1) [unfolded wsl_runs_def, THEN spec, of s, THEN spec, of d, THEN spec, of stdin] None by simp
  then show ?thesis using assms(2) None by (simp add: InstallInDistro_def)
next
  case (Some y)
  obtain x ca where y: "y = (x, ca)" by (cases y)
  have r: "wsl (wsl_sh d stage_command) stdin t = (True, t(d \<mapsto> (x', Some stdin)))"
    "wsl (wsl_sh d script_command) (BuildWSLInstallScript listen MarkerStart MarkerEnd) t
       = (case run_script listen MarkerStart MarkerEnd ca' x' of (code, z) \<Rightarrow> (code = 0, t(d \<mapsto> (z, ca'))))"
    "wsl (wsl_sh d cleanup_command) stdin t = (True, t(d \<mapsto> (x', None)))"
    if "t d = Some (x', ca')" for t x' ca' stdin
    using assms(1) [unfolded wsl_runs_def, THEN spec, of t, THEN spec, of d, THEN spec, of stdin] that by simp_all
  have code: "fst (run_script listen MarkerStart MarkerEnd (Some pem) x) = 0"
    by (simp add: run_script_def Let_def)
  obtain z where z: "run_script listen MarkerStart MarkerEnd (Some pem) x = (0, z)"
    using code by (cases "run_script listen MarkerStart MarkerEnd (Some pem) x") simp
  show ?thesis
    using assms(2) r(1) [where t = s and stdin = pem, OF Some [unfolded y]]
      r(2) [where t = "s(d \<mapsto> (x, Some pem))" and x' = x and ca' = "Some pem"]
      r(3) [where t = "s(d \<mapsto> (z, Some pem))" and x' = z and ca' = "Some pem" and stdin = "[]"]
    by (simp add: InstallInDistro_def Some y z)
qed

text \<open>
  One distribution does not stand in the way of another. Every distribution of the list that runs commands is set up
  with the certificate of the configuration, whatever happens to the others, its staged copy of the certificate is
  gone, and a distribution that is not there is reported; distributions that are not on the list stay as they are.
\<close>
theorem wsl_distros_are_independent:
  assumes "wsl_runs listen wsl" and "EnumerateDistros out = Some ds" and "distinct ds" and "[] \<notin> set ds"
  shows "installInWSLDistros wsl out pem listen s =
     (map (\<lambda>d. (d, if s d = None then Some ''stage CA'' else None)) ds,
      \<lambda>d. if d \<in> set ds
          then map_option (\<lambda>(x, _). (snd (run_script listen MarkerStart MarkerEnd (Some pem) x), None)) (s d)
          else s d)"
proof -
  let ?inst = "\<lambda>d. InstallInDistro wsl d pem listen MarkerStart MarkerEnd"
  let ?new = "\<lambda>(x, _). (snd (run_script listen MarkerStart MarkerEnd (Some pem) x), None)"
  have "install_each ?inst ds s =
     (map (\<lambda>d. (d, if s d = None then Some ''stage CA'' else None)) ds,
      \<lambda>d. if d \<in> set ds then map_option ?new (s d) else s d)"
    using assms(3,4)
  proof (induction ds arbitrary: s)
    case (Cons d ds)
    obtain e s1 where i: "?inst d s = (e, s1)" by force
    have s1: "s1 = s(d := map_option ?new (s d))" and e: "e = (if s d = None then Some ''stage CA'' else None)"
      using i InstallInDistro_runs [OF assms(1), of d pem s] Cons.prems by (auto split: option.splits prod.splits)
    have same: "s1 d' = s d'" if "d' \<in> set ds" for d' using that Cons.prems s1 by auto
    have "install_each ?inst ds s1 =
       (map (\<lambda>d. (d, if s1 d = None then Some ''stage CA'' else None)) ds,
        \<lambda>d. if d \<in> set ds then map_option ?new (s1 d) else s1 d)"
      using Cons by simp
    then show ?case using same Cons.prems by (auto simp: i e s1)
  qed simp
  then show ?thesis by (simp add: installInWSLDistros_def assms(2))
qed

definition sample_wsl :: "string \<Rightarrow> wsl_state wsl" where
  "sample_wsl listen args stdin s =
     (case args of
        [_, d, _, _, _, _, _, c] \<Rightarrow>
          (case s d of
             None \<Rightarrow> (False, s)
           | Some (x, ca) \<Rightarrow>
               if c = stage_command then (True, s(d \<mapsto> (x, Some stdin)))
               else if c = cleanup_command then (True, s(d \<mapsto> (x, None)))
               else if c = script_command \<and> stdin = BuildWSLInstallScript listen MarkerStart MarkerEnd
               then (case run_script listen MarkerStart MarkerEnd ca x of (code, x') \<Rightarrow> (code = 0, s(d \<mapsto> (x', ca))))
               else (False, s))
      | _ \<Rightarrow> (False, s))"

lemma sample_wsl_runs: "wsl_runs listen (sample_wsl listen)"
  by (auto simp: wsl_runs_def sample_wsl_def wsl_sh_def stage_command_def script_command_def cleanup_command_def split: option.split)

definition sample_distro :: distro where
  "sample_distro = \<lparr>ws_ID = ''ubuntu'', ws_ID_LIKE = ''debian'', ws_users = [(1000, ''/home/a'', ''/bin/bash'')],
     ws_files = (\<lambda>_. Absent), ws_writes = (\<lambda>_. True), ws_strips = (\<lambda>_. True)\<rparr>"

theorem wsl_distros_are_independent_witness:
  "let r = installInWSLDistros (sample_wsl ''h:1'') (Some (utf16_text ''mine''))
      ''pem'' ''h:1'' [''mine'' \<mapsto> (sample_distro, None)] in
     fst r = [(''mine'', None)]
     \<and> snd r ''mine'' = Some (snd (run_script ''h:1'' MarkerStart MarkerEnd (Some ''pem'') sample_distro), None)"
proof -
  have "EnumerateDistros (Some (utf16_text ''mine'')) = Some [''mine'']" by code_simp
  from wsl_distros_are_independent [OF sample_wsl_runs this] show ?thesis by (simp add: Let_def)
qed

text \<open>
  The script and \<open>classifyOSRelease\<close>, which nothing calls, name the same family for the distributions they know, but from
  \<open>ID_LIKE\<close> the script takes the last word it knows and the function the first.
\<close>
theorem families_disagree:
  "classifyOSRelease (''ID=mine'' @ newline @ ''ID_LIKE='' @ [CHR 0x22] @ ''debian fedora'' @ [CHR 0x22] @ newline) = FamilyDebian
   \<and> script_family ''mine'' ''debian fedora'' = ''rhel''
   \<and> script_family ''mint'' ''ubuntu debian'' = ''debian'' \<and> script_family ''arch'' [] = []"
  by code_simp

text \<open>The deprecated function uses the markers of the others, so their blocks replace each other.\<close>

lemma InstallInWSL_markers:
  "InstallInWSL wsl d pem s = InstallInDistro wsl d pem ''127.0.0.1:8443'' MarkerStart MarkerEnd s"
  by (simp only: InstallInWSL_def MarkerStart_def MarkerEnd_def)

end
