(* ===== verification/Startup.thy ===== *)
theory Startup
  imports Connect_Forward Builtins Enforcement
begin

text \<open>
  The start of the two servers of the engine (\<open>icap-server/main.go\<close>, \<open>tls-proxy/main.go\<close>), and what a client finds once
  they run.

  \<^item> A fatal error is \<open>Inl\<close> of what it is about. The files of the configuration directory are threaded through; the
    outcomes of writing and of listening are arguments. Starting reloaders and waiting for signals is left out: a tick of
    each reloader is an operation of its component.
\<close>

subsection \<open>What both programs load\<close>

record start_env =
  sx_mkdir :: bool
  sx_open :: bool
  sx_now :: time
  sx_policy_put :: overwrite
  sx_rules_put :: overwrite
  sx_listen :: "string \<Rightarrow> bool"

record config_dir =
  cd_policy :: json_file
  cd_notification :: json_file
  cd_rules :: json_file
  cd_logs :: "(string \<times> string) list"

definition env_email :: "(string \<Rightarrow> string) \<Rightarrow> EmailConfig" where
  "env_email env = \<lparr>em_Host = getEnv env ''SMTP_HOST'' [], em_Port = getEnv env ''SMTP_PORT'' ''587'',
     em_User = getEnv env ''SMTP_USER'' [], em_Password = getEnv env ''SMTP_PASS'' [], em_From = getEnv env ''SMTP_FROM'' [],
     em_To = getEnvSlice env ''ALERT_EMAIL_TO'' []\<rparr>"

record engine =
  eg_logger :: logger
  eg_policy :: config
  eg_notifier :: Notifier
  eg_rules :: rules_state

definition start_engine :: "(string \<Rightarrow> string) \<Rightarrow> start_env \<Rightarrow> config_dir \<Rightarrow> (string + engine) \<times> config_dir" where
  "start_engine env E d =
     (case NewLogger (sx_mkdir E) (sx_open E) (sx_now E) (cd_logs d) of
        None \<Rightarrow> (Inl ''logger'', d)
      | Some l \<Rightarrow>
          (case Load (sx_policy_put E) (sx_now E) (cd_policy d) of
             None \<Rightarrow> (Inl ''policy load'', d\<lparr>cd_logs := lg_files l\<rparr>)
           | Some c \<Rightarrow>
               (case start_rules (sx_rules_put E) (cd_rules d) of
                  (f, rs) \<Rightarrow>
                    (Inr \<lparr>eg_logger = l, eg_policy = c,
                          eg_notifier = NewDynamicNotifier (LoadConfigStore (cd_notification d)) (env_email env)
                            (getEnv env ''WEBHOOK_URL'' []),
                          eg_rules = rs\<rparr>,
                     d\<lparr>cd_logs := lg_files l, cd_policy := cf_file c, cd_rules := f\<rparr>))))"

definition start_icap :: "(string \<Rightarrow> string) \<Rightarrow> start_env \<Rightarrow> config_dir \<Rightarrow> (string + icap_state) \<times> config_dir" where
  "start_icap env E d =
     (case start_engine env E d of
        (Inl e, d') \<Rightarrow> (Inl e, d')
      | (Inr g, d') \<Rightarrow>
          (Inr \<lparr>st_rules = rs_active (eg_rules g), st_policy = Some (eg_policy g), st_logger = eg_logger g,
                st_siem = map_option newAsync (New_exporter (getEnv env ''SIEM_TYPE'' []) (getEnv env ''SIEM_URL'' [])
                  (getEnv env ''SIEM_TOKEN'' []) (getEnv env ''SIEM_INDEX'' ''ai-scan'')),
                st_notifier = eg_notifier g, st_deliveries = [], st_hostnames = []\<rparr>, d'))"

subsection \<open>tls-proxy\<close>

record mtls_service =
  ms_config :: mtlsConfig
  ms_revoked :: RevokedStore
  ms_enroll :: enrollConfig
  ms_enroll_up :: bool            \<comment> \<open>when its listener fails, the program only logs it\<close>

record tls_server =
  ts_state :: proxy_state
  ts_targets :: "string set"
  ts_upstream :: string
  ts_listen :: string
  ts_mtls :: "mtls_service option"

record tls_lib =
  tl_x509 :: x509_lib
  tl_has_certs :: "string \<Rightarrow> bool"
  tl_can_issue :: bool
  tl_file :: "string \<Rightarrow> string option"      \<comment> \<open>the PEM files\<close>
  tl_crl :: "string \<Rightarrow> json_file"

definition start_mtls :: "tls_lib \<Rightarrow> (string \<Rightarrow> string) \<Rightarrow> start_env \<Rightarrow> string + mtls_service option" where
  "start_mtls T env E =
     (case loadMTLSConfig (tl_has_certs T) True (tl_can_issue T) (sx_now E) env (tl_file T) [] of
        Inl e \<Rightarrow> Inl e
      | Inr None \<Rightarrow> Inr None
      | Inr (Some cfg) \<Rightarrow>
          (case LoadRevokedStore (sx_now E) (tl_crl T (getEnv env ''CRL_FILE'' ''/config/revoked-serials.json'')) of
             None \<Rightarrow> Inl ''CRL load''
           | Some revoked \<Rightarrow>
               if \<not> sx_listen E (mt_Listen cfg) then Inl ''mtls listener''
               else
                 (case loadEnrollConfig (tl_x509 T) env (tl_file T) of
                    Inl e \<Rightarrow> Inl e
                  | Inr ec \<Rightarrow>
                      Inr (Some \<lparr>ms_config = cfg, ms_revoked = revoked, ms_enroll = ec,
                                 ms_enroll_up = sx_listen E (ec_Listen ec)\<rparr>))))"

definition enroll_mux ::
  "x509_lib \<Rightarrow> enrollConfig \<Rightarrow> enroll_env \<Rightarrow> string \<Rightarrow> string \<Rightarrow> string \<Rightarrow> enroll_files \<Rightarrow> enroll_reply \<times> enroll_files" where
  \<comment> \<open>the routes of \<open>startEnrollServer\<close>; the text \<open>ok\<close> of the health check is left out\<close>
  "enroll_mux X cfg E path verb body fs =
     (if path = ''/enroll'' then handleEnroll X cfg E verb body fs
      else if path = ''/healthz'' then (\<lparr>rp_Status = 200, rp_Retry = False, rp_Body = None\<rparr>, fs)
      else (http_error 404, fs))"

definition start_tls_proxy :: "tls_lib \<Rightarrow> (string \<Rightarrow> string) \<Rightarrow> start_env \<Rightarrow> config_dir \<Rightarrow> (string + tls_server) \<times> config_dir" where
  "start_tls_proxy T env E d =
     (case loadCA (tl_x509 T) (tl_file T (getEnv env ''CA_CERT'' ''/ca/squid-ca.pem''))
             (tl_file T (getEnv env ''CA_KEY'' ''/ca/squid-ca.key'')) of
        Inl e \<Rightarrow> (Inl e, d)
      | Inr _ \<Rightarrow>
          (case start_engine env E d of
             (Inl e, d') \<Rightarrow> (Inl e, d')
           | (Inr g, d') \<Rightarrow>
               (let addr = getEnv env ''PROXY_ADDR'' '':3128'' in
                case start_mtls T env E of
                  Inl e \<Rightarrow> (Inl e, d')
                | Inr m \<Rightarrow>
                    if \<not> sx_listen E addr then (Inl ''listen'', d')
                    else
                      (Inr \<lparr>ts_state = \<lparr>px_rules = rs_active (eg_rules g), px_policy = Some (eg_policy g),
                              px_logger = eg_logger g, px_notifier = eg_notifier g, px_deliveries = []\<rparr>,
                            ts_targets = intercept_set env, ts_upstream = getEnv env ''UPSTREAM_PROXY'' ''squid:3129'',
                            ts_listen = addr, ts_mtls = m\<rparr>, d'))))"

subsection \<open>Two programs, one policy\<close>

lemma start_rules_again: "rs_active (snd (start_rules w2 (fst (start_rules w f)))) = rs_active (snd (start_rules w f))"
proof (cases "f = Missing")
  case True
  have "LoadRulesFile (SaveRulesFile Written DefaultEntries g) = Some DefaultEntries" for g by (rule rules_file_roundtrip)
  then show ?thesis
    by (cases w; cases w2) (simp_all add: True start_rules_def SeedRulesFile_def SaveRulesFile_def overwrite_doc_def
        LoadRulesFile_def Let_def)
qed (simp add: start_rules_def SeedRulesFile_def Let_def)

lemma Load_again:
  assumes "Load w now f = Some c" and "Load w2 now2 (cf_file c) = Some c2"
  shows "GetMode c2 svc = GetMode c svc"
proof (cases "f = Missing")
  case True
  let ?p = "\<lparr>pol_GlobalMode = ModeMonitor, pol_ServiceModes = [], pol_UpdatedAt = now\<rparr>"
  have "dec_policy (enc_policy ?p) = Some ?p" by (rule dec_enc_policy) (simp add: wf_policy_def)
  then show ?thesis
    using assms by (cases w; cases w2)
      (auto simp: True Load_def writeFile_def overwrite_doc_def read_policy_def GetMode_def split: if_splits)
next
  case False
  then show ?thesis using assms by (auto simp: Load_def)
qed

lemma start_engine_Inr:
  assumes "start_engine env E d = (Inr g, d')"
  shows "Load (sx_policy_put E) (sx_now E) (cd_policy d) = Some (eg_policy g)" and "cd_policy d' = cf_file (eg_policy g)"
    and "start_rules (sx_rules_put E) (cd_rules d) = (cd_rules d', eg_rules g)"
  using assms by (auto simp: start_engine_def split: option.splits prod.splits)

text \<open>
  C9: both programs judge alike. Start the ICAP server on a configuration directory and then tls-proxy on what it left there,
  whatever was in the files and whichever writes failed: if the second one starts at all, it has the same active rules and
  treats every result of a scan in the same mode.
\<close>
theorem both_programs_judge_alike:
  "case start_icap env E d of
     (Inl _, _) \<Rightarrow> True
   | (Inr i, d') \<Rightarrow>
       (case fst (start_tls_proxy T env2 E2 d') of
          Inl _ \<Rightarrow> True
        | Inr t \<Rightarrow> px_rules (ts_state t) = st_rules i \<and> proxy_mode (ts_state t) r = effective_mode i r)"
proof (cases "start_engine env E d")
  case (Pair x d')
  show ?thesis
  proof (cases x)
    case (Inl e)
    then show ?thesis using Pair by (simp add: start_icap_def)
  next
    case (Inr g)
    obtain y d2 where two: "start_engine env2 E2 d' = (y, d2)" by force
    show ?thesis
    proof (cases y)
      case (Inl e)
      then show ?thesis
        using Pair Inr two by (auto simp: start_icap_def start_tls_proxy_def split: sum.split)
    next
      case r2: (Inr h)
      note one = start_engine_Inr [OF Pair [unfolded Inr]] and again = start_engine_Inr [OF two [unfolded r2]]
      have "rs_active (eg_rules h) = rs_active (eg_rules g)"
        using start_rules_again [of "sx_rules_put E2" "sx_rules_put E" "cd_rules d"] one(3) again(3) by simp
      moreover have "GetMode (eg_policy h) svc = GetMode (eg_policy g) svc" for svc
        using Load_again [OF one(1)] again(1) one(2) by simp
      ultimately show ?thesis
        using Pair Inr two r2
        by (auto simp: start_icap_def start_tls_proxy_def Let_def proxy_mode_def effective_mode_def split: sum.split)
    qed
  qed
qed

subsection \<open>What a client finds\<close>

definition listener_name :: "(string \<Rightarrow> string) \<Rightarrow> string" where
  \<comment> \<open>the name in the certificate of the mTLS listener\<close>
  "listener_name env =
     (let host = fst (splitHostNoErr (getEnv env ''MTLS_PORT'' '':3130'')) in if host = [] then ''ai-scan-interceptor'' else host)"

definition client_accepts :: "bool \<Rightarrow> server_cert \<Rightarrow> string \<Rightarrow> time \<Rightarrow> bool" where
  \<comment> \<open>what the client side of \<open>crypto/tls\<close> verifies: the issuer is in the pool, the name, the validity\<close>
  "client_accepts known c name now \<longleftrightarrow> known \<and> name \<in> set (sv_DNSNames c) \<and> sv_NotBefore c \<le> now \<and> now \<le> sv_NotAfter c"

lemma listener_certificate:
  assumes "start_mtls T env E = Inr (Some m)"
  shows "mt_ServerCert (ms_config m) = \<lparr>sv_CommonName = listener_name env, sv_DNSNames = [listener_name env],
     sv_NotBefore = sx_now E - minute, sv_NotAfter = sx_now E + 24 * hour\<rparr>"
  using assms
  by (auto simp: start_mtls_def loadMTLSConfig_def listener_name_def cert_get_def ttl_get_def issueCert_def Let_def
      split: sum.splits option.splits if_splits)


definition sample_tls_lib :: tls_lib where
  "sample_tls_lib = \<lparr>tl_x509 = sample_x509\<lparr>xl_pem := (\<lambda>s. Some (s, s)),
       xl_cert := (\<lambda>_. Some \<lparr>crt_CommonName = ''org'', crt_Organization = [], crt_SerialNumber = None\<rparr>),
       xl_pkcs8 := (\<lambda>b. Some (Some b))\<rparr>,
     tl_has_certs = (\<lambda>_. True), tl_can_issue = True, tl_file = (\<lambda>_. Some ''PRIVATE KEY''), tl_crl = (\<lambda>_. Missing)\<rparr>"

definition sample_start :: "start_env" where
  "sample_start = \<lparr>sx_mkdir = True, sx_open = True, sx_now = 0, sx_policy_put = Written, sx_rules_put = Written,
     sx_listen = (\<lambda>_. True)\<rparr>"

definition mtls_env :: "string \<Rightarrow> string" where
  "mtls_env k = (if k = ''MTLS_ENABLED'' then ''true'' else [])"

lemma sample_mtls: "\<exists>m. start_mtls sample_tls_lib mtls_env sample_start = Inr (Some m)"
proof -
  have "to_lower (trim_space ''true'') = ''true''" by code_simp
  then show ?thesis
    by (simp add: start_mtls_def loadMTLSConfig_def sample_tls_lib_def sample_start_def mtls_env_def getEnv_def Let_def
        cert_get_def ttl_get_def issueCert_def LoadRevokedStore_def reloadFrom_def loadEnrollConfig_def loadOrgCA_def)
qed


text \<open>Without a port in the URL the client dials the plain listener, not the mTLS one.\<close>

lemma default_ports_differ:
  assumes "url_host url = Some host" and "host \<noteq> []" and "\<not> contains host '':''"
    and "start_tls_proxy T env E d = (Inr t, d')" and "ts_mtls t = Some m" and "env ''PROXY_ADDR'' = []" and "env ''MTLS_PORT'' = []"
  shows "hostPortFromURL url_host url = Inr (host @ '':3128'')" and "ts_listen t = '':3128''" and "mt_Listen (ms_config m) = '':3130''"
proof -
  show "hostPortFromURL url_host url = Inr (host @ '':3128'')" using assms(1-3) by (simp add: hostPortFromURL_def)
  show "ts_listen t = '':3128''"
    using assms(4,6) by (auto simp: start_tls_proxy_def Let_def getEnv_def split: sum.splits prod.splits if_splits)
  have "start_mtls T env E = Inr (Some m)"
    using assms(4,5) by (auto simp: start_tls_proxy_def Let_def split: sum.splits prod.splits if_splits)
  then show "mt_Listen (ms_config m) = '':3130''"
    using assms(7)
    by (auto simp: start_mtls_def loadMTLSConfig_def getEnv_def Let_def split: sum.splits option.splits if_splits)
qed

subsection \<open>Resumed sessions\<close>

datatype handshake = Full "string list" "cert list list" | Resumed

definition admit_connection ::
  "(string \<Rightarrow> cert option) \<Rightarrow> RevokedStore option \<Rightarrow> handshake \<Rightarrow> cert list \<Rightarrow> PeerIdentity option" where
  \<comment> \<open>the listener with both kinds of handshakes: \<open>crypto/tls\<close> documents that it does not call \<open>VerifyPeerCertificate\<close> when a
     session is resumed, since the certificates were verified in the handshake that began it\<close>
  "admit_connection parse store h peers =
     (case h of
        Full rawCerts paths \<Rightarrow> handleMTLSConn parse store rawCerts paths peers
      | Resumed \<Rightarrow> (if HasUser (extractPeerIdentity peers) then Some (extractPeerIdentity peers) else None))"

text \<open>
  Revocation does not reach resumed sessions. After the web UI revoked a certificate and tls-proxy reloaded the list, a
  full handshake with it is refused; but a client that resumes a session it began before is admitted with the revoked
  identity: the list is only consulted where certificates are verified.
\<close>
theorem resumed_session_survives_revocation:
  assumes "crl_wf c" and "crt_SerialNumber crt = Some n" and "HasUser (identityFromCert (Some crt))"
  shows "let store = reload_crl_tick t (cr_file (revoke_serial (subject, now) n c)) rk
     in admit_connection parse (Some store) (Full rawCerts ((crt # ch) # ps)) [crt] = None
      \<and> admit_connection parse (Some store) Resumed [crt] = Some (identityFromCert (Some crt))"
proof -
  have "IsRevoked (Some n) (Some (reload_crl_tick t (cr_file (revoke_serial (subject, now) n c)) rk))"
    using crl.has_ins [OF assms(1)] crl.inv_ins [OF assms(1)] by (simp add: reload_reads_store)
  then show ?thesis
    using assms(2,3) by (simp add: Let_def admit_connection_def handleMTLSConn_revoked extractPeerIdentity_def)
qed

theorem resumed_session_survives_revocation_witness:
  "let crt = \<lparr>crt_CommonName = ''bob@pc'', crt_Organization = [], crt_SerialNumber = Some 200\<rparr>;
       store = reload_crl_tick 9 (cr_file (revoke_serial (''bob'', 7) 200 sample_crl_store)) NewEmptyRevokedStore
   in admit_connection (\<lambda>_. None) (Some store) (Full [] [[crt]]) [crt] = None
    \<and> pi_UserHost (the (admit_connection (\<lambda>_. None) (Some store) Resumed [crt])) = ''bob@pc''"
proof -
  let ?crt = "\<lparr>crt_CommonName = ''bob@pc'', crt_Organization = [], crt_SerialNumber = Some (200 :: nat)\<rparr>"
  have t: "trim_space ''bob@pc'' = ''bob@pc''" by code_simp
  then have u: "HasUser (identityFromCert (Some ?crt))" by (simp add: HasUser_def identityFromCert_def)
  have wf: "crl_wf sample_crl_store" by (rule sample_registry_simps(3))
  show ?thesis
    using resumed_session_survives_revocation [OF wf _ u, where n = 200 and t = 9 and subject = "''bob''" and now = 7
        and rk = NewEmptyRevokedStore and parse = "\<lambda>_. None" and rawCerts = "[]" and ch = "[]" and ps = "[]"] t
    by (simp add: Let_def identityFromCert_def)
qed

end
