(* ===== verification/Spec2Isabelle.thy ===== *)
theory Spec2Isabelle
  imports Fuel Builtins Webui_Login Connect_Cmd Icap_Client Wsl_Install Startup
begin

text \<open>
  A verification development for AI-Scan-Interceptor, a gateway that inspects what people send to AI services.

  \<^bold>\<open>The program.\<close> Four Go programs work together. \<open>icap-server/\<close> is asked by the Squid proxy about every request
  (REQMOD) and response (RESPMOD): it extracts the prompt, matches it against rules, decides by a policy whether to pass,
  mask or block it, and logs, notifies and exports what it found. \<open>tls-proxy/\<close> terminates TLS for the configured hosts and
  does the same inspection in its own process with the same packages; it also admits the enrolled devices over mTLS, signs
  their certificates and consults a revocation list. \<open>webui/\<close> is where administrators sign in, read the logs and edit
  policy, rules, accounts, tokens and devices; it shares JSON files with the other two. \<open>connect/\<close> is the agent on a
  device: it installs the CA, points the programs of the user at a local proxy, enrolls, and forwards connections to
  tls-proxy. The programs talk through files (policy, rules, tokens, devices, revoked serials, logs), through the enrollment
  endpoint, and through CONNECT tunnels; most of the findings of this development are about places where two of them do not
  agree.

  \<^bold>\<open>Conventions.\<close> Strings and byte slices are lists of 8-bit characters, so lengths are Go's; \<open>time.Time\<close> and durations are
  integers of nanoseconds; machine integers that can overflow are checked against their bounds (\<open>int64\<close>, \<open>inc64\<close>) or are
  words. A call that can fail returns a sum, \<open>Inl\<close> the error; a call that can panic returns an \<open>outcome\<close>. State is passed
  explicitly in records; what the outside answers during one call (clock, random bytes, outcomes of system calls, the other
  end of a connection) is an argument or a record of arguments. Files two processes share are values of \<open>json_file\<close>, and
  the read and the write of a mutation are separate steps where nothing serialises them.

  \<^bold>\<open>Foundations.\<close>
  \<^item> \<open>Prelude\<close>: bytes, time, outcomes, lists with keys. \<open>Gostrings\<close>: the parts of \<open>strings\<close>, \<open>strconv\<close> and \<open>unicode/utf8\<close>
    the code uses. \<open>Json\<close>: the parser and the decoding into Go values, with the locales \<open>json_codec\<close> and \<open>json_view\<close> that
    every store interprets. \<open>Encode\<close>: the encoder and the time formats. \<open>Json_Text\<close>: decoding inverts encoding.
    \<open>Regex\<close>, \<open>Regex_Parse\<close>: the regular expressions of the rules, their syntax and the matcher. \<open>Fuel\<close>: the fuel of the
    recursive functions is enough.
  \<^item> \<open>Files\<close>: shared files and \<open>flock(2)\<close> (\<open>webui/filelock.go\<close>, \<open>tls-proxy/filelock.go\<close>). \<open>Ttl_Cache\<close>: the caches with a
    time to live, a locale. \<open>Hostport\<close>: addresses. \<open>Ids\<close>: random identifiers. \<open>Serials\<close>: certificate serials in hex.

  \<^bold>\<open>Detection and enforcement\<close> (\<open>icap-server/\<close>, used by \<open>tls-proxy/\<close>).
  \<^item> \<open>Rules\<close>, \<open>Builtins\<close>: \<open>detection/rules.go\<close>, \<open>rules_store.go\<close>, \<open>rules_reloader.go\<close>. The built-in rules compile and survive
    their file, and the active rules always come from a complete file.
  \<^item> \<open>Patterns\<close>, \<open>Detector\<close>, \<open>Mask\<close>: \<open>detection/patterns.go\<close>, \<open>detector.go\<close>, \<open>mask.go\<close>. Extraction for every service, \<open>Detect\<close>
    with its bounds, which never panics and reports exactly what matched.
  \<^item> \<open>Policy\<close>, \<open>Storage\<close>, \<open>Siem\<close>, \<open>Notify\<close>: the packages \<open>policy\<close>, \<open>storage\<close>, \<open>siem\<close>, \<open>notification\<close>. The exporter is a step
    relation with a conservation invariant; closing it terminates with an empty queue.
  \<^item> \<open>Icap\<close>, \<open>Handler\<close>, \<open>Enforcement\<close>, \<open>Log_Lines\<close>: the wire protocol, the handlers and the properties of a whole request: the
    answer is the logged action, sensitive uploads are blocked, chunked bodies and responses are framed, log files split
    into the entries written.
  \<^item> \<open>Icap_Client\<close>: the end-to-end test \<open>cmd/e2etest\<close> and the server \<open>cmd/icap-debug\<close>. The test is run against the model of
    the protocol and of the handler: which verdict follows from which decision.

  \<^bold>\<open>tls-proxy.\<close>
  \<^item> \<open>Tls_Proxy\<close>: \<open>main.go\<close>, the listener part of \<open>mtls.go\<close>. A connection is a sequence of requests; the policy holds for
    each of them with the state the others left.
  \<^item> \<open>Crl\<close>: \<open>crl.go\<close> and the store of the web UI, a refinement of a set of serials through the shared file.
    \<open>Devices\<close>, \<open>Enroll_Tokens\<close>, \<open>Enroll\<close>: both sides of the device register and of the tokens, the endpoint, the admission.
  \<^item> \<open>Startup\<close>: the start of both servers, their agreement on rules and policy, what a client finds at the listener.

  \<^bold>\<open>webui.\<close>
  \<^item> \<open>Auth\<close>, \<open>Settings\<close>, \<open>Org_CA\<close>: accounts with lockout, sessions and limiter; settings; the authority of the organisation.
  \<^item> \<open>Webui_Http\<close>, \<open>Webui_Config\<close>, \<open>Webui_Logs\<close>, \<open>Webui\<close>: the handlers of \<open>handler.go\<close> and the start in \<open>main.go\<close>.
    \<open>Webui_Access\<close> and \<open>Webui_Login\<close> prove, over every sequence of requests, who gets where, that sessions have the role of
    their account, and how many passwords can be tried.

  \<^bold>\<open>connect.\<close>
  \<^item> \<open>Rc_Block\<close>, \<open>Env_Managers\<close>: \<open>envvars/\<close>, the marked block in rc files and the registry, two interpretations of the
    locale \<open>env_manager\<close>; \<open>Connect_Monitor\<close>: \<open>monitor/\<close>, whose properties are proved once in that locale.
  \<^item> \<open>Connect_Config\<close>, \<open>Connect_Enroll\<close>: \<open>config/\<close>, \<open>enroll/\<close>, the latter run against the model of the endpoint.
    \<open>Connect_Forward\<close>: \<open>proxy/\<close>, run against the model of the admission. \<open>Connect_Trust\<close>, \<open>Connect_Wsl\<close>: \<open>certstore/\<close>;
    \<open>Wsl_Install\<close>: the script sent into the distributions of WSL and what running it does to their files.
    \<open>Connect_Cmd\<close>: \<open>cmd/\<close> and \<open>main.go\<close>.

  \<^bold>\<open>Joined connections.\<close> \<open>Relay\<close> is a step relation for the copying in both directions, of \<open>pipe\<close> in tls-proxy and of \<open>splice\<close>
  in connect: what arrives is a prefix of what was sent, and once both sides have ended the connections are closed after
  boundedly many steps. \<open>Tunnels\<close> puts the handlers of both proxies on top of it, from the first byte of a connection to
  the last, with the requests that are not CONNECT and the accept loops.

  \<^bold>\<open>Interfaces.\<close> \<open>json_codec\<close>, \<open>json_view\<close> (a decoder inverts an encoder, or sees a part of it), \<open>ttl_cache\<close>, the stores with
  keys, \<open>env_manager\<close>, \<open>relay\<close> (the copying between two connections): each is interpreted on the definitions of the components that provide it, and the properties
  rest on the facts of the interpretations.

  \<^bold>\<open>Bounds and fuel.\<close> Recursion is structural or has a termination proof where that is natural; a few functions take fuel,
  which their callers compute from the input: the scanner of JSON values and the collection of strings in a JSON tree, the
  splitting of a string, the iteration \<open>x*\<close> of a regular expression and the parser of regular expressions. \<open>Fuel\<close> proves
  of each that it never ends for lack of fuel: every larger amount gives the same result. Loops the environment ends (the
  lock, a connection, a run of the monitor, an accept loop) go over the list of what the environment shows, and their
  properties hold for every such list.

  \<^bold>\<open>Parameters.\<close> Code outside the repository is an argument: the parsing of HTTP messages and URLs, \<open>mime/multipart\<close>,
  \<open>crypto/x509\<close> and PEM (\<open>x509_lib\<close>, \<open>client_lib\<close>, \<open>pem_lib\<close>), bcrypt and digests, DNS, SMTP and HTTP exchanges, and the
  commands \<open>certutil\<close>, \<open>security\<close> and those that rebuild the trust store of Linux. Where a theorem needs more of them than that
  they are functions, it states the documented behaviour as a predicate (\<open>key_lib\<close>, \<open>certutil_ok\<close>, \<open>client_accepts\<close>).

  \<^bold>\<open>Not modelled.\<close> The Chrome fingerprint of outgoing connections (\<open>chromeDial\<close>), whose connection is used like any other;
  the listeners of \<open>net/http\<close> and the waiting for signals, which start the modelled handlers; the texts of log lines and of
  error messages that are only printed; the refresh of the trust store inside a distribution; \<open>WM_SETTINGCHANGE\<close>; file modes
  and owners; the static pages of the web UI. Data races inside one process are excluded by the mutexes of the code, which the models take as given: every
  operation is one step.
\<close>

end
